(* ===== verification/Go_Base.thy ===== *)
theory Go_Base
  imports Complex_Main "HOL-Library.Monad_Syntax"
begin

text \<open>
  The Go notions every component of the connector uses: byte strings with the functions of the
  standard library's \<^verbatim>\<open>strings\<close> and \<^verbatim>\<open>strconv\<close> packages that the source calls, dynamically typed
  values (\<^verbatim>\<open>interface{}\<close> and \<^verbatim>\<open>map[string]interface{}\<close>), and error values with \<^verbatim>\<open>errors.Is\<close>,
  \<^verbatim>\<open>errors.As\<close> and gRPC status codes.

  Conventions of the development: a Go string is a list of bytes (\<open>string\<close>); a Go function with
  several results returns a tuple; a pointer that may be \<^verbatim>\<open>nil\<close> and an \<^verbatim>\<open>error\<close> are options; an
  operation with effects takes the system state and returns it updated. The outer option of such
  an operation is the panic monad: \<open>None\<close> is a Go panic.
\<close>

named_theorems go_simps \<open>rewrite rules for the Go string functions\<close>
named_theorems go_defs \<open>definitions unfolded to evaluate a model on a concrete input\<close>

section \<open>Strings\<close>

definition hasPrefix :: "string \<Rightarrow> string \<Rightarrow> bool" where
  "hasPrefix s p \<longleftrightarrow> take (length p) s = p"

definition hasSuffix :: "string \<Rightarrow> string \<Rightarrow> bool" where
  "hasSuffix s p \<longleftrightarrow> length p \<le> length s \<and> drop (length s - length p) s = p"

definition trimPrefix :: "string \<Rightarrow> string \<Rightarrow> string" where
  "trimPrefix s p = (if hasPrefix s p then drop (length p) s else s)"

text \<open>\<open>strings.Join\<close>, and the way the query builder writes a list with a separator.\<close>

fun join :: "string \<Rightarrow> string list \<Rightarrow> string" where
  "join sep [] = []"
| "join sep [x] = x"
| "join sep (x # y # xs) = x @ sep @ join sep (y # xs)"

text \<open>\<open>strings.SplitN(s, sep, n)\<close> for a one-byte separator and \<open>n > 0\<close>.\<close>

fun splitN :: "char \<Rightarrow> nat \<Rightarrow> string \<Rightarrow> string list" where
  "splitN sep 0 s = []"
| "splitN sep (Suc 0) s = [s]"
| "splitN sep (Suc (Suc n)) s =
     (if sep \<in> set s
      then takeWhile (\<lambda>c. c \<noteq> sep) s # splitN sep (Suc n) (tl (dropWhile (\<lambda>c. c \<noteq> sep) s))
      else [s])"

text \<open>\<open>strings.LastIndex(s, sep)\<close> and the text after it, for a one-byte separator.\<close>

definition afterLast :: "char \<Rightarrow> string \<Rightarrow> string option" where
  "afterLast sep s = (if sep \<in> set s then Some (rev (takeWhile (\<lambda>c. c \<noteq> sep) (rev s))) else None)"

definition is_digit :: "char \<Rightarrow> bool" where
  "is_digit c \<longleftrightarrow> 48 \<le> (of_char c :: nat) \<and> (of_char c :: nat) \<le> 57"

definition digit_char :: "nat \<Rightarrow> char" where
  "digit_char d = char_of (48 + d)"

definition digit_val :: "char \<Rightarrow> nat" where
  "digit_val c = of_char c - 48"

text \<open>Decimal printing (\<open>strconv.Itoa\<close>, \<open>%d\<close>) of a non-negative and of any integer.\<close>

fun itoa :: "nat \<Rightarrow> string" where
  "itoa n = (if n < 10 then [digit_char n] else itoa (n div 10) @ [digit_char (n mod 10)])"

declare itoa.simps [simp del]

definition itoa_int :: "int \<Rightarrow> string" where
  "itoa_int i = (if i < 0 then CHR ''-'' # itoa (nat (- i)) else itoa (nat i))"

text \<open>The value of a digit string, and \<open>strconv.Atoi\<close> on one: an error above the 64-bit range.\<close>

definition digits_val :: "string \<Rightarrow> nat" where
  "digits_val ds = foldl (\<lambda>n c. 10 * n + digit_val c) 0 ds"

definition max_int64 :: int where
  "max_int64 = 2 ^ 63 - 1"

definition min_int64 :: int where
  "min_int64 = - (2 ^ 63)"

definition atoi_digits :: "string \<Rightarrow> nat option" where
  "atoi_digits ds = (if ds \<noteq> [] \<and> int (digits_val ds) \<le> max_int64 then Some (digits_val ds) else None)"

subsection \<open>Facts about strings\<close>

lemma hasPrefix_append [simp]: "hasPrefix (p @ s) p"
  by (simp add: hasPrefix_def)

lemma hasPrefix_conv: "hasPrefix s p \<longleftrightarrow> (\<exists>t. s = p @ t)"
  by (metis append_take_drop_id append_eq_conv_conj hasPrefix_def)

lemma trimPrefix_append [simp]: "trimPrefix (p @ s) p = s"
  by (simp add: trimPrefix_def)

lemma hasSuffix_append [simp]: "hasSuffix (s @ p) p"
  by (simp add: hasSuffix_def)

lemma hasSuffix_conv: "hasSuffix s p \<longleftrightarrow> (\<exists>t. s = t @ p)"
proof
  assume "hasSuffix s p"
  then have "s = take (length s - length p) s @ p"
    by (metis append_take_drop_id hasSuffix_def)
  then show "\<exists>t. s = t @ p" by blast
qed auto

lemma digit_of_char [simp]: "d < 10 \<Longrightarrow> of_char (digit_char d) = 48 + d"
  by (simp add: digit_char_def)

lemma is_digit_digit_char [simp]: "d < 10 \<Longrightarrow> is_digit (digit_char d)"
  by (simp add: is_digit_def)

lemma digit_val_digit_char [simp]: "d < 10 \<Longrightarrow> digit_val (digit_char d) = d"
  by (simp add: digit_val_def)

lemma digit_char_literals:
  "digit_char 0 = CHR ''0''" "digit_char (Suc 0) = CHR ''1''" "digit_char 2 = CHR ''2''"
  "digit_char 3 = CHR ''3''" "digit_char 4 = CHR ''4''" "digit_char 5 = CHR ''5''" "digit_char 6 = CHR ''6''"
  "digit_char 7 = CHR ''7''" "digit_char 8 = CHR ''8''" "digit_char 9 = CHR ''9''"
  by code_simp+

lemma digits_val_snoc: "digits_val (ds @ [c]) = 10 * digits_val ds + digit_val c"
  by (simp add: digits_val_def)

lemma itoa_nonempty [simp]: "itoa n \<noteq> []"
  by (subst itoa.simps) simp

lemma itoa_digits: "\<forall>c \<in> set (itoa n). is_digit c"
proof (induction n rule: itoa.induct)
  case (1 n)
  show ?case
  proof (cases "n < 10")
    case True
    then show ?thesis by (subst itoa.simps) simp
  next
    case False
    with "1.IH" show ?thesis by (subst itoa.simps) auto
  qed
qed

lemma digits_val_itoa [simp]: "digits_val (itoa n) = n"
proof (induction n rule: itoa.induct)
  case (1 n)
  show ?case
  proof (cases "n < 10")
    case True
    then show ?thesis by (subst itoa.simps) (simp add: digits_val_def)
  next
    case False
    with "1.IH" have "digits_val (itoa (n div 10)) = n div 10" by simp
    with False show ?thesis by (subst itoa.simps) (simp add: digits_val_snoc)
  qed
qed

lemma atoi_digits_itoa: "int n \<le> max_int64 \<Longrightarrow> atoi_digits (itoa n) = Some n"
  by (simp add: atoi_digits_def)

lemma takeWhile_split: "\<forall>c \<in> set xs. P c \<Longrightarrow> ys = [] \<or> \<not> P (hd ys) \<Longrightarrow> takeWhile P (xs @ ys) = xs"
  by (induction xs) (cases ys; auto)+

lemma dropWhile_split: "\<forall>c \<in> set xs. P c \<Longrightarrow> ys = [] \<or> \<not> P (hd ys) \<Longrightarrow> dropWhile P (xs @ ys) = ys"
  by (induction xs) (cases ys; auto)+

lemma join_append_single [simp]: "xs \<noteq> [] \<Longrightarrow> join sep (xs @ [y]) = join sep xs @ sep @ y"
  by (induction sep xs rule: join.induct) auto

lemma splitN_found:
  assumes "sep \<notin> set a"
  shows "splitN sep (Suc (Suc n)) (a @ sep # b) = a # splitN sep (Suc n) b"
proof -
  have "\<forall>c \<in> set a. c \<noteq> sep" using assms by auto
  then have "takeWhile (\<lambda>c. c \<noteq> sep) (a @ sep # b) = a"
    and "dropWhile (\<lambda>c. c \<noteq> sep) (a @ sep # b) = sep # b"
    by (simp_all add: takeWhile_split dropWhile_split)
  then show ?thesis by simp
qed

lemma splitN_length: "length (splitN sep n s) \<le> n"
  by (induction sep n s rule: splitN.induct) auto

section \<open>Dynamically typed values\<close>

text \<open>
  The values an \<^verbatim>\<open>interface{}\<close> of the program holds: what \<^verbatim>\<open>encoding/json\<close> decodes (JSON numbers
  are \<^verbatim>\<open>float64\<close>, kept as the rational they denote), Go integers, the \<^verbatim>\<open>SObjectAttributes\<close> struct
  and the client pointer that simpleforce stores inside a record.
\<close>

datatype govalue =
    VNil
  | VBool bool
  | VString string
  | VInt int
  | VInt64 int
  | VFloat64 rat
  | VList "govalue list"
  | VMap "string \<Rightarrow> govalue option"
  | VAttributes string string
  | VClient

type_synonym gomap = "string \<rightharpoonup> govalue"

text \<open>Indexing a Go map with a missing key gives the zero value, here \<open>nil\<close>.\<close>

definition mapIndex :: "gomap \<Rightarrow> string \<Rightarrow> govalue" where
  "mapIndex m k = (case m k of None \<Rightarrow> VNil | Some v \<Rightarrow> v)"

text \<open>The type assertion \<open>v.(string)\<close> in its two-result form, and \<open>v.(map[string]interface{})\<close>.\<close>

fun asString :: "govalue \<Rightarrow> string option" where
  "asString (VString s) = Some s"
| "asString _ = None"

fun asMap :: "govalue \<Rightarrow> gomap option" where
  "asMap (VMap m) = Some m"
| "asMap _ = None"

section \<open>Errors\<close>

datatype grpc_code =
    OK | Canceled | Unknown | InvalidArgument | DeadlineExceeded | NotFound | AlreadyExists
  | PermissionDenied | ResourceExhausted | FailedPrecondition | Aborted | OutOfRange
  | Unimplemented | Internal | Unavailable | DataLoss | Unauthenticated

text \<open>
  An error of the program: a plain one (\<^verbatim>\<open>errors.New\<close>, \<^verbatim>\<open>fmt.Errorf\<close> without \<^verbatim>\<open>%w\<close>), a sentinel of
  \<^verbatim>\<open>client/request.go\<close> or of simpleforce, simpleforce's \<^verbatim>\<open>SalesforceError\<close>, a gRPC status, an
  error wrapped with \<^verbatim>\<open>%w\<close>, and the join of several.
\<close>

datatype goerror =
    ErrNew string
  | ErrObjectNotFound
  | ErrObjectAlreadyExists
  | ErrRoleAlreadyCleared
  | ErrRoleMismatch
  | ErrFailure
  | ErrAuthentication
  | ErrNoTypeIdClientOrId
  | SalesforceError string int string string
  | StatusError grpc_code string
  | ErrWrap string goerror
  | ErrJoin "goerror list"

text \<open>\<open>errors.Is(err, target)\<close> for a sentinel target: search the tree of wrapped errors.\<close>

fun errorsIs :: "goerror \<Rightarrow> goerror \<Rightarrow> bool" where
  "errorsIs (ErrWrap m e) t \<longleftrightarrow> ErrWrap m e = t \<or> errorsIs e t"
| "errorsIs (ErrJoin es) t \<longleftrightarrow> ErrJoin es = t \<or> (\<exists>e \<in> set es. errorsIs e t)"
| "errorsIs e t \<longleftrightarrow> e = t"

text \<open>
  \<open>errors.As(err, &sfErr)\<close> followed by reading \<open>sfErr.ErrorCode\<close>: the code of the first
  \<open>SalesforceError\<close> in depth-first order. \<open>status.Code(err)\<close> finds the first gRPC status in the
  same order and is \<open>Unknown\<close> when there is none.
\<close>

fun sfErrorCode :: "goerror \<Rightarrow> string option" and sfErrorCodes :: "goerror list \<Rightarrow> string option" where
  "sfErrorCode (SalesforceError m h c em) = Some c"
| "sfErrorCode (ErrWrap m e) = sfErrorCode e"
| "sfErrorCode (ErrJoin es) = sfErrorCodes es"
| "sfErrorCode _ = None"
| "sfErrorCodes [] = None"
| "sfErrorCodes (e # es) = (case sfErrorCode e of Some c \<Rightarrow> Some c | None \<Rightarrow> sfErrorCodes es)"

fun findStatus :: "goerror \<Rightarrow> grpc_code option" and findStatuses :: "goerror list \<Rightarrow> grpc_code option" where
  "findStatus (StatusError c m) = Some c"
| "findStatus (ErrWrap m e) = findStatus e"
| "findStatus (ErrJoin es) = findStatuses es"
| "findStatus _ = None"
| "findStatuses [] = None"
| "findStatuses (e # es) = (case findStatus e of Some c \<Rightarrow> Some c | None \<Rightarrow> findStatuses es)"

definition statusCode :: "goerror \<Rightarrow> grpc_code" where
  "statusCode e = (case findStatus e of Some c \<Rightarrow> c | None \<Rightarrow> Unknown)"

lemma statusCode_wrap [simp]: "statusCode (ErrWrap m e) = statusCode e"
  by (simp add: statusCode_def)

lemma errorsIs_refl [simp]: "errorsIs e e"
  by (cases e) auto

end
