(* ===== verification/Go_Url.thy ===== *)
theory Go_Url
  imports Go_Base
begin

text \<open>
  The part of \<^verbatim>\<open>net/url\<close> and \<^verbatim>\<open>path\<close> the program uses: \<^verbatim>\<open>url.Parse\<close>, \<^verbatim>\<open>URL.String\<close> and \<^verbatim>\<open>URL.JoinPath\<close>,
  on byte strings. The reading of a bracketed IP literal, which differs between releases of Go, is the
  parameter \<open>ip\<close> of the parser; it is consulted only for a host that contains an opening bracket.
\<close>

section \<open>Escaping\<close>

definition hexDigit :: "nat \<Rightarrow> char" where
  "hexDigit d = (if d < 10 then char_of (48 + d) else char_of (55 + d))"

definition hexVal :: "char \<Rightarrow> nat option" where
  "hexVal c = (let n = (of_char c :: nat) in
     if 48 \<le> n \<and> n \<le> 57 then Some (n - 48) else if 65 \<le> n \<and> n \<le> 70 then Some (n - 55)
     else if 97 \<le> n \<and> n \<le> 102 then Some (n - 87) else None)"

definition isLetter :: "char \<Rightarrow> bool" where
  "isLetter c \<longleftrightarrow> (let n = (of_char c :: nat) in 97 \<le> n \<and> n \<le> 122 \<or> 65 \<le> n \<and> n \<le> 90)"

datatype encoding = encodePath | encodeUserPassword | encodeFragment | encodeHost

definition shouldEscape :: "char \<Rightarrow> encoding \<Rightarrow> bool" where
  "shouldEscape c mode =
     (if isLetter c \<or> is_digit c then False
      else if mode = encodeHost \<and> c \<in> set (''!$&()*+,;=:[]<>'' @ [CHR 0x22, CHR 0x27]) then False
      else if c \<in> set ''-_.~'' then False
      else if c \<in> set ''$&+,/:;=?@'' then
        (case mode of
           encodePath \<Rightarrow> c = CHR ''?''
         | encodeUserPassword \<Rightarrow> c \<in> set ''@/?:''
         | encodeFragment \<Rightarrow> False
         | encodeHost \<Rightarrow> True)
      else if mode = encodeFragment \<and> c \<in> set ''!()*'' then False
      else True)"

definition escapeIn :: "encoding \<Rightarrow> char \<Rightarrow> string" where
  "escapeIn mode c =
     (if shouldEscape c mode
      then (let n = (of_char c :: nat) in [CHR ''%'', hexDigit (n div 16), hexDigit (n mod 16)]) else [c])"

definition urlEscape :: "string \<Rightarrow> encoding \<Rightarrow> string" where
  "urlEscape s mode = concat (map (escapeIn mode) s)"

text \<open>
  In a host only bytes outside ASCII, and the percent sign itself, may be written as an escape, and
  bytes that would have to be escaped are refused.
\<close>

definition escapeError :: "string \<Rightarrow> goerror" where
  "escapeError s = ErrNew (''invalid URL escape '' @ take 3 s)"

fun urlUnescape :: "encoding \<Rightarrow> string \<Rightarrow> goerror + string" where
  "urlUnescape mode [] = Inr []"
| "urlUnescape mode (c # cs) =
     (if c = CHR ''%'' then
        (case cs of
           a # b # rest \<Rightarrow>
             (case (hexVal a, hexVal b) of
                (Some x, Some y) \<Rightarrow>
                  if mode = encodeHost \<and> x < 8 \<and> [a, b] \<noteq> ''25'' then Inl (escapeError (c # cs))
                  else map_sum id ((#) (char_of (16 * x + y))) (urlUnescape mode rest)
              | _ \<Rightarrow> Inl (escapeError (c # cs)))
         | _ \<Rightarrow> Inl (escapeError (c # cs)))
      else if mode = encodeHost \<and> (of_char c :: nat) < 128 \<and> shouldEscape c mode
      then Inl (ErrNew (''invalid character '' @ [c] @ '' in host name''))
      else map_sum id ((#) c) (urlUnescape mode cs))"

definition validEncoded :: "string \<Rightarrow> encoding \<Rightarrow> bool" where
  "validEncoded s mode =
     list_all (\<lambda>c. c \<in> set (''!$&()*+,;=:@[]%'' @ [CHR 0x27]) \<or> \<not> shouldEscape c mode) s"

section \<open>URLs\<close>

record Userinfo =
  ui_username :: string
  ui_password :: "string option"

record url =
  u_Scheme :: string
  u_Opaque :: string
  u_User :: "Userinfo option"
  u_Host :: string
  u_Path :: string
  u_RawPath :: string
  u_OmitHost :: bool
  u_ForceQuery :: bool
  u_RawQuery :: string
  u_Fragment :: string
  u_RawFragment :: string

definition emptyUrl :: url where
  "emptyUrl = \<lparr>u_Scheme = '''', u_Opaque = '''', u_User = None, u_Host = '''', u_Path = '''', u_RawPath = '''',
     u_OmitHost = False, u_ForceQuery = False, u_RawQuery = '''', u_Fragment = '''', u_RawFragment = ''''\<rparr>"

text \<open>\<^verbatim>\<open>strings.Cut\<close> and the split at the last occurrence of a byte.\<close>

definition cutAt :: "char \<Rightarrow> string \<Rightarrow> string \<times> string" where
  "cutAt sep s = (takeWhile (\<lambda>c. c \<noteq> sep) s, tl (dropWhile (\<lambda>c. c \<noteq> sep) s))"

definition splitLast :: "char \<Rightarrow> string \<Rightarrow> (string \<times> string) option" where
  "splitLast sep s =
     (case dropWhile (\<lambda>c. c \<noteq> sep) (rev s) of
        [] \<Rightarrow> None
      | _ # r \<Rightarrow> Some (rev r, rev (takeWhile (\<lambda>c. c \<noteq> sep) (rev s))))"

definition lowerByte :: "char \<Rightarrow> char" where
  "lowerByte c = (let n = (of_char c :: nat) in if 65 \<le> n \<and> n \<le> 90 then char_of (n + 32) else c)"

definition isSchemeByte :: "char \<Rightarrow> bool" where
  "isSchemeByte c \<longleftrightarrow> is_digit c \<or> c \<in> set ''+-.''"

text \<open>The scan for a scheme; \<open>seen\<close> is what the loop has passed.\<close>

fun scanScheme :: "string \<Rightarrow> string \<Rightarrow> string \<Rightarrow> goerror + (string \<times> string)" where
  "scanScheme raw seen [] = Inr ([], raw)"
| "scanScheme raw seen (c # cs) =
     (if isLetter c then scanScheme raw (seen @ [c]) cs
      else if isSchemeByte c then (if seen = [] then Inr ([], raw) else scanScheme raw (seen @ [c]) cs)
      else if c = CHR '':'' then (if seen = [] then Inl (ErrNew ''missing protocol scheme'') else Inr (seen, cs))
      else Inr ([], raw))"

definition getScheme :: "string \<Rightarrow> goerror + (string \<times> string)" where
  "getScheme raw = scanScheme raw [] raw"

definition parseHostPort :: "(string \<Rightarrow> goerror + string) \<Rightarrow> string \<Rightarrow> goerror + string" where
  "parseHostPort ip host =
     (if CHR ''['' \<in> set host then ip host
      else (case splitLast CHR '':'' host of
              Some (_, port) \<Rightarrow>
                if list_all is_digit port then urlUnescape encodeHost host
                else Inl (ErrNew (''invalid port :'' @ port @ '' after host''))
            | None \<Rightarrow> urlUnescape encodeHost host))"

definition validUserinfo :: "string \<Rightarrow> bool" where
  "validUserinfo s = list_all (\<lambda>c. isLetter c \<or> is_digit c \<or> c \<in> set (''-._:~!$&()*+,;=%@'' @ [CHR 0x27])) s"

definition parseUserinfo :: "string \<Rightarrow> goerror + Userinfo" where
  "parseUserinfo s =
     (if \<not> validUserinfo s then Inl (ErrNew ''net/url: invalid userinfo'')
      else if CHR '':'' \<notin> set s
      then map_sum id (\<lambda>n. \<lparr>ui_username = n, ui_password = None\<rparr>) (urlUnescape encodeUserPassword s)
      else (case cutAt CHR '':'' s of (n, p) \<Rightarrow>
        (case urlUnescape encodeUserPassword n of
           Inl e \<Rightarrow> Inl e
         | Inr name \<Rightarrow>
             map_sum id (\<lambda>pw. \<lparr>ui_username = name, ui_password = Some pw\<rparr>) (urlUnescape encodeUserPassword p))))"

definition parseAuthority :: "(string \<Rightarrow> goerror + string) \<Rightarrow> string \<Rightarrow> goerror + (Userinfo option \<times> string)" where
  "parseAuthority ip authority =
     (case splitLast CHR ''@'' authority of
        None \<Rightarrow> map_sum id (Pair None) (parseHostPort ip authority)
      | Some (userinfo, h) \<Rightarrow>
          (case parseHostPort ip h of
             Inl e \<Rightarrow> Inl e
           | Inr host \<Rightarrow> map_sum id (\<lambda>ui. (Some ui, host)) (parseUserinfo userinfo)))"

definition setPath :: "string \<Rightarrow> url \<Rightarrow> goerror + url" where
  "setPath p u =
     map_sum id (\<lambda>path. u\<lparr>u_Path := path, u_RawPath := if p = urlEscape path encodePath then '''' else p\<rparr>)
       (urlUnescape encodePath p)"

definition setFragment :: "string \<Rightarrow> url \<Rightarrow> goerror + url" where
  "setFragment f u =
     map_sum id (\<lambda>frag. u\<lparr>u_Fragment := frag, u_RawFragment := if f = urlEscape frag encodeFragment then '''' else f\<rparr>)
       (urlUnescape encodeFragment f)"

text \<open>The last part of the parser: the authority if there is one, then the path.\<close>

definition parseHierarchy :: "(string \<Rightarrow> goerror + string) \<Rightarrow> string \<Rightarrow> url \<Rightarrow> goerror + url" where
  "parseHierarchy ip rest u =
     (if (u_Scheme u \<noteq> '''' \<or> \<not> hasPrefix rest ''///'') \<and> hasPrefix rest ''//''
      then (let authority = drop 2 rest in
            case parseAuthority ip (takeWhile (\<lambda>c. c \<noteq> CHR ''/'') authority) of
              Inl e \<Rightarrow> Inl e
            | Inr (user, host) \<Rightarrow>
                setPath (dropWhile (\<lambda>c. c \<noteq> CHR ''/'') authority) (u\<lparr>u_User := user, u_Host := host\<rparr>))
      else setPath rest (u\<lparr>u_OmitHost := u_Scheme u \<noteq> '''' \<and> hasPrefix rest ''/''\<rparr>))"

definition cutQuery :: "string \<Rightarrow> url \<Rightarrow> string \<times> url" where
  "cutQuery rest u =
     (if hasSuffix rest ''?'' \<and> count_list rest CHR ''?'' = 1 then (butlast rest, u\<lparr>u_ForceQuery := True\<rparr>)
      else (case cutAt CHR ''?'' rest of (r, q) \<Rightarrow> (r, u\<lparr>u_RawQuery := q\<rparr>)))"

definition isControl :: "char \<Rightarrow> bool" where
  "isControl c \<longleftrightarrow> (of_char c :: nat) < 32 \<or> (of_char c :: nat) = 127"

definition parseUrl :: "(string \<Rightarrow> goerror + string) \<Rightarrow> string \<Rightarrow> goerror + url" where
  "parseUrl ip raw =
     (if list_ex isControl raw then Inl (ErrNew ''net/url: invalid control character in URL'')
      else if raw = ''*'' then Inr (emptyUrl\<lparr>u_Path := ''*''\<rparr>)
      else (case getScheme raw of
              Inl e \<Rightarrow> Inl e
            | Inr (scheme, rest) \<Rightarrow>
                (case cutQuery rest (emptyUrl\<lparr>u_Scheme := map lowerByte scheme\<rparr>) of (rest, u) \<Rightarrow>
                   if \<not> hasPrefix rest ''/'' \<and> u_Scheme u \<noteq> '''' then Inr (u\<lparr>u_Opaque := rest\<rparr>)
                   else if \<not> hasPrefix rest ''/'' \<and> CHR '':'' \<in> set (fst (cutAt CHR ''/'' rest))
                   then Inl (ErrNew ''first path segment in URL cannot contain colon'')
                   else parseHierarchy ip rest u)))"

definition urlParse :: "(string \<Rightarrow> goerror + string) \<Rightarrow> string \<Rightarrow> goerror + url" where
  "urlParse ip raw =
     (case cutAt CHR ''#'' raw of (u, frag) \<Rightarrow>
        (case parseUrl ip u of
           Inl e \<Rightarrow> Inl (ErrWrap (''parse '' @ u) e)
         | Inr url \<Rightarrow>
             if frag = '''' then Inr url
             else (case setFragment frag url of Inl e \<Rightarrow> Inl (ErrWrap (''parse '' @ raw) e) | Inr url \<Rightarrow> Inr url)))"

section \<open>Printing\<close>

definition escapedAs :: "encoding \<Rightarrow> string \<Rightarrow> string \<Rightarrow> string option" where
  "escapedAs mode rawText s =
     (if rawText \<noteq> '''' \<and> validEncoded rawText mode \<and> urlUnescape mode rawText = Inr s then Some rawText else None)"

definition EscapedPath :: "url \<Rightarrow> string" where
  "EscapedPath u =
     (case escapedAs encodePath (u_RawPath u) (u_Path u) of
        Some p \<Rightarrow> p
      | None \<Rightarrow> if u_Path u = ''*'' then ''*'' else urlEscape (u_Path u) encodePath)"

definition EscapedFragment :: "url \<Rightarrow> string" where
  "EscapedFragment u =
     (case escapedAs encodeFragment (u_RawFragment u) (u_Fragment u) of
        Some f \<Rightarrow> f
      | None \<Rightarrow> urlEscape (u_Fragment u) encodeFragment)"

definition userinfoString :: "Userinfo \<Rightarrow> string" where
  "userinfoString ui =
     urlEscape (ui_username ui) encodeUserPassword @
     (case ui_password ui of None \<Rightarrow> '''' | Some pw \<Rightarrow> '':'' @ urlEscape pw encodeUserPassword)"

definition authorityString :: "url \<Rightarrow> string" where
  "authorityString u =
     (if u_Scheme u = '''' \<and> u_Host u = '''' \<and> u_User u = None then ''''
      else if u_OmitHost u \<and> u_Host u = '''' \<and> u_User u = None then ''''
      else (if u_Host u \<noteq> '''' \<or> u_Path u \<noteq> '''' \<or> u_User u \<noteq> None then ''//'' else '''') @
           (case u_User u of None \<Rightarrow> '''' | Some ui \<Rightarrow> userinfoString ui @ ''@'') @
           urlEscape (u_Host u) encodeHost)"

definition urlString :: "url \<Rightarrow> string" where
  "urlString u =
     (let pre = (if u_Scheme u \<noteq> '''' then u_Scheme u @ '':'' else '''');
          path = EscapedPath u;
          auth = authorityString u;
          slash = (if path \<noteq> '''' \<and> hd path \<noteq> CHR ''/'' \<and> u_Host u \<noteq> '''' then ''/'' else '''');
          buf = pre @ auth @ slash;
          dot = (if buf = '''' \<and> CHR '':'' \<in> set (fst (cutAt CHR ''/'' path)) then ''./'' else '''')
      in (if u_Opaque u \<noteq> '''' then pre @ u_Opaque u else buf @ dot @ path) @
         (if u_ForceQuery u \<or> u_RawQuery u \<noteq> '''' then ''?'' @ u_RawQuery u else '''') @
         (if u_Fragment u \<noteq> '''' then ''#'' @ EscapedFragment u else ''''))"

section \<open>Joining paths\<close>

text \<open>\<^verbatim>\<open>path.Clean\<close>: empty elements and dots go, a double dot removes the element before it.\<close>

fun segments :: "string \<Rightarrow> string list" where
  "segments [] = [[]]"
| "segments (c # cs) =
     (if c = CHR ''/'' then [] # segments cs
      else (case segments cs of [] \<Rightarrow> [[c]] | x # xs \<Rightarrow> (c # x) # xs))"

fun cleanSegments :: "bool \<Rightarrow> string list \<Rightarrow> string list \<Rightarrow> string list" where
  "cleanSegments rooted acc [] = acc"
| "cleanSegments rooted acc (x # xs) =
     (if x = '''' \<or> x = ''.'' then cleanSegments rooted acc xs
      else if x = ''..'' then
        (if acc \<noteq> [] \<and> last acc \<noteq> ''..'' then cleanSegments rooted (butlast acc) xs
         else if rooted then cleanSegments rooted acc xs
         else cleanSegments rooted (acc @ [''..'']) xs)
      else cleanSegments rooted (acc @ [x]) xs)"

definition cleanPath :: "string \<Rightarrow> string" where
  "cleanPath p =
     (let rooted = hasPrefix p ''/'';
          out = join ''/'' (cleanSegments rooted [] (segments p))
      in if rooted then ''/'' @ out else if out = '''' then ''.'' else out)"

fun appendElems :: "string \<Rightarrow> string list \<Rightarrow> string" where
  "appendElems buf [] = buf"
| "appendElems buf (e # es) =
     appendElems (if buf \<noteq> '''' then buf @ ''/'' @ e else e) es"

definition pathJoin :: "string list \<Rightarrow> string" where
  "pathJoin elems = (let buf = appendElems '''' elems in if list_all (\<lambda>e. e = '''') elems then '''' else cleanPath buf)"

text \<open>\<^verbatim>\<open>u.JoinPath(elem)\<close> with one element.\<close>

definition JoinPath :: "url \<Rightarrow> string \<Rightarrow> url" where
  "JoinPath u el =
     (let base = EscapedPath u;
          p = (if \<not> hasPrefix base ''/'' then tl (pathJoin [''/'' @ base, el]) else pathJoin [base, el]);
          p = (if hasSuffix el ''/'' \<and> \<not> hasSuffix p ''/'' then p @ ''/'' else p)
      in case setPath p u of Inr u' \<Rightarrow> u' | Inl _ \<Rightarrow> u)"

section \<open>Plain URLs\<close>

text \<open>
  Bytes that stand for themselves: a host name of letters, digits, hyphens and dots, and a path that is
  empty or starts with a slash and needs no escapes.
\<close>

definition isHostByte :: "char \<Rightarrow> bool" where
  "isHostByte c \<longleftrightarrow> isLetter c \<or> is_digit c \<or> c = CHR ''-'' \<or> c = CHR ''.''"

definition isHostName :: "string \<Rightarrow> bool" where
  "isHostName h \<longleftrightarrow> h \<noteq> '''' \<and> list_all isHostByte h"

definition isPlainPath :: "string \<Rightarrow> bool" where
  "isPlainPath p \<longleftrightarrow> (p = '''' \<or> hd p = CHR ''/'') \<and> list_all (\<lambda>c. \<not> shouldEscape c encodePath) p"

definition isScheme :: "string \<Rightarrow> bool" where
  "isScheme s \<longleftrightarrow> s \<noteq> '''' \<and> isLetter (hd s) \<and> list_all (\<lambda>c. isLetter c \<or> isSchemeByte c) s"

lemma urlUnescape_plain:
  "\<forall>c \<in> set s. c \<noteq> CHR ''%'' \<and> (mode = encodeHost \<longrightarrow> \<not> shouldEscape c mode) \<Longrightarrow> urlUnescape mode s = Inr s"
  by (induction s) auto

lemma urlEscape_plain: "\<forall>c \<in> set s. \<not> shouldEscape c mode \<Longrightarrow> urlEscape s mode = s"
  by (induction s) (auto simp: urlEscape_def escapeIn_def)

lemma dropWhile_absent: "sep \<notin> set s \<Longrightarrow> dropWhile (\<lambda>c. c \<noteq> sep) s = []"
  by (induction s) auto

lemma splitLast_None: "sep \<notin> set s \<Longrightarrow> splitLast sep s = None"
proof -
  assume "sep \<notin> set s"
  then have none: "dropWhile (\<lambda>c. c \<noteq> sep) (rev s) = []" by (intro dropWhile_absent) simp
  show ?thesis unfolding splitLast_def none by simp
qed

lemma cutAt_absent: "sep \<notin> set s \<Longrightarrow> cutAt sep s = (s, [])"
proof -
  assume absent: "sep \<notin> set s"
  then have "takeWhile (\<lambda>c. c \<noteq> sep) s = s" by (auto simp: takeWhile_eq_all_conv)
  then show ?thesis unfolding cutAt_def dropWhile_absent [OF absent] by simp
qed

text \<open>What the parser gives a meaning to does not occur among plain bytes.\<close>

lemma isControl_escaped: "isControl c \<Longrightarrow> shouldEscape c encodePath"
proof -
  assume c: "isControl c"
  then have "\<not> isLetter c" and "\<not> is_digit c" by (auto simp: isControl_def isLetter_def is_digit_def Let_def)
  moreover have "c \<notin> set ''-_.~''" and "c \<notin> set ''$&+,/:;=?@''" using c by (auto simp: isControl_def)
  ultimately show ?thesis by (simp add: shouldEscape_def)
qed

lemma path_byte:
  assumes "\<not> shouldEscape c encodePath"
  shows "\<not> isControl c" "c \<noteq> CHR ''%''" "c \<noteq> CHR ''#''" "c \<noteq> CHR ''?''"
proof -
  show "\<not> isControl c" using assms isControl_escaped by blast
  have "shouldEscape CHR ''%'' encodePath" "shouldEscape CHR ''#'' encodePath" "shouldEscape CHR ''?'' encodePath"
    by (simp_all add: shouldEscape_def isLetter_def is_digit_def)
  with assms show "c \<noteq> CHR ''%''" "c \<noteq> CHR ''#''" "c \<noteq> CHR ''?''" by metis+
qed

lemma host_byte:
  assumes "isHostByte c"
  shows "\<not> shouldEscape c mode" "c \<notin> set ''/:@[''"
proof -
  show "\<not> shouldEscape c mode" using assms unfolding isHostByte_def by (elim disjE) (simp_all add: shouldEscape_def)
  have "\<not> isHostByte d" if "d \<in> set ''/:@[''" for d
    using that by (auto simp: isHostByte_def isLetter_def is_digit_def)
  with assms show "c \<notin> set ''/:@[''" by blast
qed

lemma colon_no_scheme [simp]: "\<not> isLetter CHR '':''" "\<not> isSchemeByte CHR '':''" "\<not> isLetter CHR ''/''" "\<not> isSchemeByte CHR ''/''"
  by (simp_all add: isLetter_def isSchemeByte_def is_digit_def)

lemma scheme_byte:
  assumes "isLetter c \<or> isSchemeByte c"
  shows "\<not> shouldEscape c encodePath"
  using assms unfolding isSchemeByte_def by (elim disjE) (auto simp: shouldEscape_def)

lemmas plain_defs = isHostName_def isPlainPath_def isScheme_def list_all_iff

lemma scanScheme_found:
  "list_all (\<lambda>c. isLetter c \<or> isSchemeByte c) s \<Longrightarrow> seen \<noteq> [] \<or> s \<noteq> [] \<and> isLetter (hd s) \<Longrightarrow>
     scanScheme raw seen (s @ CHR '':'' # rest) = Inr (seen @ s, rest)"
  by (induction s arbitrary: seen) auto

lemma scanScheme_none:
  "CHR '':'' \<notin> set s \<Longrightarrow> p = [] \<or> hd p = CHR ''/'' \<Longrightarrow> scanScheme raw seen (s @ p) = Inr ([], raw)"
proof (induction s arbitrary: seen)
  case Nil
  then show ?case by (cases p) auto
qed auto

lemma parseHostPort_name: "isHostName h \<Longrightarrow> parseHostPort ip h = Inr h"
proof -
  assume h: "isHostName h"
  have "\<not> isHostByte CHR ''%''" by (simp add: isHostByte_def isLetter_def is_digit_def)
  then have "urlUnescape encodeHost h = Inr h"
    using h host_byte(1) [of _ encodeHost] by (intro urlUnescape_plain) (auto simp: plain_defs)
  moreover have "CHR ''['' \<notin> set h" and "CHR '':'' \<notin> set h" using h host_byte(2) by (fastforce simp: plain_defs)+
  ultimately show ?thesis by (simp add: parseHostPort_def splitLast_None)
qed

lemma plain_text:
  assumes "\<forall>c \<in> set s. \<not> shouldEscape c encodePath"
  shows "cutAt CHR ''#'' s = (s, [])" "\<not> list_ex isControl s" "cutQuery s u = (s, u\<lparr>u_RawQuery := []\<rparr>)"
proof -
  have q: "CHR ''?'' \<notin> set s" and "CHR ''#'' \<notin> set s" using assms path_byte(3,4) by metis+
  then show "cutAt CHR ''#'' s = (s, [])" by (intro cutAt_absent)
  show "\<not> list_ex isControl s" using assms path_byte(1) by (auto simp: list_ex_iff)
  have "\<not> hasSuffix s ''?''" using q by (auto simp: hasSuffix_conv)
  then show "cutQuery s u = (s, u\<lparr>u_RawQuery := []\<rparr>)" by (simp add: cutQuery_def cutAt_absent [OF q])
qed

lemma setPath_plain:
  assumes "\<forall>c \<in> set p. \<not> shouldEscape c encodePath"
  shows "setPath p u = Inr (u\<lparr>u_Path := p, u_RawPath := []\<rparr>)"
  using assms path_byte(2) by (simp add: setPath_def urlEscape_plain urlUnescape_plain)

lemma path_separators [simp]: "\<not> shouldEscape CHR '':'' encodePath" "\<not> shouldEscape CHR ''/'' encodePath"
  by (simp_all add: shouldEscape_def)

lemma host_path_split:
  assumes "isHostName h" and "isPlainPath p"
  shows "takeWhile (\<lambda>c. c \<noteq> CHR ''/'') (h @ p) = h" "dropWhile (\<lambda>c. c \<noteq> CHR ''/'') (h @ p) = p"
proof -
  have "\<forall>c \<in> set h. c \<noteq> CHR ''/''" using assms(1) host_byte(2) by (fastforce simp: plain_defs)
  moreover have "p = [] \<or> \<not> hd p \<noteq> CHR ''/''" using assms(2) by (simp add: isPlainPath_def)
  ultimately show "takeWhile (\<lambda>c. c \<noteq> CHR ''/'') (h @ p) = h" "dropWhile (\<lambda>c. c \<noteq> CHR ''/'') (h @ p) = p"
    by (rule takeWhile_split, rule dropWhile_split)
qed

lemma host_path_plain:
  assumes "isHostName h" and "isPlainPath p"
  shows "\<forall>c \<in> set (h @ p). \<not> shouldEscape c encodePath"
  using assms host_byte(1) by (auto simp: plain_defs)

text \<open>A plain absolute URL is parsed into its parts, and printed again as it was, the scheme in lower case.\<close>

lemma urlParse_plain:
  assumes "isScheme sch" and "isHostName h" and "isPlainPath p"
  shows "urlParse ip (sch @ ''://'' @ h @ p) = Inr (emptyUrl\<lparr>u_Scheme := map lowerByte sch, u_Host := h, u_Path := p\<rparr>)"
proof -
  let ?raw = "sch @ ''://'' @ h @ p"
  have plain: "\<forall>c \<in> set ?raw. \<not> shouldEscape c encodePath"
    using assms(1) scheme_byte host_path_plain [OF assms(2,3)] by (auto simp: isScheme_def list_all_iff)
  have "\<forall>c \<in> set (''//'' @ h @ p). \<not> shouldEscape c encodePath" using plain by auto
  note query = plain_text(3) [OF this]
  have scheme: "getScheme ?raw = Inr (sch, ''//'' @ h @ p)"
    using assms(1) scanScheme_found [of sch "[]" ?raw "''//'' @ h @ p"] by (simp add: getScheme_def isScheme_def)
  have "CHR ''@'' \<notin> set h" using assms(2) host_byte(2) by (fastforce simp: plain_defs)
  then have auth: "parseAuthority ip h = Inr (None, h)"
    by (simp add: parseAuthority_def splitLast_None parseHostPort_name [OF assms(2)])
  have path: "\<forall>c \<in> set p. \<not> shouldEscape c encodePath" using plain by auto
  have "parseHierarchy ip (''//'' @ h @ p) (emptyUrl\<lparr>u_Scheme := map lowerByte sch, u_RawQuery := []\<rparr>)
      = Inr (emptyUrl\<lparr>u_Scheme := map lowerByte sch, u_Host := h, u_Path := p\<rparr>)"
    using assms(1) host_path_split [OF assms(2,3)]
    by (simp add: parseHierarchy_def hasPrefix_def auth setPath_plain [OF path] isScheme_def emptyUrl_def)
  moreover have "?raw \<noteq> ''*''" using assms(1) by (cases sch) auto
  ultimately have "parseUrl ip ?raw = Inr (emptyUrl\<lparr>u_Scheme := map lowerByte sch, u_Host := h, u_Path := p\<rparr>)"
    using scheme query plain_text(2) [OF plain] by (simp add: parseUrl_def hasPrefix_def)
  then show ?thesis using plain_text(1) [OF plain] by (simp add: urlParse_def)
qed

lemma urlString_plain:
  assumes "s \<noteq> []" and "isHostName h" and "isPlainPath p"
  shows "urlString (emptyUrl\<lparr>u_Scheme := s, u_Host := h, u_Path := p\<rparr>) = s @ ''://'' @ h @ p"
proof -
  have "\<forall>c \<in> set p. \<not> shouldEscape c encodePath" and "\<forall>c \<in> set h. \<not> shouldEscape c encodeHost"
    using assms(2,3) host_byte(1) by (auto simp: plain_defs)
  then have "urlEscape p encodePath = p" and "urlEscape h encodeHost = h" by (auto intro: urlEscape_plain)
  then show ?thesis using assms
    by (auto simp: urlString_def emptyUrl_def EscapedPath_def escapedAs_def authorityString_def Let_def isHostName_def isPlainPath_def)
qed

text \<open>A host name with a port, but without a scheme, is read as a scheme with an opaque rest.\<close>

lemma urlParse_host_port:
  assumes "isScheme h" and "list_all is_digit port"
  shows "urlParse ip (h @ '':'' @ port) = Inr (emptyUrl\<lparr>u_Scheme := map lowerByte h, u_Opaque := port\<rparr>)"
proof -
  let ?raw = "h @ '':'' @ port"
  have digit: "\<not> shouldEscape c encodePath" if "is_digit c" for c
    using that host_byte [of c] by (auto simp: isHostByte_def)
  have plain: "\<forall>c \<in> set ?raw. \<not> shouldEscape c encodePath"
    using assms scheme_byte digit by (auto simp: isScheme_def list_all_iff)
  have port: "\<forall>c \<in> set port. \<not> shouldEscape c encodePath" using plain by simp
  have "\<not> hasPrefix port ''/''" using assms(2) by (auto simp: hasPrefix_conv is_digit_def)
  moreover have "getScheme ?raw = Inr (h, port)"
    using assms(1) scanScheme_found [of h "[]" ?raw port] by (simp add: getScheme_def isScheme_def)
  moreover have "?raw \<noteq> ''*''" using assms(1) by (cases h) auto
  ultimately have "parseUrl ip ?raw = Inr (emptyUrl\<lparr>u_Scheme := map lowerByte h, u_Opaque := port\<rparr>)"
    using plain_text(2) [OF plain] plain_text(3) [OF port] assms(1)
    by (simp add: parseUrl_def isScheme_def) (simp add: emptyUrl_def)
  then show ?thesis using plain_text(1) [OF plain] by (simp add: urlParse_def)
qed

text \<open>A host name alone is a relative path.\<close>

lemma urlParse_relative:
  assumes "isHostName h" and "isPlainPath p"
  shows "urlParse ip (h @ p) = Inr (emptyUrl\<lparr>u_Path := h @ p\<rparr>)"
proof -
  note plain = host_path_plain [OF assms]
  have "CHR '':'' \<notin> set h" "\<not> hasPrefix (h @ p) ''/''"
    using assms(1) host_byte(2) by (fastforce simp: plain_defs, cases h) (fastforce simp: plain_defs hasPrefix_def)+
  moreover have "getScheme (h @ p) = Inr ([], h @ p)"
    using scanScheme_none [of h p "h @ p" "[]"] calculation(1) assms(2) by (simp add: getScheme_def isPlainPath_def)
  moreover have "shouldEscape CHR ''*'' encodePath" by (simp add: shouldEscape_def isLetter_def is_digit_def)
  then have "h @ p \<noteq> ''*''" using plain by (metis list.set_intros(1))
  moreover have "fst (cutAt CHR ''/'' (h @ p)) = h" using host_path_split(1) [OF assms] by (simp add: cutAt_def)
  moreover have "\<not> hasPrefix (h @ p) ''//''" using calculation(2) by (auto simp: hasPrefix_conv)
  ultimately have "parseUrl ip (h @ p) = Inr (emptyUrl\<lparr>u_Path := h @ p\<rparr>)"
    using plain_text(2,3) [OF plain]
    by (simp add: parseUrl_def parseHierarchy_def setPath_plain [OF plain]) (simp add: emptyUrl_def)
  then show ?thesis using plain_text(1) [OF plain] by (simp add: urlParse_def)
qed

section \<open>Request URLs\<close>

text \<open>
  \<^verbatim>\<open>http.NewRequest\<close> refuses a URL that \<^verbatim>\<open>url.Parse\<close> does not accept. A URL with a plain host name, a path whose escapes
  are well formed and a query is accepted, and the query arrives as it was written.
\<close>

definition requestable :: "string \<Rightarrow> bool" where
  "requestable s \<longleftrightarrow> (\<forall>ip. \<exists>u. urlParse ip s = Inr u)"

definition isRequestPath :: "string \<Rightarrow> bool" where
  "isRequestPath p \<longleftrightarrow> (p = '''' \<or> hd p = CHR ''/'') \<and> list_all (\<lambda>c. \<not> isControl c \<and> c \<noteq> CHR ''#'' \<and> c \<noteq> CHR ''?'') p
     \<and> (\<exists>path. urlUnescape encodePath p = Inr path)"

definition isQueryText :: "string \<Rightarrow> bool" where
  "isQueryText q \<longleftrightarrow> list_all (\<lambda>c. \<not> isControl c \<and> c \<noteq> CHR ''#'') q"

lemma cutAt_split: "sep \<notin> set s \<Longrightarrow> cutAt sep (s @ sep # rest) = (s, rest)"
  by (induction s) (auto simp: cutAt_def)

lemma cutQuery_given:
  assumes "CHR ''?'' \<notin> set s" and "q \<noteq> []"
  shows "cutQuery (s @ CHR ''?'' # q) u = (s, u\<lparr>u_RawQuery := q\<rparr>)"
proof -
  have "\<not> (hasSuffix (s @ CHR ''?'' # q) ''?'' \<and> count_list (s @ CHR ''?'' # q) CHR ''?'' = 1)"
  proof
    assume a: "hasSuffix (s @ CHR ''?'' # q) ''?'' \<and> count_list (s @ CHR ''?'' # q) CHR ''?'' = 1"
    then have "last q = CHR ''?''" using assms(2) by (auto simp: hasSuffix_conv dest!: arg_cong [of _ _ last])
    then have "CHR ''?'' \<in> set q" using assms(2) last_in_set by metis
    with a show False by (simp add: count_list_0_iff)
  qed
  then show ?thesis by (simp only: cutQuery_def if_False) (simp add: cutAt_split [OF assms(1)])
qed

lemma cutQuery_none: "CHR ''?'' \<notin> set s \<Longrightarrow> cutQuery s u = (s, u\<lparr>u_RawQuery := []\<rparr>)"
  by (auto simp: cutQuery_def cutAt_absent hasSuffix_conv)

lemma parseHierarchy_request:
  assumes "isHostName h" and "isRequestPath p" and "u_Scheme u \<noteq> []"
  shows "parseHierarchy ip (''//'' @ h @ p) u = setPath p (u\<lparr>u_User := None, u_Host := h\<rparr>)"
proof -
  have "\<forall>c \<in> set h. c \<noteq> CHR ''/''" using assms(1) host_byte(2) by (fastforce simp: plain_defs)
  moreover have "p = [] \<or> \<not> hd p \<noteq> CHR ''/''" using assms(2) by (simp add: isRequestPath_def)
  ultimately have split: "takeWhile (\<lambda>c. c \<noteq> CHR ''/'') (h @ p) = h" "dropWhile (\<lambda>c. c \<noteq> CHR ''/'') (h @ p) = p"
    by (rule takeWhile_split, rule dropWhile_split)
  have "CHR ''@'' \<notin> set h" using assms(1) host_byte(2) by (fastforce simp: plain_defs)
  then have "parseAuthority ip h = Inr (None, h)"
    by (simp add: parseAuthority_def splitLast_None parseHostPort_name [OF assms(1)])
  with split assms(3) show ?thesis by (simp add: parseHierarchy_def hasPrefix_def)
qed

lemma urlParse_request:
  assumes "isScheme sch" and "isHostName h" and "isRequestPath p" and "isQueryText q"
    and "qs = (if q = [] then [] else CHR ''?'' # q)"
  shows "\<exists>u. urlParse ip (sch @ ''://'' @ h @ p @ qs) = Inr u \<and> u_Host u = h \<and> u_RawQuery u = q
    \<and> urlUnescape encodePath p = Inr (u_Path u)"
proof -
  let ?raw = "sch @ ''://'' @ h @ p @ qs" and ?u = "emptyUrl\<lparr>u_Scheme := map lowerByte sch, u_RawQuery := q\<rparr>"
  obtain path where path: "urlUnescape encodePath p = Inr path" using assms(3) by (auto simp: isRequestPath_def)
  have plain: "\<forall>c \<in> set (sch @ ''://'' @ h). \<not> shouldEscape c encodePath"
    using assms(1,2) scheme_byte host_byte(1) by (auto simp: plain_defs)
  have front: "\<forall>c \<in> set (sch @ ''://'' @ h). \<not> isControl c \<and> c \<noteq> CHR ''#'' \<and> c \<noteq> CHR ''?''"
    using plain path_byte by metis
  have mid: "\<forall>c \<in> set p. \<not> isControl c \<and> c \<noteq> CHR ''#'' \<and> c \<noteq> CHR ''?''" using assms(3) by (simp add: isRequestPath_def list_all_iff)
  have rear: "\<forall>c \<in> set qs. \<not> isControl c \<and> c \<noteq> CHR ''#''"
    using assms(4,5) by (auto simp: isQueryText_def list_all_iff isControl_def)
  have bytes: "\<not> list_ex isControl ?raw" "CHR ''#'' \<notin> set ?raw" "CHR ''?'' \<notin> set (''//'' @ h @ p)"
    using front mid rear by (auto simp: list_ex_iff)
  have scheme: "getScheme ?raw = Inr (sch, (''//'' @ h @ p) @ qs)"
    using assms(1) scanScheme_found [of sch "[]" ?raw "(''//'' @ h @ p) @ qs"] by (simp add: getScheme_def isScheme_def)
  have query: "cutQuery ((''//'' @ h @ p) @ qs) (emptyUrl\<lparr>u_Scheme := map lowerByte sch\<rparr>) = (''//'' @ h @ p, ?u)"
    using assms(5) cutQuery_given [OF bytes(3), of q] cutQuery_none [OF bytes(3)] by simp
  have "?raw \<noteq> ''*''" using assms(1) by (cases sch) auto
  then have "parseUrl ip ?raw = parseHierarchy ip (''//'' @ h @ p) ?u"
    unfolding parseUrl_def scheme sum.case prod.case query using bytes(1) by (simp add: hasPrefix_def)
  also have "\<dots> = setPath p (?u\<lparr>u_User := None, u_Host := h\<rparr>)"
    using parseHierarchy_request [OF assms(2,3)] assms(1) by (simp add: isScheme_def)
  finally have "parseUrl ip ?raw = setPath p (?u\<lparr>u_User := None, u_Host := h\<rparr>)" .
  then show ?thesis unfolding urlParse_def cutAt_absent [OF bytes(2)] prod.case by (simp add: setPath_def path)
qed

lemma requestable_path:
  assumes "isScheme sch" and "isHostName h" and "isRequestPath p"
  shows "requestable (sch @ ''://'' @ h @ p)"
  using urlParse_request [OF assms, of "[]" "[]"] by (auto simp: requestable_def isQueryText_def)

lemma requestable_name: "isHostName h \<Longrightarrow> requestable h"
  using urlParse_relative [of h "[]"] by (auto simp: requestable_def isPlainPath_def)

end
