(* ===== verification/Sf_Http.thy ===== *)
theory Sf_Http
  imports Go_Url
begin

text \<open>
  The HTTP layer: the transport of \<^verbatim>\<open>client/ratelimit.go\<close> that injects the bearer token and records
  the rate limit, the part of \<^verbatim>\<open>uhttp.BaseHttpClient.Do\<close> that simpleforce drives (response cache
  for GET, status codes to errors), and simpleforce's \<open>httpRequest\<close> with its error decoding.

  What lies outside the repository is the environment \<open>'w env\<close>: functions on a world \<open>'w\<close> that the
  operations thread. A document is a response body seen through the decoders the code applies to
  it: a JSON text with the value it denotes, an XML text with its elements, or neither.
\<close>

section \<open>Messages\<close>

datatype document =
    JsonDoc string govalue
  | XmlDoc string "(string \<times> string) list"
  | RawDoc string

fun docBytes :: "document \<Rightarrow> string" where
  "docBytes (JsonDoc t v) = t"
| "docBytes (XmlDoc t es) = t"
| "docBytes (RawDoc t) = t"

text \<open>A request body: none, the JSON text of a map, or raw text.\<close>

datatype reqbody = NoBody | JsonBody gomap | RawBody string

record request =
  rq_method :: string
  rq_url :: string
  rq_header :: "string \<rightharpoonup> string list"
  rq_body :: reqbody

record response =
  rs_status :: int
  rs_header :: "string \<rightharpoonup> string list"
  rs_body :: document

datatype ratelimit_status = STATUS_UNSPECIFIED | STATUS_OK | STATUS_OVERLIMIT

record RateLimitDescription =
  rl_Status :: ratelimit_status
  rl_Limit :: int
  rl_Remaining :: int

definition emptyRateLimit :: RateLimitDescription where
  "emptyRateLimit = \<lparr>rl_Status = STATUS_UNSPECIFIED, rl_Limit = 0, rl_Remaining = 0\<rparr>"

text \<open>An access token with its \<open>instance_url\<close> extra field, when that is a string.\<close>

record token =
  tok_AccessToken :: string
  tok_instance_url :: "string option"

text \<open>
  The environment: the base transport and the token source (they act on the world), the response
  cache, how \<^verbatim>\<open>uhttp\<close> wraps a network error, the constructors of HTTP clients that can fail,
  the reading of bracketed IP literals by \<^verbatim>\<open>url.Parse\<close>, a wait that the context may cut short (in seconds), and the two checks on the fields of a new user: \<^verbatim>\<open>mail.ParseAddress\<close> and, with the
  host's time zone database, \<^verbatim>\<open>time.LoadLocation\<close>.
\<close>

record 'w env =
  e_roundTrip :: "request \<Rightarrow> 'w \<Rightarrow> (goerror + response) \<times> 'w"
  e_token :: "'w \<Rightarrow> (goerror + token) \<times> 'w"
  e_cacheGet :: "request \<Rightarrow> 'w \<Rightarrow> (goerror + response option) \<times> 'w"
  e_cacheSet :: "request \<Rightarrow> response \<Rightarrow> 'w \<Rightarrow> 'w"
  e_clearCaches :: "'w \<Rightarrow> goerror option \<times> 'w"
  e_wrapNet :: "goerror \<Rightarrow> goerror"
  e_newClient :: "'w \<Rightarrow> goerror option \<times> 'w"
  e_newBaseClient :: "'w \<Rightarrow> goerror option \<times> 'w"
  e_ipLiteral :: "string \<Rightarrow> goerror + string"
  e_wait :: "nat \<Rightarrow> 'w \<Rightarrow> goerror option \<times> 'w"
  e_parseAddress :: "string \<Rightarrow> goerror option"
  e_loadLocation :: "string \<Rightarrow> goerror option"

section \<open>The rate limit header\<close>

definition RateLimitHeaderKey :: string where
  "RateLimitHeaderKey = ''Sforce-Limit-Info''"

text \<open>
  \<^verbatim>\<open>fmt.Sscanf(s, "api-usage=%d/%d", &remaining, &limit)\<close>: literal bytes must match, \<open>%d\<close> skips
  blanks (a newline is an error), takes an optional sign and at least one digit, and fails outside
  the 64-bit range. Input behind the last verb is ignored. \<open>None\<close> is an error.
\<close>

definition is_blank :: "char \<Rightarrow> bool" where
  "is_blank c \<longleftrightarrow> c = CHR 0x20 \<or> c = CHR 0x09 \<or> c = CHR 0x0B \<or> c = CHR 0x0C \<or> c = CHR 0x0D"

definition scanInt :: "string \<Rightarrow> (int \<times> string) option" where
  "scanInt s =
     (let s1 = dropWhile is_blank s;
          neg = (s1 \<noteq> [] \<and> hd s1 = CHR ''-'');
          s2 = (if s1 \<noteq> [] \<and> (hd s1 = CHR ''+'' \<or> hd s1 = CHR ''-'') then tl s1 else s1);
          ds = takeWhile is_digit s2;
          v = (if neg then - int (digits_val ds) else int (digits_val ds))
      in if ds \<noteq> [] \<and> min_int64 \<le> v \<and> v \<le> max_int64 then Some (v, dropWhile is_digit s2) else None)"

definition scanLiteral :: "string \<Rightarrow> string \<Rightarrow> string option" where
  "scanLiteral p s = (if hasPrefix s p then Some (drop (length p) s) else None)"

definition sscanfRateLimit :: "string \<Rightarrow> (int \<times> int) option" where
  "sscanfRateLimit s =
     do {
       s1 \<leftarrow> scanLiteral ''api-usage='' s;
       (remaining, s2) \<leftarrow> scanInt s1;
       s3 \<leftarrow> scanLiteral ''/'' s2;
       (limit, s4) \<leftarrow> scanInt s3;
       Some (remaining, limit)
     }"

definition rateLimitFromHeader :: "(string \<rightharpoonup> string list) \<Rightarrow> RateLimitDescription option" where
  "rateLimitFromHeader h =
     (case h RateLimitHeaderKey of
        Some [info] \<Rightarrow>
          (case sscanfRateLimit info of
             Some (remaining, limit) \<Rightarrow>
               Some \<lparr>rl_Status = (if remaining > limit then STATUS_OVERLIMIT else STATUS_OK),
                     rl_Limit = limit, rl_Remaining = remaining\<rparr>
           | None \<Rightarrow> None)
      | _ \<Rightarrow> None)"

section \<open>The transport\<close>

record transport =
  tr_rateLimit :: "RateLimitDescription option"
  tr_tokenSource :: bool

text \<open>
  \<open>RoundTrip\<close>: with a token source, a fresh token replaces the \<open>Authorization\<close> header; a token
  error leaves the request as it is. The old rate limit is dropped before the base transport runs.
\<close>

definition authorize :: "'w env \<Rightarrow> bool \<Rightarrow> request \<Rightarrow> 'w \<Rightarrow> request \<times> 'w" where
  "authorize env hasSource rq w =
     (if hasSource
      then (case e_token env w of
              (Inl e, w') \<Rightarrow> (rq, w')
            | (Inr t, w') \<Rightarrow>
                (rq\<lparr>rq_header := (rq_header rq)(''Authorization'' \<mapsto> [''Bearer '' @ tok_AccessToken t])\<rparr>, w'))
      else (rq, w))"

definition RoundTrip ::
  "'w env \<Rightarrow> transport \<Rightarrow> request \<Rightarrow> 'w \<Rightarrow> (goerror + response) \<times> transport \<times> 'w" where
  "RoundTrip env t rq w =
     (let (rq', w1) = authorize env (tr_tokenSource t) rq w;
          (r, w2) = e_roundTrip env rq' w1
      in case r of
           Inl e \<Rightarrow> (Inl e, t\<lparr>tr_rateLimit := None\<rparr>, w2)
         | Inr resp \<Rightarrow> (Inr resp, t\<lparr>tr_rateLimit := rateLimitFromHeader (rs_header resp)\<rparr>, w2))"

section \<open>The wrapper client\<close>

definition GrpcCodeFromHTTPStatus :: "int \<Rightarrow> grpc_code" where
  "GrpcCodeFromHTTPStatus st =
     (if st = 400 then InvalidArgument
      else if st = 408 then DeadlineExceeded
      else if st = 429 \<or> st = 502 \<or> st = 503 \<or> st = 504 then Unavailable
      else if st = 404 then NotFound
      else if st = 401 then Unauthenticated
      else if st = 403 then PermissionDenied
      else if st = 409 then AlreadyExists
      else if st = 501 then Unimplemented
      else if 500 \<le> st \<and> st \<le> 599 then Unavailable
      else if 400 \<le> st \<and> st \<le> 499 then InvalidArgument
      else Unknown)"

definition isOk :: "int \<Rightarrow> bool" where
  "isOk st \<longleftrightarrow> 200 \<le> st \<and> st \<le> 299"

definition noCache :: "request \<Rightarrow> bool" where
  "noCache rq \<longleftrightarrow> (case rq_header rq ''Cache-Control'' of Some (v # _) \<Rightarrow> v = ''no-cache'' | _ \<Rightarrow> False)"

text \<open>
  \<open>BaseHttpClient.Do\<close> without options: the result is the response, if any, and the error, if any.
  The transport is \<open>RoundTrip\<close> above, reached through \<open>http.Client.Do\<close>.
\<close>

definition finishDo ::
  "'w env \<Rightarrow> request \<Rightarrow> response \<Rightarrow> transport \<Rightarrow> 'w \<Rightarrow> (response option \<times> goerror option) \<times> transport \<times> 'w" where
  "finishDo env rq resp t w =
     (if \<not> isOk (rs_status resp)
      then ((Some resp, Some (StatusError (GrpcCodeFromHTTPStatus (rs_status resp)) ''status'')), t, w)
      else if rq_method rq = ''GET'' \<and> rs_status resp = 200
      then ((Some resp, None), t, e_cacheSet env rq resp w)
      else ((Some resp, None), t, w))"

definition sendDo ::
  "'w env \<Rightarrow> transport \<Rightarrow> request \<Rightarrow> 'w \<Rightarrow> (response option \<times> goerror option) \<times> transport \<times> 'w" where
  "sendDo env t rq w =
     (case RoundTrip env t rq w of
        (Inl e, t', w') \<Rightarrow> ((None, Some (e_wrapNet env e)), t', w')
      | (Inr resp, t', w') \<Rightarrow> finishDo env rq resp t' w')"

definition uhttpDo ::
  "'w env \<Rightarrow> transport \<Rightarrow> request \<Rightarrow> 'w \<Rightarrow> (response option \<times> goerror option) \<times> transport \<times> 'w" where
  "uhttpDo env t rq w =
     (if rq_method rq = ''GET'' \<and> \<not> noCache rq
      then (case e_cacheGet env rq w of
              (Inl e, w') \<Rightarrow> ((None, Some e), t, w')
            | (Inr (Some resp), w') \<Rightarrow> finishDo env rq resp t w'
            | (Inr None, w') \<Rightarrow> sendDo env t rq w')
      else sendDo env t rq w)"

section \<open>Errors of the Salesforce API\<close>

text \<open>
  Decoding a JSON value into a Go \<open>string\<close>, \<open>bool\<close> or \<open>int\<close> field: \<open>null\<close> and a missing member
  leave the zero value, another type is a decoding error (\<open>None\<close>).
\<close>

fun jsonString :: "govalue \<Rightarrow> string option" where
  "jsonString VNil = Some ''''"
| "jsonString (VString s) = Some s"
| "jsonString _ = None"

fun jsonBool :: "govalue \<Rightarrow> bool option" where
  "jsonBool VNil = Some False"
| "jsonBool (VBool b) = Some b"
| "jsonBool _ = None"

fun jsonInt :: "govalue \<Rightarrow> int option" where
  "jsonInt VNil = Some 0"
| "jsonInt (VFloat64 r) =
     (if of_int \<lfloor>r\<rfloor> = r \<and> min_int64 \<le> \<lfloor>r\<rfloor> \<and> \<lfloor>r\<rfloor> \<le> max_int64 then Some \<lfloor>r\<rfloor> else None)"
| "jsonInt _ = None"

text \<open>
  The JSON error list: \<open>[{"message": ..., "errorCode": ...}, ...]\<close>. \<open>null\<close> decodes to the empty
  list as well.
\<close>

fun jsonErrorEntry :: "govalue \<Rightarrow> (string \<times> string) option" where
  "jsonErrorEntry VNil = Some ('''', '''')"
| "jsonErrorEntry (VMap m) =
     do { msg \<leftarrow> jsonString (mapIndex m ''message''); code \<leftarrow> jsonString (mapIndex m ''errorCode''); Some (msg, code) }"
| "jsonErrorEntry _ = None"

fun collect :: "('a \<Rightarrow> 'b option) \<Rightarrow> 'a list \<Rightarrow> 'b list option" where
  "collect f [] = Some []"
| "collect f (x # xs) = do { y \<leftarrow> f x; ys \<leftarrow> collect f xs; Some (y # ys) }"

fun jsonErrors :: "document \<Rightarrow> (string \<times> string) list option" where
  "jsonErrors (JsonDoc t VNil) = Some []"
| "jsonErrors (JsonDoc t (VList vs)) = collect jsonErrorEntry vs"
| "jsonErrors _ = None"

definition elementText :: "(string \<times> string) list \<Rightarrow> string \<Rightarrow> string" where
  "elementText es path = (case map_of es path of None \<Rightarrow> '''' | Some s \<Rightarrow> s)"

definition errorText :: "int \<Rightarrow> string \<Rightarrow> string \<Rightarrow> string" where
  "errorText st msg code =
     ''[simpleforce] Error. http code: '' @ itoa_int st @ '' Error Message:  '' @ msg @ '' Error Code: '' @ code"

text \<open>\<open>ParseSalesforceError\<close>; an empty JSON list is indexed at 0, a panic.\<close>

definition ParseSalesforceError :: "int \<Rightarrow> document \<Rightarrow> goerror option" where
  "ParseSalesforceError st doc =
     (case jsonErrors doc of
        Some [] \<Rightarrow> None
      | Some ((msg, code) # _) \<Rightarrow> Some (SalesforceError (errorText st msg code) st code msg)
      | None \<Rightarrow>
          (case doc of
             XmlDoc t es \<Rightarrow>
               (let msg = elementText es ''Body>Fault>faultstring''; code = elementText es ''Body>Fault>faultcode''
                in Some (SalesforceError (errorText st msg code) st code msg))
           | _ \<Rightarrow> Some (SalesforceError (docBytes doc) st '''' '''')))"

definition errorsJoin :: "goerror option list \<Rightarrow> goerror option" where
  "errorsJoin es = (let xs = List.map_filter id es in if xs = [] then None else Some (ErrJoin xs))"

definition parseUhttpError :: "response option \<Rightarrow> goerror option \<Rightarrow> goerror option option" where
  "parseUhttpError resp err =
     (case resp of
        None \<Rightarrow> Some err
      | Some r \<Rightarrow>
          if isOk (rs_status r) then Some err
          else do { sfErr \<leftarrow> ParseSalesforceError (rs_status r) (rs_body r); Some (errorsJoin [err, Some sfErr]) })"

section \<open>simpleforce requests\<close>

text \<open>The fields of \<open>simpleforce.Client\<close> the connector uses; it never enables the tooling API.\<close>

record sfclient =
  cl_sessionID :: string
  cl_clientID :: string
  cl_apiVersion :: string
  cl_baseURL :: string
  cl_instanceURL :: string

definition isLoggedIn :: "sfclient \<Rightarrow> bool" where
  "isLoggedIn cl \<longleftrightarrow> cl_sessionID cl \<noteq> ''''"

text \<open>\<^verbatim>\<open>http.NewRequest\<close> with a valid method fails exactly when \<^verbatim>\<open>url.Parse\<close> does.\<close>

definition newRequestErr :: "'w env \<Rightarrow> string \<Rightarrow> goerror option" where
  "newRequestErr env url = (case urlParse (e_ipLiteral env) url of Inl e \<Rightarrow> Some e | Inr _ \<Rightarrow> None)"

lemma newRequest_ok [simp]: "requestable url \<Longrightarrow> newRequestErr env url = None"
proof -
  assume "requestable url"
  then obtain u where "urlParse (e_ipLiteral env) url = Inr u" unfolding requestable_def by blast
  then show ?thesis by (simp add: newRequestErr_def)
qed

text \<open>
  \<open>httpRequest\<close>: the bytes of the response body or an error. The outer option is a panic.
\<close>

definition httpRequest ::
  "'w env \<Rightarrow> sfclient \<Rightarrow> transport \<Rightarrow> string \<Rightarrow> string \<Rightarrow> reqbody \<Rightarrow> 'w
    \<Rightarrow> ((goerror + document) \<times> transport \<times> 'w) option" where
  "httpRequest env cl t method url body w =
     (case newRequestErr env url of
        Some e \<Rightarrow> Some (Inl e, t, w)
      | None \<Rightarrow>
          (let rq = \<lparr>rq_method = method, rq_url = url,
                      rq_header = [''Authorization'' \<mapsto> [''Bearer '' @ cl_sessionID cl],
                                   ''Content-Type'' \<mapsto> [''application/json'']],
                      rq_body = body\<rparr>;
               ((resp, err), t', w') = uhttpDo env t rq w
           in case (resp, err) of
                (Some r, None) \<Rightarrow>
                  if isOk (rs_status r) then Some (Inr (rs_body r), t', w')
                  else do { e \<leftarrow> parseUhttpError resp err;
                            Some (case e of None \<Rightarrow> Inr (RawDoc '''') | Some e' \<Rightarrow> Inl e', t', w') }
              | _ \<Rightarrow> do { e \<leftarrow> parseUhttpError resp err;
                          Some (case e of None \<Rightarrow> Inr (RawDoc '''') | Some e' \<Rightarrow> Inl e', t', w') }))"

section \<open>Reading the header back\<close>

lemma is_digit_not_blank [simp]: "is_digit c \<Longrightarrow> \<not> is_blank c"
  by (auto simp: is_digit_def is_blank_def)

lemma is_digit_not_sign: "is_digit c \<Longrightarrow> c \<noteq> CHR ''+'' \<and> c \<noteq> CHR ''-''"
  by (auto simp: is_digit_def)

lemma itoa_hd_digit: "is_digit (hd (itoa n @ rest))"
  using itoa_digits [of n] by (cases "itoa n") auto

lemma dropWhile_blank_itoa: "dropWhile is_blank (itoa n @ rest) = itoa n @ rest"
  using itoa_hd_digit [of n rest] by (cases "itoa n @ rest") auto

text \<open>\<open>%d\<close> reads a printed 64-bit integer back, whatever non-digit follows it.\<close>

lemma scanInt_itoa:
  assumes "min_int64 \<le> i" "i \<le> max_int64" and rest: "rest = [] \<or> \<not> is_digit (hd rest)"
  shows "scanInt (itoa_int i @ rest) = Some (i, rest)"
proof -
  have tw: "takeWhile is_digit (itoa n @ rest) = itoa n" "dropWhile is_digit (itoa n @ rest) = rest" for n
    using takeWhile_split [OF itoa_digits rest] dropWhile_split [OF itoa_digits rest] by auto
  show ?thesis
  proof (cases "i < 0")
    case True
    with assms show ?thesis
      by (simp add: scanInt_def itoa_int_def tw Let_def is_blank_def)
  next
    case False
    have "hd (itoa (nat i) @ rest) \<noteq> CHR ''+''" "hd (itoa (nat i) @ rest) \<noteq> CHR ''-''"
      using is_digit_not_sign itoa_hd_digit by blast+
    with False assms show ?thesis
      by (simp add: scanInt_def itoa_int_def tw Let_def dropWhile_blank_itoa)
  qed
qed

definition rateLimitText :: "int \<Rightarrow> int \<Rightarrow> string" where
  "rateLimitText a b = ''api-usage='' @ itoa_int a @ ''/'' @ itoa_int b"

lemma sscanf_rateLimitText:
  assumes "min_int64 \<le> a" "a \<le> max_int64" "min_int64 \<le> b" "b \<le> max_int64"
    and "rest = [] \<or> \<not> is_digit (hd rest)"
  shows "sscanfRateLimit (rateLimitText a b @ rest) = Some (a, b)"
proof -
  have "\<not> is_digit (hd (CHR ''/'' # itoa_int b @ rest))" by (simp add: is_digit_def)
  then have "scanInt (itoa_int a @ CHR ''/'' # itoa_int b @ rest) = Some (a, CHR ''/'' # itoa_int b @ rest)"
    using assms by (intro scanInt_itoa) auto
  with scanInt_itoa [OF assms(3-5)] show ?thesis
    by (simp add: sscanfRateLimit_def rateLimitText_def scanLiteral_def hasPrefix_def)
qed

lemma scanInt_range: "scanInt s = Some (v, rest) \<Longrightarrow> min_int64 \<le> v \<and> v \<le> max_int64"
  by (auto simp: scanInt_def Let_def split: if_splits)

lemma rateLimitFromHeader_range:
  "rateLimitFromHeader h = Some d \<Longrightarrow>
     min_int64 \<le> rl_Remaining d \<and> rl_Remaining d \<le> max_int64 \<and> min_int64 \<le> rl_Limit d \<and> rl_Limit d \<le> max_int64
     \<and> rl_Status d = (if rl_Remaining d > rl_Limit d then STATUS_OVERLIMIT else STATUS_OK)"
  by (auto simp: rateLimitFromHeader_def sscanfRateLimit_def Option.bind_eq_Some_conv
      dest!: scanInt_range split: option.splits list.splits)

section \<open>What one request does\<close>

lemma uhttpDo_send: "rq_method rq \<noteq> ''GET'' \<Longrightarrow> uhttpDo env t rq w = sendDo env t rq w"
  by (simp add: uhttpDo_def)

lemma uhttpDo_miss:
  "e_cacheGet env rq w = (Inr None, w') \<Longrightarrow> noCache rq = False \<Longrightarrow> rq_method rq = ''GET'' \<Longrightarrow>
     uhttpDo env t rq w = sendDo env t rq w'"
  by (simp add: uhttpDo_def)

text \<open>The token source of a transport never changes.\<close>

lemma RoundTrip_tokenSource: "RoundTrip env t rq w = (r, t', w') \<Longrightarrow> tr_tokenSource t' = tr_tokenSource t"
  by (auto simp: RoundTrip_def split: prod.splits sum.splits)

lemma uhttpDo_tokenSource: "uhttpDo env t rq w = (r, t', w') \<Longrightarrow> tr_tokenSource t' = tr_tokenSource t"
  by (auto simp: uhttpDo_def sendDo_def finishDo_def dest: RoundTrip_tokenSource
      split: prod.splits sum.splits option.splits if_splits)

text \<open>The request simpleforce builds, as it reaches the base transport.\<close>

definition bearerRequest :: "string \<Rightarrow> string \<Rightarrow> string \<Rightarrow> reqbody \<Rightarrow> request" where
  "bearerRequest tok method url body =
     \<lparr>rq_method = method, rq_url = url,
      rq_header = [''Authorization'' \<mapsto> [''Bearer '' @ tok], ''Content-Type'' \<mapsto> [''application/json'']],
      rq_body = body\<rparr>"

lemma header_update: "[''Authorization'' \<mapsto> a, ''Content-Type'' \<mapsto> b](''Authorization'' \<mapsto> c)
    = [''Authorization'' \<mapsto> c, ''Content-Type'' \<mapsto> b]"
  by (auto simp: fun_eq_iff)

lemma uhttpDo_bearer:
  assumes "method \<noteq> ''GET''" and "tr_tokenSource t" and "e_token env w = (Inr tok, w1)"
    and "e_roundTrip env (bearerRequest (tok_AccessToken tok) method url body) w1 = (r, w2)"
  shows "uhttpDo env t (bearerRequest sid method url body) w =
    (case r of
       Inl e \<Rightarrow> ((None, Some (e_wrapNet env e)), t\<lparr>tr_rateLimit := None\<rparr>, w2)
     | Inr resp \<Rightarrow> ((Some resp, if isOk (rs_status resp) then None
           else Some (StatusError (GrpcCodeFromHTTPStatus (rs_status resp)) ''status'')),
         t\<lparr>tr_rateLimit := rateLimitFromHeader (rs_header resp)\<rparr>, w2))"
  using assms
  by (simp add: uhttpDo_send sendDo_def RoundTrip_def authorize_def bearerRequest_def header_update finishDo_def
      split: sum.splits)

section \<open>Concrete environments\<close>

text \<open>An environment that answers every request with a fixed response.\<close>

definition fixedEnv :: "response \<Rightarrow> token \<Rightarrow> nat env" where
  "fixedEnv resp tok =
     \<lparr>e_roundTrip = (\<lambda>rq w. (Inr resp, Suc w)), e_token = (\<lambda>w. (Inr tok, w)),
      e_cacheGet = (\<lambda>rq w. (Inr None, w)), e_cacheSet = (\<lambda>rq r w. w), e_clearCaches = (\<lambda>w. (None, w)),
      e_wrapNet = id, e_newClient = (\<lambda>w. (None, w)), e_newBaseClient = (\<lambda>w. (None, w)),
      e_ipLiteral = (\<lambda>s. Inl (ErrNew ''url'')),
      e_wait = (\<lambda>d w. (None, w)), e_parseAddress = (\<lambda>a. None), e_loadLocation = (\<lambda>z. None)\<rparr>"

text \<open>An environment with a server that answers by the request, whose world is the log of requests.\<close>

definition logEnv :: "(request \<Rightarrow> response) \<Rightarrow> request list env" where
  "logEnv f =
     \<lparr>e_roundTrip = (\<lambda>rq w. (Inr (f rq), w @ [rq])),
      e_token = (\<lambda>w. (Inr \<lparr>tok_AccessToken = ''tok'', tok_instance_url = None\<rparr>, w)),
      e_cacheGet = (\<lambda>rq w. (Inr None, w)), e_cacheSet = (\<lambda>rq r w. w), e_clearCaches = (\<lambda>w. (None, w)),
      e_wrapNet = id, e_newClient = (\<lambda>w. (None, w)), e_newBaseClient = (\<lambda>w. (None, w)),
      e_ipLiteral = (\<lambda>s. Inl (ErrNew ''url'')),
      e_wait = (\<lambda>d w. (None, w)), e_parseAddress = (\<lambda>a. None), e_loadLocation = (\<lambda>z. None)\<rparr>"

lemma logEnv_simps [simp]:
  "e_roundTrip (logEnv f) rq w = (Inr (f rq), w @ [rq])"
  "e_token (logEnv f) w = (Inr \<lparr>tok_AccessToken = ''tok'', tok_instance_url = None\<rparr>, w)"
  "e_cacheGet (logEnv f) rq w = (Inr None, w)" "e_cacheSet (logEnv f) rq r w = w"
  "e_clearCaches (logEnv f) w = (None, w)" "e_wrapNet (logEnv f) e = e"
  "e_newClient (logEnv f) w = (None, w)" "e_newBaseClient (logEnv f) w = (None, w)"
  "e_wait (logEnv f) d w = (None, w)"
  "e_parseAddress (logEnv f) a = None" "e_loadLocation (logEnv f) z = None"
  by (simp_all add: logEnv_def)

lemma uhttpDo_log:
  assumes "\<not> tr_tokenSource t"
  shows "uhttpDo (logEnv f) t rq w = ((Some (f rq), if isOk (rs_status (f rq)) then None
       else Some (StatusError (GrpcCodeFromHTTPStatus (rs_status (f rq))) ''status'')),
     t\<lparr>tr_rateLimit := rateLimitFromHeader (rs_header (f rq))\<rparr>, w @ [rq])"
  using assms by (simp add: uhttpDo_def sendDo_def RoundTrip_def authorize_def finishDo_def)

lemma httpRequest_log:
  assumes "\<not> tr_tokenSource t" and "f (bearerRequest (cl_sessionID cl) m u b) = resp" and "isOk (rs_status resp)"
    and "requestable u"
  shows "httpRequest (logEnv f) cl t m u b w = Some (Inr (rs_body resp),
    t\<lparr>tr_rateLimit := rateLimitFromHeader (rs_header resp)\<rparr>, w @ [bearerRequest (cl_sessionID cl) m u b])"
  using assms by (simp add: httpRequest_def uhttpDo_log bearerRequest_def Let_def)

text \<open>The header as the server of the repository's tests prints it (\<^verbatim>\<open>test/testHelpers.go\<close>).\<close>

definition testServerText :: "RateLimitDescription \<Rightarrow> string" where
  "testServerText d = rateLimitText (rl_Limit d) (rl_Remaining d)"

text \<open>The token that a request is sent with.\<close>

definition tokenFor :: "'w env \<Rightarrow> sfclient \<Rightarrow> transport \<Rightarrow> 'w \<Rightarrow> string \<times> 'w" where
  "tokenFor env cl t w =
     (if tr_tokenSource t
      then (case e_token env w of (Inl e, w') \<Rightarrow> (cl_sessionID cl, w') | (Inr tok, w') \<Rightarrow> (tok_AccessToken tok, w'))
      else (cl_sessionID cl, w))"

definition okResponse :: "document \<Rightarrow> response" where
  "okResponse doc = \<lparr>rs_status = 200, rs_header = Map.empty, rs_body = doc\<rparr>"

lemma okResponse_simps [simp]:
  "isOk 200" "rs_status (okResponse doc) = 200" "rs_body (okResponse doc) = doc"
  "rs_header (okResponse doc) = Map.empty"
  by (simp_all add: okResponse_def isOk_def)

lemma rateLimitFromHeader_empty [simp]: "rateLimitFromHeader Map.empty = None" "rateLimitFromHeader (\<lambda>x. None) = None"
  by (simp_all add: rateLimitFromHeader_def)

lemma relative_u [simp]: "requestable ''u''"
  by (rule requestable_name) (simp add: isHostName_def isHostByte_def isLetter_def)

section \<open>Properties\<close>

text \<open>
  C31. The transport takes the first number of the header \<open>api-usage=a/b\<close> as what remains and the second as the limit,
  for any two 64-bit integers and whatever it held before, and reports the limit as exceeded exactly when the first is greater.
  A server that prints the limit first, as the one of the repository's tests does, therefore has the two exchanged, and is
  reported as over its limit whenever it has used any of it.
\<close>

theorem RoundTrip_records_rate_limit:
  assumes "min_int64 \<le> rl_Limit d" "rl_Limit d \<le> max_int64" "min_int64 \<le> rl_Remaining d" "rl_Remaining d \<le> max_int64"
    and "authorize env (tr_tokenSource t) rq w = (rq', w1)"
    and "e_roundTrip env rq' w1 = (Inr resp, w2)"
    and "rs_header resp RateLimitHeaderKey = Some [if limitFirst then testServerText d else rateLimitText (rl_Remaining d) (rl_Limit d)]"
  shows "RoundTrip env t rq w = (Inr resp,
    \<lparr>tr_rateLimit = Some
       (if limitFirst
        then \<lparr>rl_Status = (if rl_Remaining d < rl_Limit d then STATUS_OVERLIMIT else STATUS_OK),
              rl_Limit = rl_Remaining d, rl_Remaining = rl_Limit d\<rparr>
        else \<lparr>rl_Status = (if rl_Remaining d > rl_Limit d then STATUS_OVERLIMIT else STATUS_OK),
              rl_Limit = rl_Limit d, rl_Remaining = rl_Remaining d\<rparr>),
     tr_tokenSource = tr_tokenSource t\<rparr>, w2)"
  using assms sscanf_rateLimitText [OF assms(1-4), of "[]"] sscanf_rateLimitText [OF assms(3,4,1,2), of "[]"]
  by (cases limitFirst) (simp_all add: RoundTrip_def rateLimitFromHeader_def testServerText_def)

theorem RoundTrip_records_rate_limit_witness:
  "RoundTrip
     (fixedEnv \<lparr>rs_status = 200, rs_header = [RateLimitHeaderKey \<mapsto> [''api-usage=100/60'']], rs_body = RawDoc []\<rparr>
        \<lparr>tok_AccessToken = ''t'', tok_instance_url = None\<rparr>)
     \<lparr>tr_rateLimit = None, tr_tokenSource = False\<rparr>
     \<lparr>rq_method = ''GET'', rq_url = ''u'', rq_header = Map.empty, rq_body = NoBody\<rparr> 0
   = (Inr \<lparr>rs_status = 200, rs_header = [RateLimitHeaderKey \<mapsto> [''api-usage=100/60'']], rs_body = RawDoc []\<rparr>,
      \<lparr>tr_rateLimit = Some \<lparr>rl_Status = STATUS_OVERLIMIT, rl_Limit = 60, rl_Remaining = 100\<rparr>,
       tr_tokenSource = False\<rparr>, 1)"
proof -
  let ?d = "\<lparr>rl_Status = STATUS_OK, rl_Limit = 100, rl_Remaining = 60\<rparr>"
  have "testServerText ?d = ''api-usage=100/60''" by (simp add: testServerText_def rateLimitText_def itoa_int_def itoa.simps digit_char_def char_of_def bit_simps)
  then show ?thesis
    by (subst RoundTrip_records_rate_limit [where d = ?d and limitFirst = True])
      (simp_all add: fixedEnv_def authorize_def min_int64_def max_int64_def)
qed

text \<open>
  C29. Which credentials a write carries, and what becomes of it: it reaches the network once, with the access token that
  the token source gives for it, or, when there is no token source or it fails to give one, with the session of the client; a 2xx
  answer is returned with its body, a rejection as the error of the HTTP status joined with that of Salesforce (a panic when
  the list of errors is empty), a failure of the network as its wrapped error, and the transport then holds the rate limit
  of this answer or none.
\<close>

theorem httpRequest_write_bearer:
  assumes "newRequestErr env url = None" and "method \<noteq> ''GET''" and "tokenFor env cl t w = (bearer, w1)"
    and "e_roundTrip env (bearerRequest bearer method url body) w1 = (answer, w2)"
  shows "httpRequest env cl t method url body w =
    (case answer of
       Inl e \<Rightarrow> Some (Inl (e_wrapNet env e), t\<lparr>tr_rateLimit := None\<rparr>, w2)
     | Inr resp \<Rightarrow>
         if isOk (rs_status resp)
         then Some (Inr (rs_body resp), t\<lparr>tr_rateLimit := rateLimitFromHeader (rs_header resp)\<rparr>, w2)
         else map_option (\<lambda>e. (Inl (ErrJoin [StatusError (GrpcCodeFromHTTPStatus (rs_status resp)) ''status'', e]),
                t\<lparr>tr_rateLimit := rateLimitFromHeader (rs_header resp)\<rparr>, w2))
              (ParseSalesforceError (rs_status resp) (rs_body resp)))"
proof -
  have "uhttpDo env t (bearerRequest (cl_sessionID cl) method url body) w =
    (case answer of
       Inl e \<Rightarrow> ((None, Some (e_wrapNet env e)), t\<lparr>tr_rateLimit := None\<rparr>, w2)
     | Inr resp \<Rightarrow> ((Some resp, if isOk (rs_status resp) then None
           else Some (StatusError (GrpcCodeFromHTTPStatus (rs_status resp)) ''status'')),
         t\<lparr>tr_rateLimit := rateLimitFromHeader (rs_header resp)\<rparr>, w2))"
    using assms
    by (auto simp: tokenFor_def uhttpDo_send sendDo_def RoundTrip_def authorize_def bearerRequest_def header_update finishDo_def
        split: sum.splits if_splits prod.splits)
  with assms(1) show ?thesis
    by (cases answer) (auto simp: httpRequest_def bearerRequest_def parseUhttpError_def errorsJoin_def map_filter_simps
        split: Option.bind_split)
qed

theorem httpRequest_write_bearer_witness:
  "httpRequest
     ((fixedEnv \<lparr>rs_status = 204, rs_header = Map.empty, rs_body = RawDoc []\<rparr> \<lparr>tok_AccessToken = ''new'', tok_instance_url = None\<rparr>)
       \<lparr>e_token := \<lambda>w. (if w = 0 then Inr \<lparr>tok_AccessToken = ''new'', tok_instance_url = None\<rparr> else Inl (ErrNew ''refresh''), w),
        e_roundTrip := \<lambda>rq w. (Inr \<lparr>rs_status = 204, rs_header = Map.empty,
          rs_body = RawDoc (hd (the (rq_header rq ''Authorization'')))\<rparr>, w)\<rparr>)
     \<lparr>cl_sessionID = ''old'', cl_clientID = '''', cl_apiVersion = ''54.0'', cl_baseURL = '''', cl_instanceURL = ''''\<rparr>
     \<lparr>tr_rateLimit = None, tr_tokenSource = True\<rparr> ''PATCH'' ''u'' NoBody 1
   = Some (Inr (RawDoc ''Bearer old''), \<lparr>tr_rateLimit = None, tr_tokenSource = True\<rparr>, 1)"
  by (subst httpRequest_write_bearer)
    (auto simp: fixedEnv_def tokenFor_def bearerRequest_def isOk_def rateLimitFromHeader_def)

text \<open>
  C30. A write that Salesforce rejects with its JSON error list fails with an error that carries both
  the first entry's error code, as \<open>errors.As\<close> finds it, and the gRPC code of the HTTP status, as
  \<open>status.Code\<close> finds it.
\<close>

theorem httpRequest_error_codes:
  assumes "newRequestErr env url = None" and "method \<noteq> ''GET''"
    and "tr_tokenSource t" and "e_token env w = (Inr tok, w1)"
    and "e_roundTrip env (bearerRequest (tok_AccessToken tok) method url body) w1 = (Inr resp, w2)"
    and "\<not> isOk (rs_status resp)"
    and "jsonErrors (rs_body resp) = Some ((msg, code) # others)"
  shows "\<exists>e t'. httpRequest env cl t method url body w = Some (Inl e, t', w2)
    \<and> sfErrorCode e = Some code \<and> statusCode e = GrpcCodeFromHTTPStatus (rs_status resp)"
  using assms uhttpDo_bearer [OF assms(2-5), of "cl_sessionID cl"]
  by (simp add: httpRequest_def bearerRequest_def parseUhttpError_def ParseSalesforceError_def errorsJoin_def
      statusCode_def map_filter_simps)

theorem httpRequest_error_codes_witness:
  "\<exists>e t'. httpRequest
     (fixedEnv \<lparr>rs_status = 400, rs_header = Map.empty,
          rs_body = JsonDoc '''' (VList [VMap [''errorCode'' \<mapsto> VString ''DUPLICATE_VALUE'', ''message'' \<mapsto> VString ''dup'']])\<rparr>
         \<lparr>tok_AccessToken = ''new'', tok_instance_url = None\<rparr>)
     \<lparr>cl_sessionID = ''old'', cl_clientID = '''', cl_apiVersion = ''54.0'', cl_baseURL = '''', cl_instanceURL = ''''\<rparr>
     \<lparr>tr_rateLimit = None, tr_tokenSource = True\<rparr> ''POST'' ''u'' NoBody 0
   = Some (Inl e, t', 1) \<and> sfErrorCode e = Some ''DUPLICATE_VALUE'' \<and> statusCode e = InvalidArgument"
proof -
  let ?v = "VMap [''errorCode'' \<mapsto> VString ''DUPLICATE_VALUE'', ''message'' \<mapsto> VString ''dup'']"
  let ?r = "\<lparr>rs_status = 400, rs_header = Map.empty, rs_body = JsonDoc '''' (VList [?v])\<rparr>"
  have "jsonErrors (rs_body ?r) = Some ((''dup'', ''DUPLICATE_VALUE'') # [])"
    by (simp add: mapIndex_def)
  moreover have "\<not> isOk (rs_status ?r)" "GrpcCodeFromHTTPStatus (rs_status ?r) = InvalidArgument"
    by (simp_all add: isOk_def GrpcCodeFromHTTPStatus_def)
  ultimately show ?thesis
    using httpRequest_error_codes [of "fixedEnv ?r \<lparr>tok_AccessToken = ''new'', tok_instance_url = None\<rparr>" "''u''" "''POST''"
        "\<lparr>tr_rateLimit = None, tr_tokenSource = True\<rparr>" 0 "\<lparr>tok_AccessToken = ''new'', tok_instance_url = None\<rparr>" 0
        NoBody ?r 1 "''dup''" "''DUPLICATE_VALUE''" "[]"]
    by (simp add: fixedEnv_def)
qed

end
