(* ===== verification/Sf_SObject.thy ===== *)
theory Sf_SObject
  imports Sf_Http
begin

text \<open>
  simpleforce's records (\<^verbatim>\<open>SObject\<close>, a map from field names to values with the client and the
  attributes under private keys) and the calls of its client that the connector makes: \<open>Query\<close>,
  \<open>ApexREST\<close>, \<open>Get\<close>, \<open>Create\<close>, \<open>Update\<close>, \<open>Delete\<close> and the password login.
\<close>

section \<open>Records\<close>

type_synonym sobject = gomap

definition sobjectClientKey :: string where "sobjectClientKey = ''__client__''"
definition sobjectAttributesKey :: string where "sobjectAttributesKey = ''attributes''"
definition sobjectIDKey :: string where "sobjectIDKey = ''Id''"
definition sobjectExternalIDFieldNameKey :: string where
  "sobjectExternalIDFieldNameKey = ''ExternalIDField''"

lemmas sobject_key_defs =
  sobjectClientKey_def sobjectAttributesKey_def sobjectIDKey_def sobjectExternalIDFieldNameKey_def

definition blacklistedUpdateFields :: "string list" where
  "blacklistedUpdateFields =
     [''LastModifiedDate'', ''LastReferencedDate'', ''IsClosed'', ''ContactPhone'', ''CreatedById'',
      ''CaseNumber'', ''ContactFax'', ''ContactMobile'', ''IsDeleted'', ''LastViewedDate'',
      ''SystemModstamp'', ''CreatedDate'', ''ContactEmail'', ''ClosedDate'', ''LastModifiedById'']"

definition StringField :: "sobject \<Rightarrow> string \<Rightarrow> string" where
  "StringField obj key = (case asString (mapIndex obj key) of Some s \<Rightarrow> s | None \<Rightarrow> '''')"

definition sobjID :: "sobject \<Rightarrow> string" where
  "sobjID obj = StringField obj sobjectIDKey"

definition ExternalIDFieldName :: "sobject \<Rightarrow> string" where
  "ExternalIDFieldName obj = StringField obj sobjectExternalIDFieldNameKey"

definition ExternalID :: "sobject \<Rightarrow> string" where
  "ExternalID obj = StringField obj (ExternalIDFieldName obj)"

text \<open>
  \<open>Type\<close> through \<open>AttributesField\<close>: the attributes are the struct that \<open>setType\<close> stores or a
  decoded JSON object. A member that is neither null nor a string makes the type assertion panic.
\<close>

fun attrMember :: "govalue \<Rightarrow> string option" where
  "attrMember VNil = Some ''''"
| "attrMember (VString s) = Some s"
| "attrMember _ = None"

definition sobjType :: "sobject \<Rightarrow> string option" where
  "sobjType obj =
     (case mapIndex obj sobjectAttributesKey of
        VAttributes t u \<Rightarrow> Some t
      | VMap m \<Rightarrow> do { t \<leftarrow> attrMember (mapIndex m ''type''); u \<leftarrow> attrMember (mapIndex m ''url''); Some t }
      | _ \<Rightarrow> Some '''')"

definition setField :: "sobject \<Rightarrow> string \<Rightarrow> govalue \<Rightarrow> sobject" where
  "setField obj key v = obj(key \<mapsto> v)"

definition setClient :: "sobject \<Rightarrow> sobject" where
  "setClient obj = obj(sobjectClientKey \<mapsto> VClient)"

definition hasClient :: "sobject \<Rightarrow> bool" where
  "hasClient obj \<longleftrightarrow> mapIndex obj sobjectClientKey = VClient"

definition setType :: "sobject \<Rightarrow> string \<Rightarrow> sobject" where
  "setType obj typeName =
     (case mapIndex obj sobjectAttributesKey of
        VAttributes t u \<Rightarrow> obj(sobjectAttributesKey \<mapsto> VAttributes typeName u)
      | _ \<Rightarrow> obj(sobjectAttributesKey \<mapsto> VAttributes typeName ''''))"

definition setID :: "sobject \<Rightarrow> string \<Rightarrow> sobject" where
  "setID obj i = obj(sobjectIDKey \<mapsto> VString i)"

text \<open>\<open>Client.SObject(typeName)\<close>.\<close>

definition newSObject :: "string \<Rightarrow> sobject" where
  "newSObject typeName = setType (setClient Map.empty) typeName"

text \<open>\<open>makeCopy\<close>: the fields sent to Salesforce, without metadata, the id and read-only fields.\<close>

definition makeCopy :: "sobject \<Rightarrow> gomap" where
  "makeCopy obj = (\<lambda>key.
     if key = sobjectClientKey \<or> key = sobjectAttributesKey \<or> key = sobjectIDKey
        \<or> key = sobjectExternalIDFieldNameKey \<or> key = ExternalIDFieldName obj
        \<or> key \<in> set blacklistedUpdateFields
     then None else obj key)"

text \<open>
  \<open>SObjectField\<close>: a related record given by its id, or a linked object expanded in place whose id
  is the last segment of its URL.
\<close>

definition SObjectField :: "sobject \<Rightarrow> string \<Rightarrow> string \<Rightarrow> sobject option" where
  "SObjectField obj typeName key =
     (let oid = StringField obj key in
      if oid \<noteq> '''' then Some (setID (setType (setClient Map.empty) typeName) oid)
      else do {
        linked \<leftarrow> asMap (mapIndex obj key);
        attrs \<leftarrow> asMap (mapIndex linked sobjectAttributesKey);
        let ty = StringField attrs ''type'';
        let u = StringField attrs ''url'';
        if ty = '''' \<or> u = '''' then None
        else (case afterLast (CHR ''/'') u of
                None \<Rightarrow> None
              | Some rid \<Rightarrow>
                  if rid = '''' then None
                  else Some (setID (newSObject ty) rid ++ linked))
      })"

section \<open>Requests on records\<close>

text \<open>
  \<open>makeURL\<close>; the assignment it makes to the client's version removes every \<open>v\<close>, which is the
  identity on the only version the connector uses, \<open>54.0\<close>.
\<close>

definition makeURL :: "sfclient \<Rightarrow> string \<Rightarrow> string" where
  "makeURL cl req =
     cl_instanceURL cl @ ''/services/data/v'' @ filter (\<lambda>c. c \<noteq> CHR ''v'') (cl_apiVersion cl) @ ''/'' @ req"

definition sobjectPath :: "string \<Rightarrow> string \<Rightarrow> string" where
  "sobjectPath ty oid = ''sobjects/'' @ ty @ ''/'' @ oid"

text \<open>
  \<open>Get\<close> with an id: the members of the answer replace the fields of the record; \<open>null\<close> leaves a
  nil map, on which every field reads as absent.
\<close>

definition sobjGet ::
  "'w env \<Rightarrow> sfclient \<Rightarrow> sobject \<Rightarrow> string \<Rightarrow> transport \<Rightarrow> 'w
    \<Rightarrow> ((goerror + sobject option) \<times> transport \<times> 'w) option" where
  "sobjGet env cl obj oid t w =
     do {
       ty \<leftarrow> sobjType obj;
       if ty = '''' \<or> \<not> hasClient obj then Some (Inl ErrNoTypeIdClientOrId, t, w)
       else if oid = '''' then Some (Inr None, t, w)
       else do {
         (r, t', w') \<leftarrow> httpRequest env cl t ''GET'' (makeURL cl (sobjectPath ty oid)) NoBody w;
         Some (case r of
                 Inl e \<Rightarrow> Inl e
               | Inr (JsonDoc _ (VMap m)) \<Rightarrow> Inr (Some (obj ++ m))
               | Inr (JsonDoc _ VNil) \<Rightarrow> Inr (Some Map.empty)
               | Inr _ \<Rightarrow> Inl (ErrNew ''json''), t', w')
       }
     }"

definition decodeCreated :: "document \<Rightarrow> goerror + string" where
  "decodeCreated doc =
     (case doc of
        JsonDoc _ (VMap m) \<Rightarrow>
          (case (jsonString (mapIndex m ''id''), jsonBool (mapIndex m ''success'')) of
             (Some i, Some ok) \<Rightarrow> if \<not> ok \<or> i = '''' then Inl (ErrNew ''request was unsuccessful'') else Inr i
           | _ \<Rightarrow> Inl (ErrNew ''json''))
      | JsonDoc _ VNil \<Rightarrow> Inl (ErrNew ''request was unsuccessful'')
      | _ \<Rightarrow> Inl (ErrNew ''json''))"

definition sobjCreate ::
  "'w env \<Rightarrow> sfclient \<Rightarrow> sobject \<Rightarrow> transport \<Rightarrow> 'w \<Rightarrow> ((goerror + sobject) \<times> transport \<times> 'w) option" where
  "sobjCreate env cl obj t w =
     do {
       ty \<leftarrow> sobjType obj;
       if ty = '''' \<or> \<not> hasClient obj then Some (Inl ErrNoTypeIdClientOrId, t, w)
       else do {
         (r, t', w') \<leftarrow> httpRequest env cl t ''POST'' (makeURL cl (sobjectPath ty '''')) (JsonBody (makeCopy obj)) w;
         Some (case r of
                 Inl e \<Rightarrow> Inl e
               | Inr doc \<Rightarrow> (case decodeCreated doc of Inl e \<Rightarrow> Inl e | Inr i \<Rightarrow> Inr (setID obj i)), t', w')
       }
     }"

definition sobjUpdate ::
  "'w env \<Rightarrow> sfclient \<Rightarrow> sobject \<Rightarrow> transport \<Rightarrow> 'w \<Rightarrow> ((goerror + sobject) \<times> transport \<times> 'w) option" where
  "sobjUpdate env cl obj t w =
     do {
       ty \<leftarrow> sobjType obj;
       if ty = '''' \<or> \<not> hasClient obj \<or> sobjID obj = '''' then Some (Inl ErrNoTypeIdClientOrId, t, w)
       else do {
         (r, t', w') \<leftarrow> httpRequest env cl t ''PATCH'' (makeURL cl (sobjectPath ty (sobjID obj)))
           (JsonBody (makeCopy obj)) w;
         Some (case r of Inl e \<Rightarrow> Inl e | Inr _ \<Rightarrow> Inr obj, t', w')
       }
     }"

definition sobjDelete ::
  "'w env \<Rightarrow> sfclient \<Rightarrow> sobject \<Rightarrow> transport \<Rightarrow> 'w \<Rightarrow> (goerror option \<times> transport \<times> 'w) option" where
  "sobjDelete env cl obj t w =
     do {
       ty \<leftarrow> sobjType obj;
       if ty = '''' \<or> \<not> hasClient obj \<or> sobjID obj = '''' then Some (Some ErrFailure, t, w)
       else do {
         (r, t', w') \<leftarrow> httpRequest env cl t ''DELETE'' (makeURL cl (sobjectPath ty (sobjID obj))) NoBody w;
         Some (case r of Inl e \<Rightarrow> Some e | Inr _ \<Rightarrow> None, t', w')
       }
     }"

section \<open>Queries\<close>

text \<open>\<^verbatim>\<open>url.QueryEscape\<close>.\<close>

definition unreserved :: "char \<Rightarrow> bool" where
  "unreserved c \<longleftrightarrow> (let n = (of_char c :: nat) in
     (97 \<le> n \<and> n \<le> 122) \<or> (65 \<le> n \<and> n \<le> 90) \<or> (48 \<le> n \<and> n \<le> 57)
     \<or> c = CHR ''-'' \<or> c = CHR ''_'' \<or> c = CHR ''.'' \<or> c = CHR ''~'')"

definition escapeByte :: "char \<Rightarrow> string" where
  "escapeByte c =
     (if c = CHR '' '' then ''+''
      else if unreserved c then [c]
      else (let n = (of_char c :: nat) in [CHR ''%'', hexDigit (n div 16), hexDigit (n mod 16)]))"

definition QueryEscape :: "string \<Rightarrow> string" where
  "QueryEscape s = concat (map escapeByte s)"

record QueryResult =
  qr_Done :: bool
  qr_NextRecordsURL :: string
  qr_Records :: "sobject list"

text \<open>
  Decoding a query answer. The outer option is the panic of storing the client in a record that
  was \<open>null\<close>; the sum is a decoding error.
\<close>

fun recordEntry :: "govalue \<Rightarrow> sobject option option" where
  "recordEntry VNil = Some None"
| "recordEntry (VMap m) = Some (Some m)"
| "recordEntry _ = None"

definition jsonRecords :: "govalue \<Rightarrow> sobject option list option" where
  "jsonRecords v = (case v of VNil \<Rightarrow> Some [] | VList vs \<Rightarrow> collect recordEntry vs | _ \<Rightarrow> None)"

definition decodeQueryResult :: "document \<Rightarrow> (goerror + QueryResult) option" where
  "decodeQueryResult doc =
     (case doc of
        JsonDoc _ VNil \<Rightarrow> Some (Inr \<lparr>qr_Done = False, qr_NextRecordsURL = '''', qr_Records = []\<rparr>)
      | JsonDoc _ (VMap m) \<Rightarrow>
          (case (jsonInt (mapIndex m ''totalSize''), jsonBool (mapIndex m ''done''),
                 jsonString (mapIndex m ''nextRecordsUrl''), jsonRecords (mapIndex m ''records'')) of
             (Some _, Some dn, Some next, Some rs) \<Rightarrow>
               do { rs' \<leftarrow> collect id rs;
                    Some (Inr \<lparr>qr_Done = dn, qr_NextRecordsURL = next, qr_Records = map setClient rs'\<rparr>) }
           | _ \<Rightarrow> Some (Inl (ErrNew ''json'')))
      | _ \<Rightarrow> Some (Inl (ErrNew ''json'')))"

definition queryURL :: "sfclient \<Rightarrow> string \<Rightarrow> string" where
  "queryURL cl q =
     (if hasPrefix q ''/services/data'' then cl_instanceURL cl @ q
      else cl_instanceURL cl @ ''/services/data/v'' @ cl_apiVersion cl @ ''/query?q='' @ QueryEscape q)"

definition clientQuery ::
  "'w env \<Rightarrow> string \<Rightarrow> sfclient \<Rightarrow> transport \<Rightarrow> 'w \<Rightarrow> ((goerror + QueryResult) \<times> transport \<times> 'w) option" where
  "clientQuery env q cl t w =
     (if \<not> isLoggedIn cl then Some (Inl ErrAuthentication, t, w)
      else do {
        (r, t', w') \<leftarrow> httpRequest env cl t ''GET'' (queryURL cl q) NoBody w;
        case r of
          Inl e \<Rightarrow> Some (Inl e, t', w')
        | Inr doc \<Rightarrow> do { res \<leftarrow> decodeQueryResult doc; Some (res, t', w') }
      })"

definition ApexREST ::
  "'w env \<Rightarrow> string \<Rightarrow> string \<Rightarrow> sfclient \<Rightarrow> transport \<Rightarrow> 'w \<Rightarrow> ((goerror + document) \<times> transport \<times> 'w) option" where
  "ApexREST env method path cl t w =
     (if \<not> isLoggedIn cl then Some (Inl ErrAuthentication, t, w)
      else httpRequest env cl t method (cl_instanceURL cl @ ''/'' @ path) NoBody w)"

section \<open>Login\<close>

definition htmlEscapeByte :: "char \<Rightarrow> string" where
  "htmlEscapeByte c =
     (if c = CHR ''&'' then ''&amp;''
      else if c = CHR 0x27 then ''&#39;''
      else if c = CHR ''<'' then ''&lt;''
      else if c = CHR ''>'' then ''&gt;''
      else if c = CHR 0x22 then ''&#34;''
      else [c])"

definition EscapeString :: "string \<Rightarrow> string" where
  "EscapeString s = concat (map htmlEscapeByte s)"

text \<open>The SOAP login envelope, line by line with the indentation of the source.\<close>

definition soapLine :: "nat \<Rightarrow> string \<Rightarrow> string" where
  "soapLine n s = CHR 0x0A # replicate n (CHR '' '') @ s"

definition xmlAttr :: "string \<Rightarrow> string \<Rightarrow> string" where
  "xmlAttr k v = k @ ''='' @ [CHR 0x22] @ v @ [CHR 0x22]"

definition soapBody :: "string \<Rightarrow> string \<Rightarrow> string \<Rightarrow> string \<Rightarrow> string" where
  "soapBody clientID username password token =
     ''<?xml '' @ xmlAttr ''version'' ''1.0'' @ '' '' @ xmlAttr ''encoding'' ''utf-8'' @ '' ?>'' @
     soapLine 8 ''<env:Envelope'' @
     soapLine 16 (xmlAttr ''xmlns:xsd'' ''http://www.w3.org/2001/XMLSchema'') @
     soapLine 16 (xmlAttr ''xmlns:xsi'' ''http://www.w3.org/2001/XMLSchema-instance'') @
     soapLine 16 (xmlAttr ''xmlns:env'' ''http://schemas.xmlsoap.org/soap/envelope/'') @
     soapLine 16 (xmlAttr ''xmlns:urn'' ''urn:partner.soap.sforce.com'' @ ''>'') @
     soapLine 12 ''<env:Header>'' @
     soapLine 16 ''<urn:CallOptions>'' @
     soapLine 20 (''<urn:client>'' @ clientID @ ''</urn:client>'') @
     soapLine 20 ''<urn:defaultNamespace>sf</urn:defaultNamespace>'' @
     soapLine 16 ''</urn:CallOptions>'' @
     soapLine 12 ''</env:Header>'' @
     soapLine 12 ''<env:Body>'' @
     soapLine 16 (''<n1:login '' @ xmlAttr ''xmlns:n1'' ''urn:partner.soap.sforce.com'' @ ''>'') @
     soapLine 20 (''<n1:username>'' @ username @ ''</n1:username>'') @
     soapLine 20 (''<n1:password>'' @ EscapeString password @ token @ ''</n1:password>'') @
     soapLine 16 ''</n1:login>'' @
     soapLine 12 ''</env:Body>'' @
     soapLine 8 ''</env:Envelope>''"

definition parseHost :: "'w env \<Rightarrow> string \<Rightarrow> string" where
  "parseHost env input =
     (case urlParse (e_ipLiteral env) input of
        Inr u \<Rightarrow> u_Scheme u @ ''://'' @ u_Host u
      | Inl _ \<Rightarrow> ''Failed to parse URL input'')"

definition loginRequest :: "sfclient \<Rightarrow> string \<Rightarrow> string \<Rightarrow> string \<Rightarrow> request" where
  "loginRequest cl username password token =
     \<lparr>rq_method = ''POST'', rq_url = cl_baseURL cl @ ''/services/Soap/u/'' @ cl_apiVersion cl,
      rq_header = [''Content-Type'' \<mapsto> [''text/xml''], ''Charset'' \<mapsto> [''UTF-8''], ''Soapaction'' \<mapsto> [''login'']],
      rq_body = RawBody (soapBody (cl_clientID cl) username password token)\<rparr>"

definition LoginPassword ::
  "'w env \<Rightarrow> string \<Rightarrow> string \<Rightarrow> string \<Rightarrow> sfclient \<Rightarrow> transport \<Rightarrow> 'w
    \<Rightarrow> ((goerror + sfclient) \<times> transport \<times> 'w) option" where
  "LoginPassword env username password token cl t w =
     (let rq = loginRequest cl username password token in
      case newRequestErr env (rq_url rq) of
        Some e \<Rightarrow> Some (Inl e, t, w)
      | None \<Rightarrow>
          (case uhttpDo env t rq w of
             ((None, Some e), t', w') \<Rightarrow> Some (Inl e, t', w')
           | ((None, None), t', w') \<Rightarrow> None
           | ((Some resp, _), t', w') \<Rightarrow>
               if rs_status resp \<noteq> 200
               then do { e \<leftarrow> ParseSalesforceError (rs_status resp) (rs_body resp); Some (Inl e, t', w') }
               else (case rs_body resp of
                 XmlDoc _ es \<Rightarrow>
                   Some (Inr (cl\<lparr>cl_sessionID := elementText es ''Body>loginResponse>result>sessionId'',
                     cl_instanceURL := parseHost env (elementText es ''Body>loginResponse>result>serverUrl'')\<rparr>), t', w')
               | _ \<Rightarrow> Some (Inl (ErrNew ''xml''), t', w'))))"

text \<open>\<open>simpleforce.NewClient\<close>: the trailing slash of the base URL is dropped.\<close>

definition newSfClient :: "string \<Rightarrow> string \<Rightarrow> string \<Rightarrow> sfclient" where
  "newSfClient url clientID apiVersion =
     \<lparr>cl_sessionID = '''', cl_clientID = clientID, cl_apiVersion = apiVersion,
      cl_baseURL = (if hasSuffix url ''/'' then butlast url else url), cl_instanceURL = ''''\<rparr>"

section \<open>Query text survives escaping\<close>

text \<open>\<^verbatim>\<open>url.QueryUnescape\<close>, the reading of a query parameter on the receiving side.\<close>

fun QueryUnescape :: "string \<Rightarrow> string option" where
  "QueryUnescape [] = Some []"
| "QueryUnescape (c # cs) =
     (if c = CHR ''+'' then map_option ((#) (CHR '' '')) (QueryUnescape cs)
      else if c = CHR ''%'' then
        (case cs of
           a # b # rest \<Rightarrow>
             (case (hexVal a, hexVal b) of
                (Some x, Some y) \<Rightarrow> map_option ((#) (char_of (16 * x + y))) (QueryUnescape rest)
              | _ \<Rightarrow> None)
         | _ \<Rightarrow> None)
      else map_option ((#) c) (QueryUnescape cs))"

lemma hexVal_hexDigit: "d < 16 \<Longrightarrow> hexVal (hexDigit d) = Some d"
  by (auto simp: hexVal_def hexDigit_def Let_def)

lemma unreserved_plain: "unreserved c \<Longrightarrow> c \<noteq> CHR ''+'' \<and> c \<noteq> CHR ''%''"
  by (auto simp: unreserved_def Let_def)

lemma byte_div_16: "(of_char c :: nat) div 16 < 16"
  using nat_of_char_less_256 [of c] by (simp add: less_mult_imp_div_less)

lemma QueryUnescape_byte: "QueryUnescape (escapeByte c @ rest) = map_option ((#) c) (QueryUnescape rest)"
proof -
  have "char_of (16 * ((of_char c :: nat) div 16) + (of_char c :: nat) mod 16) = c"
    by (simp add: mult_div_mod_eq del: of_char_mod_256)
  then show ?thesis
    using unreserved_plain [of c] byte_div_16 [of c]
    by (auto simp: escapeByte_def Let_def hexVal_hexDigit)
qed

lemma QueryUnescape_QueryEscape: "QueryUnescape (QueryEscape s @ rest) = map_option ((@) s) (QueryUnescape rest)"
proof (induction s)
  case Nil
  then show ?case by (cases "QueryUnescape rest") (simp_all add: QueryEscape_def)
next
  case (Cons c s)
  then show ?case
    by (cases "QueryUnescape rest") (simp_all add: QueryEscape_def QueryUnescape_byte)
qed

text \<open>
  A query that is not a pagination path is sent to the query endpoint of the client's API version
  with a parameter from which the server reads back exactly the query text, byte for byte, so two
  different queries never share a URL.
\<close>

theorem queryURL_carries_query:
  "\<not> hasPrefix q ''/services/data'' \<Longrightarrow>
     \<exists>param. queryURL cl q = cl_instanceURL cl @ ''/services/data/v'' @ cl_apiVersion cl @ ''/query?q='' @ param
       \<and> QueryUnescape param = Some q"
  using QueryUnescape_QueryEscape [of q "[]"] by (simp add: queryURL_def)

theorem queryURL_carries_query_witness:
  "\<exists>param. queryURL \<lparr>cl_sessionID = ''s'', cl_clientID = '''', cl_apiVersion = ''54.0'', cl_baseURL = '''',
        cl_instanceURL = ''https://i''\<rparr> ''SELECT Id FROM User WHERE Name = 0x25+1''
      = ''https://i'' @ ''/services/data/v'' @ ''54.0'' @ ''/query?q='' @ param
    \<and> QueryUnescape param = Some ''SELECT Id FROM User WHERE Name = 0x25+1''"
  using queryURL_carries_query [of "''SELECT Id FROM User WHERE Name = 0x25+1''"
      "\<lparr>cl_sessionID = ''s'', cl_clientID = '''', cl_apiVersion = ''54.0'', cl_baseURL = '''', cl_instanceURL = ''https://i''\<rparr>"]
  by (simp add: hasPrefix_def)

section \<open>Request URLs of a client\<close>

text \<open>
  A client with a plain instance: its instance URL is a scheme and the host name \<open>h\<close>, its API version needs no
  escapes. Every query text then makes a URL that \<^verbatim>\<open>http.NewRequest\<close> accepts, and so does every record path
  with well-formed escapes.
\<close>

definition isPlain :: "string \<Rightarrow> bool" where
  "isPlain s \<longleftrightarrow> list_all (\<lambda>c. \<not> shouldEscape c encodePath) s"

definition plainInstance :: "sfclient \<Rightarrow> string \<Rightarrow> bool" where
  "plainInstance cl h \<longleftrightarrow> isHostName h \<and> isPlain (cl_apiVersion cl)
     \<and> (\<exists>sch. isScheme sch \<and> cl_instanceURL cl = sch @ ''://'' @ h)"

lemma isPlain_Nil [simp]: "isPlain []"
  by (simp add: isPlain_def)

lemma isPlain_append [simp]: "isPlain (s @ t) \<longleftrightarrow> isPlain s \<and> isPlain t"
  by (simp add: isPlain_def)

lemma isPlain_filter: "isPlain s \<Longrightarrow> isPlain (filter P s)"
  by (auto simp: isPlain_def list_all_iff)

lemma urlUnescape_append: "isPlain s \<Longrightarrow> urlUnescape encodePath (s @ t) = map_sum id ((@) s) (urlUnescape encodePath t)"
proof (induction s)
  case Nil
  then show ?case by (cases "urlUnescape encodePath t") simp_all
next
  case (Cons c s)
  then have "c \<noteq> CHR ''%''" using path_byte(2) by (auto simp: isPlain_def)
  with Cons show ?case by (cases "urlUnescape encodePath t") (auto simp: isPlain_def)
qed

lemma hexDigit_unreserved: "d < 16 \<Longrightarrow> unreserved (hexDigit d)"
  by (auto simp: unreserved_def hexDigit_def Let_def)

lemma escapeByte_bytes: "c \<in> set (escapeByte d) \<Longrightarrow> unreserved c \<or> c = CHR ''+'' \<or> c = CHR ''%''"
  using hexDigit_unreserved [OF byte_div_16 [of d]] hexDigit_unreserved [of "of_char d mod 16"]
  by (auto simp: escapeByte_def Let_def split: if_splits)

lemma unreserved_text: "unreserved c \<Longrightarrow> \<not> isControl c \<and> c \<noteq> CHR ''#'' \<and> c \<noteq> CHR ''?'' \<and> c \<noteq> CHR ''&''"
  by (auto simp: unreserved_def isControl_def Let_def)

lemma escape_bytes:
  assumes "c \<in> set (QueryEscape q)"
  shows "\<not> isControl c" "c \<noteq> CHR ''#''" "c \<noteq> CHR ''?''" "c \<noteq> CHR ''&''"
proof -
  have "unreserved c \<or> c = CHR ''+'' \<or> c = CHR ''%''" using assms escapeByte_bytes by (auto simp: QueryEscape_def)
  then have "\<not> isControl c \<and> c \<noteq> CHR ''#'' \<and> c \<noteq> CHR ''?'' \<and> c \<noteq> CHR ''&''"
    using unreserved_text by (elim disjE) (simp_all add: isControl_def)
  then show "\<not> isControl c" "c \<noteq> CHR ''#''" "c \<noteq> CHR ''?''" "c \<noteq> CHR ''&''" by simp_all
qed

lemma urlUnescape_QueryEscape: "\<exists>r. urlUnescape encodePath (QueryEscape q) = Inr r"
proof (induction q)
  case (Cons c q)
  then obtain r where r: "urlUnescape encodePath (QueryEscape q) = Inr r" by blast
  have "QueryEscape (c # q) = escapeByte c @ QueryEscape q" by (simp add: QueryEscape_def)
  moreover have "c \<noteq> CHR ''%''" if "unreserved c" using that unreserved_plain by simp
  ultimately show ?case using r byte_div_16 [of c] by (auto simp: escapeByte_def Let_def hexVal_hexDigit)
qed (simp add: QueryEscape_def)

lemma isRequestPath_plain:
  assumes "isPlain p" and "p \<noteq> []" and "hd p = CHR ''/''"
  shows "isRequestPath (p @ QueryEscape q)"
proof -
  obtain r where "urlUnescape encodePath (QueryEscape q) = Inr r" using urlUnescape_QueryEscape by blast
  then have "\<exists>path. urlUnescape encodePath (p @ QueryEscape q) = Inr path" by (simp add: urlUnescape_append [OF assms(1)])
  moreover have "\<forall>c \<in> set p. \<not> isControl c \<and> c \<noteq> CHR ''#'' \<and> c \<noteq> CHR ''?''"
    using assms(1) path_byte by (metis isPlain_def list_all_iff)
  moreover have "\<forall>c \<in> set (QueryEscape q). \<not> isControl c \<and> c \<noteq> CHR ''#'' \<and> c \<noteq> CHR ''?''"
    using escape_bytes(1-3) by metis
  ultimately show ?thesis using assms(2,3) unfolding isRequestPath_def list_all_iff set_append ball_Un by simp
qed

lemma requestable_query:
  assumes "plainInstance cl h" and "\<not> hasPrefix q ''/services/data''"
  shows "\<exists>u. urlParse ip (queryURL cl q) = Inr u \<and> u_Host u = h
    \<and> u_Path u = ''/services/data/v'' @ cl_apiVersion cl @ ''/query'' \<and> u_RawQuery u = ''q='' @ QueryEscape q"
proof -
  let ?p = "''/services/data/v'' @ cl_apiVersion cl @ ''/query''"
  from assms(1) obtain sch where sch: "isScheme sch" "cl_instanceURL cl = sch @ ''://'' @ h" and h: "isHostName h"
    by (auto simp: plainInstance_def)
  have plain: "isPlain ?p" using assms(1) by (simp add: plainInstance_def isPlain_def shouldEscape_def isLetter_def)
  from isRequestPath_plain [OF this, of "[]"] have path: "isRequestPath ?p" by (simp add: QueryEscape_def)
  have "isQueryText (''q='' @ QueryEscape q)"
    using escape_bytes(1,2) by (auto simp: isQueryText_def list_all_iff isControl_def)
  from urlParse_request [OF sch(1) h path this, of "CHR ''?'' # ''q='' @ QueryEscape q" ip] obtain u where
    u: "urlParse ip (sch @ ''://'' @ h @ ?p @ CHR ''?'' # ''q='' @ QueryEscape q) = Inr u" "u_Host u = h"
      "u_RawQuery u = ''q='' @ QueryEscape q" "urlUnescape encodePath ?p = Inr (u_Path u)" by fastforce
  have "urlUnescape encodePath ?p = Inr ?p" using urlUnescape_append [OF plain, of "[]"] unfolding append_Nil2 by simp
  with u(4) have "u_Path u = ?p" by (simp only: sum.inject)
  moreover have "queryURL cl q = sch @ ''://'' @ h @ ?p @ CHR ''?'' # ''q='' @ QueryEscape q"
    using sch(2) assms(2) by (simp add: queryURL_def)
  ultimately show ?thesis using u(1-3) by metis
qed

lemma requestable_queryURL [simp]:
  "plainInstance cl h \<Longrightarrow> \<not> hasPrefix q ''/services/data'' \<Longrightarrow> requestable (queryURL cl q)"
  using requestable_query unfolding requestable_def by blast

lemma requestable_pageURL:
  assumes "plainInstance cl h" and "isPlain p" and "hasPrefix p ''/services/data''"
  shows "requestable (queryURL cl p)"
proof -
  from assms(1) obtain sch where sch: "isScheme sch" "cl_instanceURL cl = sch @ ''://'' @ h" "isHostName h"
    by (auto simp: plainInstance_def)
  have "isRequestPath p" using isRequestPath_plain [of p "[]"] assms(2,3) by (auto simp: QueryEscape_def hasPrefix_conv)
  from requestable_path [OF sch(1,3) this] sch(2) assms(3) show ?thesis by (simp add: queryURL_def)
qed

lemma requestable_makeURL:
  assumes "plainInstance cl h" and "isPlain req"
  shows "requestable (makeURL cl (req @ QueryEscape q))"
proof -
  let ?p = "''/services/data/v'' @ filter (\<lambda>c. c \<noteq> CHR ''v'') (cl_apiVersion cl) @ ''/'' @ req"
  from assms(1) obtain sch where sch: "isScheme sch" "cl_instanceURL cl = sch @ ''://'' @ h" "isHostName h"
    by (auto simp: plainInstance_def)
  have "isPlain ?p"
    using assms isPlain_filter by (auto simp: plainInstance_def isPlain_def shouldEscape_def isLetter_def)
  from isRequestPath_plain [OF this] have "isRequestPath (?p @ QueryEscape q)" by simp
  from requestable_path [OF sch(1,3) this] sch(2) show ?thesis by (simp add: makeURL_def)
qed

text \<open>A query endpoint given as a path, as for a query with an API version of its own.\<close>

lemma requestable_endpoint:
  assumes "plainInstance cl h" and "isPlain p" and "hasPrefix p ''/services/data''"
  shows "requestable (queryURL cl (p @ ''?q='' @ QueryEscape q))"
proof -
  from assms(1) obtain sch where sch: "isScheme sch" "cl_instanceURL cl = sch @ ''://'' @ h" "isHostName h"
    by (auto simp: plainInstance_def)
  have path: "isRequestPath p" using isRequestPath_plain [of p "[]"] assms(2,3) by (auto simp: QueryEscape_def hasPrefix_conv)
  have "isQueryText (''q='' @ QueryEscape q)"
    using escape_bytes(1,2) by (auto simp: isQueryText_def list_all_iff isControl_def)
  from urlParse_request [OF sch(1,3) path this, of "CHR ''?'' # ''q='' @ QueryEscape q"]
  have "requestable (sch @ ''://'' @ h @ p @ CHR ''?'' # ''q='' @ QueryEscape q)" by (fastforce simp: requestable_def)
  moreover have "hasPrefix (p @ x) ''/services/data''" for x using assms(3) by (auto simp: hasPrefix_conv)
  ultimately show ?thesis using sch(2) by (simp add: queryURL_def)
qed

lemma isPlain_Cons: "isPlain (c # s) \<longleftrightarrow> \<not> shouldEscape c encodePath \<and> isPlain s"
  by (simp add: isPlain_def)

lemmas plain_simps = isPlain_Cons shouldEscape_def isLetter_def is_digit_def

lemma isPlain_sobjectPath [simp]: "isPlain (sobjectPath ty oid) \<longleftrightarrow> isPlain ty \<and> isPlain oid"
  by (simp add: sobjectPath_def plain_simps)

lemma requestable_record [simp]:
  "plainInstance cl h \<Longrightarrow> isPlain ty \<Longrightarrow> isPlain oid \<Longrightarrow> requestable (makeURL cl (sobjectPath ty oid))"
  using requestable_makeURL [of cl h "sobjectPath ty oid" "[]"] by (simp add: QueryEscape_def)

lemma requestable_rest:
  assumes "plainInstance cl h" and "isPlain path"
  shows "requestable (cl_instanceURL cl @ ''/'' @ path)"
proof -
  from assms(1) obtain sch where sch: "isScheme sch" "cl_instanceURL cl = sch @ ''://'' @ h" "isHostName h"
    by (auto simp: plainInstance_def)
  have "isPlain (''/'' @ path)" using assms(2) by (simp add: isPlain_def shouldEscape_def)
  from isRequestPath_plain [OF this, of "[]"] have "isRequestPath (''/'' @ path)" by (simp add: QueryEscape_def)
  from requestable_path [OF sch(1,3) this] sch(2) show ?thesis by simp
qed

text \<open>
  C35. Whatever the bytes of a query are, it reaches the query endpoint unchanged: for a client whose instance is a
  host name, the URL is one that \<^verbatim>\<open>http.NewRequest\<close> accepts, it names that host and the query endpoint of the
  client's API version, and its only parameter \<open>q\<close> is read back as exactly the query text.
\<close>

theorem query_reaches_endpoint:
  assumes "plainInstance cl h" and "\<not> hasPrefix q ''/services/data''"
  shows "newRequestErr env (queryURL cl q) = None
    \<and> (\<exists>u param. urlParse (e_ipLiteral env) (queryURL cl q) = Inr u \<and> u_Host u = h
       \<and> u_Path u = ''/services/data/v'' @ cl_apiVersion cl @ ''/query'' \<and> u_RawQuery u = ''q='' @ param
       \<and> CHR ''&'' \<notin> set param \<and> QueryUnescape param = Some q)"
proof -
  have "CHR ''&'' \<notin> set (QueryEscape q)" using escape_bytes(4) by blast
  moreover have "QueryUnescape (QueryEscape q) = Some q" using QueryUnescape_QueryEscape [of q "[]"] by simp
  ultimately show ?thesis
    using requestable_query [OF assms, of "e_ipLiteral env"] requestable_queryURL [OF assms] by auto
qed

theorem query_reaches_endpoint_witness:
  "\<exists>u param. urlParse (e_ipLiteral (logEnv (\<lambda>_. okResponse (RawDoc [])))) (queryURL \<lparr>cl_sessionID = ''s'', cl_clientID = '''', cl_apiVersion = ''54.0'', cl_baseURL = '''',
        cl_instanceURL = ''https://i.my.salesforce.com''\<rparr> ''SELECT Id FROM User WHERE Name = 0x25+1&2#3'') = Inr u
    \<and> u_Host u = ''i.my.salesforce.com'' \<and> u_Path u = ''/services/data/v54.0/query'' \<and> u_RawQuery u = ''q='' @ param
    \<and> QueryUnescape param = Some ''SELECT Id FROM User WHERE Name = 0x25+1&2#3''"
proof -
  let ?cl = "\<lparr>cl_sessionID = ''s'', cl_clientID = '''', cl_apiVersion = ''54.0'', cl_baseURL = '''', cl_instanceURL = ''https://i.my.salesforce.com''\<rparr>"
  have "isScheme ''https''" "isHostName ''i.my.salesforce.com''" "isPlain ''54.0''"
    by (simp_all add: isScheme_def isHostName_def isHostByte_def isLetter_def isPlain_def shouldEscape_def is_digit_def)
  then have "plainInstance ?cl ''i.my.salesforce.com''" by (auto simp: plainInstance_def intro: exI [of _ "''https''"])
  from query_reaches_endpoint [OF this, of "''SELECT Id FROM User WHERE Name = 0x25+1&2#3''" "logEnv (\<lambda>_. okResponse (RawDoc []))"] show ?thesis
    by (auto simp: hasPrefix_def)
qed

section \<open>Facts about records\<close>

lemma StringField_set [simp]: "StringField (obj(k \<mapsto> VString v)) k = v"
  by (simp add: StringField_def mapIndex_def)

lemma StringField_other [simp]: "k \<noteq> k' \<Longrightarrow> StringField (obj(k' \<mapsto> v)) k = StringField obj k"
  by (simp add: StringField_def mapIndex_def)

lemma StringField_empty [simp]: "StringField Map.empty k = ''''"
  by (simp add: StringField_def mapIndex_def)

lemma newSObject_eq:
  "newSObject ty = [sobjectClientKey \<mapsto> VClient, sobjectAttributesKey \<mapsto> VAttributes ty '''']"
  by (auto simp: newSObject_def setType_def setClient_def mapIndex_def sobject_key_defs)

end
