(* ===== verification/Sql_Builder.thy ===== *)
theory Sql_Builder
  imports Go_Base
begin

text \<open>
  The part of the query builder \<^verbatim>\<open>go-sqlbuilder\<close> that \<^verbatim>\<open>client/query.go\<close> drives: the arguments
  with their \<open>$n\<close> placeholders, the compilation of a format with placeholders to MySQL text, and
  the interpolation of the arguments into that text as quoted string literals. Every argument the
  connector passes is a string, so an argument is a string or the proxy of the WHERE clause that
  every SELECT builder registers as its argument 0.
\<close>

section \<open>Arguments and compilation\<close>

datatype sqlarg = WhereProxy | StrArg string

text \<open>\<open>Args.Add\<close>: register an argument and return its placeholder.\<close>

definition argsAdd :: "sqlarg list \<Rightarrow> sqlarg \<Rightarrow> string \<times> sqlarg list" where
  "argsAdd args arg = (CHR ''$'' # itoa (length args), args @ [arg])"

text \<open>\<open>Escape\<close> doubles every dollar sign of an identifier.\<close>

fun sqlEscape :: "string \<Rightarrow> string" where
  "sqlEscape [] = []"
| "sqlEscape (c # cs) = (if c = CHR ''$'' then ''$$'' @ sqlEscape cs else c # sqlEscape cs)"

definition prependOut :: "string \<Rightarrow> (string \<times> string list) option \<Rightarrow> (string \<times> string list) option" where
  "prependOut t r = map_option (\<lambda>(q, vs). (t @ q, vs)) r"

text \<open>
  \<open>Args.CompileWithFlavor\<close> for MySQL, byte by byte: \<open>$$\<close> is a dollar sign, \<open>$n\<close> the n-th
  argument, \<open>$?\<close> the next one, \<open>${name}\<close> a named argument (the builder of this program has none),
  and any other dollar sign stands for itself. The parameter \<open>proxy\<close> builds the WHERE clause when
  the proxy argument is reached; \<open>None\<close> means that the builder does not return (a nil clause, or
  a clause that contains itself).
\<close>

function (sequential) compileArgs ::
  "(string list \<Rightarrow> (string \<times> string list) option) \<Rightarrow> sqlarg list \<Rightarrow> string \<Rightarrow> string list \<Rightarrow> nat
    \<Rightarrow> (string \<times> string list) option" where
  "compileArgs proxy args [] vals off = Some ([], vals)"
| "compileArgs proxy args (c # cs) vals off =
     (if c \<noteq> CHR ''$'' then prependOut [c] (compileArgs proxy args cs vals off)
      else (case cs of
        [] \<Rightarrow> Some (''$'', vals)
      | r # rs \<Rightarrow>
          if r = CHR ''$'' then prependOut ''$'' (compileArgs proxy args rs vals off)
          else if r = CHR ''{'' then
            (if CHR ''}'' \<in> set rs
             then compileArgs proxy args (tl (dropWhile (\<lambda>x. x \<noteq> CHR ''}'') rs)) vals off
             else compileArgs proxy args cs vals off)
          else if is_digit r then
            (let rest = dropWhile is_digit rs in
             case atoi_digits (takeWhile is_digit cs) of
               None \<Rightarrow> compileArgs proxy args rest vals off
             | Some p \<Rightarrow>
                 if length args \<le> p then compileArgs proxy args rest vals p
                 else (case args ! p of
                   StrArg s \<Rightarrow> prependOut ''?'' (compileArgs proxy args rest (vals @ [s]) (Suc p))
                 | WhereProxy \<Rightarrow> (case proxy vals of
                     None \<Rightarrow> None
                   | Some (t, vals') \<Rightarrow> prependOut t (compileArgs proxy args rest vals' (Suc p)))))
          else if r = CHR ''?'' then
            (if length args \<le> off then compileArgs proxy args rs vals off
             else (case args ! off of
               StrArg s \<Rightarrow> prependOut ''?'' (compileArgs proxy args rs (vals @ [s]) (Suc off))
             | WhereProxy \<Rightarrow> (case proxy vals of
                 None \<Rightarrow> None
               | Some (t, vals') \<Rightarrow> prependOut t (compileArgs proxy args rs vals' (Suc off)))))
          else prependOut ''$'' (compileArgs proxy args cs vals off)))"
  by pat_completeness auto
termination
proof (relation "measure (\<lambda>(proxy, args, fmt, vals, off). length fmt)", goal_cases)
  case (4 proxy args c cs vals off r rs)
  have "length (tl (dropWhile (\<lambda>x. x \<noteq> CHR ''}'') rs)) \<le> length rs"
    by (simp add: length_dropWhile_le le_diff_conv le_SucI)
  with 4 show ?case by simp
qed (auto simp: le_imp_less_Suc length_dropWhile_le less_SucI)

declare compileArgs.simps(2) [simp del]

section \<open>The SELECT builder\<close>

text \<open>
  The fields of \<open>SelectBuilder\<close> that the connector can set. The WHERE clause is one list of
  conjuncts, because every conjunct is added with the builder's own arguments and is merged with
  the last clause; \<open>None\<close> is the nil clause. A negative limit means no limit.
\<close>

record SelectBuilder =
  sb_selectCols :: "string list"
  sb_tables :: "string list"
  sb_where :: "string list option"
  sb_orderByCols :: "string list"
  sb_limit :: int
  sb_args :: "sqlarg list"

definition newSelectBuilder :: SelectBuilder where
  "newSelectBuilder = \<lparr>sb_selectCols = [], sb_tables = [], sb_where = None, sb_orderByCols = [],
     sb_limit = - 1, sb_args = [WhereProxy]\<rparr>"

definition sbSelect :: "string list \<Rightarrow> SelectBuilder" where
  "sbSelect cols = newSelectBuilder\<lparr>sb_selectCols := cols\<rparr>"

definition sbFrom :: "SelectBuilder \<Rightarrow> string list \<Rightarrow> SelectBuilder" where
  "sbFrom sb tables = sb\<lparr>sb_tables := tables\<rparr>"

definition sbWhere :: "SelectBuilder \<Rightarrow> string \<Rightarrow> SelectBuilder" where
  "sbWhere sb e = sb\<lparr>sb_where := Some ((case sb_where sb of None \<Rightarrow> [] | Some es \<Rightarrow> es) @ [e])\<rparr>"

definition sbOrderBy :: "SelectBuilder \<Rightarrow> string \<Rightarrow> SelectBuilder" where
  "sbOrderBy sb col = sb\<lparr>sb_orderByCols := sb_orderByCols sb @ [col]\<rparr>"

definition sbLimit :: "SelectBuilder \<Rightarrow> int \<Rightarrow> SelectBuilder" where
  "sbLimit sb n = sb\<lparr>sb_limit := n\<rparr>"

text \<open>
  The conditions of \<open>Cond\<close>: \<open>Equal\<close>, \<open>NotEqual\<close> and \<open>GreaterThan\<close> differ in the operator only;
  \<open>In\<close> adds one argument per value. Each returns the expression and the builder with its new
  arguments.
\<close>

definition condOp :: "string \<Rightarrow> SelectBuilder \<Rightarrow> string \<Rightarrow> string \<Rightarrow> string \<times> SelectBuilder" where
  "condOp op sb field value =
     (let (ph, args) = argsAdd (sb_args sb) (StrArg value)
      in (sqlEscape field @ op @ ph, sb\<lparr>sb_args := args\<rparr>))"

definition condEqual :: "SelectBuilder \<Rightarrow> string \<Rightarrow> string \<Rightarrow> string \<times> SelectBuilder" where
  "condEqual = condOp '' = ''"

definition condNotEqual :: "SelectBuilder \<Rightarrow> string \<Rightarrow> string \<Rightarrow> string \<times> SelectBuilder" where
  "condNotEqual = condOp '' <> ''"

definition condGreaterThan :: "SelectBuilder \<Rightarrow> string \<Rightarrow> string \<Rightarrow> string \<times> SelectBuilder" where
  "condGreaterThan = condOp '' > ''"

fun addAll :: "sqlarg list \<Rightarrow> string list \<Rightarrow> string list \<times> sqlarg list" where
  "addAll args [] = ([], args)"
| "addAll args (v # vs) =
     (let (ph, args1) = argsAdd args (StrArg v); (phs, args2) = addAll args1 vs in (ph # phs, args2))"

definition condIn :: "SelectBuilder \<Rightarrow> string \<Rightarrow> string list \<Rightarrow> string \<times> SelectBuilder" where
  "condIn sb field vs =
     (let (phs, args) = addAll (sb_args sb) vs
      in (sqlEscape field @ '' IN ('' @ join '', '' phs @ '')'', sb\<lparr>sb_args := args\<rparr>))"

text \<open>
  \<open>WhereClause.BuildWithFlavor\<close>: the conjuncts joined with AND and compiled with the builder's
  arguments. A conjunct that refers to argument 0 refers to the clause itself, and the Go builder
  recurses without end.
\<close>

definition buildWhere :: "sqlarg list \<Rightarrow> string list \<Rightarrow> string list \<Rightarrow> (string \<times> string list) option" where
  "buildWhere args es vals =
     prependOut ''WHERE '' (compileArgs (\<lambda>_. None) args (join '' AND '' es) vals 0)"

definition leading :: "string \<Rightarrow> string \<Rightarrow> string" where
  "leading buf s = (if buf = [] then s else buf @ '' '' @ s)"

definition sbFormat :: "SelectBuilder \<Rightarrow> string" where
  "sbFormat sb =
     (let b0 = (if sb_selectCols sb = [] then []
                else leading [] ''SELECT '' @ join '', '' (sb_selectCols sb));
          b1 = (if sb_tables sb = [] then b0 else leading b0 ''FROM '' @ join '', '' (sb_tables sb));
          b2 = (case sb_where sb of None \<Rightarrow> b1 | Some _ \<Rightarrow> leading b1 ''$0'');
          b3 = (if sb_orderByCols sb = [] then b2
                else leading b2 ''ORDER BY '' @ join '', '' (sb_orderByCols sb))
      in (if sb_limit sb \<ge> 0 then leading b3 ''LIMIT '' @ itoa (nat (sb_limit sb)) else b3))"

definition sbBuild :: "SelectBuilder \<Rightarrow> (string \<times> string list) option" where
  "sbBuild sb =
     compileArgs
       (\<lambda>vals. case sb_where sb of None \<Rightarrow> None | Some es \<Rightarrow> buildWhere (sb_args sb) es vals)
       (sb_args sb) (sbFormat sb) [] 0"

section \<open>Interpolation\<close>

text \<open>\<open>quoteStringValue\<close> for MySQL: one byte of a string literal, then the whole literal.\<close>

definition quoteChar :: "char \<Rightarrow> string" where
  "quoteChar c =
     (if c = CHR 0x00 then [CHR 0x5C, CHR ''0'']
      else if c = CHR 0x08 then [CHR 0x5C, CHR ''b'']
      else if c = CHR 0x0A then [CHR 0x5C, CHR ''n'']
      else if c = CHR 0x0D then [CHR 0x5C, CHR ''r'']
      else if c = CHR 0x09 then [CHR 0x5C, CHR ''t'']
      else if c = CHR 0x1A then [CHR 0x5C, CHR ''Z'']
      else if c = CHR 0x27 then [CHR 0x5C, CHR 0x27]
      else if c = CHR 0x22 then [CHR 0x5C, CHR 0x22]
      else if c = CHR 0x5C then [CHR 0x5C, CHR 0x5C]
      else [c])"

definition quoteStringValue :: "string \<Rightarrow> string" where
  "quoteStringValue s = CHR 0x27 # concat (map quoteChar s) @ [CHR 0x27]"

text \<open>
  \<open>mysqlLikeInterpolate\<close>: replace each question mark outside quotes by the next argument. The
  state is the open quote, if any, and whether the previous byte was a backslash inside quotes;
  \<open>None\<close> is \<open>ErrInterpolateMissingArgs\<close>.
\<close>

fun mysqlInterpolate :: "char option \<Rightarrow> bool \<Rightarrow> string \<Rightarrow> string list \<Rightarrow> string option" where
  "mysqlInterpolate q esc [] args = Some []"
| "mysqlInterpolate q esc (c # cs) args =
     (if esc then map_option ((#) c) (mysqlInterpolate q False cs args)
      else if c = CHR ''?'' then
        (if q \<noteq> None then map_option ((#) c) (mysqlInterpolate q False cs args)
         else (case args of
           [] \<Rightarrow> None
         | a # as \<Rightarrow> map_option ((@) (quoteStringValue a)) (mysqlInterpolate q False cs as)))
      else if c = CHR 0x27 \<or> c = CHR 0x22 \<or> c = CHR 0x60 then
        map_option ((#) c)
          (mysqlInterpolate (if q = Some c then None else if q = None then Some c else q) False cs args)
      else map_option ((#) c) (mysqlInterpolate q (c = CHR 0x5C \<and> q \<noteq> None) cs args))"

declare mysqlInterpolate.simps(2) [simp del]

section \<open>Compilation of clean text\<close>

lemma prependOut_Nil [simp]: "prependOut [] r = r"
  by (cases r) (auto simp: prependOut_def)

lemma prependOut_append [simp]: "prependOut s (prependOut t r) = prependOut (s @ t) r"
  by (cases r) (auto simp: prependOut_def)

lemma prependOut_Some [simp]: "prependOut t (Some (q, vs)) = Some (t @ q, vs)"
  by (simp add: prependOut_def)

lemma compileArgs_char:
  "c \<noteq> CHR ''$'' \<Longrightarrow> compileArgs proxy args (c # cs) vals off = prependOut [c] (compileArgs proxy args cs vals off)"
  by (simp add: compileArgs.simps(2))

lemma compileArgs_clean:
  "CHR ''$'' \<notin> set t \<Longrightarrow>
     compileArgs proxy args (t @ rest) vals off = prependOut t (compileArgs proxy args rest vals off)"
  by (induction t) (auto simp: compileArgs_char)

lemma compileArgs_clean_all:
  "CHR ''$'' \<notin> set t \<Longrightarrow> compileArgs proxy args t vals off = Some (t, vals)"
  using compileArgs_clean [of t proxy args "[]" vals off] by simp

text \<open>An escaped identifier compiles back to the identifier.\<close>

lemma compileArgs_escape:
  "compileArgs proxy args (sqlEscape f @ rest) vals off = prependOut f (compileArgs proxy args rest vals off)"
  by (induction f) (auto simp: compileArgs_char compileArgs.simps(2))

text \<open>A placeholder that is not followed by a further digit compiles to its argument.\<close>

lemma compileArgs_digits:
  assumes "ds \<noteq> []" and "\<forall>c \<in> set ds. is_digit c" and "atoi_digits ds = Some p" and "p < length args"
    and "rest = [] \<or> \<not> is_digit (hd rest)"
  shows "compileArgs proxy args (CHR ''$'' # ds @ rest) vals off =
    (case args ! p of
       StrArg s \<Rightarrow> prependOut ''?'' (compileArgs proxy args rest (vals @ [s]) (Suc p))
     | WhereProxy \<Rightarrow> (case proxy vals of
         None \<Rightarrow> None
       | Some (t, vals') \<Rightarrow> prependOut t (compileArgs proxy args rest vals' (Suc p))))"
proof -
  from assms(1) obtain d ds' where ds: "ds = d # ds'" by (cases ds) auto
  with assms(2) have d: "is_digit d" by simp
  then have nd: "d \<noteq> CHR ''$''" "d \<noteq> CHR ''{''" "d \<noteq> CHR ''?''"
    by (auto simp: is_digit_def)
  have tw: "takeWhile is_digit (d # ds' @ rest) = ds"
    using takeWhile_split [of ds is_digit rest] assms(2,5) ds by simp
  have dw: "dropWhile is_digit (ds' @ rest) = rest"
    using dropWhile_split [of ds' is_digit rest] assms(2,5) ds by simp
  show ?thesis
    unfolding ds using nd d tw dw assms(3,4)
    by (simp add: compileArgs.simps(2) [of _ _ "CHR ''$''"])
qed

lemma compileArgs_placeholder:
  assumes "args ! n = StrArg s" and "n < length args" and "int n \<le> max_int64"
    and "rest = [] \<or> \<not> is_digit (hd rest)"
  shows "compileArgs proxy args (CHR ''$'' # itoa n @ rest) vals off =
    prependOut ''?'' (compileArgs proxy args rest (vals @ [s]) (Suc n))"
  using assms compileArgs_digits [of "itoa n" n args rest proxy vals off]
  by (simp add: itoa_digits atoi_digits_itoa)

lemma compileArgs_proxy:
  assumes "args \<noteq> []" and "args ! 0 = WhereProxy" and "rest = [] \<or> \<not> is_digit (hd rest)"
    and "proxy vals = Some (t, vals')"
  shows "compileArgs proxy args (''$0'' @ rest) vals off = prependOut t (compileArgs proxy args rest vals' 1)"
  using assms compileArgs_digits [of "''0''" 0 args rest proxy vals off]
  by (simp add: is_digit_def atoi_digits_def digits_val_def digit_val_def max_int64_def)

section \<open>Interpolation into clean text\<close>

text \<open>Bytes that are ordinary for the interpolation outside quotes.\<close>

definition plain_char :: "char \<Rightarrow> bool" where
  "plain_char c \<longleftrightarrow> c \<notin> {CHR ''?'', CHR 0x27, CHR 0x22, CHR 0x60}"

abbreviation plain :: "string \<Rightarrow> bool" where
  "plain s \<equiv> list_all plain_char s"

lemma mysqlInterpolate_plain:
  "plain t \<Longrightarrow> mysqlInterpolate None False (t @ rest) args = map_option ((@) t) (mysqlInterpolate None False rest args)"
proof (induction t)
  case Nil
  then show ?case by (cases "mysqlInterpolate None False rest args") simp_all
next
  case (Cons c t)
  then show ?case
    by (cases "mysqlInterpolate None False rest args") (auto simp: mysqlInterpolate.simps(2) plain_char_def)
qed

lemma mysqlInterpolate_arg:
  "mysqlInterpolate None False (CHR ''?'' # rest) (a # as) =
     map_option ((@) (quoteStringValue a)) (mysqlInterpolate None False rest as)"
  by (simp add: mysqlInterpolate.simps(2))

section \<open>String literals are read back\<close>

text \<open>
  A reader of string literals with backslash escapes, as the query language defines them: it
  expects the opening quote and returns the value and the text behind the closing quote.
\<close>

definition unescapeChar :: "char \<Rightarrow> char" where
  "unescapeChar c =
     (if c = CHR ''0'' then CHR 0x00 else if c = CHR ''b'' then CHR 0x08
      else if c = CHR ''n'' then CHR 0x0A else if c = CHR ''r'' then CHR 0x0D
      else if c = CHR ''t'' then CHR 0x09 else if c = CHR ''Z'' then CHR 0x1A else c)"

fun readBody :: "string \<Rightarrow> (string \<times> string) option" where
  "readBody [] = None"
| "readBody (c # cs) =
     (if c = CHR 0x27 then Some ([], cs)
      else if c = CHR 0x5C then
        (case cs of
           [] \<Rightarrow> None
         | d # ds \<Rightarrow> map_option (\<lambda>(v, r). (unescapeChar d # v, r)) (readBody ds))
      else map_option (\<lambda>(v, r). (c # v, r)) (readBody cs))"

definition readLiteral :: "string \<Rightarrow> (string \<times> string) option" where
  "readLiteral s = (case s of [] \<Rightarrow> None | c # cs \<Rightarrow> if c = CHR 0x27 then readBody cs else None)"

lemma readBody_quoteChar:
  "readBody (quoteChar c @ cs) = map_option (\<lambda>(v, r). (c # v, r)) (readBody cs)"
proof (cases "c \<in> {CHR 0x00, CHR 0x08, CHR 0x0A, CHR 0x0D, CHR 0x09, CHR 0x1A, CHR 0x27, CHR 0x22, CHR 0x5C}")
  case True
  then show ?thesis
    by (elim insertE emptyE) (simp_all add: quoteChar_def unescapeChar_def)
next
  case False
  then have "quoteChar c = [c]" by (auto simp: quoteChar_def)
  with False show ?thesis by simp
qed

lemma readBody_quoted: "readBody (concat (map quoteChar s) @ CHR 0x27 # rest) = Some (s, rest)"
  by (induction s) (simp_all add: readBody_quoteChar)

text \<open>
  The interface of a literal encoding: what is written can be read back whatever follows it. Then
  an encoding is injective and no value can move the end of its own literal.
\<close>

locale literal_codec =
  fixes enc :: "'v \<Rightarrow> string" and dec :: "string \<Rightarrow> ('v \<times> string) option"
  assumes dec_enc: "dec (enc v @ rest) = Some (v, rest)"
begin

lemma enc_prefix_free: "enc v @ rest = enc w @ rest' \<Longrightarrow> v = w \<and> rest = rest'"
  by (metis dec_enc option.inject prod.inject)

lemma enc_inj: "enc v = enc w \<Longrightarrow> v = w"
  by (metis enc_prefix_free)

end

interpretation quoted: literal_codec quoteStringValue readLiteral
  by unfold_locales (simp add: quoteStringValue_def readLiteral_def readBody_quoted)

end
