(* ===== verification/Soql_Query.thy ===== *)
theory Soql_Query
  imports Sql_Builder
begin

text \<open>
  The SOQL query builder of \<^verbatim>\<open>client/query.go\<close> on top of the SQL builder, and the choice between a
  query and a pagination path of \<^verbatim>\<open>client/request.go\<close> (\<open>getQueryString\<close>).
\<close>

section \<open>Tables and their fields\<close>

definition SalesforcePK :: string where "SalesforcePK = ''Id''"
definition allFieldsKeyword :: string where "allFieldsKeyword = ''Fields(standard)''"
definition TableNameGroupMemberships :: string where "TableNameGroupMemberships = ''GroupMember''"
definition TableNameGroups :: string where "TableNameGroups = ''Group''"
definition TableNamePermissionAssignments :: string where
  "TableNamePermissionAssignments = ''PermissionSetAssignment''"
definition TableNamePermissionsSets :: string where "TableNamePermissionsSets = ''PermissionSet''"
definition TableNameProfiles :: string where "TableNameProfiles = ''Profile''"
definition TableNameUserLicenses :: string where "TableNameUserLicenses = ''UserLicense''"
definition TableNameRoles :: string where "TableNameRoles = ''UserRole''"
definition TableNameUsers :: string where "TableNameUsers = ''User''"
definition TablePermissionSetGroup :: string where "TablePermissionSetGroup = ''PermissionSetGroup''"
definition TablePermissionSetGroupComponent :: string where
  "TablePermissionSetGroupComponent = ''PermissionSetGroupComponent''"
definition TableNameConnectedApps :: string where "TableNameConnectedApps = ''ConnectedApplication''"
definition TableNameUserLogin :: string where "TableNameUserLogin = ''UserLogin''"
definition TableNameTerritory2 :: string where "TableNameTerritory2 = ''Territory2''"
definition TableNameTerritory2Model :: string where "TableNameTerritory2Model = ''Territory2Model''"
definition TableNameUserTerritory2Assoc :: string where
  "TableNameUserTerritory2Assoc = ''UserTerritory2Association''"
definition TableNamePicklistValueInfo :: string where "TableNamePicklistValueInfo = ''PicklistValueInfo''"
definition TableNameBotDefinition :: string where "TableNameBotDefinition = ''BotDefinition''"

lemmas table_defs =
  SalesforcePK_def TableNameGroupMemberships_def TableNameGroups_def TableNamePermissionAssignments_def
  TableNamePermissionsSets_def TableNameProfiles_def TableNameUserLicenses_def TableNameRoles_def
  TableNameUsers_def TablePermissionSetGroup_def TablePermissionSetGroupComponent_def
  TableNameConnectedApps_def TableNameUserLogin_def TableNameTerritory2_def TableNameTerritory2Model_def
  TableNameUserTerritory2Assoc_def TableNamePicklistValueInfo_def TableNameBotDefinition_def

definition TableNamesToFieldsMapping :: "string \<rightharpoonup> string list" where
  "TableNamesToFieldsMapping = map_of
    [(TableNameUsers, [''FirstName'', ''LastName'', ''Email'', ''Username'', ''IsActive'', ''UserType'',
        ''ProfileId'', ''UserRoleId'', ''LastLoginDate'', ''Profile.UserLicense.LicenseDefinitionKey'']),
     (TableNameRoles, [''Name'']),
     (TableNameProfiles, [''Name'', ''UserLicenseId'']),
     (TableNameUserLicenses, [''Name'']),
     (TableNamePermissionAssignments, [''PermissionSetId'', ''AssigneeId'', ''IsActive'']),
     (TableNameGroupMemberships, [''GroupId'', ''UserOrGroupId'']),
     (TableNamePermissionsSets, [''Name'', ''Label'', ''Type'', ''ProfileId'', ''Profile.Name'']),
     (TableNameGroups, [''Name'', ''DeveloperName'', ''Type'', ''RelatedId'', ''Related.Name'']),
     (TablePermissionSetGroup, [''IsDeleted'', ''DeveloperName'', ''Language'', ''MasterLabel'',
        ''NamespacePrefix'', ''Description'', ''HasActivationRequired'']),
     (TablePermissionSetGroupComponent, [''IsDeleted'', ''PermissionSetGroupId'', ''PermissionSetId'']),
     (TableNameConnectedApps, [''Name'']),
     (TableNameUserLogin, [''UserId'', ''IsFrozen'', ''IsPasswordLocked'']),
     (TableNameTerritory2, [''Name'', ''Territory2ModelId'', ''Territory2TypeId'',
        ''ParentTerritory2Id'', ''Description'']),
     (TableNameTerritory2Model, [''Name'', ''State'']),
     (TableNameUserTerritory2Assoc, [''UserId'', ''Territory2Id'', ''RoleInTerritory2'']),
     (TableNamePicklistValueInfo, [''Value'']),
     (TableNameBotDefinition, [''DeveloperName'', ''MasterLabel'', ''BotUserId''])]"

section \<open>Queries\<close>

record SalesforceQuery =
  q_sb :: SelectBuilder
  q_skipOrderBy :: bool

definition WithoutOrderBy :: "SalesforceQuery \<Rightarrow> SalesforceQuery" where
  "WithoutOrderBy q = q\<lparr>q_skipOrderBy := True\<rparr>"

definition NewIDQuery :: "string \<Rightarrow> SalesforceQuery" where
  "NewIDQuery tableName = \<lparr>q_sb = sbFrom (sbSelect [SalesforcePK]) [tableName], q_skipOrderBy = False\<rparr>"

definition querySelectors :: "string \<Rightarrow> string list \<Rightarrow> string list" where
  "querySelectors tableName selectors =
     (let sel = (if selectors = []
                 then (case TableNamesToFieldsMapping tableName of None \<Rightarrow> [] | Some fs \<Rightarrow> fs)
                 else selectors)
      in (if sel = [''*''] then [allFieldsKeyword] else sel @ [SalesforcePK]))"

definition NewQuery :: "string \<Rightarrow> string list \<Rightarrow> SalesforceQuery" where
  "NewQuery tableName selectors =
     \<lparr>q_sb = sbFrom (sbSelect (querySelectors tableName selectors)) [tableName], q_skipOrderBy = False\<rparr>"

definition whereCond :: "SalesforceQuery \<Rightarrow> string \<times> SelectBuilder \<Rightarrow> SalesforceQuery" where
  "whereCond q r = (case r of (e, sb) \<Rightarrow> q\<lparr>q_sb := sbWhere sb e\<rparr>)"

definition WhereEq :: "SalesforceQuery \<Rightarrow> string \<Rightarrow> string \<Rightarrow> SalesforceQuery" where
  "WhereEq q field value = whereCond q (condEqual (q_sb q) field value)"

definition formatBool :: "bool \<Rightarrow> string" where
  "formatBool b = (if b then ''true'' else ''false'')"

definition WhereBoolEq :: "SalesforceQuery \<Rightarrow> string \<Rightarrow> bool \<Rightarrow> SalesforceQuery" where
  "WhereBoolEq q field value = q\<lparr>q_sb := sbWhere (q_sb q) (field @ '' = '' @ formatBool value)\<rparr>"

definition WhereNotEq :: "SalesforceQuery \<Rightarrow> string \<Rightarrow> string \<Rightarrow> SalesforceQuery" where
  "WhereNotEq q field value = whereCond q (condNotEqual (q_sb q) field value)"

definition WhereGT :: "SalesforceQuery \<Rightarrow> string \<Rightarrow> string \<Rightarrow> SalesforceQuery" where
  "WhereGT q field value = whereCond q (condGreaterThan (q_sb q) field value)"

text \<open>The inline \<open>query.sb.Where(query.sb.In(field, args...))\<close> of \<open>GetUserLoginsByUserIDs\<close>.\<close>

definition whereIn :: "SalesforceQuery \<Rightarrow> string \<Rightarrow> string list \<Rightarrow> SalesforceQuery" where
  "whereIn q field vs = whereCond q (condIn (q_sb q) field vs)"

definition OrderBy :: "SalesforceQuery \<Rightarrow> string \<Rightarrow> SalesforceQuery" where
  "OrderBy q field = q\<lparr>q_sb := sbOrderBy (q_sb q) field\<rparr>"

definition LimitQuery :: "SalesforceQuery \<Rightarrow> int \<Rightarrow> SalesforceQuery" where
  "LimitQuery q n = q\<lparr>q_sb := sbLimit (q_sb q) n\<rparr>"

text \<open>\<open>SalesforceQuery.String\<close>; the outer \<open>None\<close> is a builder that does not return.\<close>

definition queryString :: "SalesforceQuery \<Rightarrow> string option" where
  "queryString q =
     (case sbBuild (q_sb q) of
        None \<Rightarrow> None
      | Some (sql, args) \<Rightarrow>
          Some (case mysqlInterpolate None False sql args of None \<Rightarrow> ''invalid query'' | Some s \<Rightarrow> s))"

definition WhereInSubQuery :: "SalesforceQuery \<Rightarrow> string \<Rightarrow> SalesforceQuery \<Rightarrow> SalesforceQuery option" where
  "WhereInSubQuery q field sq =
     (case queryString sq of
        None \<Rightarrow> None
      | Some s \<Rightarrow> Some (q\<lparr>q_sb := sbWhere (q_sb q) (field @ '' IN ('' @ s @ '')'')\<rparr>))"

text \<open>\<open>getQueryString\<close> of \<^verbatim>\<open>client/request.go\<close>; the page size is ignored there.\<close>

definition getQueryString :: "SalesforceQuery \<Rightarrow> string \<Rightarrow> int \<Rightarrow> string option" where
  "getQueryString q paginationPath pageSize =
     (if paginationPath \<noteq> '''' then Some paginationPath
      else if q_skipOrderBy q then queryString q
      else queryString (OrderBy q SalesforcePK))"

lemmas query_defs [go_defs] =
  WithoutOrderBy_def NewIDQuery_def querySelectors_def NewQuery_def whereCond_def WhereEq_def
  WhereBoolEq_def WhereNotEq_def WhereGT_def whereIn_def OrderBy_def LimitQuery_def queryString_def
  getQueryString_def formatBool_def WhereInSubQuery_def
  newSelectBuilder_def sbSelect_def sbFrom_def sbWhere_def sbOrderBy_def sbLimit_def
  condOp_def condEqual_def condNotEqual_def condGreaterThan_def condIn_def argsAdd_def

section \<open>What a query says: a reference rendering\<close>

text \<open>
  The conditions the connector puts into a query, and the text they stand for. The reference
  knows nothing of placeholders: values are written as literals where they stand.
\<close>

datatype soql_cond = CEq string string | CNe string string | CGt string string | CIn string "string list"

fun addCond :: "SalesforceQuery \<Rightarrow> soql_cond \<Rightarrow> SalesforceQuery" where
  "addCond q (CEq f v) = WhereEq q f v"
| "addCond q (CNe f v) = WhereNotEq q f v"
| "addCond q (CGt f v) = WhereGT q f v"
| "addCond q (CIn f vs) = whereIn q f vs"

fun renderCond :: "soql_cond \<Rightarrow> string" where
  "renderCond (CEq f v) = f @ '' = '' @ quoteStringValue v"
| "renderCond (CNe f v) = f @ '' <> '' @ quoteStringValue v"
| "renderCond (CGt f v) = f @ '' > '' @ quoteStringValue v"
| "renderCond (CIn f vs) = f @ '' IN ('' @ join '', '' (map quoteStringValue vs) @ '')''"

definition renderQuery :: "string list \<Rightarrow> string \<Rightarrow> soql_cond list \<Rightarrow> string \<Rightarrow> string" where
  "renderQuery cols table conds order =
     ''SELECT '' @ join '', '' cols @ '' FROM '' @ table
     @ (if conds = [] then [] else '' WHERE '' @ join '' AND '' (map renderCond conds))
     @ (if order = [] then [] else '' ORDER BY '' @ order)"

section \<open>The builder implements the reference\<close>

text \<open>
  \<open>compiles\<close>: the text \<open>t\<close> compiles to \<open>out\<close> and appends its values, whatever follows it (unless a
  digit could extend a placeholder). \<open>interps\<close>: the text \<open>t\<close> becomes \<open>out\<close> and uses up the
  arguments \<open>us\<close>. Both compose along concatenation.
\<close>

definition compiles ::
  "(string list \<Rightarrow> (string \<times> string list) option) \<Rightarrow> sqlarg list \<Rightarrow> string \<Rightarrow> string list \<Rightarrow> string
    \<Rightarrow> string list \<Rightarrow> bool" where
  "compiles proxy args t vals out vals' \<longleftrightarrow>
     (\<forall>rest off. rest = [] \<or> \<not> is_digit (hd rest) \<longrightarrow>
        (\<exists>off'. compileArgs proxy args (t @ rest) vals off
               = prependOut out (compileArgs proxy args rest vals' off')))"

definition interps :: "string \<Rightarrow> string list \<Rightarrow> string \<Rightarrow> bool" where
  "interps t us out \<longleftrightarrow>
     (\<forall>rest as. mysqlInterpolate None False (t @ rest) (us @ as)
        = map_option ((@) out) (mysqlInterpolate None False rest as))"

lemma compiles_clean: "CHR ''$'' \<notin> set t \<Longrightarrow> compiles proxy args t vals t vals"
  by (auto simp: compiles_def compileArgs_clean)

lemma compiles_escape: "compiles proxy args (sqlEscape f) vals f vals"
  by (auto simp: compiles_def compileArgs_escape)

lemma compiles_placeholder:
  "args ! n = StrArg s \<Longrightarrow> n < length args \<Longrightarrow> int n \<le> max_int64 \<Longrightarrow>
     compiles proxy args (CHR ''$'' # itoa n) vals ''?'' (vals @ [s])"
  by (auto simp: compiles_def compileArgs_placeholder)

lemma compiles_append:
  assumes "compiles proxy args t1 v1 o1 v2" and "compiles proxy args t2 v2 o2 v3"
    and "t2 = [] \<or> \<not> is_digit (hd t2)"
  shows "compiles proxy args (t1 @ t2) v1 (o1 @ o2) v3"
  unfolding compiles_def
proof (intro allI impI)
  fix rest off
  assume rest: "rest = [] \<or> \<not> is_digit (hd rest)"
  with assms(3) have "t2 @ rest = [] \<or> \<not> is_digit (hd (t2 @ rest))"
    by (cases t2) auto
  with assms(1) obtain off1 where
    "compileArgs proxy args (t1 @ t2 @ rest) v1 off = prependOut o1 (compileArgs proxy args (t2 @ rest) v2 off1)"
    unfolding compiles_def by blast
  moreover from assms(2) rest obtain off2 where
    "compileArgs proxy args (t2 @ rest) v2 off1 = prependOut o2 (compileArgs proxy args rest v3 off2)"
    unfolding compiles_def by blast
  ultimately show "\<exists>off'. compileArgs proxy args ((t1 @ t2) @ rest) v1 off
      = prependOut (o1 @ o2) (compileArgs proxy args rest v3 off')"
    by auto
qed

lemma compiles_result:
  assumes "compiles proxy args t vals out vals'"
  shows "compileArgs proxy args t vals off = Some (out, vals')"
proof -
  from assms obtain off' where
    "compileArgs proxy args (t @ []) vals off = prependOut out (compileArgs proxy args [] vals' off')"
    unfolding compiles_def by blast
  then show ?thesis by simp
qed

lemma interps_plain: "plain t \<Longrightarrow> interps t [] t"
  by (simp add: interps_def mysqlInterpolate_plain)

lemma interps_arg: "interps ''?'' [a] (quoteStringValue a)"
  by (simp add: interps_def mysqlInterpolate_arg)

lemma interps_append: "interps t1 us1 o1 \<Longrightarrow> interps t2 us2 o2 \<Longrightarrow> interps (t1 @ t2) (us1 @ us2) (o1 @ o2)"
proof -
  have "(@) (o1 @ o2) = (\<lambda>x. o1 @ o2 @ x)" by (auto simp: fun_eq_iff)
  moreover assume "interps t1 us1 o1" and "interps t2 us2 o2"
  ultimately show ?thesis
    unfolding interps_def by (simp add: option.map_comp comp_def)
qed

lemma interps_result: "interps t us out \<Longrightarrow> mysqlInterpolate None False t us = Some out"
  unfolding interps_def by (metis append_Nil2 mysqlInterpolate.simps(1) option.map(2))

subsection \<open>Conditions with placeholders\<close>

fun condArgs :: "soql_cond \<Rightarrow> string list" where
  "condArgs (CEq f v) = [v]"
| "condArgs (CNe f v) = [v]"
| "condArgs (CGt f v) = [v]"
| "condArgs (CIn f vs) = vs"

fun condField :: "soql_cond \<Rightarrow> string" where
  "condField (CEq f v) = f"
| "condField (CNe f v) = f"
| "condField (CGt f v) = f"
| "condField (CIn f vs) = f"

definition ph :: "nat \<Rightarrow> string" where
  "ph n = CHR ''$'' # itoa n"

fun phCond :: "nat \<Rightarrow> soql_cond \<Rightarrow> string" where
  "phCond n (CEq f v) = sqlEscape f @ '' = '' @ ph n"
| "phCond n (CNe f v) = sqlEscape f @ '' <> '' @ ph n"
| "phCond n (CGt f v) = sqlEscape f @ '' > '' @ ph n"
| "phCond n (CIn f vs) = sqlEscape f @ '' IN ('' @ join '', '' (map ph [n..<n + length vs]) @ '')''"

fun qmCond :: "soql_cond \<Rightarrow> string" where
  "qmCond (CEq f v) = f @ '' = '' @ ''?''"
| "qmCond (CNe f v) = f @ '' <> '' @ ''?''"
| "qmCond (CGt f v) = f @ '' > '' @ ''?''"
| "qmCond (CIn f vs) = f @ '' IN ('' @ join '', '' (map (\<lambda>_. ''?'') vs) @ '')''"

fun phConds :: "nat \<Rightarrow> soql_cond list \<Rightarrow> string list" where
  "phConds n [] = []"
| "phConds n (c # cs) = phCond n c # phConds (n + length (condArgs c)) cs"

abbreviation allArgs :: "soql_cond list \<Rightarrow> string list" where
  "allArgs cs \<equiv> concat (map condArgs cs)"

lemma addAll_ph: "addAll args vs = (map ph [length args..<length args + length vs], args @ map StrArg vs)"
proof (induction vs arbitrary: args)
  case Nil
  show ?case by simp
next
  case (Cons v vs)
  then show ?case by (auto simp: argsAdd_def ph_def upt_rec [of "length args"] Suc_le_eq)
qed

lemma addCond_sb:
  "q_sb (addCond q c) = (q_sb q)\<lparr>
     sb_args := sb_args (q_sb q) @ map StrArg (condArgs c),
     sb_where := Some ((case sb_where (q_sb q) of None \<Rightarrow> [] | Some es \<Rightarrow> es) @ [phCond (length (sb_args (q_sb q))) c])\<rparr>"
  by (cases c) (simp_all add: WhereEq_def WhereNotEq_def WhereGT_def whereIn_def whereCond_def
      condEqual_def condNotEqual_def condGreaterThan_def condIn_def condOp_def argsAdd_def sbWhere_def
      addAll_ph ph_def)

lemma foldl_addCond_sb:
  "q_sb (foldl addCond q cs) = (q_sb q)\<lparr>
     sb_args := sb_args (q_sb q) @ map StrArg (allArgs cs),
     sb_where := (if cs = [] then sb_where (q_sb q)
       else Some ((case sb_where (q_sb q) of None \<Rightarrow> [] | Some es \<Rightarrow> es) @ phConds (length (sb_args (q_sb q))) cs))\<rparr>"
  by (induction cs arbitrary: q) (simp_all add: addCond_sb)

lemma addCond_skip [simp]: "q_skipOrderBy (addCond q c) = q_skipOrderBy q"
  by (cases c) (simp_all add: WhereEq_def WhereNotEq_def WhereGT_def whereIn_def whereCond_def split: prod.splits)

lemma foldl_addCond_skip [simp]: "q_skipOrderBy (foldl addCond q cs) = q_skipOrderBy q"
  by (induction cs arbitrary: q) simp_all

text \<open>The arguments of a group of conditions sit at their indices.\<close>

definition argsAt :: "sqlarg list \<Rightarrow> nat \<Rightarrow> string list \<Rightarrow> bool" where
  "argsAt args n vs \<longleftrightarrow>
     n + length vs \<le> length args \<and> (\<forall>i < length vs. args ! (n + i) = StrArg (vs ! i))"

lemma argsAt_Cons:
  "argsAt args n (v # vs) \<longleftrightarrow> n < length args \<and> args ! n = StrArg v \<and> argsAt args (Suc n) vs"
  by (auto simp: argsAt_def less_Suc_eq_0_disj)

lemma argsAt_append: "argsAt args n (vs @ ws) \<longleftrightarrow> argsAt args n vs \<and> argsAt args (n + length vs) ws"
  by (induction vs arbitrary: n) (auto simp: argsAt_Cons, auto simp: argsAt_def)

lemma argsAt_self: "argsAt (pre @ map StrArg vs) (length pre) vs"
  by (auto simp: argsAt_def)

lemma not_digit_literals [simp]:
  "\<not> is_digit (CHR '' '')" "\<not> is_digit (CHR '','')" "\<not> is_digit (CHR '')'')" "\<not> is_digit (CHR ''$'')"
  by (simp_all add: is_digit_def)

lemma plain_literals [simp]: "plain_char (CHR '' '')" "plain_char (CHR ''='')" "plain_char (CHR ''<'')"
    "plain_char (CHR ''>'')" "plain_char (CHR '','')" "plain_char (CHR ''('')" "plain_char (CHR '')'')"
    "plain_char (CHR ''I'')" "plain_char (CHR ''N'')" "plain_char (CHR ''A'')" "plain_char (CHR ''D'')"
  by (simp_all add: plain_char_def)

lemma compiles_ph:
  "argsAt args n [v] \<Longrightarrow> int (length args) \<le> max_int64 \<Longrightarrow> compiles proxy args (ph n) vals ''?'' (vals @ [v])"
  unfolding ph_def by (rule compiles_placeholder) (auto simp: argsAt_def)

text \<open>Text without placeholders can be put in front of anything.\<close>

lemma compiles_clean_append:
  "CHR ''$'' \<notin> set t \<Longrightarrow> compiles proxy args t2 v o2 v' \<Longrightarrow> compiles proxy args (t @ t2) v (t @ o2) v'"
  unfolding compiles_def by (simp add: compileArgs_clean) (metis prependOut_append)

lemma compiles_escape_append:
  "compiles proxy args t2 v o2 v' \<Longrightarrow> compiles proxy args (sqlEscape f @ t2) v (f @ o2) v'"
  unfolding compiles_def by (simp add: compileArgs_escape) (metis prependOut_append)

text \<open>A list of texts \<open>t\<close>, each compiling to \<open>o\<close> with values \<open>us\<close>, joined with a separator.\<close>

lemma compiles_join:
  assumes "\<And>t out us vals. (t, out, us) \<in> set ps \<Longrightarrow> compiles proxy args t vals out (vals @ us)"
    and "CHR ''$'' \<notin> set sep" and "sep \<noteq> []" and "\<not> is_digit (hd sep)"
  shows "compiles proxy args (join sep (map fst ps)) vals (join sep (map (\<lambda>p. fst (snd p)) ps))
     (vals @ concat (map (\<lambda>p. snd (snd p)) ps))"
  using assms(1)
proof (induction ps arbitrary: vals rule: induct_list012)
  case 1
  show ?case using compiles_clean [of "[]"] by simp
next
  case (2 p)
  then show ?case by (cases p) auto
next
  case (3 p p' ps)
  obtain t out us where p: "p = (t, out, us)" by (cases p)
  have first: "compiles proxy args t vals out (vals @ us)"
    using 3 p by auto
  have "compiles proxy args (join sep (map fst (p' # ps))) (vals @ us)
      (join sep (map (\<lambda>p. fst (snd p)) (p' # ps))) ((vals @ us) @ concat (map (\<lambda>p. snd (snd p)) (p' # ps)))"
    using 3 by (intro "3.IH"(2)) auto
  from compiles_append [OF first compiles_clean_append [OF assms(2) this]]
  show ?case using assms(3,4) p by simp
qed

lemma interps_join:
  assumes "\<And>t us out. (t, us, out) \<in> set ps \<Longrightarrow> interps t us out" and "plain sep"
  shows "interps (join sep (map fst ps)) (concat (map (\<lambda>p. fst (snd p)) ps)) (join sep (map (\<lambda>p. snd (snd p)) ps))"
  using assms(1)
proof (induction ps rule: induct_list012)
  case 1
  show ?case using interps_plain [of "[]"] by simp
next
  case (2 p)
  then show ?case by (cases p) auto
next
  case (3 p p' ps)
  obtain t us out where p: "p = (t, us, out)" by (cases p)
  have "interps t us out" using 3 p by auto
  moreover have "interps (join sep (map fst (p' # ps))) (concat (map (\<lambda>p. fst (snd p)) (p' # ps)))
      (join sep (map (\<lambda>p. snd (snd p)) (p' # ps)))"
    using 3 by (intro "3.IH"(2)) auto
  ultimately have "interps (t @ sep @ join sep (map fst (p' # ps)))
      (us @ [] @ concat (map (\<lambda>p. fst (snd p)) (p' # ps))) (out @ sep @ join sep (map (\<lambda>p. snd (snd p)) (p' # ps)))"
    by (intro interps_append interps_plain assms(2))
  then show ?case using p by simp
qed

lemma compiles_ph_list:
  assumes "argsAt args n vs" and "int (length args) \<le> max_int64"
  shows "compiles proxy args (join '', '' (map ph [n..<n + length vs])) vals
     (join '', '' (map (\<lambda>_. ''?'') vs)) (vals @ vs)"
proof -
  let ?ps = "map (\<lambda>i. (ph (n + i), ''?'', [vs ! i])) [0..<length vs]"
  have "compiles proxy args (join '', '' (map fst ?ps)) vals (join '', '' (map (\<lambda>p. fst (snd p)) ?ps))
     (vals @ concat (map (\<lambda>p. snd (snd p)) ?ps))"
    using assms by (intro compiles_join) (auto intro!: compiles_ph simp: argsAt_def)
  moreover have "map fst ?ps = map ph [n..<n + length vs]"
    by (intro nth_equalityI) auto
  moreover have "map (\<lambda>p. fst (snd p)) ?ps = map (\<lambda>_. ''?'') vs"
    by (intro nth_equalityI) auto
  moreover have "concat (map (\<lambda>p. snd (snd p)) ?ps) = vs"
    by (simp add: comp_def map_nth)
  ultimately show ?thesis by simp
qed

lemma interps_qm_list: "interps (join '', '' (map (\<lambda>_. ''?'') vs)) vs (join '', '' (map quoteStringValue vs))"
  using interps_join [of "map (\<lambda>v. (''?'', [v], quoteStringValue v)) vs" "'', ''"]
  by (simp add: comp_def interps_arg image_iff) (use interps_arg in blast)

subsection \<open>A whole query\<close>

lemma compiles_phCond:
  assumes "argsAt args n (condArgs c)" and "int (length args) \<le> max_int64"
  shows "compiles proxy args (phCond n c) vals (qmCond c) (vals @ condArgs c)"
proof (cases c)
  case (CIn f vs)
  have "compiles proxy args (join '', '' (map ph [n..<n + length vs]) @ '')'') vals
      (join '', '' (map (\<lambda>_. ''?'') vs) @ '')'') (vals @ vs)"
    using assms CIn by (intro compiles_append [OF compiles_ph_list compiles_clean]) auto
  then show ?thesis
    using CIn by (auto intro!: compiles_escape_append compiles_clean_append [of "'' IN (''", simplified])
qed (use assms in \<open>auto intro!: compiles_escape_append compiles_clean_append [of "'' = ''", simplified]
      compiles_clean_append [of "'' <> ''", simplified] compiles_clean_append [of "'' > ''", simplified] compiles_ph\<close>)

lemma interps_qmCond:
  assumes "plain (condField c)"
  shows "interps (qmCond c) (condArgs c) (renderCond c)"
proof (cases c)
  case (CIn f vs)
  have "interps (f @ '' IN ('' @ join '', '' (map (\<lambda>_. ''?'') vs) @ '')'') ([] @ [] @ vs @ [])
     (f @ '' IN ('' @ join '', '' (map quoteStringValue vs) @ '')'')"
    using assms CIn by (intro interps_append interps_plain interps_qm_list) auto
  with CIn show ?thesis by simp
next
  case (CEq f v)
  have "interps (f @ '' = '' @ ''?'') ([] @ [] @ [v]) (f @ '' = '' @ quoteStringValue v)"
    using assms CEq by (intro interps_append interps_plain interps_arg) auto
  with CEq show ?thesis by simp
next
  case (CNe f v)
  have "interps (f @ '' <> '' @ ''?'') ([] @ [] @ [v]) (f @ '' <> '' @ quoteStringValue v)"
    using assms CNe by (intro interps_append interps_plain interps_arg) auto
  with CNe show ?thesis by simp
next
  case (CGt f v)
  have "interps (f @ '' > '' @ ''?'') ([] @ [] @ [v]) (f @ '' > '' @ quoteStringValue v)"
    using assms CGt by (intro interps_append interps_plain interps_arg) auto
  with CGt show ?thesis by simp
qed

lemma compiles_phConds:
  assumes "argsAt args n (allArgs cs)" and "int (length args) \<le> max_int64"
  shows "compiles proxy args (join '' AND '' (phConds n cs)) vals (join '' AND '' (map qmCond cs))
     (vals @ allArgs cs)"
proof -
  have "\<exists>ps. map fst ps = phConds n cs \<and> map (\<lambda>p. fst (snd p)) ps = map qmCond cs
      \<and> concat (map (\<lambda>p. snd (snd p)) ps) = allArgs cs
      \<and> (\<forall>(t, out, us) \<in> set ps. \<forall>vals. compiles proxy args t vals out (vals @ us))"
    using assms(1)
  proof (induction cs arbitrary: n)
    case Nil
    then show ?case by (intro exI [of _ "[]"]) simp
  next
    case (Cons c cs)
    then have c: "argsAt args n (condArgs c)" and cs: "argsAt args (n + length (condArgs c)) (allArgs cs)"
      by (simp_all add: argsAt_append)
    from Cons.IH [OF cs] obtain ps where "map fst ps = phConds (n + length (condArgs c)) cs"
      "map (\<lambda>p. fst (snd p)) ps = map qmCond cs" "concat (map (\<lambda>p. snd (snd p)) ps) = allArgs cs"
      "\<forall>(t, out, us) \<in> set ps. \<forall>vals. compiles proxy args t vals out (vals @ us)" by blast
    then show ?case
      using compiles_phCond [OF c assms(2)]
      by (intro exI [of _ "(phCond n c, qmCond c, condArgs c) # ps"]) simp
  qed
  then obtain ps where ps: "map fst ps = phConds n cs" "map (\<lambda>p. fst (snd p)) ps = map qmCond cs"
      "concat (map (\<lambda>p. snd (snd p)) ps) = allArgs cs"
      "\<forall>(t, out, us) \<in> set ps. \<forall>vals. compiles proxy args t vals out (vals @ us)"
    by blast
  have "compiles proxy args (join '' AND '' (map fst ps)) vals (join '' AND '' (map (\<lambda>p. fst (snd p)) ps))
     (vals @ concat (map (\<lambda>p. snd (snd p)) ps))"
    using ps(4) by (intro compiles_join) auto
  with ps show ?thesis by simp
qed

lemma interps_qmConds:
  assumes "\<forall>c \<in> set cs. plain (condField c)"
  shows "interps (join '' AND '' (map qmCond cs)) (allArgs cs) (join '' AND '' (map renderCond cs))"
  using interps_join [of "map (\<lambda>c. (qmCond c, condArgs c, renderCond c)) cs" "'' AND ''"]
    assms interps_qmCond by (auto simp: comp_def)

definition clean :: "string \<Rightarrow> bool" where
  "clean t \<longleftrightarrow> CHR ''$'' \<notin> set t \<and> plain t"

definition selectText :: "string list \<Rightarrow> string \<Rightarrow> string" where
  "selectText cols t = ''SELECT '' @ join '', '' cols @ '' FROM '' @ t"

lemma clean_append [simp]: "clean (s @ t) \<longleftrightarrow> clean s \<and> clean t"
  by (auto simp: clean_def)

lemma clean_join: "\<forall>c \<in> set cols. clean c \<Longrightarrow> clean sep \<Longrightarrow> clean (join sep cols)"
  by (induction sep cols rule: join.induct) (auto simp: clean_def)

lemma clean_literals [simp]: "clean '', ''" "clean ''SELECT ''" "clean '' FROM ''" "clean '' ORDER BY ''"
    "clean '' ''" "clean []" "clean ''WHERE ''"
  by (simp_all add: clean_def plain_char_def)

lemma clean_selectText: "\<forall>c \<in> set cols. clean c \<Longrightarrow> clean t \<Longrightarrow> clean (selectText cols t)"
  unfolding selectText_def clean_append by (simp add: clean_join)

text \<open>The format of a query with conditions, and the SQL and arguments it is built to.\<close>

lemma sbFormat_query:
  "cols \<noteq> [] \<Longrightarrow> sb_selectCols sb = cols \<Longrightarrow> sb_tables sb = [t] \<Longrightarrow> sb_limit sb = - 1 \<Longrightarrow>
   sbFormat sb = selectText cols t
     @ (case sb_where sb of None \<Rightarrow> [] | Some _ \<Rightarrow> '' $0'')
     @ (if sb_orderByCols sb = [] then [] else '' ORDER BY '' @ join '', '' (sb_orderByCols sb))"
  by (auto simp: sbFormat_def leading_def selectText_def Let_def split: option.splits)

lemma sbBuild_conds:
  assumes sb: "sb_selectCols sb = cols" "sb_tables sb = [t]" "sb_limit sb = - 1" "sb_orderByCols sb = ords"
      "sb_args sb = WhereProxy # map StrArg (allArgs cs)"
      "sb_where sb = (if cs = [] then None else Some (phConds 1 cs))"
    and cl: "cols \<noteq> []" "\<forall>c \<in> set cols. clean c" "clean t" "\<forall>c \<in> set ords. clean c"
    and small: "int (Suc (length (allArgs cs))) \<le> max_int64"
  shows "sbBuild sb = Some (selectText cols t
      @ (if cs = [] then [] else '' WHERE '' @ join '' AND '' (map qmCond cs))
      @ (if ords = [] then [] else '' ORDER BY '' @ join '', '' ords), allArgs cs)"
proof -
  let ?proxy = "\<lambda>vals. case sb_where sb of None \<Rightarrow> None | Some es \<Rightarrow> buildWhere (sb_args sb) es vals"
  let ?ord = "if ords = [] then [] else '' ORDER BY '' @ join '', '' ords"
  have ord: "compileArgs ?proxy (sb_args sb) ?ord vals off = Some (?ord, vals)" for vals off
    using clean_join [OF cl(4), of "'', ''"]
    by (intro compileArgs_clean_all) (auto simp: clean_def)
  have pre: "CHR ''$'' \<notin> set (selectText cols t)"
    using clean_selectText [OF cl(2,3)] by (simp add: clean_def)
  show ?thesis
  proof (cases "cs = []")
    case True
    with sb cl(1) have "sbFormat sb = selectText cols t @ ?ord" by (simp add: sbFormat_query)
    then show ?thesis
      unfolding sbBuild_def using compileArgs_clean [OF pre] ord True by simp
  next
    case False
    have "argsAt (sb_args sb) 1 (allArgs cs)"
      using argsAt_self [of "[WhereProxy]" "allArgs cs"] sb(5) by simp
    moreover have "int (length (sb_args sb)) \<le> max_int64" using small sb(5) by simp
    ultimately have "compiles (\<lambda>_. None) (sb_args sb) (join '' AND '' (phConds 1 cs)) []
        (join '' AND '' (map qmCond cs)) ([] @ allArgs cs)"
      by (rule compiles_phConds)
    then have wh: "?proxy [] = Some (''WHERE '' @ join '' AND '' (map qmCond cs), allArgs cs)"
      using False sb(6) by (simp add: buildWhere_def compiles_result)
    have fmt: "sbFormat sb = (selectText cols t @ '' '') @ ''$0'' @ ?ord"
      using False sb cl(1) by (simp add: sbFormat_query)
    have "CHR ''$'' \<notin> set (selectText cols t @ '' '')" using pre by simp
    from compileArgs_clean [OF this, of ?proxy "sb_args sb" "''$0'' @ ?ord" "[]" 0]
    have "sbBuild sb = prependOut (selectText cols t @ '' '')
        (compileArgs ?proxy (sb_args sb) (''$0'' @ ?ord) [] 0)"
      unfolding sbBuild_def fmt by simp
    also have "compileArgs ?proxy (sb_args sb) (''$0'' @ ?ord) [] 0
        = prependOut (''WHERE '' @ join '' AND '' (map qmCond cs)) (Some (?ord, allArgs cs))"
      using compileArgs_proxy [of "sb_args sb" ?ord ?proxy "[]" _ _ 0, OF _ _ _ wh] sb(5) ord by simp
    finally show ?thesis using False by simp
  qed
qed

lemma queryString_conds:
  assumes "cols \<noteq> []" "\<forall>c \<in> set cols. clean c" "clean t" "clean ord"
    and "\<forall>c \<in> set cs. plain (condField c)" and "int (Suc (length (allArgs cs))) \<le> max_int64"
    and q: "q = \<lparr>q_sb = sbFrom (sbSelect cols) [t], q_skipOrderBy = b\<rparr>"
  shows "queryString (let q' = foldl addCond q cs in if ord = [] then q' else OrderBy q' ord)
     = Some (renderQuery cols t cs ord)"
proof -
  let ?ords = "if ord = [] then [] else [ord]"
  let ?q = "let q' = foldl addCond q cs in if ord = [] then q' else OrderBy q' ord"
  have "sbBuild (q_sb ?q) = Some (selectText cols t
      @ (if cs = [] then [] else '' WHERE '' @ join '' AND '' (map qmCond cs))
      @ (if ?ords = [] then [] else '' ORDER BY '' @ join '', '' ?ords), allArgs cs)"
    using assms
    by (intro sbBuild_conds)
      (auto simp: OrderBy_def sbOrderBy_def foldl_addCond_sb sbFrom_def sbSelect_def newSelectBuilder_def Let_def)
  moreover have "interps (selectText cols t
      @ (if cs = [] then [] else '' WHERE '' @ join '' AND '' (map qmCond cs))
      @ (if ?ords = [] then [] else '' ORDER BY '' @ join '', '' ?ords))
      ([] @ allArgs cs @ [])
      (selectText cols t @ (if cs = [] then [] else '' WHERE '' @ join '' AND '' (map renderCond cs))
      @ (if ord = [] then [] else '' ORDER BY '' @ ord))"
  proof (intro interps_append)
    show "interps (selectText cols t) [] (selectText cols t)"
      using clean_selectText assms(2,3) by (intro interps_plain) (simp add: clean_def)
    show "interps (if cs = [] then [] else '' WHERE '' @ join '' AND '' (map qmCond cs)) (allArgs cs)
        (if cs = [] then [] else '' WHERE '' @ join '' AND '' (map renderCond cs))"
      using interps_append [OF interps_plain interps_qmConds [OF assms(5)], of "'' WHERE ''"]
        interps_plain [of "[]"] by (simp add: plain_char_def)
    show "interps (if ?ords = [] then [] else '' ORDER BY '' @ join '', '' ?ords) []
        (if ord = [] then [] else '' ORDER BY '' @ ord)"
      using assms(4) interps_plain [of "'' ORDER BY '' @ ord"] interps_plain [of "[]"]
      by (simp add: clean_def plain_char_def)
  qed
  ultimately show ?thesis
    by (simp add: queryString_def interps_result renderQuery_def selectText_def)
qed

lemma querySelectors_nonempty: "querySelectors tb sel \<noteq> []"
  by (simp add: querySelectors_def Let_def)

lemma clean_PK: "clean SalesforcePK"
  by (simp add: SalesforcePK_def clean_def plain_char_def)

lemma getQueryString_conds:
  assumes "\<forall>c \<in> set (querySelectors tb sel). clean c" and "clean tb"
    and "\<forall>c \<in> set cs. plain (condField c)" and "int (Suc (length (allArgs cs))) \<le> max_int64"
  shows "getQueryString (foldl addCond (NewQuery tb sel) cs) [] n
    = Some (renderQuery (querySelectors tb sel) tb cs SalesforcePK)"
  using queryString_conds [OF querySelectors_nonempty assms(1,2) clean_PK assms(3,4), of "NewQuery tb sel" False]
  by (simp add: getQueryString_def NewQuery_def SalesforcePK_def addCond_skip)

text \<open>The tables of the program and their columns are clean, so their queries always have a text.\<close>

definition knownTables :: "string list" where
  "knownTables = [TableNameGroupMemberships, TableNameGroups, TableNamePermissionAssignments, TableNamePermissionsSets,
     TableNameProfiles, TableNameUserLicenses, TableNameRoles, TableNameUsers, TablePermissionSetGroup,
     TablePermissionSetGroupComponent, TableNameConnectedApps, TableNameUserLogin, TableNameTerritory2,
     TableNameTerritory2Model, TableNameUserTerritory2Assoc, TableNamePicklistValueInfo, TableNameBotDefinition]"

lemma known_clean:
  "tb \<in> set knownTables \<Longrightarrow> clean tb \<and> (\<forall>c \<in> set (querySelectors tb []). clean c)"
  unfolding knownTables_def
  by (simp, elim disjE)
    (simp_all add: table_defs querySelectors_def TableNamesToFieldsMapping_def clean_def plain_char_def)

lemmas getQueryString_known = getQueryString_conds [OF conjunct2 [OF known_clean] conjunct1 [OF known_clean]]

section \<open>Queries and page paths\<close>

text \<open>
  The client tells a query from the path of a page by its prefix. A query that selects columns is never taken for a
  path: its text starts with \<open>SELECT\<close>, or is the error text of the builder.
\<close>

definition selects :: "SalesforceQuery \<Rightarrow> bool" where
  "selects q \<longleftrightarrow> sb_selectCols (q_sb q) \<noteq> []"

lemma selects_simps [simp]:
  "selects (NewQuery tb sel)" "selects (NewIDQuery tb)" "selects (WithoutOrderBy q) = selects q"
  "selects (WhereEq q f v) = selects q" "selects (WhereBoolEq q f b) = selects q" "selects (WhereNotEq q f v) = selects q"
  "selects (WhereGT q f v) = selects q" "selects (whereIn q f vs) = selects q" "selects (OrderBy q f) = selects q"
  "selects (LimitQuery q n) = selects q"
  by (auto simp: selects_def query_defs querySelectors_nonempty [unfolded querySelectors_def] Let_def split: prod.splits)

lemma sbFormat_starts: "sb_selectCols sb \<noteq> [] \<Longrightarrow> \<exists>rest. sbFormat sb = CHR ''S'' # rest"
  by (simp add: sbFormat_def leading_def Let_def split: option.split)

lemma queryString_no_path:
  assumes "queryString q = Some qs" and "selects q"
  shows "\<not> hasPrefix qs ''/services/data''"
proof -
  obtain rest where "sbFormat (q_sb q) = CHR ''S'' # rest" using sbFormat_starts assms(2) by (auto simp: selects_def)
  with assms(1) obtain sql args where "sbBuild (q_sb q) = Some (CHR ''S'' # sql, args)"
    and qs: "qs = (case mysqlInterpolate None False (CHR ''S'' # sql) args of None \<Rightarrow> ''invalid query'' | Some s \<Rightarrow> s)"
    by (auto simp: queryString_def sbBuild_def compileArgs_char prependOut_def split: option.splits)
  then show ?thesis
    by (cases "mysqlInterpolate None False sql args") (simp_all add: mysqlInterpolate.simps(2) hasPrefix_def)
qed

lemma renderQuery_no_path [simp]: "\<not> hasPrefix (renderQuery cols tb cs order) ''/services/data''"
  by (simp add: renderQuery_def hasPrefix_def)

lemma getQueryString_no_path:
  "getQueryString q [] n = Some qs \<Longrightarrow> selects q \<Longrightarrow> \<not> hasPrefix qs ''/services/data''"
  using queryString_no_path by (auto simp: getQueryString_def split: if_splits)

section \<open>Properties\<close>

text \<open>
  C10. The query the connector sends is the query it means: for any table, any columns and any list
  of conditions on any values (quotes, backslashes, question marks, dollar signs and control
  characters included), the builder's placeholders, compilation and interpolation produce exactly the
  reference text with every value as a string literal in its place, ordered by id.
\<close>

theorem getQueryString_renders:
  assumes "\<forall>c \<in> set (querySelectors tb sel). clean c" and "clean tb"
    and "\<forall>c \<in> set cs. plain (condField c)" and "int (Suc (length (allArgs cs))) \<le> max_int64"
  shows "getQueryString (foldl addCond (NewQuery tb sel) cs) '''' n
    = Some (renderQuery (querySelectors tb sel) tb cs SalesforcePK)"
  using assms by (rule getQueryString_conds)

theorem getQueryString_renders_witness:
  "getQueryString (WhereEq (WhereEq (NewQuery TableNameRoles []) ''Name'' [CHR 0x27, CHR ''?'', CHR ''$'', CHR ''1'']) ''Id'' ''x'') '''' 100
   = Some (renderQuery [''Name'', ''Id''] TableNameRoles
       [CEq ''Name'' [CHR 0x27, CHR ''?'', CHR ''$'', CHR ''1''], CEq ''Id'' ''x''] ''Id'')"
proof -
  have sel: "querySelectors TableNameRoles [] = [''Name'', ''Id'']"
    by (simp add: querySelectors_def TableNamesToFieldsMapping_def table_defs)
  show ?thesis
    using getQueryString_renders [of TableNameRoles "[]"
        "[CEq ''Name'' [CHR 0x27, CHR ''?'', CHR ''$'', CHR ''1''], CEq ''Id'' ''x'']" 100]
    unfolding sel by (simp add: clean_def plain_char_def table_defs max_int64_def)
qed

text \<open>
  C6. No value can leave its literal: in a query with a condition on a value, a reader of the query
  language finds behind the comparison exactly that value and, behind its literal, exactly the rest
  of the query, for any bytes in the value.
\<close>

theorem soql_value_stays_in_literal:
  assumes "\<forall>c \<in> set (querySelectors tb sel). clean c" and "clean tb" and "plain f"
  shows "\<exists>pre post. getQueryString (WhereEq (NewQuery tb sel) f v) '''' n = Some (pre @ f @ '' = '' @ post)
    \<and> readLiteral post = Some (v, '' ORDER BY Id'')"
proof -
  have "getQueryString (foldl addCond (NewQuery tb sel) [CEq f v]) '''' n
      = Some (renderQuery (querySelectors tb sel) tb [CEq f v] SalesforcePK)"
    using assms by (intro getQueryString_conds) (simp_all add: max_int64_def)
  then have "getQueryString (WhereEq (NewQuery tb sel) f v) '''' n
      = Some ((''SELECT '' @ join '', '' (querySelectors tb sel) @ '' FROM '' @ tb @ '' WHERE '')
        @ f @ '' = '' @ quoteStringValue v @ '' ORDER BY Id'')"
    by (simp add: renderQuery_def SalesforcePK_def)
  then show ?thesis using quoted.dec_enc by blast
qed

theorem soql_value_stays_in_literal_witness:
  "\<exists>pre post. getQueryString (WhereEq (NewQuery TableNameRoles []) ''Name'' [CHR 0x27, CHR 0x5C, CHR 0x27]) '''' 1
      = Some (pre @ ''Name'' @ '' = '' @ post)
    \<and> readLiteral post = Some ([CHR 0x27, CHR 0x5C, CHR 0x27], '' ORDER BY Id'')"
proof -
  have sel: "querySelectors TableNameRoles [] = [''Name'', ''Id'']"
    by (simp add: querySelectors_def TableNamesToFieldsMapping_def table_defs)
  have "\<forall>c \<in> set (querySelectors TableNameRoles []). clean c" "clean TableNameRoles" "plain ''Name''"
    unfolding sel by (simp_all add: clean_def plain_char_def table_defs)
  then show ?thesis by (rule soql_value_stays_in_literal)
qed

end
