(* ===== verification/Sf_Client.thy ===== *)
theory Sf_Client
  imports Sf_SObject Soql_Query
begin

text \<open>
  The Salesforce client: the client object with its lazy initialisation (\<^verbatim>\<open>client/salesforce.go\<close>:
  \<open>New\<close>, \<open>Initialize\<close>, \<open>Ping\<close>) and the request helpers every other operation is built from
  (\<^verbatim>\<open>client/request.go\<close>). An operation maps the system state, the client object and the world, to a
  result and the new state; the outer option is a panic. A reply is the rate limit to report and
  either an error or the value.
\<close>

section \<open>State\<close>

record SalesforceClient =
  sc_baseUrl :: string
  sc_client :: "sfclient option"
  sc_salesforceTransport :: "transport option"
  sc_TokenSource :: bool
  sc_Username :: string
  sc_password :: string
  sc_securityToken :: string
  sc_initialized :: bool

record 'w sys =
  sys_c :: SalesforceClient
  sys_w :: 'w

type_synonym 'a reply = "RateLimitDescription option \<times> (goerror + 'a)"
type_synonym ('a, 'w) op = "'w sys \<Rightarrow> ('a \<times> 'w sys) option"

definition New :: "string \<Rightarrow> bool \<Rightarrow> string \<Rightarrow> string \<Rightarrow> string \<Rightarrow> SalesforceClient" where
  "New baseUrl tokenSource username password securityToken =
     \<lparr>sc_baseUrl = baseUrl, sc_client = None, sc_salesforceTransport = None, sc_TokenSource = tokenSource,
      sc_Username = username, sc_password = password, sc_securityToken = securityToken, sc_initialized = False\<rparr>"

section \<open>Initialisation\<close>

definition SalesforceClientID :: string where "SalesforceClientID = ''ConductorOne''"
definition DefaultAPIVersion :: string where "DefaultAPIVersion = ''54.0''"

text \<open>
  The construction of the HTTP clients: simpleforce's own client and wrapper, the intercepted
  client, and the wrapper around it, whose error is the only one that is wrapped.
\<close>

definition makeHttpClients :: "'w env \<Rightarrow> 'w \<Rightarrow> goerror option \<times> 'w" where
  "makeHttpClients env w =
     (case e_newClient env w of
        (Some e, w1) \<Rightarrow> (Some e, w1)
      | (None, w1) \<Rightarrow> (case e_newBaseClient env w1 of
          (Some e, w2) \<Rightarrow> (Some e, w2)
        | (None, w2) \<Rightarrow> (case e_newClient env w2 of
            (Some e, w3) \<Rightarrow> (Some e, w3)
          | (None, w3) \<Rightarrow> (case e_newBaseClient env w3 of
              (Some e, w4) \<Rightarrow> (Some (ErrWrap ''creating HTTP wrapper failed'' e), w4)
            | (None, w4) \<Rightarrow> (None, w4)))))"

definition instanceURLOf :: "string \<Rightarrow> token \<Rightarrow> string" where
  "instanceURLOf baseUrl tok =
     (case tok_instance_url tok of Some v \<Rightarrow> if v \<noteq> '''' then v else baseUrl | None \<Rightarrow> baseUrl)"

text \<open>Authentication: a token source takes precedence over the user name and password.\<close>

definition authenticate ::
  "'w env \<Rightarrow> SalesforceClient \<Rightarrow> sfclient \<Rightarrow> transport \<Rightarrow> 'w \<Rightarrow> ((goerror + sfclient) \<times> transport \<times> 'w) option" where
  "authenticate env c cl t w =
     (if sc_TokenSource c
      then (case e_token env w of
              (Inl e, w') \<Rightarrow> Some (Inl (ErrWrap ''baton-salesforce: failed to get token'' e), t, w')
            | (Inr tok, w') \<Rightarrow>
                Some (Inr (cl\<lparr>cl_sessionID := tok_AccessToken tok,
                  cl_instanceURL := instanceURLOf (sc_baseUrl c) tok\<rparr>), t, w'))
      else LoginPassword env (sc_Username c) (sc_password c) (sc_securityToken c) cl t w)"

definition Initialize :: "'w env \<Rightarrow> (goerror option, 'w) op" where
  "Initialize env s =
     (let c = sys_c s in
      if sc_initialized c then Some (None, s)
      else (case makeHttpClients env (sys_w s) of
              (Some e, w) \<Rightarrow> Some (Some e, s\<lparr>sys_w := w\<rparr>)
            | (None, w) \<Rightarrow>
                do {
                  (r, t, w') \<leftarrow> authenticate env c (newSfClient (sc_baseUrl c) SalesforceClientID DefaultAPIVersion)
                     \<lparr>tr_rateLimit = Some emptyRateLimit, tr_tokenSource = sc_TokenSource c\<rparr> w;
                  Some (case r of
                    Inl e \<Rightarrow> (Some e, s\<lparr>sys_w := w'\<rparr>)
                  | Inr cl \<Rightarrow> (None, s\<lparr>sys_c := c\<lparr>sc_client := Some cl, sc_salesforceTransport := Some t,
                                                  sc_initialized := True\<rparr>, sys_w := w'\<rparr>))
                }))"

text \<open>
  A call on the session of the client; a nil client or transport is a panic. The transport is the
  one the HTTP client of the session uses, so what a request leaves in it is what the next line of
  Go reads from \<open>c.salesforceTransport\<close>.
\<close>

definition onClient ::
  "(sfclient \<Rightarrow> transport \<Rightarrow> 'w \<Rightarrow> ('a \<times> transport \<times> 'w) option) \<Rightarrow> ('a, 'w) op" where
  "onClient f s =
     do {
       cl \<leftarrow> sc_client (sys_c s);
       t \<leftarrow> sc_salesforceTransport (sys_c s);
       (r, t', w') \<leftarrow> f cl t (sys_w s);
       Some (r, s\<lparr>sys_c := (sys_c s)\<lparr>sc_salesforceTransport := Some t'\<rparr>, sys_w := w'\<rparr>)
     }"

text \<open>\<open>c.salesforceTransport.rateLimit\<close>.\<close>

definition rateLimitOf :: "'w sys \<Rightarrow> RateLimitDescription option option" where
  "rateLimitOf s = do { t \<leftarrow> sc_salesforceTransport (sys_c s); Some (tr_rateLimit t) }"

text \<open>
  The shape all operations share: initialise, and stop with the error and no rate limit when that
  fails; otherwise call the session and pair its result with the rate limit it left.
\<close>

definition initCall ::
  "'w env \<Rightarrow> (sfclient \<Rightarrow> transport \<Rightarrow> 'w \<Rightarrow> ((goerror + 'a) \<times> transport \<times> 'w) option) \<Rightarrow> ('a reply, 'w) op" where
  "initCall env f s =
     do {
       (err, s) \<leftarrow> Initialize env s;
       case err of
         Some e \<Rightarrow> Some ((None, Inl e), s)
       | None \<Rightarrow> do { (r, s) \<leftarrow> onClient f s; rl \<leftarrow> rateLimitOf s; Some ((rl, r), s) }
     }"

definition LimitsPath :: string where "LimitsPath = ''/services/data/v64.0/limits''"

definition wrapErr :: "string \<Rightarrow> goerror + 'a \<Rightarrow> goerror + 'a" where
  "wrapErr m r = (case r of Inl e \<Rightarrow> Inl (ErrWrap m e) | Inr x \<Rightarrow> Inr x)"

definition Ping :: "'w env \<Rightarrow> (unit reply, 'w) op" where
  "Ping env s =
     do {
       (err, s) \<leftarrow> Initialize env s;
       case err of
         Some e \<Rightarrow> Some ((None, Inl (ErrWrap ''salesforce-connector: failed to initialize client'' e)), s)
       | None \<Rightarrow>
           do {
             (r, s) \<leftarrow> onClient (ApexREST env ''GET'' LimitsPath) s;
             rl \<leftarrow> rateLimitOf s;
             Some ((rl, case r of
                          Inl e \<Rightarrow> Inl (ErrWrap ''salesforce-connector: error validating credentials'' e)
                        | Inr _ \<Rightarrow> Inr ()), s)
           }
     }"

section \<open>Requests\<close>

definition isSalesforceDuplicateError :: "goerror \<Rightarrow> bool" where
  "isSalesforceDuplicateError err \<longleftrightarrow> sfErrorCode err = Some ''DUPLICATE_VALUE''"

definition isSObjectNotSupportedError :: "goerror \<Rightarrow> bool" where
  "isSObjectNotSupportedError err \<longleftrightarrow> sfErrorCode err = Some ''INVALID_TYPE''"

text \<open>A page of a listing: its items and the path of the next page, empty on the last one.\<close>

type_synonym 'a page = "'a list \<times> string"

definition pageOf :: "QueryResult \<Rightarrow> sobject page" where
  "pageOf r = (qr_Records r, if qr_Done r then '''' else qr_NextRecordsURL r)"

definition mapReply :: "('a \<Rightarrow> 'b) \<Rightarrow> 'a reply \<Rightarrow> 'b reply" where
  "mapReply f r = (fst r, case snd r of Inl e \<Rightarrow> Inl e | Inr x \<Rightarrow> Inr (f x))"

definition query :: "'w env \<Rightarrow> SalesforceQuery \<Rightarrow> string \<Rightarrow> int \<Rightarrow> (sobject page reply, 'w) op" where
  "query env q paginationPath pageSize s =
     do {
       (err, s) \<leftarrow> Initialize env s;
       case err of
         Some e \<Rightarrow> Some ((None, Inl e), s)
       | None \<Rightarrow>
           do {
             qs \<leftarrow> getQueryString q paginationPath pageSize;
             (r, s) \<leftarrow> onClient (clientQuery env qs) s;
             rl \<leftarrow> rateLimitOf s;
             Some (mapReply pageOf (rl, r), s)
           }
     }"

text \<open>
  \<open>queryWithAPIVersion\<close> hands simpleforce a full path with the version in it. The path and the
  encoded parameter contain no byte that \<open>url.URL.String\<close> would escape again.
\<close>

definition versionedPath :: "string \<Rightarrow> string \<Rightarrow> string" where
  "versionedPath apiVersion soql = ''/services/data/v'' @ apiVersion @ ''/query?q='' @ QueryEscape soql"

definition queryWithAPIVersion ::
  "'w env \<Rightarrow> SalesforceQuery \<Rightarrow> string \<Rightarrow> string \<Rightarrow> (sobject page reply, 'w) op" where
  "queryWithAPIVersion env q paginationPath apiVersion s =
     do {
       (err, s) \<leftarrow> Initialize env s;
       case err of
         Some e \<Rightarrow> Some ((None, Inl e), s)
       | None \<Rightarrow>
           do {
             qs \<leftarrow> (if paginationPath = ''''
                    then map_option (versionedPath apiVersion) (queryString (OrderBy q SalesforcePK))
                    else Some paginationPath);
             (r, s) \<leftarrow> onClient (clientQuery env qs) s;
             rl \<leftarrow> rateLimitOf s;
             Some (mapReply pageOf (rl, wrapErr (''baton-salesforce: query failed (API v'' @ apiVersion @ '')'') r), s)
           }
     }"

text \<open>
  \<open>getSObject\<close>: the first record; none is \<open>ErrObjectNotFound\<close>. (With several records the query
  text is logged as well.)
\<close>

definition firstRecord :: "sobject page reply \<Rightarrow> sobject reply" where
  "firstRecord r = (fst r, case snd r of
      Inl e \<Rightarrow> Inl e
    | Inr (recs, _) \<Rightarrow> (case recs of [] \<Rightarrow> Inl ErrObjectNotFound | x # _ \<Rightarrow> Inr x))"

definition getSObject :: "'w env \<Rightarrow> SalesforceQuery \<Rightarrow> (sobject reply, 'w) op" where
  "getSObject env q s = do { (r, s) \<leftarrow> query env q '''' (- 1) s; Some (firstRecord r, s) }"

text \<open>Setting every entry of a Go map on a record: the order does not matter, keys are unique.\<close>

definition setFields :: "sobject \<Rightarrow> gomap \<Rightarrow> sobject" where
  "setFields obj values = obj ++ values"

definition CreateObject :: "'w env \<Rightarrow> string \<Rightarrow> gomap \<Rightarrow> (unit reply, 'w) op" where
  "CreateObject env tableName values s =
     do {
       (r, s) \<leftarrow> initCall env (\<lambda>cl. sobjCreate env cl (setFields (newSObject tableName) values)) s;
       Some (mapReply (\<lambda>_. ()) r, s)
     }"

definition UpdateObject :: "'w env \<Rightarrow> string \<Rightarrow> string \<Rightarrow> gomap \<Rightarrow> (unit reply, 'w) op" where
  "UpdateObject env tableName i values s =
     do {
       (err, s) \<leftarrow> Initialize env s;
       case err of
         Some e \<Rightarrow> Some ((None, Inl e), s)
       | None \<Rightarrow>
           do {
             (r, s) \<leftarrow> onClient (\<lambda>cl. sobjUpdate env cl
               (setFields (setField (newSObject tableName) ''Id'' (VString i)) values)) s;
             rl \<leftarrow> rateLimitOf s;
             Some (mapReply (\<lambda>_. ()) (rl, wrapErr (''baton-salesforce: failed to update '' @ tableName) r), s)
           }
     }"

definition DeleteObject :: "'w env \<Rightarrow> string \<Rightarrow> string \<Rightarrow> (unit reply, 'w) op" where
  "DeleteObject env tableName i s =
     do {
       (err, s) \<leftarrow> Initialize env s;
       case err of
         Some e \<Rightarrow> Some ((None, Inl e), s)
       | None \<Rightarrow>
           do {
             (r, s) \<leftarrow> onClient (\<lambda>cl. sobjDelete env cl (setField (newSObject tableName) ''Id'' (VString i))) s;
             rl \<leftarrow> rateLimitOf s;
             Some ((rl, case r of Some e \<Rightarrow> Inl e | None \<Rightarrow> Inr ()), s)
           }
     }"

text \<open>\<open>getOneUser\<close> reports the rate limit only when the request succeeds.\<close>

definition getOneUser :: "'w env \<Rightarrow> string \<Rightarrow> (sobject reply, 'w) op" where
  "getOneUser env userId s =
     do {
       (err, s) \<leftarrow> Initialize env s;
       case err of
         Some e \<Rightarrow> Some ((None, Inl e), s)
       | None \<Rightarrow>
           do {
             (r, s) \<leftarrow> onClient (\<lambda>cl. sobjGet env cl (newSObject TableNameUsers) userId) s;
             rl \<leftarrow> rateLimitOf s;
             Some (case r of
                     Inl e \<Rightarrow> (None, Inl e)
                   | Inr None \<Rightarrow> (rl, Inl (ErrNew (''missing user '' @ userId)))
                   | Inr (Some user) \<Rightarrow> (rl, Inr user), s)
           }
     }"

definition updateUser :: "'w env \<Rightarrow> sobject \<Rightarrow> string \<Rightarrow> string \<Rightarrow> (unit reply, 'w) op" where
  "updateUser env user fieldName value s =
     do {
       (r, s) \<leftarrow> onClient (\<lambda>cl. sobjUpdate env cl (setField user fieldName (VString value))) s;
       rl \<leftarrow> rateLimitOf s;
       Some (mapReply (\<lambda>_. ()) (rl, r), s)
     }"

text \<open>\<open>copySObject\<close> with one allowed field: type, id, external id and the field if it is not empty.\<close>

definition copySObject :: "sobject \<Rightarrow> string \<Rightarrow> sobject option" where
  "copySObject obj field =
     do {
       ty \<leftarrow> sobjType obj;
       let r1 = setField (newSObject ty) ''Id'' (VString (sobjID obj));
       let r2 = (if ExternalIDFieldName obj \<noteq> ''''
                 then setField r1 (ExternalIDFieldName obj) (VString (ExternalID obj)) else r1);
       Some (if StringField obj field = '''' then r2 else setField r2 field (VString (StringField obj field)))
     }"

definition setValue :: "'w env \<Rightarrow> string \<Rightarrow> string \<Rightarrow> string \<Rightarrow> (unit reply, 'w) op" where
  "setValue env userId fieldName fieldValue s =
     do {
       ((rl, r), s) \<leftarrow> getOneUser env userId s;
       case r of
         Inl e \<Rightarrow> Some ((rl, Inl e), s)
       | Inr user \<Rightarrow> do { cp \<leftarrow> copySObject user fieldName; updateUser env cp fieldName fieldValue s }
     }"

definition setOneValue :: "'w env \<Rightarrow> string \<Rightarrow> string \<Rightarrow> string \<Rightarrow> (unit reply, 'w) op" where
  "setOneValue env userId fieldName fieldValue s =
     do {
       ((rl, r), s) \<leftarrow> getOneUser env userId s;
       case r of
         Inl e \<Rightarrow> Some ((rl, Inl e), s)
       | Inr user \<Rightarrow> do { cp \<leftarrow> copySObject user fieldName; updateUser env cp fieldName fieldValue s }
     }"

definition clearValue :: "'w env \<Rightarrow> string \<Rightarrow> string \<Rightarrow> string \<Rightarrow> (unit reply, 'w) op" where
  "clearValue env userId fieldName fieldValue s =
     do {
       ((rl, r), s) \<leftarrow> getOneUser env userId s;
       case r of
         Inl e \<Rightarrow> Some ((rl, Inl e), s)
       | Inr user \<Rightarrow>
           if StringField user fieldName \<noteq> fieldValue
           then Some ((None, Inl (ErrNew (''missing '' @ fieldName @ '': '' @ fieldValue))), s)
           else do { cp \<leftarrow> copySObject user fieldName; updateUser env cp fieldName '''' s }
     }"

section \<open>The client invariant\<close>

text \<open>
  An initialised client has a session and a transport, and the transport authenticates the way the
  client does.
\<close>

definition client_ok :: "SalesforceClient \<Rightarrow> bool" where
  "client_ok c \<longleftrightarrow>
     (sc_initialized c \<longrightarrow>
        (\<exists>cl t. sc_client c = Some cl \<and> sc_salesforceTransport c = Some t \<and> tr_tokenSource t = sc_TokenSource c))"

text \<open>What an operation may do to the client object: the configuration stays, initialisation stays.\<close>

definition evolves :: "SalesforceClient \<Rightarrow> SalesforceClient \<Rightarrow> bool" where
  "evolves c c' \<longleftrightarrow>
     sc_baseUrl c' = sc_baseUrl c \<and> sc_TokenSource c' = sc_TokenSource c \<and> sc_Username c' = sc_Username c
     \<and> sc_password c' = sc_password c \<and> sc_securityToken c' = sc_securityToken c
     \<and> (sc_initialized c \<longrightarrow> sc_initialized c' \<and> sc_client c' = sc_client c)
     \<and> (client_ok c \<longrightarrow> client_ok c')"

lemma evolves_refl [simp]: "evolves c c"
  by (simp add: evolves_def)

lemma evolves_trans: "evolves c c' \<Longrightarrow> evolves c' c'' \<Longrightarrow> evolves c c''"
  by (auto simp: evolves_def)

text \<open>
  The contract of every operation on the client: whatever it returns, the client object evolves.
  The consequences are proved once for all operations.
\<close>

locale client_op =
  fixes oper :: "('a, 'w) op"
  assumes op_evolves: "oper s = Some (r, s') \<Longrightarrow> evolves (sys_c s) (sys_c s')"
begin

lemma op_ok: "oper s = Some (r, s') \<Longrightarrow> client_ok (sys_c s) \<Longrightarrow> client_ok (sys_c s')"
  using op_evolves by (auto simp: evolves_def)

lemma op_session:
  "oper s = Some (r, s') \<Longrightarrow> sc_initialized (sys_c s) \<Longrightarrow> sc_initialized (sys_c s') \<and> sc_client (sys_c s') = sc_client (sys_c s)"
  using op_evolves by (auto simp: evolves_def)

lemma op_then: "evolves c (sys_c s) \<Longrightarrow> oper s = Some (r, s') \<Longrightarrow> evolves c (sys_c s')"
  using op_evolves evolves_trans by blast

end

text \<open>No request changes how the transport authenticates.\<close>

definition keeps_source :: "(sfclient \<Rightarrow> transport \<Rightarrow> 'w \<Rightarrow> ('a \<times> transport \<times> 'w) option) \<Rightarrow> bool" where
  "keeps_source f \<longleftrightarrow> (\<forall>cl t w r t' w'. f cl t w = Some (r, t', w') \<longrightarrow> tr_tokenSource t' = tr_tokenSource t)"

lemma httpRequest_source:
  "httpRequest env cl t m u b w = Some (r, t', w') \<Longrightarrow> tr_tokenSource t' = tr_tokenSource t"
  by (auto simp: httpRequest_def Let_def Option.bind_eq_Some_conv dest!: uhttpDo_tokenSource
      split: option.splits prod.splits if_splits)

lemma LoginPassword_source:
  "LoginPassword env u p tk cl t w = Some (r, t', w') \<Longrightarrow> tr_tokenSource t' = tr_tokenSource t"
  by (auto simp: LoginPassword_def Let_def Option.bind_eq_Some_conv dest: uhttpDo_tokenSource
      split: option.splits prod.splits if_splits document.splits)

lemma keeps_source_calls [simp, intro]:
  "keeps_source (clientQuery env q)" "keeps_source (ApexREST env m p)"
  "keeps_source (\<lambda>cl. sobjGet env cl obj i)" "keeps_source (\<lambda>cl. sobjCreate env cl obj)"
  "keeps_source (\<lambda>cl. sobjUpdate env cl obj)" "keeps_source (\<lambda>cl. sobjDelete env cl obj)"
  by (auto simp: keeps_source_def clientQuery_def ApexREST_def sobjGet_def sobjCreate_def sobjUpdate_def sobjDelete_def
      Option.bind_eq_Some_conv dest: httpRequest_source split: if_splits sum.split_asm)

lemma keeps_sourceD: "keeps_source f \<Longrightarrow> f cl t w = Some (r, t', w') \<Longrightarrow> tr_tokenSource t' = tr_tokenSource t"
  unfolding keeps_source_def by blast

lemma onClient_evolves:
  assumes "onClient f s = Some (r, s')" and "keeps_source f"
  shows "evolves (sys_c s) (sys_c s')"
  using assms
  by (auto simp: onClient_def Option.bind_eq_Some_conv evolves_def client_ok_def dest: keeps_sourceD)

lemma authenticate_source:
  "authenticate env c cl t w = Some (r, t', w') \<Longrightarrow> tr_tokenSource t' = tr_tokenSource t"
  by (auto simp: authenticate_def dest: LoginPassword_source split: if_splits prod.splits sum.splits)

text \<open>What \<open>Initialize\<close> does when it has to work, by the outcome of the authentication.\<close>

lemma Initialize_cases:
  assumes "Initialize env s = Some (err, s')"
  obtains (already) "sc_initialized (sys_c s)" "err = None" "s' = s"
  | (failed) e w where "\<not> sc_initialized (sys_c s)" "err = Some e" "s' = s\<lparr>sys_w := w\<rparr>"
  | (fresh) cl t w where "\<not> sc_initialized (sys_c s)" "err = None" "tr_tokenSource t = sc_TokenSource (sys_c s)"
      "s' = s\<lparr>sys_c := (sys_c s)\<lparr>sc_client := Some cl, sc_salesforceTransport := Some t, sc_initialized := True\<rparr>, sys_w := w\<rparr>"
proof (cases "sc_initialized (sys_c s)")
  case True
  then have "err = None" "s' = s" using assms by (simp_all add: Initialize_def Let_def)
  with True show ?thesis by (rule already)
next
  case False
  obtain o1 w1 where mk: "makeHttpClients env (sys_w s) = (o1, w1)" by fastforce
  show ?thesis
  proof (cases o1)
    case (Some e)
    then have "err = Some e" "s' = s\<lparr>sys_w := w1\<rparr>" using assms False mk by (simp_all add: Initialize_def Let_def)
    with False show ?thesis by (rule failed)
  next
    case None
    with assms False mk obtain r t w where
      a: "authenticate env (sys_c s) (newSfClient (sc_baseUrl (sys_c s)) SalesforceClientID DefaultAPIVersion)
        \<lparr>tr_rateLimit = Some emptyRateLimit, tr_tokenSource = sc_TokenSource (sys_c s)\<rparr> w1 = Some (r, t, w)"
      by (auto simp: Initialize_def Let_def Option.bind_eq_Some_conv)
    show ?thesis
    proof (cases r)
      case (Inl e)
      then have "err = Some e" "s' = s\<lparr>sys_w := w\<rparr>"
        using assms False mk None a by (simp_all add: Initialize_def Let_def)
      with False show ?thesis by (rule failed)
    next
      case (Inr cl)
      then have "err = None" "s' = s\<lparr>sys_c := (sys_c s)\<lparr>sc_client := Some cl, sc_salesforceTransport := Some t,
          sc_initialized := True\<rparr>, sys_w := w\<rparr>"
        using assms False mk None a by (simp_all add: Initialize_def Let_def)
      with False authenticate_source [OF a] show ?thesis by (intro fresh) simp_all
    qed
  qed
qed

lemma Initialize_evolves: "Initialize env s = Some (r, s') \<Longrightarrow> evolves (sys_c s) (sys_c s')"
  by (erule Initialize_cases) (auto simp: evolves_def client_ok_def)

lemma Initialize_done: "Initialize env s = Some (None, s') \<Longrightarrow> sc_initialized (sys_c s')"
  by (erule Initialize_cases) auto

lemma Initialize_failed: "Initialize env s = Some (Some e, s') \<Longrightarrow> sys_c s' = sys_c s"
  by (erule Initialize_cases) auto

lemma Initialize_again [simp]: "sc_initialized (sys_c s) \<Longrightarrow> Initialize env s = Some (None, s)"
  by (simp add: Initialize_def)

interpretation init: client_op "Initialize env" for env
  by unfold_locales (rule Initialize_evolves)

text \<open>An operation that initialises and then calls the session.\<close>

lemma init_then_call:
  assumes "Initialize env s = Some (err, s1)" and "onClient f s1 = Some (r, s')" and "keeps_source f"
  shows "evolves (sys_c s) (sys_c s')"
  using evolves_trans [OF Initialize_evolves [OF assms(1)] onClient_evolves [OF assms(2,3)]] .

lemmas op_splits = option.splits sum.splits if_splits prod.splits

interpretation query: client_op "query env q p n" for env q p n
  by unfold_locales
    (auto simp: query_def Option.bind_eq_Some_conv intro: Initialize_evolves init_then_call split: option.splits)

interpretation queryV: client_op "queryWithAPIVersion env q p v" for env q p v
  by unfold_locales
    (auto simp: queryWithAPIVersion_def Option.bind_eq_Some_conv intro: Initialize_evolves init_then_call
      split: option.splits)

interpretation create: client_op "CreateObject env tb vs" for env tb vs
  by unfold_locales
    (auto simp: CreateObject_def initCall_def Option.bind_eq_Some_conv intro: Initialize_evolves init_then_call
      split: option.splits)

interpretation update: client_op "UpdateObject env tb i vs" for env tb i vs
  by unfold_locales
    (auto simp: UpdateObject_def Option.bind_eq_Some_conv intro: Initialize_evolves init_then_call split: option.splits)

interpretation delete: client_op "DeleteObject env tb i" for env tb i
  by unfold_locales
    (auto simp: DeleteObject_def Option.bind_eq_Some_conv intro: Initialize_evolves init_then_call split: option.splits)

interpretation ping: client_op "Ping env" for env
  by unfold_locales
    (auto simp: Ping_def Option.bind_eq_Some_conv intro: Initialize_evolves init_then_call split: option.splits)

interpretation one_user: client_op "getOneUser env u" for env u
  by unfold_locales
    (auto simp: getOneUser_def Option.bind_eq_Some_conv intro: Initialize_evolves init_then_call split: option.splits)

interpretation update_user: client_op "updateUser env u f v" for env u f v
  by unfold_locales (auto simp: updateUser_def Option.bind_eq_Some_conv intro: onClient_evolves)

section \<open>What a write sends\<close>

text \<open>Field names that are not metadata of a record and not read-only, and so are sent.\<close>

definition sendable :: "string \<Rightarrow> bool" where
  "sendable k \<longleftrightarrow>
     k \<noteq> '''' \<and> k \<noteq> sobjectClientKey \<and> k \<noteq> sobjectAttributesKey \<and> k \<noteq> sobjectIDKey
     \<and> k \<noteq> sobjectExternalIDFieldNameKey \<and> k \<notin> set blacklistedUpdateFields"

lemma not_sendable [simp]:
  "\<not> sendable ''''" "\<not> sendable ''__client__''" "\<not> sendable ''attributes''" "\<not> sendable ''Id''" "\<not> sendable ''ExternalIDField''"
  by (simp_all add: sendable_def sobject_key_defs)

lemma sobjType_cong: "obj sobjectAttributesKey = obj' sobjectAttributesKey \<Longrightarrow> sobjType obj = sobjType obj'"
  by (simp add: sobjType_def mapIndex_def)

lemma StringField_cong: "obj k = obj' k \<Longrightarrow> StringField obj k = StringField obj' k"
  by (simp add: StringField_def mapIndex_def)

lemma sobjType_new [simp]: "sobjType (newSObject ty) = Some ty"
  by (simp add: newSObject_eq sobjType_def mapIndex_def sobject_key_defs)

lemma newSObject_fields [simp]:
  "newSObject ty ''Id'' = None" "newSObject ty ''ExternalIDField'' = None" "newSObject ty ''__client__'' = Some VClient"
  by (simp_all add: newSObject_eq sobject_key_defs)

text \<open>A record made from a table name, an optional id and values with ordinary names.\<close>

definition plainValues :: "gomap \<Rightarrow> bool" where
  "plainValues vs \<longleftrightarrow> (\<forall>k. vs k \<noteq> None \<longrightarrow> sendable k)"

lemma plainValues_none:
  assumes "plainValues vs"
  shows "vs ''__client__'' = None" "vs ''attributes'' = None" "vs ''Id'' = None" "vs ''ExternalIDField'' = None"
    "vs '''' = None" "k \<in> set blacklistedUpdateFields \<Longrightarrow> vs k = None"
  using assms unfolding plainValues_def by (metis not_sendable sendable_def)+

lemma plainValues_upd [simp]: "plainValues (vs(k \<mapsto> v)) \<longleftrightarrow> sendable k \<and> plainValues (\<lambda>x. if x = k then None else vs x)"
  by (auto simp: plainValues_def)

lemma plainValues_empty [simp]: "plainValues Map.empty" "plainValues (\<lambda>x. None)"
  by (auto simp: plainValues_def)

lemma record_with_values:
  assumes "plainValues vs" and "base ''attributes'' = Some (VAttributes ty u)" and "base ''__client__'' = Some VClient"
    and "base ''ExternalIDField'' = None" and "\<forall>k. sendable k \<longrightarrow> base k = None"
  shows "sobjType (base ++ vs) = Some ty" "hasClient (base ++ vs)" "sobjID (base ++ vs) = sobjID base"
    "makeCopy (base ++ vs) = vs"
proof -
  note none = plainValues_none [OF assms(1)]
  show "sobjType (base ++ vs) = Some ty"
    using assms none by (simp add: sobjType_def mapIndex_def map_add_def sobject_key_defs)
  show "hasClient (base ++ vs)"
    using assms none by (simp add: hasClient_def mapIndex_def map_add_def sobject_key_defs)
  show "sobjID (base ++ vs) = sobjID base"
    using none by (simp add: sobjID_def StringField_def mapIndex_def map_add_def sobject_key_defs)
  have "ExternalIDFieldName (base ++ vs) = ''''"
    using assms none by (simp add: ExternalIDFieldName_def StringField_def mapIndex_def map_add_def sobject_key_defs)
  then show "makeCopy (base ++ vs) = vs"
    using assms none
    by (auto simp: makeCopy_def fun_eq_iff map_add_def sobject_key_defs sendable_def split: option.splits)
qed

lemma newSObject_base:
  "newSObject ty ''attributes'' = Some (VAttributes ty '''')" "\<forall>k. sendable k \<longrightarrow> newSObject ty k = None"
  by (auto simp: newSObject_eq sobject_key_defs sendable_def)

lemma created_record:
  assumes "plainValues vs"
  shows "sobjType (setFields (newSObject ty) vs) = Some ty" "hasClient (setFields (newSObject ty) vs)"
    "makeCopy (setFields (newSObject ty) vs) = vs"
  unfolding setFields_def using record_with_values [OF assms newSObject_base(1) _ _ newSObject_base(2)] by simp_all

lemma updated_base:
  "setField (newSObject ty) ''Id'' (VString i) ''attributes'' = Some (VAttributes ty '''')"
  "setField (newSObject ty) ''Id'' (VString i) ''__client__'' = Some VClient"
  "setField (newSObject ty) ''Id'' (VString i) ''ExternalIDField'' = None"
  "\<forall>k. sendable k \<longrightarrow> setField (newSObject ty) ''Id'' (VString i) k = None"
  "sobjID (setField (newSObject ty) ''Id'' (VString i)) = i"
  by (auto simp: setField_def newSObject_eq sobject_key_defs sendable_def sobjID_def)

lemma updated_record:
  assumes "plainValues vs"
  shows "sobjType (setFields (setField (newSObject ty) ''Id'' (VString i)) vs) = Some ty"
    "hasClient (setFields (setField (newSObject ty) ''Id'' (VString i)) vs)"
    "sobjID (setFields (setField (newSObject ty) ''Id'' (VString i)) vs) = i"
    "makeCopy (setFields (setField (newSObject ty) ''Id'' (VString i)) vs) = vs"
  unfolding setFields_def
  using record_with_values [OF assms updated_base(1,2,3,4)] updated_base(5) by simp_all

lemma setFields_empty: "setFields obj Map.empty = obj"
  by (simp add: setFields_def)

lemmas deleted_record = updated_record [OF plainValues_empty(1), unfolded setFields_empty]

section \<open>Operations on an open session\<close>

definition session :: "'w sys \<Rightarrow> sfclient \<Rightarrow> transport \<Rightarrow> bool" where
  "session s cl t \<longleftrightarrow>
     sc_initialized (sys_c s) \<and> sc_client (sys_c s) = Some cl \<and> sc_salesforceTransport (sys_c s) = Some t"

text \<open>The state after a request that left the transport \<open>t\<close> and the world \<open>w\<close>.\<close>

definition after :: "'w sys \<Rightarrow> transport \<Rightarrow> 'w \<Rightarrow> 'w sys" where
  "after s t w = s\<lparr>sys_c := (sys_c s)\<lparr>sc_salesforceTransport := Some t\<rparr>, sys_w := w\<rparr>"

lemma client_ok_session: "client_ok (sys_c s) \<Longrightarrow> sc_initialized (sys_c s) \<Longrightarrow> \<exists>cl t. session s cl t"
  unfolding client_ok_def session_def by blast

lemma session_after [simp]: "session s cl t \<Longrightarrow> session (after s t' w) cl t'"
  by (simp add: session_def after_def)

lemma sys_w_after [simp]: "sys_w (after s t w) = w"
  by (simp add: after_def)

lemma after_same [simp]: "after s t w = after s t w' \<longleftrightarrow> w = w'"
  by (metis sys_w_after)

lemma after_after [simp]: "after (after s t w) t' w' = after s t' w'"
  by (simp add: after_def)

lemma onClient_session:
  "session s cl t \<Longrightarrow> f cl t (sys_w s) = Some (r, t', w') \<Longrightarrow> onClient f s = Some (r, after s t' w')"
  by (simp add: onClient_def session_def after_def)

lemma rateLimitOf_after [simp]: "rateLimitOf (after s t w) = Some (tr_rateLimit t)"
  by (simp add: rateLimitOf_def after_def)

lemma Initialize_session: "session s cl t \<Longrightarrow> Initialize env s = Some (None, s)"
  by (simp add: session_def)

text \<open>A write on an open session is one request with exactly the values given.\<close>

lemma CreateObject_session:
  assumes "session s cl t" and "plainValues vs" and "tb \<noteq> ''''"
    and "httpRequest env cl t ''POST'' (makeURL cl (sobjectPath tb '''')) (JsonBody vs) (sys_w s) = Some (r, t', w')"
  shows "CreateObject env tb vs s = Some ((tr_rateLimit t',
    case r of Inl e \<Rightarrow> Inl e | Inr doc \<Rightarrow> (case decodeCreated doc of Inl e \<Rightarrow> Inl e | Inr i \<Rightarrow> Inr ())), after s t' w')"
proof -
  let ?obj = "setFields (newSObject tb) vs"
  have "sobjCreate env cl ?obj t (sys_w s) = Some (case r of
      Inl e \<Rightarrow> Inl e
    | Inr doc \<Rightarrow> (case decodeCreated doc of Inl e \<Rightarrow> Inl e | Inr i \<Rightarrow> Inr (setID ?obj i)), t', w')"
    using assms by (simp add: sobjCreate_def created_record)
  from onClient_session [OF assms(1), of "\<lambda>cl. sobjCreate env cl ?obj", OF this] show ?thesis
    by (simp add: CreateObject_def initCall_def Initialize_session [OF assms(1)] mapReply_def split: sum.splits)
qed

lemma UpdateObject_session:
  assumes "session s cl t" and "plainValues vs" and "tb \<noteq> ''''" and "i \<noteq> ''''"
    and "httpRequest env cl t ''PATCH'' (makeURL cl (sobjectPath tb i)) (JsonBody vs) (sys_w s) = Some (r, t', w')"
  shows "UpdateObject env tb i vs s = Some ((tr_rateLimit t',
    case r of Inl e \<Rightarrow> Inl (ErrWrap (''baton-salesforce: failed to update '' @ tb) e) | Inr _ \<Rightarrow> Inr ()), after s t' w')"
proof -
  let ?obj = "setFields (setField (newSObject tb) ''Id'' (VString i)) vs"
  have "sobjUpdate env cl ?obj t (sys_w s) = Some (case r of Inl e \<Rightarrow> Inl e | Inr _ \<Rightarrow> Inr ?obj, t', w')"
    using assms by (simp add: sobjUpdate_def updated_record)
  from onClient_session [OF assms(1), of "\<lambda>cl. sobjUpdate env cl ?obj", OF this] show ?thesis
    by (simp add: UpdateObject_def Initialize_session [OF assms(1)] mapReply_def wrapErr_def split: sum.splits)
qed

lemma DeleteObject_session:
  assumes "session s cl t" and "tb \<noteq> ''''" and "i \<noteq> ''''"
    and "httpRequest env cl t ''DELETE'' (makeURL cl (sobjectPath tb i)) NoBody (sys_w s) = Some (r, t', w')"
  shows "DeleteObject env tb i s = Some ((tr_rateLimit t', case r of Inl e \<Rightarrow> Inl e | Inr _ \<Rightarrow> Inr ()), after s t' w')"
proof -
  let ?obj = "setField (newSObject tb) ''Id'' (VString i)"
  have "sobjDelete env cl ?obj t (sys_w s) = Some (case r of Inl e \<Rightarrow> Some e | Inr _ \<Rightarrow> None, t', w')"
    using assms by (simp add: sobjDelete_def deleted_record)
  from onClient_session [OF assms(1), of "\<lambda>cl. sobjDelete env cl ?obj", OF this] show ?thesis
    by (simp add: DeleteObject_def Initialize_session [OF assms(1)] split: sum.splits)
qed

lemma DeleteObject_no_id:
  assumes "session s cl t" and "tb \<noteq> ''''"
  shows "DeleteObject env tb '''' s = Some ((tr_rateLimit t, Inl ErrFailure), s)"
proof -
  have "after s t (sys_w s) = s" using assms(1) by (simp add: after_def session_def)
  moreover have "sobjDelete env cl (setField (newSObject tb) ''Id'' (VString '''')) t (sys_w s) = Some (Some ErrFailure, t, sys_w s)"
    by (simp add: sobjDelete_def deleted_record)
  note onClient_session [OF assms(1), of "\<lambda>cl. sobjDelete env cl (setField (newSObject tb) ''Id'' (VString ''''))", OF this]
  ultimately show ?thesis
    using rateLimitOf_after [of s t "sys_w s"] by (simp add: DeleteObject_def Initialize_session [OF assms(1)])
qed

lemma query_session:
  assumes "session s cl t" and "getQueryString q p n = Some qs"
    and "clientQuery env qs cl t (sys_w s) = Some (r, t', w')"
  shows "query env q p n s = Some (mapReply pageOf (tr_rateLimit t', r), after s t' w')"
  using onClient_session [OF assms(1), of "clientQuery env qs", OF assms(3)] assms(2)
  by (simp add: query_def Initialize_session [OF assms(1)])

text \<open>A decoded user: its type, its id and no external id.\<close>

definition userRecord :: "string \<Rightarrow> gomap \<Rightarrow> bool" where
  "userRecord uid m \<longleftrightarrow>
     (\<exists>a u. m ''attributes'' = Some (VMap a) \<and> a ''type'' = Some (VString ''User'') \<and> attrMember (mapIndex a ''url'') = Some u)
     \<and> m ''Id'' = Some (VString uid) \<and> uid \<noteq> '''' \<and> m ''ExternalIDField'' = None"

lemma userRecord_merged:
  assumes "userRecord uid m"
  shows "sobjType (newSObject ty ++ m) = Some ''User''" "sobjID (newSObject ty ++ m) = uid"
    "ExternalIDFieldName (newSObject ty ++ m) = ''''"
proof -
  have "newSObject ty ''ExternalIDField'' = None" by simp
  with assms show "sobjType (newSObject ty ++ m) = Some ''User''" "sobjID (newSObject ty ++ m) = uid"
    "ExternalIDFieldName (newSObject ty ++ m) = ''''"
    by (auto simp: userRecord_def sobjType_def sobjID_def ExternalIDFieldName_def StringField_def mapIndex_def
        map_add_def sobject_key_defs)
qed

lemma StringField_merged: "sendable f \<Longrightarrow> StringField (newSObject ty ++ m) f = StringField m f"
  using newSObject_base(2) [of ty] by (auto simp: StringField_def mapIndex_def map_add_def split: option.splits)

text \<open>The copy that is sent back: after setting one field, that field is all it sends.\<close>

lemma copySObject_sends:
  assumes "userRecord uid m" and "sendable f" and "copySObject (newSObject ty ++ m) f = Some cp"
  shows "sobjType (setField cp f (VString v)) = Some ''User''" "hasClient (setField cp f (VString v))"
    "sobjID (setField cp f (VString v)) = uid" "makeCopy (setField cp f (VString v)) = [f \<mapsto> VString v]"
proof -
  have pv: "plainValues [f \<mapsto> VString v]" using assms(2) by (auto simp: plainValues_def)
  have cp: "setField cp f (VString v) = setFields (setField (newSObject ''User'') ''Id'' (VString uid)) [f \<mapsto> VString v]"
    using assms(3) userRecord_merged [OF assms(1), of ty]
    by (auto simp: copySObject_def setField_def setFields_def Let_def split: if_splits)
  show "sobjType (setField cp f (VString v)) = Some ''User''" "hasClient (setField cp f (VString v))"
    "sobjID (setField cp f (VString v)) = uid" "makeCopy (setField cp f (VString v)) = [f \<mapsto> VString v]"
    unfolding cp by (simp_all only: updated_record [OF pv])
qed

lemma copySObject_some: "userRecord uid m \<Longrightarrow> \<exists>cp. copySObject (newSObject ty ++ m) f = Some cp"
  using userRecord_merged(1) [of uid m ty] by (simp add: copySObject_def Let_def)

lemma getOneUser_session:
  assumes "session s cl t" and "uid \<noteq> ''''"
    and "httpRequest env cl t ''GET'' (makeURL cl (sobjectPath ''User'' uid)) NoBody (sys_w s)
      = Some (Inr (JsonDoc x (VMap m)), t1, w1)"
  shows "getOneUser env uid s = Some ((tr_rateLimit t1, Inr (newSObject ''User'' ++ m)), after s t1 w1)"
proof -
  have "sobjGet env cl (newSObject ''User'') uid t (sys_w s) = Some (Inr (Some (newSObject ''User'' ++ m)), t1, w1)"
    using assms created_record(2) [OF plainValues_empty(1)] by (simp add: sobjGet_def setFields_empty)
  from onClient_session [OF assms(1), of "\<lambda>cl. sobjGet env cl (newSObject ''User'') uid", OF this] show ?thesis
    by (simp add: getOneUser_def Initialize_session [OF assms(1)] TableNameUsers_def)
qed

lemma updateUser_session:
  assumes "session s cl t" and "userRecord uid m" and "sendable f" and "copySObject (newSObject ty ++ m) f = Some cp"
    and "httpRequest env cl t ''PATCH'' (makeURL cl (sobjectPath ''User'' uid)) (JsonBody [f \<mapsto> VString v]) (sys_w s)
      = Some (r, t2, w2)"
  shows "updateUser env cp f v s = Some ((tr_rateLimit t2, case r of Inl e \<Rightarrow> Inl e | Inr _ \<Rightarrow> Inr ()), after s t2 w2)"
proof -
  have "uid \<noteq> ''''" using assms(2) by (simp add: userRecord_def)
  then have "sobjUpdate env cl (setField cp f (VString v)) t (sys_w s)
      = Some (case r of Inl e \<Rightarrow> Inl e | Inr _ \<Rightarrow> Inr (setField cp f (VString v)), t2, w2)"
    using copySObject_sends [OF assms(2-4), of v] assms(5) by (simp add: sobjUpdate_def)
  from onClient_session [OF assms(1), of "\<lambda>cl. sobjUpdate env cl (setField cp f (VString v))", OF this] show ?thesis
    by (simp add: updateUser_def mapReply_def split: sum.splits)
qed

lemma setOneValue_eq: "setOneValue = setValue"
  by (simp add: setOneValue_def setValue_def fun_eq_iff)

section \<open>Reachable states\<close>

text \<open>
  Any sequence of the primitive operations every client call is made of, each possibly failing, from
  a freshly made client.
\<close>

inductive client_reaches :: "'w env \<Rightarrow> SalesforceClient \<Rightarrow> 'w sys \<Rightarrow> bool" for env c0 where
  start: "sys_c s = c0 \<Longrightarrow> client_reaches env c0 s"
| ping: "client_reaches env c0 s \<Longrightarrow> Ping env s = Some (r, s') \<Longrightarrow> client_reaches env c0 s'"
| query: "client_reaches env c0 s \<Longrightarrow> query env q p n s = Some (r, s') \<Longrightarrow> client_reaches env c0 s'"
| queryV: "client_reaches env c0 s \<Longrightarrow> queryWithAPIVersion env q p v s = Some (r, s') \<Longrightarrow> client_reaches env c0 s'"
| create: "client_reaches env c0 s \<Longrightarrow> CreateObject env tb vs s = Some (r', s') \<Longrightarrow> client_reaches env c0 s'"
| update: "client_reaches env c0 s \<Longrightarrow> UpdateObject env tb i vs s = Some (r', s') \<Longrightarrow> client_reaches env c0 s'"
| delete: "client_reaches env c0 s \<Longrightarrow> DeleteObject env tb i s = Some (r', s') \<Longrightarrow> client_reaches env c0 s'"
| get: "client_reaches env c0 s \<Longrightarrow> getOneUser env u s = Some (r'', s') \<Longrightarrow> client_reaches env c0 s'"
| patch: "client_reaches env c0 s \<Longrightarrow> updateUser env obj f v s = Some (r', s') \<Longrightarrow> client_reaches env c0 s'"

lemma client_reaches_evolves: "client_reaches env c0 s \<Longrightarrow> evolves c0 (sys_c s)"
  by (induction rule: client_reaches.induct)
    (auto intro: ping.op_then query.op_then queryV.op_then create.op_then update.op_then delete.op_then
      one_user.op_then update_user.op_then)

section \<open>A concrete session\<close>

text \<open>An open session by password, for the examples; its world is the log of requests.\<close>

definition demoClient :: sfclient where
  "demoClient = \<lparr>cl_sessionID = ''sid'', cl_clientID = ''ConductorOne'', cl_apiVersion = ''54.0'',
     cl_baseURL = ''https://x'', cl_instanceURL = ''https://x''\<rparr>"

definition demoTransport :: transport where
  "demoTransport = \<lparr>tr_rateLimit = None, tr_tokenSource = False\<rparr>"

definition demoSys :: "request list sys" where
  "demoSys = \<lparr>sys_c = (New ''https://x'' False ''u'' ''p'' ''s'')\<lparr>sc_client := Some demoClient,
      sc_salesforceTransport := Some demoTransport, sc_initialized := True\<rparr>, sys_w = []\<rparr>"

lemma demo_session [simp]: "session demoSys demoClient demoTransport" "sys_w demoSys = []"
  "\<not> tr_tokenSource demoTransport" "demoTransport\<lparr>tr_rateLimit := None\<rparr> = demoTransport" "tr_rateLimit demoTransport = None"
  by (simp_all add: session_def demoSys_def demoTransport_def)

text \<open>A server that knows one user and accepts every write.\<close>

definition demoUser :: gomap where
  "demoUser = [''attributes'' \<mapsto> VMap [''type'' \<mapsto> VString ''User''], ''Id'' \<mapsto> VString ''005x'',
     ''UserRoleId'' \<mapsto> VString ''r1'']"

definition demoServer :: "request \<Rightarrow> response" where
  "demoServer rq = okResponse (if rq_method rq = ''GET'' then JsonDoc [] (VMap demoUser) else RawDoc [])"

definition demoRequest :: "string \<Rightarrow> string \<Rightarrow> reqbody \<Rightarrow> request" where
  "demoRequest m path body = bearerRequest ''sid'' m (makeURL demoClient path) body"

lemma demo_plain [simp]: "plainInstance demoClient ''x''"
  by (auto simp: plainInstance_def demoClient_def isHostName_def isHostByte_def isScheme_def plain_simps intro: exI [of _ "''https''"])

lemma demo_table [simp]: "isPlain ''User''" "isPlain ''005x''"
  by (simp_all add: plain_simps)

lemma demo_http:
  assumes "isOk (rs_status (f (demoRequest m path b)))" and "rs_header (f (demoRequest m path b)) = Map.empty"
    and "isPlain path"
  shows "httpRequest (logEnv f) demoClient demoTransport m (makeURL demoClient path) b w =
    Some (Inr (rs_body (f (demoRequest m path b))), demoTransport, w @ [demoRequest m path b])"
proof -
  have "cl_sessionID demoClient = ''sid''" by (simp add: demoClient_def)
  then show ?thesis
    using httpRequest_log [of demoTransport f demoClient m "makeURL demoClient path" b, OF _ refl] assms
      requestable_makeURL [OF demo_plain assms(3), of "[]"]
    by (simp add: demoRequest_def QueryEscape_def)
qed

lemma demoUser_record: "userRecord ''005x'' demoUser"
  by (auto simp: userRecord_def demoUser_def mapIndex_def)

lemma sendable_fields [simp]:
  "sendable ''UserRoleId''" "sendable ''ProfileId''" "sendable ''IsActive''"
  by (simp_all add: sendable_def sobject_key_defs blacklistedUpdateFields_def)

text \<open>Setting a field in a session: a read, then a PATCH of that field.\<close>

lemma setValue_session:
  assumes "session s cl t" and "userRecord uid m" and "sendable f"
    and "httpRequest env cl t ''GET'' (makeURL cl (sobjectPath ''User'' uid)) NoBody (sys_w s)
      = Some (Inr (JsonDoc x (VMap m)), t1, w1)"
    and "httpRequest env cl t1 ''PATCH'' (makeURL cl (sobjectPath ''User'' uid)) (JsonBody [f \<mapsto> VString v]) w1
      = Some (r, t2, w2)"
  shows "setValue env uid f v s
    = Some ((tr_rateLimit t2, case r of Inl e \<Rightarrow> Inl e | Inr _ \<Rightarrow> Inr ()), after s t2 w2)"
proof -
  have uid: "uid \<noteq> ''''" using assms(2) by (simp add: userRecord_def)
  obtain cp where cp: "copySObject (newSObject ''User'' ++ m) f = Some cp"
    using copySObject_some [OF assms(2)] by blast
  show ?thesis
    using updateUser_session [OF session_after [OF assms(1)] assms(2,3) cp] assms(5)
    by (simp add: setValue_def getOneUser_session [OF assms(1) uid assms(4)] cp)
qed

text \<open>Clearing a field in a session: a read, and a PATCH if the field has the expected value.\<close>

lemma clearValue_session:
  assumes "session s cl t" and "userRecord uid m" and "sendable f"
    and "httpRequest env cl t ''GET'' (makeURL cl (sobjectPath ''User'' uid)) NoBody (sys_w s)
      = Some (Inr (JsonDoc x (VMap m)), t1, w1)"
    and "httpRequest env cl t1 ''PATCH'' (makeURL cl (sobjectPath ''User'' uid)) (JsonBody [f \<mapsto> VString '''']) w1
      = Some (r, t2, w2)"
  shows "clearValue env uid f v s =
    (if StringField m f = v
     then Some ((tr_rateLimit t2, case r of Inl e \<Rightarrow> Inl e | Inr _ \<Rightarrow> Inr ()), after s t2 w2)
     else Some ((None, Inl (ErrNew (''missing '' @ f @ '': '' @ v))), after s t1 w1))"
proof -
  have uid: "uid \<noteq> ''''" using assms(2) by (simp add: userRecord_def)
  obtain cp where cp: "copySObject (newSObject ''User'' ++ m) f = Some cp"
    using copySObject_some [OF assms(2)] by blast
  show ?thesis
    using updateUser_session [OF session_after [OF assms(1)] assms(2,3) cp] assms(5)
    by (simp add: clearValue_def getOneUser_session [OF assms(1) uid assms(4)] cp StringField_merged [OF assms(3)])
qed

section \<open>Properties\<close>

text \<open>
  C20. Starting from \<open>New\<close>, no sequence of operations, whatever the network answers, changes the
  client's URL or credentials, and whenever the client is initialised it has a session and a
  transport that authenticates the way the client was configured: reading them never dereferences nil.
\<close>

theorem reachable_client_ok:
  assumes "client_reaches env (New url ts user pw sec) s"
  shows "client_ok (sys_c s) \<and> sc_baseUrl (sys_c s) = url \<and> sc_TokenSource (sys_c s) = ts
    \<and> sc_Username (sys_c s) = user \<and> sc_password (sys_c s) = pw \<and> sc_securityToken (sys_c s) = sec"
  using client_reaches_evolves [OF assms] by (auto simp: evolves_def New_def client_ok_def)

theorem reachable_client_ok_witness:
  "\<exists>s. client_reaches (fixedEnv \<lparr>rs_status = 200, rs_header = Map.empty, rs_body = RawDoc []\<rparr>
         \<lparr>tok_AccessToken = ''tok'', tok_instance_url = None\<rparr>) (New ''https://x'' True '''' '''' '''') s
     \<and> sc_initialized (sys_c s) \<and> client_ok (sys_c s) \<and> sc_baseUrl (sys_c s) = ''https://x''"
proof -
  let ?env = "fixedEnv \<lparr>rs_status = 200, rs_header = Map.empty, rs_body = RawDoc []\<rparr>
    \<lparr>tok_AccessToken = ''tok'', tok_instance_url = None\<rparr>"
  let ?c = "New ''https://x'' True '''' '''' ''''"
  let ?s = "\<lparr>sys_c = ?c, sys_w = 0\<rparr>"
  have "plainInstance (newSfClient ''https://x'' '''' ''1''\<lparr>cl_instanceURL := ''https://x''\<rparr>) ''x''"
    using demo_plain by (simp add: plainInstance_def newSfClient_def demoClient_def plain_simps)
  from requestable_rest [OF this, of LimitsPath]
  have limits: "requestable (''https://x'' @ ''/'' @ LimitsPath)" by (simp add: LimitsPath_def plain_simps)
  note [simp] = limits [simplified]
  obtain r s' where op: "Ping ?env ?s = Some (r, s')" "sc_initialized (sys_c s')"
    by (simp add: Ping_def Initialize_def makeHttpClients_def authenticate_def fixedEnv_def New_def onClient_def
        ApexREST_def isLoggedIn_def httpRequest_def uhttpDo_def noCache_def sendDo_def RoundTrip_def authorize_def
        finishDo_def isOk_def rateLimitOf_def instanceURLOf_def)
  have "client_reaches ?env ?c s'" using client_reaches.ping [OF client_reaches.start op(1)] by simp
  with op(2) reachable_client_ok [of ?env "''https://x''" True "''''" "''''" "''''" s'] show ?thesis by blast
qed

text \<open>
  C21. Initialisation is all or nothing and happens once: when \<open>Initialize\<close> fails the client object
  is what it was, so a later call tries again; when it succeeds there is an open session, and every
  later call returns at once without touching client or network.
\<close>

theorem Initialize_once:
  assumes "client_ok (sys_c s)" and "Initialize env s = Some (err, s')"
  shows "if err = None then (\<exists>cl t. session s' cl t) \<and> Initialize env s' = Some (None, s')
    else sys_c s' = sys_c s \<and> \<not> sc_initialized (sys_c s')"
  using assms(2)
proof (cases rule: Initialize_cases)
  case already
  with client_ok_session [OF assms(1)] show ?thesis by simp
next
  case (fresh cl t w)
  then have "session s' cl t" by (simp add: session_def)
  with fresh show ?thesis by auto
qed auto

theorem Initialize_once_witness:
  "\<exists>s'. Initialize ((fixedEnv \<lparr>rs_status = 200, rs_header = Map.empty, rs_body = RawDoc []\<rparr>
         \<lparr>tok_AccessToken = ''tok'', tok_instance_url = None\<rparr>)\<lparr>e_token := \<lambda>w. (Inl ErrFailure, Suc w)\<rparr>)
       \<lparr>sys_c = New ''u'' True '''' '''' '''', sys_w = 0\<rparr>
     = Some (Some (ErrWrap ''baton-salesforce: failed to get token'' ErrFailure), s')
   \<and> sys_c s' = New ''u'' True '''' '''' '''' \<and> \<not> sc_initialized (sys_c s')"
proof -
  let ?env = "(fixedEnv \<lparr>rs_status = 200, rs_header = Map.empty, rs_body = RawDoc []\<rparr>
         \<lparr>tok_AccessToken = ''tok'', tok_instance_url = None\<rparr>)\<lparr>e_token := \<lambda>w. (Inl ErrFailure, Suc w)\<rparr>"
  let ?s = "\<lparr>sys_c = New ''u'' True '''' '''' '''', sys_w = 0\<rparr>"
  have "Initialize ?env ?s
      = Some (Some (ErrWrap ''baton-salesforce: failed to get token'' ErrFailure), ?s\<lparr>sys_w := 1\<rparr>)"
    by (simp add: Initialize_def makeHttpClients_def authenticate_def fixedEnv_def New_def)
  moreover have "client_ok (sys_c ?s)" by (simp add: client_ok_def New_def)
  ultimately show ?thesis using Initialize_once [of ?s ?env] by fastforce
qed

text \<open>
  C11. Setting a field of a user (role, profile, active state) is one read of the user and one PATCH
  of that user whose body is exactly the one field with its new value: no other field of the record
  that was read is ever sent back. The result is the outcome of the PATCH.
\<close>

theorem setValue_patches_one_field:
  assumes "session s cl t" and "userRecord uid m" and "sendable f"
    and "httpRequest env cl t ''GET'' (makeURL cl (sobjectPath ''User'' uid)) NoBody (sys_w s)
      = Some (Inr (JsonDoc x (VMap m)), t1, w1)"
    and "httpRequest env cl t1 ''PATCH'' (makeURL cl (sobjectPath ''User'' uid)) (JsonBody [f \<mapsto> VString v]) w1
      = Some (r, t2, w2)"
  shows "setValue env uid f v s
    = Some ((tr_rateLimit t2, case r of Inl e \<Rightarrow> Inl e | Inr _ \<Rightarrow> Inr ()), after s t2 w2)"
  using assms by (rule setValue_session)

theorem setValue_patches_one_field_witness:
  "setValue (logEnv demoServer) ''005x'' ''UserRoleId'' ''r2'' demoSys
   = Some ((None, Inr ()), after demoSys demoTransport
       [demoRequest ''GET'' (sobjectPath ''User'' ''005x'') NoBody,
        demoRequest ''PATCH'' (sobjectPath ''User'' ''005x'') (JsonBody [''UserRoleId'' \<mapsto> VString ''r2''])])"
proof -
  let ?p = "sobjectPath ''User'' ''005x''" and ?b = "JsonBody [''UserRoleId'' \<mapsto> VString ''r2'']"
  have g: "httpRequest (logEnv demoServer) demoClient demoTransport ''GET'' (makeURL demoClient ?p) NoBody (sys_w demoSys)
      = Some (Inr (JsonDoc [] (VMap demoUser)), demoTransport, [demoRequest ''GET'' ?p NoBody])"
    by (subst demo_http) (simp_all add: demoServer_def demoRequest_def bearerRequest_def)
  have p: "httpRequest (logEnv demoServer) demoClient demoTransport ''PATCH'' (makeURL demoClient ?p) ?b
        [demoRequest ''GET'' ?p NoBody]
      = Some (Inr (RawDoc []), demoTransport, [demoRequest ''GET'' ?p NoBody, demoRequest ''PATCH'' ?p ?b])"
    by (subst demo_http) (simp_all add: demoServer_def demoRequest_def bearerRequest_def)
  show ?thesis
    using setValue_patches_one_field [OF demo_session(1) demoUser_record sendable_fields(1) g p] by simp
qed

text \<open>
  Clearing a field is guarded: when the user does not hold the expected value, nothing is
  written, the state is the one after the read, and the call fails; otherwise exactly that field is
  patched to the empty string.
\<close>

theorem clearValue_guarded:
  assumes "session s cl t" and "userRecord uid m" and "sendable f"
    and "httpRequest env cl t ''GET'' (makeURL cl (sobjectPath ''User'' uid)) NoBody (sys_w s)
      = Some (Inr (JsonDoc x (VMap m)), t1, w1)"
    and "httpRequest env cl t1 ''PATCH'' (makeURL cl (sobjectPath ''User'' uid)) (JsonBody [f \<mapsto> VString '''']) w1
      = Some (r, t2, w2)"
  shows "clearValue env uid f v s =
    (if StringField m f = v
     then Some ((tr_rateLimit t2, case r of Inl e \<Rightarrow> Inl e | Inr _ \<Rightarrow> Inr ()), after s t2 w2)
     else Some ((None, Inl (ErrNew (''missing '' @ f @ '': '' @ v))), after s t1 w1))"
  using clearValue_session [OF assms] .

theorem clearValue_guarded_witness:
  "clearValue (logEnv demoServer) ''005x'' ''UserRoleId'' ''r9'' demoSys
   = Some ((None, Inl (ErrNew ''missing UserRoleId: r9'')), after demoSys demoTransport
       [demoRequest ''GET'' (sobjectPath ''User'' ''005x'') NoBody])"
proof -
  let ?p = "sobjectPath ''User'' ''005x''" and ?b = "JsonBody [''UserRoleId'' \<mapsto> VString '''']"
  have g: "httpRequest (logEnv demoServer) demoClient demoTransport ''GET'' (makeURL demoClient ?p) NoBody (sys_w demoSys)
      = Some (Inr (JsonDoc [] (VMap demoUser)), demoTransport, [demoRequest ''GET'' ?p NoBody])"
    by (subst demo_http) (simp_all add: demoServer_def demoRequest_def bearerRequest_def)
  have p: "httpRequest (logEnv demoServer) demoClient demoTransport ''PATCH'' (makeURL demoClient ?p) ?b
        [demoRequest ''GET'' ?p NoBody]
      = Some (Inr (RawDoc []), demoTransport, [demoRequest ''GET'' ?p NoBody, demoRequest ''PATCH'' ?p ?b])"
    by (subst demo_http) (simp_all add: demoServer_def demoRequest_def bearerRequest_def)
  have "StringField demoUser ''UserRoleId'' = ''r1''" by (simp add: demoUser_def)
  then show ?thesis
    using clearValue_guarded [OF demo_session(1) demoUser_record sendable_fields(1) g p, of "''r9''"] by simp
qed

end
