(* ===== verification/Go_Time.thy ===== *)
theory Go_Time
  imports Go_Base
begin

text \<open>
  The timestamps of \<^verbatim>\<open>client/util.go\<close>: Go's \<open>time.Parse\<close> specialised to the layout
  \<^verbatim>\<open>2006-01-02T15:04:05.000-0700\<close> that \<open>parseSalesforceDatetime\<close> uses, chunk by chunk in the order
  the library consumes them, and the instant the fields denote. The scanner keeps the library's
  tolerance: an hour of one digit, a comma as decimal separator, a signed fraction and zone offsets
  up to 24:60.
\<close>

section \<open>Instants\<close>

record gotime =
  t_unix :: int
  t_nsec :: int

definition isLeap :: "int \<Rightarrow> bool" where
  "isLeap y \<longleftrightarrow> y mod 4 = 0 \<and> (y mod 100 \<noteq> 0 \<or> y mod 400 = 0)"

definition daysIn :: "int \<Rightarrow> int \<Rightarrow> int" where
  "daysIn m y =
     (if m = 2 then (if isLeap y then 29 else 28)
      else if m = 4 \<or> m = 6 \<or> m = 9 \<or> m = 11 then 30 else 31)"

text \<open>Days from 1 January of year 1 to the first day of a year and of a month.\<close>

definition daysBeforeYear :: "int \<Rightarrow> int" where
  "daysBeforeYear y = 365 * (y - 1) + (y - 1) div 4 - (y - 1) div 100 + (y - 1) div 400"

definition daysBeforeMonth :: "int \<Rightarrow> int \<Rightarrow> int" where
  "daysBeforeMonth m y =
     (if m = 1 then 0 else if m = 2 then 31
      else (if isLeap y then 1 else 0) +
        (if m = 3 then 59 else if m = 4 then 90 else if m = 5 then 120 else if m = 6 then 151
         else if m = 7 then 181 else if m = 8 then 212 else if m = 9 then 243 else if m = 10 then 273
         else if m = 11 then 304 else 334))"

text \<open>\<open>time.Date(..., time.UTC)\<close> as seconds since 1 January 1970 (day 719162).\<close>

definition dayNumber :: "int \<Rightarrow> int \<Rightarrow> int \<Rightarrow> int" where
  "dayNumber y m d = daysBeforeYear y + daysBeforeMonth m y + (d - 1)"

definition dateUnix :: "int \<Rightarrow> int \<Rightarrow> int \<Rightarrow> int \<Rightarrow> int \<Rightarrow> int \<Rightarrow> int" where
  "dateUnix y m d h mi s = (dayNumber y m d - 719162) * 86400 + h * 3600 + mi * 60 + s"

section \<open>The scanner\<close>

definition errBad :: goerror where "errBad = ErrNew ''bad value for field''"
definition errRange :: goerror where "errRange = ErrNew ''value out of range''"

definition dval :: "char \<Rightarrow> int" where
  "dval c = int (digit_val c)"

fun skipChar :: "char \<Rightarrow> string \<Rightarrow> goerror + string" where
  "skipChar p [] = Inl errBad"
| "skipChar p (c # cs) = (if c = p then Inr cs else Inl errBad)"

fun longYear :: "string \<Rightarrow> goerror + int \<times> string" where
  "longYear (a # b # c # d # rest) =
     (if is_digit a \<and> is_digit b \<and> is_digit c \<and> is_digit d
      then Inr (((dval a * 10 + dval b) * 10 + dval c) * 10 + dval d, rest) else Inl errBad)"
| "longYear _ = Inl errBad"

fun getnum :: "bool \<Rightarrow> string \<Rightarrow> goerror + int \<times> string" where
  "getnum fixed [] = Inl errBad"
| "getnum fixed [a] = (if is_digit a \<and> \<not> fixed then Inr (dval a, []) else Inl errBad)"
| "getnum fixed (a # b # rest) =
     (if \<not> is_digit a then Inl errBad
      else if is_digit b then Inr (dval a * 10 + dval b, rest)
      else if fixed then Inl errBad else Inr (dval a, b # rest))"

text \<open>The fraction \<open>.000\<close>: a separator and three bytes that the library's \<open>atoi\<close> reads.\<close>

fun fracSecond :: "string \<Rightarrow> goerror + int \<times> string" where
  "fracSecond (p # a # b # c # rest) =
     (if p \<noteq> CHR ''.'' \<and> p \<noteq> CHR '','' then Inl errBad
      else if is_digit a \<and> is_digit b \<and> is_digit c
      then Inr (((dval a * 10 + dval b) * 10 + dval c) * 1000000, rest)
      else if (a = CHR ''+'' \<or> a = CHR ''-'') \<and> is_digit b \<and> is_digit c then
        (let n = dval b * 10 + dval c
         in if a = CHR ''-'' \<and> n \<noteq> 0 then Inl errRange else Inr (n * 1000000, rest))
      else Inl errBad)"
| "fracSecond _ = Inl errBad"

fun numTZ :: "string \<Rightarrow> goerror + int \<times> string" where
  "numTZ (s # a # b # c # d # rest) =
     (if \<not> (is_digit a \<and> is_digit b) then Inl errBad
      else
        (let hr = dval a * 10 + dval b
         in if \<not> (is_digit c \<and> is_digit d) then (if hr > 24 then Inl errRange else Inl errBad)
            else
              (let mm = dval c * 10 + dval d; off = (hr * 60 + mm) * 60
               in if hr > 24 \<or> mm > 60 then Inl errRange
                  else if s = CHR ''+'' then Inr (off, rest)
                  else if s = CHR ''-'' then Inr (- off, rest) else Inl errBad)))"
| "numTZ _ = Inl errBad"

definition bindSum :: "goerror + 'a \<Rightarrow> ('a \<Rightarrow> goerror + 'b) \<Rightarrow> goerror + 'b" where
  "bindSum r f = (case r of Inl e \<Rightarrow> Inl e | Inr x \<Rightarrow> f x)"

definition guardSum :: "bool \<Rightarrow> goerror \<Rightarrow> goerror + 'a \<Rightarrow> goerror + 'a" where
  "guardSum ok e r = (if ok then r else Inl e)"

lemma bindSum_simps [simp]: "bindSum (Inl e) f = Inl e" "bindSum (Inr x) f = f x"
  by (simp_all add: bindSum_def)

lemma guardSum_True [simp]: "guardSum True e r = r"
  by (simp add: guardSum_def)

definition timeParse :: "string \<Rightarrow> goerror + gotime" where
  "timeParse value =
     bindSum (longYear value) (\<lambda>(year, v).
     bindSum (skipChar (CHR ''-'') v) (\<lambda>v.
     bindSum (getnum True v) (\<lambda>(month, v).
     guardSum (0 < month \<and> month \<le> 12) errRange (
     bindSum (skipChar (CHR ''-'') v) (\<lambda>v.
     bindSum (getnum True v) (\<lambda>(day, v).
     bindSum (skipChar (CHR ''T'') v) (\<lambda>v.
     bindSum (getnum False v) (\<lambda>(hour, v).
     guardSum (hour < 24) errRange (
     bindSum (skipChar (CHR '':'') v) (\<lambda>v.
     bindSum (getnum True v) (\<lambda>(min, v).
     guardSum (min < 60) errRange (
     bindSum (skipChar (CHR '':'') v) (\<lambda>v.
     bindSum (getnum True v) (\<lambda>(sec, v).
     guardSum (sec < 60) errRange (
     bindSum (fracSecond v) (\<lambda>(nsec, v).
     bindSum (numTZ v) (\<lambda>(off, v).
     guardSum (v = []) errBad (
     guardSum (1 \<le> day \<and> day \<le> daysIn month year) errRange (
     Inr \<lparr>t_unix = dateUnix year month day hour min sec - off, t_nsec = nsec\<rparr>)))))))))))))))))))"

text \<open>
  \<open>parseSalesforceDatetime\<close>: the empty string is a nil time without an error. Converting to UTC
  keeps the instant.
\<close>

definition parseSalesforceDatetime :: "string \<Rightarrow> goerror + gotime option" where
  "parseSalesforceDatetime date =
     (if date = '''' then Inr None
      else (case timeParse date of Inl e \<Rightarrow> Inl e | Inr t \<Rightarrow> Inr (Some t)))"

section \<open>Formatting and the round trip\<close>

definition two :: "int \<Rightarrow> string" where
  "two n = [digit_char (nat (n div 10)), digit_char (nat (n mod 10))]"

definition three :: "int \<Rightarrow> string" where
  "three n = digit_char (nat (n div 100)) # two (n mod 100)"

definition four :: "int \<Rightarrow> string" where
  "four n = two (n div 100) @ two (n mod 100)"

text \<open>A civil time with its zone, as Salesforce prints it.\<close>

record civil =
  cv_year :: int
  cv_month :: int
  cv_day :: int
  cv_hour :: int
  cv_min :: int
  cv_sec :: int
  cv_milli :: int
  cv_offmin :: int

definition civil_ok :: "civil \<Rightarrow> bool" where
  "civil_ok t \<longleftrightarrow>
     0 \<le> cv_year t \<and> cv_year t \<le> 9999 \<and> 1 \<le> cv_month t \<and> cv_month t \<le> 12
     \<and> 1 \<le> cv_day t \<and> cv_day t \<le> daysIn (cv_month t) (cv_year t)
     \<and> 0 \<le> cv_hour t \<and> cv_hour t < 24 \<and> 0 \<le> cv_min t \<and> cv_min t < 60
     \<and> 0 \<le> cv_sec t \<and> cv_sec t < 60 \<and> 0 \<le> cv_milli t \<and> cv_milli t < 1000
     \<and> \<bar>cv_offmin t\<bar> < 1440"

definition formatSalesforce :: "civil \<Rightarrow> string" where
  "formatSalesforce t =
     four (cv_year t) @ ''-'' @ two (cv_month t) @ ''-'' @ two (cv_day t) @ ''T'' @
     two (cv_hour t) @ '':'' @ two (cv_min t) @ '':'' @ two (cv_sec t) @ ''.'' @ three (cv_milli t) @
     (if cv_offmin t < 0 then ''-'' else ''+'') @
     two (\<bar>cv_offmin t\<bar> div 60) @ two (\<bar>cv_offmin t\<bar> mod 60)"

definition civilInstant :: "civil \<Rightarrow> gotime" where
  "civilInstant t = \<lparr>t_unix = dateUnix (cv_year t) (cv_month t) (cv_day t) (cv_hour t) (cv_min t) (cv_sec t)
       - 60 * cv_offmin t, t_nsec = cv_milli t * 1000000\<rparr>"

lemma dval_digit_char [simp]: "0 \<le> n \<Longrightarrow> n < 10 \<Longrightarrow> dval (digit_char (nat n)) = n"
  by (simp add: dval_def nat_less_iff)

lemma is_digit_nat [simp]: "0 \<le> n \<Longrightarrow> n < 10 \<Longrightarrow> is_digit (digit_char (nat n))"
  by (simp add: nat_less_iff)

lemma tens [simp]: "0 \<le> n \<Longrightarrow> n < 100 \<Longrightarrow> (0::int) \<le> n div 10 \<and> n div 10 < 10"
  by auto

lemma getnum_two [simp]: "0 \<le> n \<Longrightarrow> n < 100 \<Longrightarrow> getnum fixed (two n @ rest) = Inr (n, rest)"
  by (simp add: two_def mult_div_mod_eq)

lemma longYear_four [simp]: "0 \<le> n \<Longrightarrow> n < 10000 \<Longrightarrow> longYear (four n @ rest) = Inr (n, rest)"
proof -
  assume n: "0 \<le> n" "n < 10000"
  then have hi: "0 \<le> n div 100" "n div 100 < 100" by auto
  then have "0 \<le> n div 100 div 10 \<and> n div 100 div 10 < 10" by auto
  moreover have "((n div 100 div 10 * 10 + n div 100 mod 10) * 10 + n mod 100 div 10) * 10 + n mod 100 mod 10 = n"
    by presburger
  ultimately show ?thesis by (simp add: four_def two_def)
qed

lemma fracSecond_three [simp]:
  "0 \<le> n \<Longrightarrow> n < 1000 \<Longrightarrow> fracSecond (CHR ''.'' # three n @ rest) = Inr (n * 1000000, rest)"
proof -
  assume n: "0 \<le> n" "n < 1000"
  then have "0 \<le> n div 100" "n div 100 < 10" by auto
  moreover have "(n div 100 * 10 + n mod 100 div 10) * 10 + n mod 100 mod 10 = n" by presburger
  ultimately show ?thesis by (simp add: three_def two_def)
qed

lemma numTZ_format [simp]:
  "0 \<le> h \<Longrightarrow> h \<le> 24 \<Longrightarrow> 0 \<le> m \<Longrightarrow> m < 60 \<Longrightarrow>
     numTZ (CHR ''+'' # two h @ two m) = Inr ((h * 60 + m) * 60, [])"
  "0 \<le> h \<Longrightarrow> h \<le> 24 \<Longrightarrow> 0 \<le> m \<Longrightarrow> m < 60 \<Longrightarrow>
     numTZ (CHR ''-'' # two h @ two m) = Inr (- ((h * 60 + m) * 60), [])"
  by (simp_all add: two_def mult_div_mod_eq)

lemma daysIn_bounds: "28 \<le> daysIn m y \<and> daysIn m y \<le> 31"
  by (simp add: daysIn_def)

lemma formatSalesforce_nonempty: "formatSalesforce t \<noteq> []"
  by (simp add: formatSalesforce_def four_def two_def)

lemma timeParse_format:
  assumes "civil_ok t"
  shows "timeParse (formatSalesforce t) = Inr (civilInstant t)"
proof -
  let ?o = "\<bar>cv_offmin t\<bar>"
  have o: "0 \<le> ?o div 60" "?o div 60 \<le> 24" "0 \<le> ?o mod 60" "?o mod 60 < 60" "?o div 60 * 60 + ?o mod 60 = ?o"
    using assms by (auto simp: civil_ok_def)
  have day: "cv_day t < 100" using assms daysIn_bounds [of "cv_month t" "cv_year t"]
    by (auto simp: civil_ok_def)
  show ?thesis
    using assms day o
    by (cases "cv_offmin t < 0")
      (simp_all add: timeParse_def formatSalesforce_def civilInstant_def civil_ok_def)
qed

section \<open>Instants are ordered as their dates\<close>

lemma div_step:
  fixes y k :: int
  assumes "0 < k"
  shows "y div k = (y - 1) div k + (if y mod k = 0 then 1 else 0)"
proof -
  let ?q = "(y - 1) div k" and ?r = "(y - 1) mod k"
  have y: "y = ?q * k + (?r + 1)" using div_mult_mod_eq [of "y - 1" k] by simp
  have r: "0 \<le> ?r" "?r < k" using assms by simp_all
  show ?thesis
  proof (cases "?r + 1 < k")
    case True
    have y': "y = k * ?q + (?r + 1)" using y by (simp add: mult.commute)
    have "y div k = ?q" using int_div_pos_eq [OF y'] r True by simp
    moreover have "y mod k = ?r + 1" using int_mod_pos_eq [OF y'] r True by simp
    ultimately show ?thesis using r by simp
  next
    case False
    with r have "?r + 1 = k" by simp
    then have "?q * k + (?r + 1) = (?q + 1) * k" by (simp add: algebra_simps)
    with y have "y = (?q + 1) * k" by (rule trans)
    then have "y div k = ?q + 1" "y mod k = 0"
      using assms by (metis less_irrefl nonzero_mult_div_cancel_right, metis mod_mult_self2_is_0)
    then show ?thesis by simp
  qed
qed

lemma leap_sum:
  fixes n a b c a' b' c' :: int
  assumes "a = a' + (if P then 1 else 0)" "b = b' + (if Q then 1 else 0)" "c = c' + (if R then 1 else 0)"
    and "R \<Longrightarrow> Q" "Q \<Longrightarrow> P"
  shows "365 * n + a - b + c
    = 365 * (n - 1) + a' - b' + c' + (if P \<and> (\<not> Q \<or> R) then 366 else 365)"
  using assms by auto

lemma daysBeforeYear_Suc: "daysBeforeYear (y + 1) = daysBeforeYear y + (if isLeap y then 366 else 365)"
proof -
  have "(100::int) dvd 400" "(4::int) dvd 100" by (auto intro: dvdI [of _ _ 4] dvdI [of _ _ 25])
  then have h: "y mod 400 = 0 \<Longrightarrow> y mod 100 = 0" and f: "y mod 100 = 0 \<Longrightarrow> y mod 4 = 0"
    by (auto intro: dvd_trans simp flip: dvd_eq_mod_eq_0)
  have pos: "(0::int) < 4" "(0::int) < 100" "(0::int) < 400" by simp_all
  note step = leap_sum [OF div_step [OF pos(1)] div_step [OF pos(2)] div_step [OF pos(3)] h f, of y y]
  have "y + 1 - 1 = y" by simp
  then show ?thesis unfolding daysBeforeYear_def isLeap_def
    by (simp only: step)
qed

lemma daysBeforeYear_step: "daysBeforeYear y + 365 \<le> daysBeforeYear (y + 1)"
  by (simp add: daysBeforeYear_Suc)

lemma daysBeforeYear_mono: "y \<le> z \<Longrightarrow> daysBeforeYear y \<le> daysBeforeYear z"
proof (induction "nat (z - y)" arbitrary: z)
  case 0
  then show ?case by simp
next
  case (Suc n)
  then have "daysBeforeYear y \<le> daysBeforeYear (z - 1)" by auto
  with daysBeforeYear_step [of "z - 1"] show ?case by simp
qed

definition months :: "int list" where
  "months = [1, 2, 3, 4, 5, 6, 7, 8, 9, 10, 11, 12]"

lemma month_cases: "1 \<le> m \<Longrightarrow> m \<le> 12 \<Longrightarrow> (m::int) \<in> set months"
  by (simp add: months_def) presburger

lemma daysBeforeMonth_next:
  assumes "m \<in> set months" "m' \<in> set months" "m < m'"
  shows "daysBeforeMonth m y + daysIn m y \<le> daysBeforeMonth m' y"
  using assms by (auto simp: months_def daysBeforeMonth_def daysIn_def)

lemma daysBeforeMonth_year:
  assumes "m \<in> set months"
  shows "0 \<le> daysBeforeMonth m y \<and> daysBeforeMonth m y + daysIn m y \<le> (if isLeap y then 366 else 365)"
  using assms by (auto simp: months_def daysBeforeMonth_def daysIn_def)

lemma dayNumber_less:
  assumes m: "1 \<le> m" "m \<le> 12" and m': "1 \<le> m'" "m' \<le> 12"
    and d: "1 \<le> d" "d \<le> daysIn m y" and d': "1 \<le> d'"
    and less: "y < y' \<or> y = y' \<and> (m < m' \<or> m = m' \<and> d < d')"
  shows "dayNumber y m d < dayNumber y' m' d'"
proof -
  note mm = month_cases [OF m] and mm' = month_cases [OF m']
  consider (year) "y < y'" | (month) "y = y'" "m < m'" | (day) "y = y'" "m = m'" "d < d'"
    using less by auto
  then show ?thesis
  proof cases
    case year
    have "dayNumber y m d < daysBeforeYear (y + 1)"
      using daysBeforeMonth_year [OF mm, of y] d by (simp add: dayNumber_def daysBeforeYear_Suc split: if_splits)
    also have "\<dots> \<le> daysBeforeYear y'" using year by (intro daysBeforeYear_mono) simp
    also have "\<dots> \<le> dayNumber y' m' d'"
      using daysBeforeMonth_year [OF mm', of y'] d' by (simp add: dayNumber_def)
    finally show ?thesis .
  next
    case month
    with daysBeforeMonth_next [OF mm mm', of y] d d' show ?thesis by (simp add: dayNumber_def)
  next
    case day
    then show ?thesis by (simp add: dayNumber_def)
  qed
qed

lemma dateUnix_less_day:
  assumes "dayNumber y m d < dayNumber y' m' d'"
    and "0 \<le> h" "h < 24" "0 \<le> mi" "mi < 60" "0 \<le> s" "s < 60"
    and "0 \<le> h'" "0 \<le> mi'" "0 \<le> s'"
  shows "dateUnix y m d h mi s < dateUnix y' m' d' h' mi' s'"
  using assms by (simp add: dateUnix_def algebra_simps)

section \<open>Properties\<close>

text \<open>
  C40. Every timestamp Salesforce prints in its format, for any valid civil time and zone offset, is
  parsed by \<open>parseSalesforceDatetime\<close> to exactly the instant it denotes.
\<close>

theorem parse_format_roundtrip:
  "civil_ok t \<Longrightarrow> parseSalesforceDatetime (formatSalesforce t) = Inr (Some (civilInstant t))"
  by (simp add: parseSalesforceDatetime_def timeParse_format formatSalesforce_nonempty)

theorem parse_format_roundtrip_witness:
  "civil_ok \<lparr>cv_year = 2025, cv_month = 3, cv_day = 26, cv_hour = 16, cv_min = 43, cv_sec = 31, cv_milli = 0,
      cv_offmin = 0\<rparr>
   \<and> parseSalesforceDatetime (formatSalesforce \<lparr>cv_year = 2025, cv_month = 3, cv_day = 26, cv_hour = 16,
      cv_min = 43, cv_sec = 31, cv_milli = 0, cv_offmin = 0\<rparr>)
     = Inr (Some \<lparr>t_unix = 1743007411, t_nsec = 0\<rparr>)"
proof -
  let ?t = "\<lparr>cv_year = 2025, cv_month = 3, cv_day = 26, cv_hour = 16, cv_min = 43, cv_sec = 31,
    cv_milli = 0, cv_offmin = 0\<rparr>"
  have ok: "civil_ok ?t" by (simp add: civil_ok_def daysIn_def)
  show ?thesis
    using ok parse_format_roundtrip [OF ok]
    by (simp add: civilInstant_def dateUnix_def dayNumber_def daysBeforeYear_def daysBeforeMonth_def isLeap_def)
qed

text \<open>
  The instants are ordered as the dates: of two valid timestamps with the same zone offset, one on
  an earlier calendar date (year, then month, then day) is parsed to a strictly earlier instant.
\<close>

theorem parsed_dates_ordered:
  assumes "civil_ok a" and "civil_ok b" and "cv_offmin a = cv_offmin b"
    and "cv_year a < cv_year b \<or> cv_year a = cv_year b \<and>
      (cv_month a < cv_month b \<or> cv_month a = cv_month b \<and> cv_day a < cv_day b)"
  shows "\<exists>x y. parseSalesforceDatetime (formatSalesforce a) = Inr (Some x)
    \<and> parseSalesforceDatetime (formatSalesforce b) = Inr (Some y) \<and> t_unix x < t_unix y"
proof -
  have "dayNumber (cv_year a) (cv_month a) (cv_day a) < dayNumber (cv_year b) (cv_month b) (cv_day b)"
    using assms by (intro dayNumber_less) (auto simp: civil_ok_def)
  then have "t_unix (civilInstant a) < t_unix (civilInstant b)"
    using assms by (simp add: civilInstant_def) (intro dateUnix_less_day, auto simp: civil_ok_def)
  with assms(1,2) show ?thesis
    by (simp add: parseSalesforceDatetime_def timeParse_format formatSalesforce_nonempty)
qed

theorem parsed_dates_ordered_witness:
  "\<exists>x y. parseSalesforceDatetime ''2024-02-29T23:59:59.000+0000'' = Inr (Some x)
    \<and> parseSalesforceDatetime ''2024-03-01T00:00:00.000+0000'' = Inr (Some y) \<and> t_unix x < t_unix y"
proof -
  let ?a = "\<lparr>cv_year = 2024, cv_month = 2, cv_day = 29, cv_hour = 23, cv_min = 59, cv_sec = 59,
    cv_milli = 0, cv_offmin = 0\<rparr>"
  let ?b = "\<lparr>cv_year = 2024, cv_month = 3, cv_day = 1, cv_hour = 0, cv_min = 0, cv_sec = 0,
    cv_milli = 0, cv_offmin = 0\<rparr>"
  have "formatSalesforce ?a = ''2024-02-29T23:59:59.000+0000''"
    and "formatSalesforce ?b = ''2024-03-01T00:00:00.000+0000''"
    by (simp_all add: formatSalesforce_def four_def three_def two_def digit_char_literals)
  moreover have "civil_ok ?a" "civil_ok ?b"
    by (simp_all add: civil_ok_def daysIn_def isLeap_def)
  ultimately show ?thesis using parsed_dates_ordered [of ?a ?b] by simp
qed

end
