(* ===== verification/Sf_Models.thy ===== *)
theory Sf_Models
  imports Sf_Client Go_Time
begin

text \<open>
  The data of \<^verbatim>\<open>client/models.go\<close> and how a Salesforce record becomes each of them: the field readers
  of \<^verbatim>\<open>client/salesforce.go\<close> and one row decoder per record type, in the form the loops of the
  listing functions apply it.
\<close>

section \<open>Models\<close>

record SalesforceUser =
  su_ID :: string
  su_Email :: string
  su_Username :: string
  su_FirstName :: string
  su_LastName :: string
  su_UserType :: string
  su_LicenseDefinitionKey :: string
  su_IsActive :: bool
  su_LastLoginDate :: "gotime option"

record SalesforceGroupMembership =
  gm_ID :: string
  gm_GroupID :: string
  gm_PrincipalID :: string
  gm_IsGroup :: bool

record SalesforceGroup =
  sg_ID :: string
  sg_Name :: string
  sg_Type :: string
  sg_RelatedID :: string
  sg_DeveloperName :: string

record SalesforceRole =
  sr_ID :: string
  sr_Name :: string

record SalesforcePermission =
  sp_ID :: string
  sp_Name :: string
  sp_Label :: string
  sp_Type :: string
  sp_ProfileID :: string

record SalesforceProfile =
  pf_ID :: string
  pf_Name :: string
  pf_UserLicenseId :: string

record SalesforceUserLicense =
  ul_ID :: string
  ul_Name :: string

record PermissionSetAssignment =
  pa_ID :: string
  pa_UserID :: string
  pa_PermissionSetID :: string
  pa_PermissionSetGroupID :: string
  pa_IsActive :: bool

record PermissionSetGroup =
  pg_ID :: string
  pg_IsDeleted :: bool
  pg_DeveloperName :: string
  pg_Language :: string
  pg_MasterLabel :: string
  pg_NamespacePrefix :: string
  pg_Description :: string
  pg_HasActivationRequired :: bool

record PermissionSetGroupComponent =
  pc_ID :: string
  pc_IsDeleted :: bool
  pc_PermissionSetGroupID :: string
  pc_PermissionSetID :: string

record ConnectedApplication =
  ca_ID :: string
  ca_Name :: string
  ca_CreatedDate :: string
  ca_CreatedById :: string
  ca_LastModifiedDate :: string

record BotDefinition =
  bd_ID :: string
  bd_DeveloperName :: string
  bd_MasterLabel :: string
  bd_BotUserID :: string

record UserLogin =
  lg_ID :: string
  lg_UserId :: string
  lg_IsFrozen :: bool
  lg_IsPasswordLocked :: bool

record UserTerritory2Association =
  ta_ID :: string
  ta_UserId :: string
  ta_Territory2Id :: string
  ta_RoleInTerritory2 :: string

section \<open>Field readers\<close>

definition trueConst :: string where "trueConst = ''true''"

fun boolValue :: "govalue \<Rightarrow> bool option" where
  "boolValue (VBool b) = Some b"
| "boolValue (VString s) = Some (s = trueConst)"
| "boolValue (VInt i) = Some (i = 1)"
| "boolValue (VInt64 i) = Some (i = 1)"
| "boolValue (VFloat64 r) = Some (r = 1)"
| "boolValue _ = None"

definition getIsActive :: "sobject \<Rightarrow> goerror + bool" where
  "getIsActive rec =
     (case boolValue (mapIndex rec ''IsActive'') of
        Some b \<Rightarrow> Inr b
      | None \<Rightarrow> Inl (ErrNew ''salesforce-connector: unexpected is active type''))"

definition getBoolField :: "sobject \<Rightarrow> string \<Rightarrow> goerror + bool" where
  "getBoolField rec field =
     (case boolValue (mapIndex rec field) of
        Some b \<Rightarrow> Inr b
      | None \<Rightarrow> Inl (ErrNew (''salesforce-connector: unexpected field '' @ field @ '' type'')))"

definition userTypesToSkip :: "string list" where
  "userTypesToSkip = [''CspLitePortal'', ''CustomerSuccess'', ''PowerCustomerSuccess'', ''CsnOnly'', ''Guest'']"

definition shouldSkipSyncingUserType :: "sobject \<Rightarrow> bool \<Rightarrow> bool" where
  "shouldSkipSyncingUserType user syncNonStandardUsers =
     (let userType = StringField user ''UserType'' in
      if userType = '''' then True
      else if syncNonStandardUsers then False
      else userType \<in> set userTypesToSkip)"

definition licenseDefinitionKey :: "sobject \<Rightarrow> string" where
  "licenseDefinitionKey rec =
     (case asMap (mapIndex rec ''Profile'') of
        None \<Rightarrow> ''''
      | Some profile \<Rightarrow>
          (case asMap (mapIndex profile ''UserLicense'') of
             None \<Rightarrow> ''''
           | Some license \<Rightarrow> StringField license ''LicenseDefinitionKey''))"

definition getGroupName :: "sobject \<Rightarrow> string" where
  "getGroupName rec =
     (let name = (case SObjectField rec ''Name'' ''Related'' of None \<Rightarrow> '''' | Some role \<Rightarrow> StringField role ''Name'')
      in if name = '''' then StringField rec ''Name'' else name)"

definition getPermissionSetName :: "sobject \<Rightarrow> string" where
  "getPermissionSetName rec =
     (let name = (case SObjectField rec ''Profile'' ''Profile'' of None \<Rightarrow> '''' | Some p \<Rightarrow> StringField p ''Name'')
      in if name = '''' then StringField rec ''Name'' else name)"

definition GroupIDPrefix :: string where "GroupIDPrefix = ''00G''"
definition UserIDPrefix :: string where "UserIDPrefix = ''005''"

definition getIsGroup :: "sobject \<Rightarrow> goerror + bool" where
  "getIsGroup rec =
     (let principalID = StringField rec ''UserOrGroupId'' in
      if hasPrefix principalID GroupIDPrefix then Inr True
      else if hasPrefix principalID UserIDPrefix then Inr False
      else Inl (ErrNew (''invalid principal id '' @ principalID)))"

section \<open>Rows\<close>

text \<open>
  A loop over the records that may stop with an error or skip a record: the accumulated items are
  kept in order, the first error wins.
\<close>

fun mapE :: "('a \<Rightarrow> goerror + 'b option) \<Rightarrow> 'a list \<Rightarrow> goerror + 'b list" where
  "mapE f [] = Inr []"
| "mapE f (x # xs) =
     bindSum (f x) (\<lambda>y. bindSum (mapE f xs) (\<lambda>ys. Inr (case y of None \<Rightarrow> ys | Some v \<Rightarrow> v # ys)))"

definition rowUser :: "bool \<Rightarrow> bool \<Rightarrow> sobject \<Rightarrow> goerror + SalesforceUser option" where
  "rowUser syncDeactivatedUsers syncNonStandardUsers rec =
     bindSum (getIsActive rec) (\<lambda>isActive.
       if \<not> syncDeactivatedUsers \<and> \<not> isActive then Inr None
       else if shouldSkipSyncingUserType rec syncNonStandardUsers then Inr None
       else bindSum (parseSalesforceDatetime (StringField rec ''LastLoginDate'')) (\<lambda>lastLogin.
         Inr (Some \<lparr>su_ID = sobjID rec, su_Email = StringField rec ''Email'', su_Username = StringField rec ''Username'',
           su_FirstName = StringField rec ''FirstName'', su_LastName = StringField rec ''LastName'',
           su_UserType = StringField rec ''UserType'', su_LicenseDefinitionKey = licenseDefinitionKey rec,
           su_IsActive = isActive, su_LastLoginDate = lastLogin\<rparr>)))"

definition rowProfile :: "sobject \<Rightarrow> SalesforceProfile" where
  "rowProfile rec = \<lparr>pf_ID = sobjID rec, pf_Name = StringField rec ''Name'',
     pf_UserLicenseId = StringField rec ''UserLicenseId''\<rparr>"

definition rowRole :: "sobject \<Rightarrow> SalesforceRole" where
  "rowRole rec = \<lparr>sr_ID = sobjID rec, sr_Name = StringField rec ''Name''\<rparr>"

definition rowGroup :: "sobject \<Rightarrow> SalesforceGroup" where
  "rowGroup rec = \<lparr>sg_ID = sobjID rec, sg_Name = getGroupName rec, sg_Type = StringField rec ''Type'',
     sg_RelatedID = StringField rec ''RelatedId'', sg_DeveloperName = StringField rec ''DeveloperName''\<rparr>"

definition rowPermission :: "sobject \<Rightarrow> SalesforcePermission" where
  "rowPermission rec = \<lparr>sp_ID = sobjID rec, sp_Name = getPermissionSetName rec, sp_Label = StringField rec ''Label'',
     sp_Type = StringField rec ''Type'', sp_ProfileID = StringField rec ''ProfileId''\<rparr>"

definition rowUserLicense :: "sobject \<Rightarrow> SalesforceUserLicense" where
  "rowUserLicense rec = \<lparr>ul_ID = sobjID rec, ul_Name = StringField rec ''Name''\<rparr>"

text \<open>\<open>&SalesforceUser{ID: record.ID()}\<close>: every other field is the zero value.\<close>

definition rowAssignedUser :: "sobject \<Rightarrow> SalesforceUser" where
  "rowAssignedUser rec = \<lparr>su_ID = sobjID rec, su_Email = '''', su_Username = '''', su_FirstName = '''',
     su_LastName = '''', su_UserType = '''', su_LicenseDefinitionKey = '''', su_IsActive = False,
     su_LastLoginDate = None\<rparr>"

text \<open>The active flag is read from the assignee field, as in the source.\<close>

definition rowPermissionSetAssignment :: "sobject \<Rightarrow> PermissionSetAssignment" where
  "rowPermissionSetAssignment rec = \<lparr>pa_ID = sobjID rec, pa_UserID = StringField rec ''AssigneeId'',
     pa_PermissionSetID = StringField rec ''PermissionSetId'', pa_PermissionSetGroupID = '''',
     pa_IsActive = (StringField rec ''AssigneeId'' = trueConst)\<rparr>"

definition rowGroupAssignment :: "sobject \<Rightarrow> PermissionSetAssignment" where
  "rowGroupAssignment rec = \<lparr>pa_ID = sobjID rec, pa_UserID = StringField rec ''AssigneeId'',
     pa_PermissionSetID = '''', pa_PermissionSetGroupID = StringField rec ''PermissionSetGroupId'',
     pa_IsActive = False\<rparr>"

text \<open>A membership whose principal is neither a group nor a user is skipped.\<close>

definition rowGroupMembership :: "sobject \<Rightarrow> goerror + SalesforceGroupMembership option" where
  "rowGroupMembership rec =
     (case getIsGroup rec of
        Inl _ \<Rightarrow> Inr None
      | Inr isGroup \<Rightarrow> Inr (Some \<lparr>gm_ID = sobjID rec, gm_GroupID = StringField rec ''GroupId'',
          gm_PrincipalID = StringField rec ''UserOrGroupId'', gm_IsGroup = isGroup\<rparr>))"

definition rowPermissionSetGroup :: "sobject \<Rightarrow> goerror + PermissionSetGroup option" where
  "rowPermissionSetGroup rec =
     bindSum (getBoolField rec ''HasActivationRequired'') (\<lambda>activation.
     bindSum (getBoolField rec ''IsDeleted'') (\<lambda>deleted.
       Inr (Some \<lparr>pg_ID = sobjID rec, pg_IsDeleted = deleted, pg_DeveloperName = StringField rec ''DeveloperName'',
         pg_Language = StringField rec ''Language'', pg_MasterLabel = StringField rec ''MasterLabel'',
         pg_NamespacePrefix = StringField rec ''NamespacePrefix'', pg_Description = StringField rec ''Description'',
         pg_HasActivationRequired = activation\<rparr>)))"

definition rowGroupComponent :: "sobject \<Rightarrow> goerror + PermissionSetGroupComponent option" where
  "rowGroupComponent rec =
     bindSum (getBoolField rec ''IsDeleted'') (\<lambda>deleted.
       Inr (Some \<lparr>pc_ID = sobjID rec, pc_IsDeleted = deleted,
         pc_PermissionSetGroupID = StringField rec ''PermissionSetGroupId'',
         pc_PermissionSetID = StringField rec ''PermissionSetId''\<rparr>))"

definition rowConnectedApplication :: "sobject \<Rightarrow> ConnectedApplication" where
  "rowConnectedApplication rec = \<lparr>ca_ID = sobjID rec, ca_Name = StringField rec ''Name'', ca_CreatedDate = '''',
     ca_CreatedById = '''', ca_LastModifiedDate = ''''\<rparr>"

definition rowBotDefinition :: "sobject \<Rightarrow> BotDefinition" where
  "rowBotDefinition rec = \<lparr>bd_ID = sobjID rec, bd_DeveloperName = StringField rec ''DeveloperName'',
     bd_MasterLabel = StringField rec ''MasterLabel'', bd_BotUserID = StringField rec ''BotUserId''\<rparr>"

definition rowUserLogin :: "sobject \<Rightarrow> goerror + UserLogin" where
  "rowUserLogin rec =
     bindSum (getBoolField rec ''IsFrozen'') (\<lambda>frozen.
     bindSum (getBoolField rec ''IsPasswordLocked'') (\<lambda>locked.
       Inr \<lparr>lg_ID = sobjID rec, lg_UserId = StringField rec ''UserId'', lg_IsFrozen = frozen,
         lg_IsPasswordLocked = locked\<rparr>))"

definition rowTerritoryMember :: "sobject \<Rightarrow> UserTerritory2Association" where
  "rowTerritoryMember rec = \<lparr>ta_ID = sobjID rec, ta_UserId = StringField rec ''UserId'',
     ta_Territory2Id = StringField rec ''Territory2Id'', ta_RoleInTerritory2 = StringField rec ''RoleInTerritory2''\<rparr>"

section \<open>Facts about rows\<close>

text \<open>What the loop keeps: the items of the records that are not skipped, in order.\<close>

definition kept :: "('a \<Rightarrow> goerror + 'b option) \<Rightarrow> 'a list \<Rightarrow> 'b list" where
  "kept f xs = List.map_filter (\<lambda>x. case f x of Inr y \<Rightarrow> y | Inl _ \<Rightarrow> None) xs"

lemma kept_simps [simp]:
  "kept f [] = []"
  "kept f (x # xs) = (case f x of Inr (Some y) \<Rightarrow> y # kept f xs | _ \<Rightarrow> kept f xs)"
  by (auto simp: kept_def map_filter_simps split: sum.splits option.splits)

lemma mapE_ok: "\<forall>x \<in> set xs. \<exists>y. f x = Inr y \<Longrightarrow> mapE f xs = Inr (kept f xs)"
  by (induction xs) (auto split: option.splits)

text \<open>The error of the loop is the error of the first record that has one.\<close>

lemma mapE_fail:
  "\<forall>a \<in> set as. \<exists>y. f a = Inr y \<Longrightarrow> f x = Inl e \<Longrightarrow> mapE f (as @ x # bs) = Inl e"
  by (induction as) auto

lemma set_kept: "set (kept f xs) = {y. \<exists>x \<in> set xs. f x = Inr (Some y)}"
  by (induction xs) (auto split: sum.splits option.splits)

end
