(* ===== verification/Sf_Reads.thy ===== *)
theory Sf_Reads
  imports Sf_Models
begin

text \<open>
  The reading operations of \<^verbatim>\<open>client/salesforce.go\<close> and \<^verbatim>\<open>client/user.go\<close>: every listing is a query, a
  loop over its records and the pagination token of the answer; the look-ups take the first record.
\<close>

section \<open>Listings\<close>

text \<open>A listing whose loop cannot fail.\<close>

definition listQuery ::
  "'w env \<Rightarrow> SalesforceQuery \<Rightarrow> (sobject \<Rightarrow> 'a) \<Rightarrow> string \<Rightarrow> int \<Rightarrow> ('a page reply, 'w) op" where
  "listQuery env q row pageToken pageSize s =
     do { (r, s) \<leftarrow> query env q pageToken pageSize s;
          Some (mapReply (\<lambda>(recs, next). (map row recs, next)) r, s) }"

text \<open>A listing whose loop may fail; \<open>keepRl\<close> says whether the failure still reports the rate limit.\<close>

definition listQueryE ::
  "'w env \<Rightarrow> bool \<Rightarrow> SalesforceQuery \<Rightarrow> (sobject \<Rightarrow> goerror + 'a option) \<Rightarrow> string \<Rightarrow> int \<Rightarrow> ('a page reply, 'w) op" where
  "listQueryE env keepRl q row pageToken pageSize s =
     do { ((rl, r), s) \<leftarrow> query env q pageToken pageSize s;
          Some (case r of
                  Inl e \<Rightarrow> (rl, Inl e)
                | Inr (recs, next) \<Rightarrow>
                    (case mapE row recs of
                       Inl e \<Rightarrow> (if keepRl then rl else None, Inl e)
                     | Inr xs \<Rightarrow> (rl, Inr (xs, next))), s) }"

text \<open>A look-up: the first record, or nil.\<close>

definition lookupQuery :: "'w env \<Rightarrow> SalesforceQuery \<Rightarrow> (sobject \<Rightarrow> 'a) \<Rightarrow> ('a option reply, 'w) op" where
  "lookupQuery env q row s =
     do { (r, s) \<leftarrow> query env q '''' 1 s;
          Some (mapReply (\<lambda>(recs, next). case recs of [] \<Rightarrow> None | x # _ \<Rightarrow> Some (row x)) r, s) }"

definition usersQuery :: "bool \<Rightarrow> SalesforceQuery" where
  "usersQuery syncNonStandardUsers =
     (if syncNonStandardUsers then NewQuery TableNameUsers []
      else WhereEq (NewQuery TableNameUsers []) ''UserType'' ''Standard'')"

definition GetUsers ::
  "'w env \<Rightarrow> string \<Rightarrow> int \<Rightarrow> bool \<Rightarrow> bool \<Rightarrow> (SalesforceUser page reply, 'w) op" where
  "GetUsers env pageToken pageSize syncDeactivatedUsers syncNonStandardUsers =
     listQueryE env False (usersQuery syncNonStandardUsers) (rowUser syncDeactivatedUsers syncNonStandardUsers)
       pageToken pageSize"

definition GetProfileById :: "'w env \<Rightarrow> string \<Rightarrow> (SalesforceProfile option reply, 'w) op" where
  "GetProfileById env i = lookupQuery env (WhereEq (NewQuery TableNameProfiles []) ''Id'' i) rowProfile"

definition GetProfileByName :: "'w env \<Rightarrow> string \<Rightarrow> (SalesforceProfile option reply, 'w) op" where
  "GetProfileByName env name = lookupQuery env (WhereEq (NewQuery TableNameProfiles []) ''Name'' name) rowProfile"

definition GetUserRoles :: "'w env \<Rightarrow> string \<Rightarrow> int \<Rightarrow> (SalesforceRole page reply, 'w) op" where
  "GetUserRoles env = listQuery env (NewQuery TableNameRoles []) rowRole"

definition GetGroups :: "'w env \<Rightarrow> string \<Rightarrow> int \<Rightarrow> (SalesforceGroup page reply, 'w) op" where
  "GetGroups env = listQuery env (NewQuery TableNameGroups []) rowGroup"

definition GetPermissionSets :: "'w env \<Rightarrow> string \<Rightarrow> int \<Rightarrow> (SalesforcePermission page reply, 'w) op" where
  "GetPermissionSets env = listQuery env (NewQuery TableNamePermissionsSets []) rowPermission"

definition GetProfiles :: "'w env \<Rightarrow> string \<Rightarrow> int \<Rightarrow> (SalesforceProfile page reply, 'w) op" where
  "GetProfiles env = listQuery env (NewQuery TableNameProfiles []) rowProfile"

definition GetUserLicenseByID :: "'w env \<Rightarrow> string \<Rightarrow> (SalesforceUserLicense option reply, 'w) op" where
  "GetUserLicenseByID env i = lookupQuery env (WhereEq (NewQuery TableNameUserLicenses []) ''Id'' i) rowUserLicense"

definition getAssignments ::
  "'w env \<Rightarrow> string \<Rightarrow> string \<Rightarrow> string \<Rightarrow> int \<Rightarrow> (SalesforceUser page reply, 'w) op" where
  "getAssignments env conditionKey conditionValue =
     listQuery env
       (WhereEq (WhereEq (NewQuery TableNameUsers []) ''UserType'' ''Standard'') conditionKey conditionValue)
       rowAssignedUser"

definition GetProfileAssignments :: "'w env \<Rightarrow> string \<Rightarrow> string \<Rightarrow> int \<Rightarrow> (SalesforceUser page reply, 'w) op" where
  "GetProfileAssignments env profileID = getAssignments env ''ProfileId'' profileID"

definition GetRoleAssignments :: "'w env \<Rightarrow> string \<Rightarrow> string \<Rightarrow> int \<Rightarrow> (SalesforceUser page reply, 'w) op" where
  "GetRoleAssignments env userRoleID = getAssignments env ''UserRoleId'' userRoleID"

definition GetPermissionSetAssignments ::
  "'w env \<Rightarrow> string \<Rightarrow> string \<Rightarrow> int \<Rightarrow> (PermissionSetAssignment page reply, 'w) op" where
  "GetPermissionSetAssignments env permissionSetID =
     listQuery env (WhereEq (NewQuery TableNamePermissionAssignments []) ''PermissionSetId'' permissionSetID)
       rowPermissionSetAssignment"

definition GetGroupMemberships ::
  "'w env \<Rightarrow> string \<Rightarrow> string \<Rightarrow> int \<Rightarrow> (SalesforceGroupMembership page reply, 'w) op" where
  "GetGroupMemberships env groupID =
     listQueryE env True (WhereEq (NewQuery TableNameGroupMemberships []) ''GroupId'' groupID) rowGroupMembership"

definition getGroupMembership :: "'w env \<Rightarrow> string \<Rightarrow> string \<Rightarrow> (sobject reply, 'w) op" where
  "getGroupMembership env userId groupID =
     getSObject env
       (WhereEq (WhereEq (NewQuery TableNameGroupMemberships []) ''GroupId'' groupID) ''UserOrGroupId'' userId)"

definition getPermissionSetAssignment :: "'w env \<Rightarrow> string \<Rightarrow> string \<Rightarrow> (sobject reply, 'w) op" where
  "getPermissionSetAssignment env userId permissionSetId =
     getSObject env
       (WhereEq (WhereEq (NewQuery TableNamePermissionAssignments []) ''AssigneeId'' userId)
          ''PermissionSetId'' permissionSetId)"

definition GetPermissionSetGroups :: "'w env \<Rightarrow> string \<Rightarrow> int \<Rightarrow> (PermissionSetGroup page reply, 'w) op" where
  "GetPermissionSetGroups env =
     listQueryE env True (NewQuery TablePermissionSetGroup []) rowPermissionSetGroup"

definition GetPermissionSetGroupComponentsByPermissionSet ::
  "'w env \<Rightarrow> string \<Rightarrow> string \<Rightarrow> int \<Rightarrow> (PermissionSetGroupComponent page reply, 'w) op" where
  "GetPermissionSetGroupComponentsByPermissionSet env permissionSetId =
     listQueryE env True (WhereEq (NewQuery TablePermissionSetGroupComponent []) ''PermissionSetId'' permissionSetId)
       rowGroupComponent"

definition groupAssignmentSelectors :: "string list" where
  "groupAssignmentSelectors = [''PermissionSetGroupId'', ''AssigneeId'']"

definition GetPermissionSetGroupAssignments ::
  "'w env \<Rightarrow> string \<Rightarrow> string \<Rightarrow> int \<Rightarrow> (PermissionSetAssignment page reply, 'w) op" where
  "GetPermissionSetGroupAssignments env permissionSetGroupId =
     listQuery env
       (WhereEq (NewQuery TableNamePermissionAssignments groupAssignmentSelectors)
          ''PermissionSetGroupId'' permissionSetGroupId)
       rowGroupAssignment"

text \<open>\<open>GetOnePermissionSetGroupAssignment\<close> does not report a rate limit.\<close>

definition GetOnePermissionSetGroupAssignment ::
  "'w env \<Rightarrow> string \<Rightarrow> string \<Rightarrow> (goerror + PermissionSetAssignment option, 'w) op" where
  "GetOnePermissionSetGroupAssignment env userId permissionSetGroupId s =
     do { ((rl, r), s) \<leftarrow> lookupQuery env
            (WhereEq (WhereEq (NewQuery TableNamePermissionAssignments groupAssignmentSelectors)
               ''AssigneeId'' userId) ''PermissionSetGroupId'' permissionSetGroupId)
            rowGroupAssignment s;
          Some (r, s) }"

definition GetConnectedApplications :: "'w env \<Rightarrow> string \<Rightarrow> int \<Rightarrow> (ConnectedApplication page reply, 'w) op" where
  "GetConnectedApplications env = listQuery env (NewQuery TableNameConnectedApps []) rowConnectedApplication"

definition AgentforceAPIVersion :: string where "AgentforceAPIVersion = ''60.0''"

text \<open>Agents: an org without the object answers INVALID_TYPE, which is an empty last page.\<close>

definition GetBotDefinitions :: "'w env \<Rightarrow> string \<Rightarrow> (BotDefinition page reply, 'w) op" where
  "GetBotDefinitions env pageToken s =
     do { ((rl, r), s) \<leftarrow> queryWithAPIVersion env (NewQuery TableNameBotDefinition []) pageToken AgentforceAPIVersion s;
          Some (case r of
                  Inl e \<Rightarrow> if isSObjectNotSupportedError e then (rl, Inr ([], '''')) else (rl, Inl e)
                | Inr (recs, next) \<Rightarrow> (rl, Inr (map rowBotDefinition recs, next)), s) }"

definition GetTerritories :: "'w env \<Rightarrow> string \<Rightarrow> int \<Rightarrow> (sobject page reply, 'w) op" where
  "GetTerritories env pageToken pageSize s =
     do {
       q \<leftarrow> WhereInSubQuery (NewQuery TableNameTerritory2 []) ''Territory2ModelId''
              (WhereEq (NewIDQuery TableNameTerritory2Model) ''State'' ''Active'');
       query env q pageToken pageSize s
     }"

definition GetTerritoryMembers ::
  "'w env \<Rightarrow> string \<Rightarrow> string \<Rightarrow> int \<Rightarrow> (UserTerritory2Association page reply, 'w) op" where
  "GetTerritoryMembers env territoryID =
     listQuery env (WhereEq (NewQuery TableNameUserTerritory2Assoc []) ''Territory2Id'' territoryID) rowTerritoryMember"

definition territoryRolesQuery :: SalesforceQuery where
  "territoryRolesQuery =
     WithoutOrderBy (WhereBoolEq
       (WhereEq
         (WhereEq (NewQuery TableNamePicklistValueInfo [''Value''])
            ''EntityParticle.EntityDefinition.QualifiedApiName'' TableNameUserTerritory2Assoc)
         ''EntityParticle.DeveloperName'' ''RoleInTerritory2'')
       ''IsActive'' True)"

definition GetTerritoryRoles :: "'w env \<Rightarrow> (string list reply, 'w) op" where
  "GetTerritoryRoles env s =
     do { ((rl, r), s) \<leftarrow> query env territoryRolesQuery '''' (- 1) s;
          Some ((rl, case r of
                       Inl e \<Rightarrow> Inl (ErrWrap ''baton-salesforce: failed to get territory roles'' e)
                     | Inr (recs, _) \<Rightarrow> Inr (filter (\<lambda>v. v \<noteq> '''') (map (\<lambda>rec. StringField rec ''Value'') recs))), s) }"

definition territoryAssociationQuery :: "string \<Rightarrow> string \<Rightarrow> SalesforceQuery" where
  "territoryAssociationQuery userID territoryID =
     WhereEq (WhereEq (NewQuery TableNameUserTerritory2Assoc []) ''Territory2Id'' territoryID) ''UserId'' userID"

definition GetUserTerritoryAssociation :: "'w env \<Rightarrow> string \<Rightarrow> string \<Rightarrow> (sobject reply, 'w) op" where
  "GetUserTerritoryAssociation env userID territoryID = getSObject env (territoryAssociationQuery userID territoryID)"

section \<open>Login records\<close>

definition userLoginInClauseChunkSize :: nat where "userLoginInClauseChunkSize = 250"

text \<open>The slices \<open>userIDs[start:end]\<close> of the loop of \<open>GetUserLoginsByUserIDs\<close>.\<close>

fun chunksOf :: "nat \<Rightarrow> 'a list \<Rightarrow> 'a list list" where
  "chunksOf n xs = (if xs = [] \<or> n = 0 then [] else take n xs # chunksOf n (drop n xs))"

declare chunksOf.simps [simp del]

fun addLogins :: "sobject list \<Rightarrow> (string \<rightharpoonup> UserLogin) \<Rightarrow> goerror + (string \<rightharpoonup> UserLogin)" where
  "addLogins [] result = Inr result"
| "addLogins (rec # recs) result =
     bindSum (rowUserLogin rec) (\<lambda>lg. addLogins recs (result(lg_UserId lg \<mapsto> lg)))"

definition loginQuery :: "string list \<Rightarrow> SalesforceQuery" where
  "loginQuery chunk = whereIn (NewQuery TableNameUserLogin []) ''UserId'' chunk"

definition unexpectedPage :: "nat \<Rightarrow> goerror" where
  "unexpectedPage n =
     ErrNew (''baton-salesforce: UserLogin batch query was paginated unexpectedly (chunk size: '' @ itoa n @ '')'')"

fun loginChunks ::
  "'w env \<Rightarrow> string list list \<Rightarrow> (string \<rightharpoonup> UserLogin) \<Rightarrow> RateLimitDescription option
    \<Rightarrow> ((string \<rightharpoonup> UserLogin) reply, 'w) op" where
  "loginChunks env [] result rl s = Some ((rl, Inr result), s)"
| "loginChunks env (chunk # chunks) result rl0 s =
     do {
       ((rl, r), s) \<leftarrow> query env (loginQuery chunk) '''' (int (length chunk)) s;
       case r of
         Inl e \<Rightarrow> Some ((rl, Inl e), s)
       | Inr (recs, next) \<Rightarrow>
           if next \<noteq> '''' then Some ((rl, Inl (unexpectedPage (length chunk))), s)
           else (case addLogins recs result of
                   Inl e \<Rightarrow> Some ((rl, Inl e), s)
                 | Inr result' \<Rightarrow> loginChunks env chunks result' rl s)
     }"

definition GetUserLoginsByUserIDs :: "'w env \<Rightarrow> string list \<Rightarrow> ((string \<rightharpoonup> UserLogin) reply, 'w) op" where
  "GetUserLoginsByUserIDs env userIDs s =
     (if userIDs = [] then Some ((None, Inr Map.empty), s)
      else loginChunks env (chunksOf userLoginInClauseChunkSize userIDs) Map.empty None s)"

definition GetUserLogin :: "'w env \<Rightarrow> string \<Rightarrow> (UserLogin option reply, 'w) op" where
  "GetUserLogin env userId s =
     do { ((rl, r), s) \<leftarrow> query env (WhereEq (NewQuery TableNameUserLogin []) ''UserId'' userId) '''' 1 s;
          Some (case r of
                  Inl e \<Rightarrow> (rl, Inl e)
                | Inr ([], _) \<Rightarrow> (rl, Inr None)
                | Inr (rec # _, _) \<Rightarrow>
                    (case rowUserLogin rec of Inl e \<Rightarrow> (None, Inl e) | Inr lg \<Rightarrow> (rl, Inr (Some lg))), s) }"

section \<open>Users by e-mail\<close>

text \<open>The row of \<open>GetUserByEmail\<close>: inactive and non-standard users count, the license key is not read.\<close>

definition rowUserByEmail :: "sobject \<Rightarrow> goerror + SalesforceUser option" where
  "rowUserByEmail rec =
     bindSum (getIsActive rec) (\<lambda>isActive.
       if shouldSkipSyncingUserType rec True then Inr None
       else bindSum (parseSalesforceDatetime (StringField rec ''LastLoginDate'')) (\<lambda>lastLogin.
         Inr (Some \<lparr>su_ID = sobjID rec, su_Email = StringField rec ''Email'', su_Username = StringField rec ''Username'',
           su_FirstName = StringField rec ''FirstName'', su_LastName = StringField rec ''LastName'',
           su_UserType = StringField rec ''UserType'', su_LicenseDefinitionKey = '''',
           su_IsActive = isActive, su_LastLoginDate = lastLogin\<rparr>)))"

definition userNotFound :: "string \<Rightarrow> goerror" where
  "userNotFound email = StatusError NotFound (''user with email '' @ email @ '' not found'')"

definition GetUserByEmail :: "'w env \<Rightarrow> string \<Rightarrow> (goerror + SalesforceUser, 'w) op" where
  "GetUserByEmail env email s =
     do { ((rl, r), s) \<leftarrow> query env (WhereEq (NewQuery TableNameUsers []) ''Email'' email) '''' 1 s;
          Some (case r of
                  Inl e \<Rightarrow> Inl e
                | Inr (recs, _) \<Rightarrow> bindSum (mapE rowUserByEmail recs)
                    (\<lambda>users. case users of [] \<Rightarrow> Inl (userNotFound email) | u # _ \<Rightarrow> Inr u), s) }"

definition UserExist :: "'w env \<Rightarrow> string \<Rightarrow> (goerror + bool, 'w) op" where
  "UserExist env email s =
     do { (r, s) \<leftarrow> GetUserByEmail env email s;
          Some (case r of
                  Inl e \<Rightarrow> if statusCode e = NotFound then Inr False else Inl e
                | Inr u \<Rightarrow> Inr True, s) }"

text \<open>
  \<open>GetUserByEmailWithRetry\<close>: \<open>left\<close> attempts remain of three; before each the response cache is
  cleared, between two of them the code waits one second more each time.
\<close>

definition maxRetries :: nat where "maxRetries = 3"

fun retryUser :: "'w env \<Rightarrow> nat \<Rightarrow> string \<Rightarrow> (goerror + SalesforceUser, 'w) op" where
  "retryUser env 0 email s = Some (Inl (ErrNew ''failed to get user by email after 3 retries''), s)"
| "retryUser env (Suc left) email s =
     (let (cerr, w) = e_clearCaches env (sys_w s); s = s\<lparr>sys_w := w\<rparr> in
      case cerr of
        Some e \<Rightarrow> Some (Inl e, s)
      | None \<Rightarrow>
          do {
            (r, s) \<leftarrow> GetUserByEmail env email s;
            case r of
              Inr u \<Rightarrow> Some (Inr u, s)
            | Inl e \<Rightarrow>
                if statusCode e \<noteq> NotFound then Some (Inl e, s)
                else if 0 < left then
                  (let (derr, w) = e_wait env (maxRetries - left) (sys_w s); s = s\<lparr>sys_w := w\<rparr> in
                   case derr of Some e \<Rightarrow> Some (Inl e, s) | None \<Rightarrow> retryUser env left email s)
                else retryUser env left email s
          })"

definition GetUserByEmailWithRetry :: "'w env \<Rightarrow> string \<Rightarrow> (goerror + SalesforceUser, 'w) op" where
  "GetUserByEmailWithRetry env email = retryUser env maxRetries email"

section \<open>Listings evolve the client\<close>

lemma lift_query:
  assumes "query env q p n s = Some (x, s')" shows "evolves (sys_c s) (sys_c s')"
  using assms by (rule query.op_evolves)

interpretation list_q: client_op "listQuery env q row tok n" for env q row tok n
  by unfold_locales (auto simp: listQuery_def Option.bind_eq_Some_conv dest: lift_query)

interpretation list_e: client_op "listQueryE env keep q row tok n" for env keep q row tok n
  by unfold_locales (auto simp: listQueryE_def Option.bind_eq_Some_conv dest: lift_query)

interpretation lookup: client_op "lookupQuery env q row" for env q row
  by unfold_locales (auto simp: lookupQuery_def Option.bind_eq_Some_conv dest: lift_query)

section \<open>Chunks\<close>

lemma chunksOf_concat: "0 < n \<Longrightarrow> concat (chunksOf n xs) = xs"
proof (induction n xs rule: chunksOf.induct)
  case (1 n xs)
  then show ?case by (subst chunksOf.simps) simp
qed

lemma chunksOf_bounds: "c \<in> set (chunksOf n xs) \<Longrightarrow> c \<noteq> [] \<and> length c \<le> n"
proof (induction n xs rule: chunksOf.induct)
  case (1 n xs)
  show ?case
  proof (cases "xs = [] \<or> n = 0")
    case True
    with "1.prems" show ?thesis by (simp add: chunksOf.simps)
  next
    case False
    with "1.prems" have "c = take n xs \<or> c \<in> set (chunksOf n (drop n xs))" by (subst (asm) chunksOf.simps) auto
    with False "1.IH" show ?thesis by auto
  qed
qed

lemma ceil_step:
  assumes "0 < n" "0 < (m::nat)"
  shows "(m + n - 1) div n = Suc ((m - n + n - 1) div n)"
proof -
  have "m + n - 1 = (m - 1) + n" using assms(2) by simp
  moreover have "((m - 1) + n) div n = Suc ((m - 1) div n)" using assms(1) by simp
  ultimately have *: "(m + n - 1) div n = Suc ((m - 1) div n)" by (simp only:)
  show ?thesis
  proof (cases "n \<le> m")
    case True
    with * show ?thesis by simp
  next
    case False
    then have "(m - 1) div n = 0" "m - n + n - 1 = n - 1" by simp_all
    with * assms(1) show ?thesis by simp
  qed
qed

lemma chunksOf_length: "0 < n \<Longrightarrow> length (chunksOf n xs) = (length xs + n - 1) div n"
proof (induction n xs rule: chunksOf.induct)
  case (1 n xs)
  show ?case
  proof (cases "xs = []")
    case True
    with "1.prems" show ?thesis by (subst chunksOf.simps) simp
  next
    case False
    then have "length (chunksOf n xs) = Suc (length (chunksOf n (drop n xs)))"
      using "1.prems" by (subst chunksOf.simps) simp
    also have "length (chunksOf n (drop n xs)) = (length (drop n xs) + n - 1) div n"
      using 1 False by simp
    finally show ?thesis using ceil_step [of n "length xs"] "1.prems" False by simp
  qed
qed

lemma selects_queries [simp]:
  "selects (usersQuery b)" "selects territoryRolesQuery" "selects (territoryAssociationQuery u t)" "selects (loginQuery c)"
  by (simp_all add: usersQuery_def territoryRolesQuery_def territoryAssociationQuery_def loginQuery_def)

section \<open>Counting requests\<close>

text \<open>Against a logging server, one call of the session is at most one request.\<close>

lemma RoundTrip_log: "RoundTrip (logEnv f) t rq w = (r, t', w') \<Longrightarrow> \<exists>rq'. w' = w @ [rq']"
  by (auto simp: RoundTrip_def authorize_def split: if_splits)

lemma uhttpDo_log_one: "uhttpDo (logEnv f) t rq w = (r, t', w') \<Longrightarrow> \<exists>rq'. w' = w @ [rq']"
  by (auto simp: uhttpDo_def sendDo_def finishDo_def dest: RoundTrip_log split: prod.splits sum.splits if_splits)

lemma httpRequest_log_one: "httpRequest (logEnv f) cl t m u b w = Some (r, t', w') \<Longrightarrow> length w' \<le> Suc (length w)"
  by (auto simp: httpRequest_def Option.bind_eq_Some_conv Let_def dest!: uhttpDo_log_one
      split: option.splits prod.splits if_splits)

lemma clientQuery_log: "clientQuery (logEnv f) q cl t w = Some (r, t', w') \<Longrightarrow> length w' \<le> Suc (length w)"
  by (auto simp: clientQuery_def dest: httpRequest_log_one
      split: if_splits Option.bind_split_asm prod.split_asm sum.split_asm)

lemma query_log:
  assumes "sc_initialized (sys_c s)" and "query (logEnv f) q p n s = Some (r, s')"
  shows "length (sys_w s') \<le> Suc (length (sys_w s))" "sc_initialized (sys_c s')"
proof -
  show "sc_initialized (sys_c s')" using query.op_session [OF assms(2,1)] by simp
  show "length (sys_w s') \<le> Suc (length (sys_w s))"
    using assms by (auto simp: query_def onClient_def Option.bind_eq_Some_conv dest!: clientQuery_log)
qed

lemma loginChunks_log:
  "sc_initialized (sys_c s) \<Longrightarrow> loginChunks (logEnv f) cs result rl s = Some (r, s') \<Longrightarrow>
     length (sys_w s') \<le> length (sys_w s) + length cs"
proof (induction cs arbitrary: s result rl)
  case (Cons c cs)
  from Cons.prems obtain rl1 r1 s1 where q: "query (logEnv f) (loginQuery c) '''' (int (length c)) s = Some ((rl1, r1), s1)"
    by (auto simp: Option.bind_eq_Some_conv)
  note step = query_log [OF Cons.prems(1) q]
  show ?case
  proof (cases "s' = s1")
    case True
    with step show ?thesis by simp
  next
    case False
    with Cons.prems(2) q obtain result' where "loginChunks (logEnv f) cs result' rl1 s1 = Some (r, s')"
      by (auto split: sum.splits prod.splits if_splits)
    from Cons.IH [OF step(2) this] step show ?thesis by simp
  qed
qed simp

lemma GetUserByEmail_log:
  assumes "sc_initialized (sys_c s)" and "GetUserByEmail (logEnv f) email s = Some (r, s')"
  shows "length (sys_w s') \<le> Suc (length (sys_w s))" "sc_initialized (sys_c s')"
  using assms by (auto simp: GetUserByEmail_def Option.bind_eq_Some_conv dest: query_log)

lemma retryUser_log:
  "sc_initialized (sys_c s) \<Longrightarrow> retryUser (logEnv f) k email s = Some (r, s') \<Longrightarrow>
     length (sys_w s') \<le> length (sys_w s) + k"
proof (induction k arbitrary: s)
  case (Suc k)
  from Suc.prems obtain r1 s1 where q: "GetUserByEmail (logEnv f) email s = Some (r1, s1)"
    by (auto simp: Option.bind_eq_Some_conv)
  note step = GetUserByEmail_log [OF Suc.prems(1) q]
  show ?case
  proof (cases "s' = s1")
    case True
    with step show ?thesis by simp
  next
    case False
    with Suc.prems(2) q have "retryUser (logEnv f) k email s1 = Some (r, s')"
      by (auto simp: Let_def split: sum.splits if_splits)
    from Suc.IH [OF step(2) this] step show ?thesis by simp
  qed
qed simp

section \<open>Reads on an open session\<close>

text \<open>A query answered by a document on the concrete session.\<close>

lemma demo_query:
  assumes "getQueryString q [] n = Some qs" and "decodeQueryResult doc = Some (Inr res)" and "selects q"
  shows "query (logEnv (\<lambda>_. okResponse doc)) q [] n (after demoSys demoTransport w)
    = Some ((None, Inr (pageOf res)),
        after demoSys demoTransport (w @ [bearerRequest ''sid'' ''GET'' (queryURL demoClient qs) NoBody]))"
proof -
  have sid: "cl_sessionID demoClient = ''sid''" "isLoggedIn demoClient"
    by (simp_all add: demoClient_def isLoggedIn_def)
  have "requestable (queryURL demoClient qs)"
    using requestable_queryURL [OF demo_plain getQueryString_no_path [OF assms(1,3)]] .
  then have "clientQuery (logEnv (\<lambda>_. okResponse doc)) qs demoClient demoTransport w
      = Some (Inr res, demoTransport, w @ [bearerRequest ''sid'' ''GET'' (queryURL demoClient qs) NoBody])"
    using httpRequest_log [of demoTransport "\<lambda>_. okResponse doc" demoClient "''GET''" "queryURL demoClient qs" NoBody
        "okResponse doc" w] sid assms(2)
    by (simp add: clientQuery_def)
  then have "clientQuery (logEnv (\<lambda>_. okResponse doc)) qs demoClient demoTransport (sys_w (after demoSys demoTransport w))
      = Some (Inr res, demoTransport, w @ [bearerRequest ''sid'' ''GET'' (queryURL demoClient qs) NoBody])"
    by simp
  from query_session [OF session_after [OF demo_session(1)] assms(1) this] show ?thesis
    by (simp add: mapReply_def)
qed

lemma demoSys_after: "after demoSys demoTransport [] = demoSys"
  by (simp add: after_def demoSys_def)

text \<open>The document of a last page.\<close>

definition lastPage :: "gomap list \<Rightarrow> document" where
  "lastPage ms = JsonDoc [] (VMap [''done'' \<mapsto> VBool True, ''records'' \<mapsto> VList (map VMap ms)])"

lemma collect_recordEntry: "collect recordEntry (map VMap ms) = Some (map Some ms)"
  by (induction ms) simp_all

lemma collect_id_Some: "collect id (map Some ms) = Some ms"
  by (induction ms) simp_all

lemma decode_lastPage:
  "decodeQueryResult (lastPage ms)
     = Some (Inr \<lparr>qr_Done = True, qr_NextRecordsURL = '''', qr_Records = map setClient ms\<rparr>)"
  by (simp add: decodeQueryResult_def lastPage_def mapIndex_def jsonRecords_def collect_recordEntry collect_id_Some)

section \<open>Properties\<close>

text \<open>The users a sync keeps, stated on the record alone.\<close>

definition wantedUser :: "bool \<Rightarrow> bool \<Rightarrow> sobject \<Rightarrow> bool" where
  "wantedUser deactivated nonStandard rec \<longleftrightarrow>
     (deactivated \<or> boolValue (mapIndex rec ''IsActive'') = Some True)
     \<and> StringField rec ''UserType'' \<noteq> ''''
     \<and> (nonStandard \<or> StringField rec ''UserType'' \<notin> set userTypesToSkip)"

lemma rowUser_wanted:
  assumes "rowUser d n rec = Inr y"
  shows "(y \<noteq> None) = wantedUser d n rec"
    and "y = Some u \<Longrightarrow> su_ID u = sobjID rec \<and> boolValue (mapIndex rec ''IsActive'') = Some (su_IsActive u)
      \<and> su_UserType u = StringField rec ''UserType''"
  using assms
  by (auto simp: rowUser_def getIsActive_def wantedUser_def shouldSkipSyncingUserType_def bindSum_def Let_def
      split: option.splits if_splits sum.splits)

text \<open>
  C13. A page of users holds exactly the users the sync wants, in the order of the records: the
  ids of the result are the ids of the records that are active (unless deactivated users are synced),
  have a user type, and are not of a portal or guest type (unless non-standard users are synced); the
  next page token is the one of the answer.
\<close>

theorem GetUsers_keeps_wanted:
  assumes "GetUsers env tok n deact nonstd s = Some ((rl, Inr (us, next)), s')"
  shows "\<exists>recs. query env (usersQuery nonstd) tok n s = Some ((rl, Inr (recs, next)), s')
    \<and> map su_ID us = map sobjID (filter (wantedUser deact nonstd) recs)"
proof -
  from assms obtain recs where q: "query env (usersQuery nonstd) tok n s = Some ((rl, Inr (recs, next)), s')"
    and m: "mapE (rowUser deact nonstd) recs = Inr us"
    by (auto simp: GetUsers_def listQueryE_def split: Option.bind_split_asm sum.split_asm prod.split_asm)
  from m have "map su_ID us = map sobjID (filter (wantedUser deact nonstd) recs)"
  proof (induction recs arbitrary: us)
    case (Cons rec recs)
    then obtain y ys where *: "rowUser deact nonstd rec = Inr y" "mapE (rowUser deact nonstd) recs = Inr ys"
      "us = (case y of None \<Rightarrow> ys | Some v \<Rightarrow> v # ys)"
      by (auto simp: bindSum_def split: sum.splits)
    with Cons.IH rowUser_wanted [OF *(1)] show ?case by (auto split: option.splits)
  qed simp
  with q show ?thesis by blast
qed

theorem GetUsers_keeps_wanted_witness:
  "\<exists>us s'. GetUsers (logEnv (\<lambda>_. okResponse (lastPage
       [[''Id'' \<mapsto> VString ''1'', ''IsActive'' \<mapsto> VBool False, ''UserType'' \<mapsto> VString ''Standard''],
        [''Id'' \<mapsto> VString ''2'', ''IsActive'' \<mapsto> VBool True, ''UserType'' \<mapsto> VString ''Standard'']])))
      '''' 100 False False demoSys = Some ((None, Inr (us, '''')), s') \<and> map su_ID us = [''2'']"
proof -
  let ?a = "[''Id'' \<mapsto> VString ''1'', ''IsActive'' \<mapsto> VBool False, ''UserType'' \<mapsto> VString ''Standard'']"
  let ?b = "[''Id'' \<mapsto> VString ''2'', ''IsActive'' \<mapsto> VBool True, ''UserType'' \<mapsto> VString ''Standard'']"
  let ?env = "logEnv (\<lambda>_. okResponse (lastPage [?a, ?b]))"
  have "getQueryString (foldl addCond (NewQuery TableNameUsers []) [CEq ''UserType'' ''Standard'']) '''' 100
      = Some (renderQuery (querySelectors TableNameUsers []) TableNameUsers [CEq ''UserType'' ''Standard''] SalesforcePK)"
    by (rule getQueryString_known) (simp_all add: knownTables_def plain_char_def max_int64_def)
  then obtain qs where qs: "getQueryString (usersQuery False) '''' 100 = Some qs"
    by (simp add: usersQuery_def)
  from demo_query [OF qs decode_lastPage [of "[?a, ?b]"], of "[]"] obtain s' where
    q: "query ?env (usersQuery False) '''' 100 demoSys = Some ((None, Inr ([setClient ?a, setClient ?b], '''')), s')"
    by (auto simp: demoSys_after pageOf_def)
  have "\<exists>us. mapE (rowUser False False) [setClient ?a, setClient ?b] = Inr us"
    by (simp add: rowUser_def getIsActive_def setClient_def mapIndex_def shouldSkipSyncingUserType_def
        sobject_key_defs parseSalesforceDatetime_def StringField_def userTypesToSkip_def)
  with q obtain us where g: "GetUsers ?env '''' 100 False False demoSys = Some ((None, Inr (us, '''')), s')"
    by (auto simp: GetUsers_def listQueryE_def)
  from GetUsers_keeps_wanted [OF g] q have "map su_ID us = map sobjID (filter (wantedUser False False) [setClient ?a, setClient ?b])"
    by auto
  then have "map su_ID us = [''2'']"
    by (simp add: wantedUser_def setClient_def mapIndex_def sobject_key_defs userTypesToSkip_def sobjID_def StringField_def)
  with g show ?thesis by (intro exI conjI)
qed

text \<open>
  C32. The login records of any number of users are fetched in at most one request per 250 users:
  whatever the server answers, the log grows by at most the rounded-up quotient, and the chunks
  are non-empty, hold at most 250 ids and together are exactly the ids asked for, in order.
\<close>

theorem GetUserLogins_request_bound:
  assumes "sc_initialized (sys_c s)" and "GetUserLoginsByUserIDs (logEnv f) ids s = Some (r, s')"
  shows "length (sys_w s') \<le> length (sys_w s) + (length ids + 249) div 250
    \<and> concat (chunksOf userLoginInClauseChunkSize ids) = ids
    \<and> (\<forall>c \<in> set (chunksOf userLoginInClauseChunkSize ids). c \<noteq> [] \<and> length c \<le> 250)"
proof -
  have "length (chunksOf userLoginInClauseChunkSize ids) = (length ids + 249) div 250"
    by (simp add: chunksOf_length userLoginInClauseChunkSize_def)
  with assms loginChunks_log [OF assms(1)] have "length (sys_w s') \<le> length (sys_w s) + (length ids + 249) div 250"
    by (fastforce simp: GetUserLoginsByUserIDs_def split: if_splits)
  then show ?thesis
    using chunksOf_concat [of userLoginInClauseChunkSize ids] chunksOf_bounds [of _ userLoginInClauseChunkSize ids]
    by (auto simp: userLoginInClauseChunkSize_def)
qed

text \<open>The login query of any chunk has a text.\<close>

lemma loginQuery_text:
  assumes "int (Suc (length chunk)) \<le> max_int64"
  shows "\<exists>qs. getQueryString (loginQuery chunk) '''' n = Some qs"
proof -
  have "getQueryString (foldl addCond (NewQuery TableNameUserLogin []) [CIn ''UserId'' chunk]) '''' n
      = Some (renderQuery (querySelectors TableNameUserLogin []) TableNameUserLogin [CIn ''UserId'' chunk] SalesforcePK)"
    using assms by (intro getQueryString_known) (simp_all add: knownTables_def plain_char_def)
  then show ?thesis by (simp add: loginQuery_def)
qed

theorem GetUserLogins_request_bound_witness:
  "\<exists>r s'. GetUserLoginsByUserIDs (logEnv (\<lambda>_. okResponse (lastPage []))) [''005a'', ''005b''] demoSys = Some (r, s')
     \<and> length (sys_w s') \<le> 1"
proof -
  let ?env = "logEnv (\<lambda>_. okResponse (lastPage []))" and ?ids = "[''005a'', ''005b'']"
  obtain qs where qs: "getQueryString (loginQuery ?ids) '''' 2 = Some qs"
    using loginQuery_text [of ?ids 2] by (auto simp: max_int64_def)
  have "chunksOf userLoginInClauseChunkSize ?ids = [?ids]"
    by (subst chunksOf.simps, subst chunksOf.simps) (simp add: userLoginInClauseChunkSize_def)
  then obtain r s' where g: "GetUserLoginsByUserIDs ?env ?ids demoSys = Some (r, s')"
    using demo_query [OF qs decode_lastPage [of "[]"], of "[]"]
    by (auto simp: GetUserLoginsByUserIDs_def demoSys_after pageOf_def)
  have "sc_initialized (sys_c demoSys)" using demo_session(1) by (simp add: session_def)
  from GetUserLogins_request_bound [OF this g] g show ?thesis by auto
qed

text \<open>
  C33. Waiting for a user to appear is bounded: whatever the server answers, the search by e-mail
  sends at most three requests, and when it gives up it has an error to return.
\<close>

theorem retry_request_bound:
  assumes "sc_initialized (sys_c s)" and "GetUserByEmailWithRetry (logEnv f) email s = Some (r, s')"
  shows "length (sys_w s') \<le> length (sys_w s) + 3"
  using retryUser_log [OF assms(1), of f maxRetries email r s'] assms(2)
  by (simp add: GetUserByEmailWithRetry_def maxRetries_def)

lemma emailQuery_text: "\<exists>qs. getQueryString (WhereEq (NewQuery TableNameUsers []) ''Email'' email) '''' n = Some qs"
proof -
  have "getQueryString (foldl addCond (NewQuery TableNameUsers []) [CEq ''Email'' email]) '''' n
      = Some (renderQuery (querySelectors TableNameUsers []) TableNameUsers [CEq ''Email'' email] SalesforcePK)"
    by (rule getQueryString_known) (simp_all add: knownTables_def plain_char_def max_int64_def)
  then show ?thesis by simp
qed

theorem retry_request_bound_witness:
  "\<exists>s'. GetUserByEmailWithRetry (logEnv (\<lambda>_. okResponse (lastPage []))) ''a@b.c'' demoSys
      = Some (Inl (ErrNew ''failed to get user by email after 3 retries''), s')
    \<and> length (sys_w s') \<le> 3"
proof -
  let ?env = "logEnv (\<lambda>_. okResponse (lastPage []))"
  obtain qs where qs: "getQueryString (WhereEq (NewQuery TableNameUsers []) ''Email'' ''a@b.c'') '''' 1 = Some qs"
    using emailQuery_text by blast
  let ?rq = "bearerRequest ''sid'' ''GET'' (queryURL demoClient qs) NoBody"
  have g: "GetUserByEmail ?env ''a@b.c'' (after demoSys demoTransport w)
      = Some (Inl (userNotFound ''a@b.c''), after demoSys demoTransport (w @ [?rq]))" for w
    using demo_query [OF qs decode_lastPage [of "[]"], of w] by (simp add: GetUserByEmail_def pageOf_def)
  have same: "(after demoSys demoTransport w)\<lparr>sys_w := w\<rparr> = after demoSys demoTransport w" for w
    by (simp add: after_def)
  have nf: "statusCode (userNotFound e) = NotFound" for e by (simp add: userNotFound_def statusCode_def)
  have "retryUser ?env 3 ''a@b.c'' (after demoSys demoTransport [])
      = Some (Inl (ErrNew ''failed to get user by email after 3 retries''), after demoSys demoTransport [?rq, ?rq, ?rq])"
    by (simp add: eval_nat_numeral g same nf)
  then have r: "GetUserByEmailWithRetry ?env ''a@b.c'' demoSys
      = Some (Inl (ErrNew ''failed to get user by email after 3 retries''), after demoSys demoTransport [?rq, ?rq, ?rq])"
    by (simp add: GetUserByEmailWithRetry_def maxRetries_def demoSys_after)
  have "sc_initialized (sys_c demoSys)" using demo_session(1) by (simp add: session_def)
  from retry_request_bound [OF this r] r show ?thesis by simp
qed

text \<open>The text of the agent query.\<close>

definition botSoql :: string where
  "botSoql = renderQuery [''DeveloperName'', ''MasterLabel'', ''BotUserId'', ''Id''] ''BotDefinition'' [] ''Id''"

lemma botSoql_text: "queryString (OrderBy (NewQuery TableNameBotDefinition []) SalesforcePK) = Some botSoql"
proof -
  have sel: "querySelectors TableNameBotDefinition [] = [''DeveloperName'', ''MasterLabel'', ''BotUserId'', ''Id'']"
    by (simp add: querySelectors_def TableNamesToFieldsMapping_def table_defs)
  have "getQueryString (foldl addCond (NewQuery TableNameBotDefinition []) []) [] 0
      = Some (renderQuery (querySelectors TableNameBotDefinition []) TableNameBotDefinition [] SalesforcePK)"
    by (rule getQueryString_known) (simp_all add: knownTables_def max_int64_def)
  then show ?thesis
    unfolding sel by (simp add: getQueryString_def NewQuery_def botSoql_def table_defs)
qed

lemma GetBotDefinitions_failed:
  assumes "session s cl t" and "isLoggedIn cl"
    and "httpRequest env cl t ''GET'' (queryURL cl (versionedPath AgentforceAPIVersion botSoql)) NoBody (sys_w s)
      = Some (Inl e, t', w')"
  shows "GetBotDefinitions env [] s = Some (
    if isSObjectNotSupportedError e then (tr_rateLimit t', Inr ([], []))
    else (tr_rateLimit t', Inl (ErrWrap ''baton-salesforce: query failed (API v60.0)'' e)), after s t' w')"
proof -
  have "clientQuery env (versionedPath AgentforceAPIVersion botSoql) cl t (sys_w s) = Some (Inl e, t', w')"
    using assms by (simp add: clientQuery_def)
  from onClient_session [OF assms(1), of "clientQuery env (versionedPath AgentforceAPIVersion botSoql)", OF this]
  have "queryWithAPIVersion env (NewQuery TableNameBotDefinition []) [] AgentforceAPIVersion s
      = Some ((tr_rateLimit t', Inl (ErrWrap ''baton-salesforce: query failed (API v60.0)'' e)), after s t' w')"
    by (simp add: queryWithAPIVersion_def Initialize_session [OF assms(1)] botSoql_text mapReply_def wrapErr_def
        AgentforceAPIVersion_def)
  moreover have "isSObjectNotSupportedError (ErrWrap m e) = isSObjectNotSupportedError e" for m
    by (simp add: isSObjectNotSupportedError_def)
  ultimately show ?thesis by (simp add: GetBotDefinitions_def)
qed

text \<open>
  C34. An org without agents is not an error: when Salesforce rejects the versioned query on the
  agent object with the error code INVALID_TYPE, the listing is an empty last page that still reports
  the rate limit; a rejection with any other code is passed on, wrapped.
\<close>

theorem GetBotDefinitions_unsupported:
  assumes "session s cl t" and "isLoggedIn cl"
    and "httpRequest env cl t ''GET'' (queryURL cl (versionedPath AgentforceAPIVersion botSoql)) NoBody (sys_w s)
      = Some (Inl e, t', w')"
    and "sfErrorCode e = Some code"
  shows "GetBotDefinitions env [] s = Some (
    if code = ''INVALID_TYPE'' then (tr_rateLimit t', Inr ([], []))
    else (tr_rateLimit t', Inl (ErrWrap ''baton-salesforce: query failed (API v60.0)'' e)), after s t' w')"
  using GetBotDefinitions_failed [OF assms(1-3)] assms(4) by (simp add: isSObjectNotSupportedError_def)

theorem GetBotDefinitions_unsupported_witness:
  "\<exists>s'. GetBotDefinitions (logEnv (\<lambda>_. \<lparr>rs_status = 400, rs_header = Map.empty,
        rs_body = JsonDoc [] (VList [VMap [''errorCode'' \<mapsto> VString ''INVALID_TYPE'']])\<rparr>)) [] demoSys
     = Some ((None, Inr ([], [])), s')"
proof -
  let ?r = "\<lparr>rs_status = 400, rs_header = Map.empty,
    rs_body = JsonDoc [] (VList [VMap [''errorCode'' \<mapsto> VString ''INVALID_TYPE'']])\<rparr>"
  let ?u = "queryURL demoClient (versionedPath AgentforceAPIVersion botSoql)"
  have "requestable (queryURL demoClient ((''/services/data/v'' @ AgentforceAPIVersion @ ''/query'') @ ''?q='' @ QueryEscape botSoql))"
    by (rule requestable_endpoint [OF demo_plain]) (simp_all add: AgentforceAPIVersion_def plain_simps hasPrefix_def)
  then have url: "requestable ?u" by (simp add: versionedPath_def)
  obtain e w' where h: "httpRequest (logEnv (\<lambda>_. ?r)) demoClient demoTransport ''GET'' ?u NoBody (sys_w demoSys)
      = Some (Inl e, demoTransport, w')" "sfErrorCode e = Some ''INVALID_TYPE''"
    using url by (simp add: httpRequest_def uhttpDo_log isOk_def parseUhttpError_def ParseSalesforceError_def mapIndex_def
        errorsJoin_def map_filter_simps)
  have "isLoggedIn demoClient" by (simp add: isLoggedIn_def demoClient_def)
  from GetBotDefinitions_unsupported [OF demo_session(1) this h] show ?thesis by simp
qed

end
