(* ===== verification/Sf_Writes.thy ===== *)
theory Sf_Writes
  imports Sf_Reads
begin

text \<open>
  The writing operations of \<^verbatim>\<open>client/salesforce.go\<close> and \<^verbatim>\<open>client/user.go\<close>: memberships are records that
  are created and deleted, roles, profiles and the active state are fields of the user, territory roles
  are fields of the association, and users are created from a request with extra fields.
\<close>

section \<open>Groups, permission sets, profiles and roles\<close>

definition AddUserToGroup :: "'w env \<Rightarrow> string \<Rightarrow> string \<Rightarrow> (unit reply, 'w) op" where
  "AddUserToGroup env userId groupId =
     CreateObject env TableNameGroupMemberships
       [''GroupId'' \<mapsto> VString groupId, ''UserOrGroupId'' \<mapsto> VString userId]"

text \<open>
  \<open>RemoveUserFromGroup\<close>: the flag says whether a membership was found. A failed deletion reports
  the flag as well, next to the error.
\<close>

definition RemoveUserFromGroup ::
  "'w env \<Rightarrow> string \<Rightarrow> string \<Rightarrow> (bool \<times> RateLimitDescription option \<times> goerror option, 'w) op" where
  "RemoveUserFromGroup env userId groupId s =
     do {
       ((rl, r), s) \<leftarrow> getGroupMembership env userId groupId s;
       case r of
         Inl e \<Rightarrow> if errorsIs e ErrObjectNotFound then Some ((False, rl, None), s) else Some ((False, rl, Some e), s)
       | Inr found \<Rightarrow>
           do {
             ((rl, r), s) \<leftarrow> DeleteObject env TableNameGroupMemberships (sobjID found) s;
             Some ((True, rl, case r of Inl e \<Rightarrow> Some e | Inr _ \<Rightarrow> None), s)
           }
     }"

definition AddUserToPermissionSet :: "'w env \<Rightarrow> string \<Rightarrow> string \<Rightarrow> (unit reply, 'w) op" where
  "AddUserToPermissionSet env userId permissionSetId =
     CreateObject env TableNamePermissionAssignments
       [''AssigneeId'' \<mapsto> VString userId, ''PermissionSetId'' \<mapsto> VString permissionSetId]"

text \<open>Find a record and delete it: the shape of the two removals that report a missing record.\<close>

definition findAndDelete :: "'w env \<Rightarrow> SalesforceQuery \<Rightarrow> string \<Rightarrow> (unit reply, 'w) op" where
  "findAndDelete env q tableName s =
     do {
       ((rl, r), s) \<leftarrow> getSObject env q s;
       case r of
         Inl e \<Rightarrow> Some ((rl, Inl e), s)
       | Inr found \<Rightarrow> DeleteObject env tableName (sobjID found) s
     }"

definition RemoveUserFromPermissionSet :: "'w env \<Rightarrow> string \<Rightarrow> string \<Rightarrow> (unit reply, 'w) op" where
  "RemoveUserFromPermissionSet env userId permissionSetId =
     findAndDelete env
       (WhereEq (WhereEq (NewQuery TableNamePermissionAssignments []) ''AssigneeId'' userId)
          ''PermissionSetId'' permissionSetId) TableNamePermissionAssignments"

definition AddUserToProfile :: "'w env \<Rightarrow> string \<Rightarrow> string \<Rightarrow> (unit reply, 'w) op" where
  "AddUserToProfile env userId profileId = setOneValue env userId ''ProfileId'' profileId"

definition SetNewUserProfile :: "'w env \<Rightarrow> string \<Rightarrow> string \<Rightarrow> (unit reply, 'w) op" where
  "SetNewUserProfile env userId profileId = setOneValue env userId ''ProfileId'' profileId"

definition AddUserToRole :: "'w env \<Rightarrow> string \<Rightarrow> string \<Rightarrow> (unit reply, 'w) op" where
  "AddUserToRole env userId roleId = setValue env userId ''UserRoleId'' roleId"

definition RemoveUserFromRole :: "'w env \<Rightarrow> string \<Rightarrow> string \<Rightarrow> (unit reply, 'w) op" where
  "RemoveUserFromRole env userId roleId = clearValue env userId ''UserRoleId'' roleId"

definition SetUserActiveState :: "'w env \<Rightarrow> string \<Rightarrow> bool \<Rightarrow> (unit reply, 'w) op" where
  "SetUserActiveState env userId active = setOneValue env userId ''IsActive'' (formatBool active)"

definition AddUserToPermissionSetGroup :: "'w env \<Rightarrow> string \<Rightarrow> string \<Rightarrow> (unit reply, 'w) op" where
  "AddUserToPermissionSetGroup env userId permissionSetGroupId =
     CreateObject env TableNamePermissionAssignments
       [''AssigneeId'' \<mapsto> VString userId, ''PermissionSetGroupId'' \<mapsto> VString permissionSetGroupId]"

definition RemoveUserFromPermissionSetGroup :: "'w env \<Rightarrow> string \<Rightarrow> (unit reply, 'w) op" where
  "RemoveUserFromPermissionSetGroup env assignmentID = DeleteObject env TableNamePermissionAssignments assignmentID"

section \<open>Territories\<close>

text \<open>A creation whose duplicate error becomes \<open>ErrObjectAlreadyExists\<close>.\<close>

definition createAssociation :: "'w env \<Rightarrow> gomap \<Rightarrow> (unit reply, 'w) op" where
  "createAssociation env values s =
     do {
       ((rl, r), s) \<leftarrow> CreateObject env TableNameUserTerritory2Assoc values s;
       Some ((rl, case r of
                    Inl e \<Rightarrow> if isSalesforceDuplicateError e then Inl ErrObjectAlreadyExists else Inl e
                  | Inr _ \<Rightarrow> Inr ()), s)
     }"

definition AddUserToTerritory :: "'w env \<Rightarrow> string \<Rightarrow> string \<Rightarrow> (unit reply, 'w) op" where
  "AddUserToTerritory env userID territoryID =
     createAssociation env [''UserId'' \<mapsto> VString userID, ''Territory2Id'' \<mapsto> VString territoryID]"

definition AddUserToTerritoryWithRole :: "'w env \<Rightarrow> string \<Rightarrow> string \<Rightarrow> string \<Rightarrow> (unit reply, 'w) op" where
  "AddUserToTerritoryWithRole env userID territoryID role =
     createAssociation env [''UserId'' \<mapsto> VString userID, ''Territory2Id'' \<mapsto> VString territoryID,
       ''RoleInTerritory2'' \<mapsto> VString role]"

definition RemoveUserFromTerritory :: "'w env \<Rightarrow> string \<Rightarrow> string \<Rightarrow> (unit reply, 'w) op" where
  "RemoveUserFromTerritory env userID territoryID =
     findAndDelete env (territoryAssociationQuery userID territoryID) TableNameUserTerritory2Assoc"

definition SetUserTerritoryRole :: "'w env \<Rightarrow> string \<Rightarrow> string \<Rightarrow> (unit reply, 'w) op" where
  "SetUserTerritoryRole env assocID role =
     UpdateObject env TableNameUserTerritory2Assoc assocID [''RoleInTerritory2'' \<mapsto> VString role]"

definition ClearUserTerritoryRole :: "'w env \<Rightarrow> string \<Rightarrow> string \<Rightarrow> string \<Rightarrow> (unit reply, 'w) op" where
  "ClearUserTerritoryRole env userID territoryID expectedRole s =
     do {
       ((rl, r), s) \<leftarrow> getSObject env (territoryAssociationQuery userID territoryID) s;
       case r of
         Inl e \<Rightarrow> Some ((rl, Inl e), s)
       | Inr rec \<Rightarrow>
           let currentRole = StringField rec ''RoleInTerritory2'' in
           if currentRole = '''' then Some ((rl, Inl ErrRoleAlreadyCleared), s)
           else if currentRole \<noteq> expectedRole then Some ((rl, Inl ErrRoleMismatch), s)
           else UpdateObject env TableNameUserTerritory2Assoc (sobjID rec) [''RoleInTerritory2'' \<mapsto> VString ''''] s
     }"

section \<open>Users\<close>

record UserCreateRequest =
  ucr_Email :: string
  ucr_Alias :: string
  ucr_LastName :: string
  ucr_FirstName :: string
  ucr_ProfileId :: string
  ucr_TimeZoneSid :: string
  ucr_ContactID :: string
  ucr_ExtraFields :: gomap

text \<open>The fields of a new user: defaults, then the extra fields, then the core fields.\<close>

definition userDefaults :: gomap where
  "userDefaults = [''EmailEncodingKey'' \<mapsto> VString ''UTF-8'', ''LocaleSidKey'' \<mapsto> VString ''en_US'',
     ''LanguageLocaleKey'' \<mapsto> VString ''en_US'']"

definition userCore :: "UserCreateRequest \<Rightarrow> gomap" where
  "userCore rq =
     (let core = [''Username'' \<mapsto> VString (ucr_Email rq), ''Alias'' \<mapsto> VString (ucr_Alias rq),
        ''Email'' \<mapsto> VString (ucr_Email rq), ''LastName'' \<mapsto> VString (ucr_LastName rq),
        ''FirstName'' \<mapsto> VString (ucr_FirstName rq), ''TimeZoneSidKey'' \<mapsto> VString (ucr_TimeZoneSid rq),
        ''ProfileId'' \<mapsto> VString (ucr_ProfileId rq)]
      in if ucr_ContactID rq \<noteq> '''' then core(''ContactId'' \<mapsto> VString (ucr_ContactID rq)) else core)"

definition userData :: "UserCreateRequest \<Rightarrow> gomap" where
  "userData rq = userDefaults ++ ucr_ExtraFields rq ++ userCore rq"

definition CreateUser :: "'w env \<Rightarrow> UserCreateRequest \<Rightarrow> (goerror option, 'w) op" where
  "CreateUser env rq s =
     (case e_parseAddress env (ucr_Email rq) of
        Some e \<Rightarrow> Some (Some (ErrWrap ''baton-salesforce: invalid user email'' e), s)
      | None \<Rightarrow>
          (case e_loadLocation env (ucr_TimeZoneSid rq) of
             Some e \<Rightarrow> Some (Some (ErrWrap ''baton-salesforce: invalid timezone'' e), s)
           | None \<Rightarrow>
               do {
                 ((rl, r), s) \<leftarrow> CreateObject env TableNameUsers (userData rq) s;
                 Some (case r of Inl e \<Rightarrow> Some e | Inr _ \<Rightarrow> None, s)
               }))"

definition resetPasswordPath :: "string \<Rightarrow> string" where
  "resetPasswordPath userId = ''/services/data/v64.0/sobjects/User/'' @ userId @ ''/password''"

text \<open>\<open>SendResetPasswordEmail\<close> does not initialise the client: without a session it panics.\<close>

definition SendResetPasswordEmail :: "'w env \<Rightarrow> string \<Rightarrow> (goerror option, 'w) op" where
  "SendResetPasswordEmail env userId s =
     do {
       (r, s) \<leftarrow> onClient (ApexREST env ''DELETE'' (resetPasswordPath userId)) s;
       Some (case r of Inl e \<Rightarrow> Some e | Inr _ \<Rightarrow> None, s)
     }"

section \<open>Writes evolve the client\<close>

interpretation find_delete: client_op "findAndDelete env q tb" for env q tb
  by unfold_locales
    (auto simp: findAndDelete_def getSObject_def dest: lift_query intro: delete.op_then
      split: Option.bind_split_asm sum.split_asm prod.split_asm)

interpretation assoc: client_op "createAssociation env vs" for env vs
  by unfold_locales (auto simp: createAssociation_def Option.bind_eq_Some_conv dest: create.op_evolves)

section \<open>Look-up and removal on an open session\<close>

lemma getSObject_session:
  assumes "session s cl t" and "getQueryString q [] (- 1) = Some qs"
    and "clientQuery env qs cl t (sys_w s) = Some (r, t', w')"
  shows "getSObject env q s = Some ((tr_rateLimit t', case r of
      Inl e \<Rightarrow> Inl e
    | Inr res \<Rightarrow> (case qr_Records res of [] \<Rightarrow> Inl ErrObjectNotFound | x # _ \<Rightarrow> Inr x)), after s t' w')"
  using query_session [OF assms]
  by (simp add: getSObject_def firstRecord_def mapReply_def pageOf_def split: sum.splits)

lemma findAndDelete_session:
  assumes "session s cl t" and "getQueryString q [] (- 1) = Some qs"
    and "clientQuery env qs cl t (sys_w s) = Some (Inr res, t1, w1)" and "tb \<noteq> ''''"
  shows "findAndDelete env q tb s =
    (case qr_Records res of
       [] \<Rightarrow> Some ((tr_rateLimit t1, Inl ErrObjectNotFound), after s t1 w1)
     | x # _ \<Rightarrow> DeleteObject env tb (sobjID x) (after s t1 w1))"
  using getSObject_session [OF assms(1-3)] by (simp add: findAndDelete_def split: list.splits)

lemma two_conditions_text:
  assumes "tb \<in> set knownTables" and "plain f" and "plain g"
  shows "getQueryString (WhereEq (WhereEq (NewQuery tb []) f a) g b) [] n
    = Some (renderQuery (querySelectors tb []) tb [CEq f a, CEq g b] SalesforcePK)"
  using getQueryString_known [of tb "[CEq f a, CEq g b]" n] assms by (simp add: max_int64_def)

lemma sendable_write_fields [simp]:
  "sendable ''GroupId''" "sendable ''UserOrGroupId''" "sendable ''AssigneeId''" "sendable ''PermissionSetId''"
  "sendable ''PermissionSetGroupId''" "sendable ''UserId''" "sendable ''Territory2Id''" "sendable ''RoleInTerritory2''"
  "sendable ''Username''" "sendable ''Alias''" "sendable ''Email''" "sendable ''LastName''" "sendable ''FirstName''"
  "sendable ''TimeZoneSidKey''" "sendable ''ContactId''" "sendable ''EmailEncodingKey''" "sendable ''LocaleSidKey''"
  "sendable ''LanguageLocaleKey''"
  by (simp_all add: sendable_def sobject_key_defs blacklistedUpdateFields_def)

lemma plainValues_add: "plainValues a \<Longrightarrow> plainValues b \<Longrightarrow> plainValues (a ++ b)"
  by (auto simp: plainValues_def map_add_def split: option.splits)

lemma userData_plain:
  assumes "plainValues (ucr_ExtraFields rq)"
  shows "plainValues (userData rq)"
proof -
  have "plainValues userDefaults" "plainValues (userCore rq)"
    by (auto simp: plainValues_def userDefaults_def userCore_def Let_def split: if_splits)
  with assms show ?thesis by (simp add: userData_def plainValues_add)
qed

text \<open>A server with one page for every query and one answer for every write.\<close>

definition tableServer :: "gomap list \<Rightarrow> document \<Rightarrow> request \<Rightarrow> response" where
  "tableServer rows doc rq = okResponse (if rq_method rq = ''GET'' then lastPage rows else doc)"

lemma tableServer_query:
  assumes "\<not> hasPrefix qs ''/services/data''"
  shows "clientQuery (logEnv (tableServer rows doc)) qs demoClient demoTransport w
     = Some (Inr \<lparr>qr_Done = True, qr_NextRecordsURL = [], qr_Records = map setClient rows\<rparr>, demoTransport,
         w @ [bearerRequest ''sid'' ''GET'' (queryURL demoClient qs) NoBody])"
proof -
  have sid: "cl_sessionID demoClient = ''sid''" "isLoggedIn demoClient"
    by (simp_all add: demoClient_def isLoggedIn_def)
  show ?thesis
    using httpRequest_log [of demoTransport "tableServer rows doc" demoClient "''GET''" "queryURL demoClient qs" NoBody
        "okResponse (lastPage rows)" w] sid requestable_queryURL [OF demo_plain assms]
    by (simp add: clientQuery_def decode_lastPage tableServer_def bearerRequest_def)
qed

lemma tableServer_write:
  assumes "m \<noteq> ''GET''" and "isPlain path"
  shows "httpRequest (logEnv (tableServer rows doc)) demoClient demoTransport m (makeURL demoClient path) b w
    = Some (Inr doc, demoTransport, w @ [demoRequest m path b])"
  using assms by (subst demo_http) (simp_all add: tableServer_def demoRequest_def bearerRequest_def)

text \<open>A record of a new user, with any scalars as extra fields.\<close>

fun isScalar :: "govalue \<Rightarrow> bool" where
  "isScalar (VString s) = True"
| "isScalar (VFloat64 r) = True"
| "isScalar (VBool b) = True"
| "isScalar _ = False"

lemma after_self: "session s cl t \<Longrightarrow> after s t (sys_w s) = s"
  by (simp add: session_def after_def)

lemma CreateUser_session:
  assumes "session s cl t" and "e_parseAddress env (ucr_Email rq) = None" and "e_loadLocation env (ucr_TimeZoneSid rq) = None"
  shows "CreateUser env rq s = map_option (\<lambda>(r, t', w'). (case r of Inl e \<Rightarrow> Some e | Inr _ \<Rightarrow> None, after s t' w'))
    (sobjCreate env cl (setFields (newSObject TableNameUsers) (userData rq)) t (sys_w s))"
proof (cases "sobjCreate env cl (setFields (newSObject TableNameUsers) (userData rq)) t (sys_w s)")
  case None
  with assms show ?thesis
    by (simp add: CreateUser_def CreateObject_def initCall_def Initialize_session [OF assms(1)] onClient_def session_def)
next
  case (Some x)
  obtain r t' w' where x: "x = (r, t', w')" by (rule prod_cases3)
  from onClient_session [OF assms(1), of "\<lambda>cl. sobjCreate env cl (setFields (newSObject TableNameUsers) (userData rq))"] Some x assms(2,3)
  show ?thesis
    by (simp add: CreateUser_def CreateObject_def initCall_def Initialize_session [OF assms(1)] mapReply_def split: sum.splits)
qed

lemma userData_copy:
  assumes "userData rq ''attributes'' = None" and "userData rq ''__client__'' = None"
    and "userData rq ''ExternalIDField'' = ucr_ExtraFields rq ''ExternalIDField''"
    and "named = (case ucr_ExtraFields rq ''ExternalIDField'' of Some (VString f) \<Rightarrow> f | _ \<Rightarrow> '''')"
    and "body = (\<lambda>k. if k \<in> {''Id'', ''ExternalIDField'', named} \<union> set blacklistedUpdateFields then None
      else if userCore rq k \<noteq> None then userCore rq k
      else if ucr_ExtraFields rq k \<noteq> None then ucr_ExtraFields rq k else userDefaults k)"
  shows "makeCopy (setFields (newSObject tb) (userData rq)) = body"
proof
  fix k
  let ?obj = "setFields (newSObject tb) (userData rq)"
  have ext: "ExternalIDFieldName ?obj = named"
    using assms(3,4) by (auto simp: ExternalIDFieldName_def StringField_def mapIndex_def setFields_def map_add_def sobject_key_defs
        split: option.splits govalue.splits)
  have "userData rq k = (if userCore rq k \<noteq> None then userCore rq k
      else if ucr_ExtraFields rq k \<noteq> None then ucr_ExtraFields rq k else userDefaults k)"
    by (auto simp: userData_def map_add_def split: option.splits)
  with ext assms(1,2) show "makeCopy ?obj k = body k"
    by (auto simp: makeCopy_def assms(5) sobject_key_defs setFields_def map_add_def newSObject_eq split: option.splits)
qed

lemma untyped_create:
  assumes "\<not> (x ''attributes'' = None \<and> x ''__client__'' = None)"
    and "vs ''attributes'' = x ''attributes''" and "vs ''__client__'' = x ''__client__''"
    and "\<And>k v. x k = Some v \<Longrightarrow> isScalar v"
  shows "sobjCreate env cl (setFields (newSObject tb) vs) t w = Some (Inl ErrNoTypeIdClientOrId, t, w)"
proof -
  let ?obj = "setFields (newSObject tb) vs"
  have "sobjType ?obj = Some '''' \<or> (\<exists>ty. sobjType ?obj = Some ty) \<and> \<not> hasClient ?obj"
  proof (cases "x ''attributes''")
    case None
    with assms(1) obtain v where v: "x ''__client__'' = Some v" by auto
    from assms(4) [OF v] have "v \<noteq> VClient" by auto
    with None v assms(2,3) show ?thesis
      by (auto simp: setFields_def sobjType_def hasClient_def mapIndex_def map_add_def newSObject_eq sobject_key_defs)
  next
    case (Some v)
    from assms(4) [OF this] show ?thesis
      using Some assms(2) by (cases v) (auto simp: setFields_def sobjType_def mapIndex_def map_add_def sobject_key_defs)
  qed
  then show ?thesis by (auto simp: sobjCreate_def)
qed

section \<open>Properties\<close>

text \<open>
  Removing a user from a group is idempotent: when no membership is found the call succeeds,
  says so, and writes nothing; when one is found, exactly the record found is deleted and the
  outcome of the deletion is returned with the flag set.
\<close>

theorem RemoveUserFromGroup_effect:
  assumes "session s cl t"
    and "clientQuery env (renderQuery [''GroupId'', ''UserOrGroupId'', ''Id''] ''GroupMember''
        [CEq ''GroupId'' gid, CEq ''UserOrGroupId'' uid] ''Id'') cl t (sys_w s) = Some (Inr res, t1, w1)"
    and "qr_Records res \<noteq> [] \<Longrightarrow> sobjID (hd (qr_Records res)) = i" and "i \<noteq> ''''"
    and "httpRequest env cl t1 ''DELETE'' (makeURL cl (sobjectPath ''GroupMember'' i)) NoBody w1 = Some (r, t2, w2)"
  shows "RemoveUserFromGroup env uid gid s = Some (
    if qr_Records res = [] then ((False, tr_rateLimit t1, None), after s t1 w1)
    else ((True, tr_rateLimit t2, case r of Inl e \<Rightarrow> Some e | Inr _ \<Rightarrow> None), after s t2 w2))"
proof -
  have sel: "querySelectors TableNameGroupMemberships [] = [''GroupId'', ''UserOrGroupId'', ''Id'']"
    by (simp add: querySelectors_def TableNamesToFieldsMapping_def table_defs)
  have "getQueryString (WhereEq (WhereEq (NewQuery TableNameGroupMemberships []) ''GroupId'' gid) ''UserOrGroupId'' uid) [] (- 1)
      = Some (renderQuery [''GroupId'', ''UserOrGroupId'', ''Id''] ''GroupMember''
        [CEq ''GroupId'' gid, CEq ''UserOrGroupId'' uid] ''Id'')"
    by (subst two_conditions_text, unfold sel) (simp_all add: knownTables_def plain_char_def table_defs)
  note found = getSObject_session [OF assms(1) this assms(2)]
  show ?thesis
  proof (cases "qr_Records res")
    case Nil
    with found show ?thesis by (simp add: RemoveUserFromGroup_def getGroupMembership_def)
  next
    case (Cons x xs)
    with assms(3) have "sobjID x = i" by simp
    with Cons found DeleteObject_session [OF session_after [OF assms(1)] _ assms(4), of TableNameGroupMemberships env t1 w1 r t2 w2]
      assms(5)
    show ?thesis
      by (simp add: RemoveUserFromGroup_def getGroupMembership_def TableNameGroupMemberships_def split: sum.splits)
  qed
qed

theorem RemoveUserFromGroup_effect_witness:
  "\<exists>q. RemoveUserFromGroup (logEnv (tableServer [[''Id'' \<mapsto> VString ''011m'']] (RawDoc []))) ''005u'' ''00Gg'' demoSys
     = Some ((True, None, None), after demoSys demoTransport
         [q, demoRequest ''DELETE'' (sobjectPath ''GroupMember'' ''011m'') NoBody])"
  by (subst RemoveUserFromGroup_effect [where i = "''011m''", OF demo_session(1) tableServer_query _ _
        tableServer_write])
    (simp_all add: setClient_def sobjID_def sobject_key_defs plain_simps)

text \<open>
  C27. Clearing a territory role is a guarded transition on the association: no association, an empty
  role and a role other than the expected one are three different errors and write nothing; only the
  expected role is cleared, by patching that one field of that association.
\<close>

theorem ClearUserTerritoryRole_transition:
  assumes "session s cl t"
    and "getQueryString (territoryAssociationQuery uid tid) [] (- 1) = Some qs"
    and "clientQuery env qs cl t (sys_w s) = Some (Inr res, t1, w1)"
    and "qr_Records res \<noteq> [] \<Longrightarrow> sobjID (hd (qr_Records res)) = i \<and> StringField (hd (qr_Records res)) ''RoleInTerritory2'' = cur"
    and "i \<noteq> ''''"
    and "httpRequest env cl t1 ''PATCH'' (makeURL cl (sobjectPath ''UserTerritory2Association'' i))
      (JsonBody [''RoleInTerritory2'' \<mapsto> VString '''']) w1 = Some (r, t2, w2)"
  shows "ClearUserTerritoryRole env uid tid expected s = Some (
    if qr_Records res = [] then ((tr_rateLimit t1, Inl ErrObjectNotFound), after s t1 w1)
    else if cur = '''' then ((tr_rateLimit t1, Inl ErrRoleAlreadyCleared), after s t1 w1)
    else if cur \<noteq> expected then ((tr_rateLimit t1, Inl ErrRoleMismatch), after s t1 w1)
    else ((tr_rateLimit t2, case r of
        Inl e \<Rightarrow> Inl (ErrWrap ''baton-salesforce: failed to update UserTerritory2Association'' e)
      | Inr _ \<Rightarrow> Inr ()), after s t2 w2))"
proof (cases "qr_Records res")
  case Nil
  with getSObject_session [OF assms(1-3)] show ?thesis by (simp add: ClearUserTerritoryRole_def)
next
  case (Cons x xs)
  with assms(4) have x: "sobjID x = i" "StringField x ''RoleInTerritory2'' = cur" by simp_all
  have "plainValues [''RoleInTerritory2'' \<mapsto> VString '''']" by simp
  from UpdateObject_session [OF session_after [OF assms(1)] this _ assms(5),
      of TableNameUserTerritory2Assoc env t1 w1 r t2 w2] assms(6)
  have "UpdateObject env TableNameUserTerritory2Assoc i [''RoleInTerritory2'' \<mapsto> VString ''''] (after s t1 w1)
      = Some ((tr_rateLimit t2, case r of
        Inl e \<Rightarrow> Inl (ErrWrap ''baton-salesforce: failed to update UserTerritory2Association'' e)
      | Inr _ \<Rightarrow> Inr ()), after s t2 w2)"
    by (simp add: TableNameUserTerritory2Assoc_def split: sum.splits)
  with Cons x getSObject_session [OF assms(1-3)] show ?thesis by (simp add: ClearUserTerritoryRole_def Let_def)
qed

lemma association_text:
  "\<exists>qs. getQueryString (territoryAssociationQuery uid tid) [] n = Some qs"
  unfolding territoryAssociationQuery_def
  by (subst two_conditions_text) (simp_all add: knownTables_def plain_char_def)

theorem ClearUserTerritoryRole_transition_witness:
  "\<exists>q. ClearUserTerritoryRole (logEnv (tableServer [[''Id'' \<mapsto> VString ''a1'', ''RoleInTerritory2'' \<mapsto> VString ''Owner'']] (RawDoc [])))
       ''005u'' ''t'' ''Owner'' demoSys
     = Some ((None, Inr ()), after demoSys demoTransport
         [q, demoRequest ''PATCH'' (sobjectPath ''UserTerritory2Association'' ''a1'')
            (JsonBody [''RoleInTerritory2'' \<mapsto> VString ''''])])"
proof -
  obtain qs where qs: "getQueryString (territoryAssociationQuery ''005u'' ''t'') [] (- 1) = Some qs"
    using association_text by blast
  show ?thesis
    by (subst ClearUserTerritoryRole_transition [where i = "''a1''" and cur = "''Owner''", OF demo_session(1) qs
          tableServer_query [OF getQueryString_no_path [OF qs]] _ _ tableServer_write])
      (simp_all add: setClient_def sobjID_def sobject_key_defs plain_simps)
qed

text \<open>
  C16. What is posted for a new user, whatever extra fields the request has; their values are scalars, as
  \<open>getUserCreateRequestParams\<close> makes them. An extra field with the name of the attributes or of the client of a record makes
  the creation fail without a request. Otherwise there is one POST, in which a field has the core value if the request fixes one
  (login name, alias, e-mail, names, time zone, profile, contact when given), else the extra value, else the default; left out
  are the id, the read-only fields and the extra field \<open>ExternalIDField\<close> together with the field that it names. So an extra
  field never changes the value of a core field, but \<open>ExternalIDField\<close> can take one away.
\<close>

theorem CreateUser_posts_merged_fields:
  assumes "session s cl t" and "\<forall>v \<in> ran (ucr_ExtraFields rq). isScalar v"
    and "e_parseAddress env (ucr_Email rq) = None" and "e_loadLocation env (ucr_TimeZoneSid rq) = None"
    and "named = (case ucr_ExtraFields rq ''ExternalIDField'' of Some (VString f) \<Rightarrow> f | _ \<Rightarrow> '''')"
    and "body = (\<lambda>k. if k \<in> {''Id'', ''ExternalIDField'', named} \<union> set blacklistedUpdateFields then None
      else if userCore rq k \<noteq> None then userCore rq k
      else if ucr_ExtraFields rq k \<noteq> None then ucr_ExtraFields rq k else userDefaults k)"
  shows "CreateUser env rq s =
      (if ucr_ExtraFields rq ''attributes'' = None \<and> ucr_ExtraFields rq ''__client__'' = None
       then map_option (\<lambda>(r, t', w'). (case r of Inl e \<Rightarrow> Some e
                | Inr doc \<Rightarrow> (case decodeCreated doc of Inl e \<Rightarrow> Some e | Inr _ \<Rightarrow> None), after s t' w'))
              (httpRequest env cl t ''POST'' (makeURL cl (sobjectPath ''User'' '''')) (JsonBody body) (sys_w s))
       else Some (Some ErrNoTypeIdClientOrId, s))
    \<and> (\<forall>k v. userCore rq k = Some v \<longrightarrow> body k = (if k = named then None else Some v))"
proof
  let ?obj = "setFields (newSObject TableNameUsers) (userData rq)" and ?x = "ucr_ExtraFields rq"
  have core: "k \<notin> {''Id'', ''ExternalIDField'', ''attributes'', ''__client__''} \<union> set blacklistedUpdateFields"
    if "userCore rq k = Some v" for k v using that by (auto simp: userCore_def Let_def blacklistedUpdateFields_def split: if_splits)
  then show "\<forall>k v. userCore rq k = Some v \<longrightarrow> body k = (if k = named then None else Some v)" by (auto simp: assms(6))
  have data: "userData rq ''attributes'' = ?x ''attributes''" "userData rq ''__client__'' = ?x ''__client__''"
    "userData rq ''ExternalIDField'' = ?x ''ExternalIDField''"
    by (simp_all add: userData_def map_add_def userDefaults_def userCore_def Let_def split: option.splits)
  have run: "CreateUser env rq s = map_option (\<lambda>(r, t', w'). (case r of Inl e \<Rightarrow> Some e | Inr _ \<Rightarrow> None, after s t' w'))
      (sobjCreate env cl ?obj t (sys_w s))"
    using assms(1,3,4) by (rule CreateUser_session)
  show "CreateUser env rq s =
      (if ?x ''attributes'' = None \<and> ?x ''__client__'' = None
       then map_option (\<lambda>(r, t', w'). (case r of Inl e \<Rightarrow> Some e
                | Inr doc \<Rightarrow> (case decodeCreated doc of Inl e \<Rightarrow> Some e | Inr _ \<Rightarrow> None), after s t' w'))
              (httpRequest env cl t ''POST'' (makeURL cl (sobjectPath ''User'' '''')) (JsonBody body) (sys_w s))
       else Some (Some ErrNoTypeIdClientOrId, s))"
  proof (cases "?x ''attributes'' = None \<and> ?x ''__client__'' = None")
    case True
    have "makeCopy ?obj = body" by (rule userData_copy [OF _ _ data(3) assms(5,6)]) (use True data in simp_all)
    moreover have "sobjType ?obj = Some ''User''" "hasClient ?obj"
      using True data by (simp_all add: setFields_def sobjType_def hasClient_def mapIndex_def map_add_def newSObject_eq sobject_key_defs table_defs)
    ultimately show ?thesis using True unfolding run sobjCreate_def
      by (auto split: Option.bind_split sum.splits)
  next
    case False
    have "isScalar v" if "?x k = Some v" for k v using assms(2) that by (blast intro: ranI)
    with untyped_create [OF False data(1,2)] have "sobjCreate env cl ?obj t (sys_w s) = Some (Inl ErrNoTypeIdClientOrId, t, sys_w s)" .
    with after_self [OF assms(1)] show ?thesis unfolding run if_not_P [OF False] by simp
  qed
qed

theorem CreateUser_posts_merged_fields_witness:
  "\<exists>body. CreateUser (logEnv (tableServer [] (JsonDoc [] (VMap [''id'' \<mapsto> VString ''005n'', ''success'' \<mapsto> VBool True]))))
       \<lparr>ucr_Email = ''a@b.c'', ucr_Alias = ''ab'', ucr_LastName = ''B'', ucr_FirstName = ''A'', ucr_ProfileId = ''00e1'',
        ucr_TimeZoneSid = ''UTC'', ucr_ContactID = '''',
        ucr_ExtraFields = [''ProfileId'' \<mapsto> VString ''00eADMIN'', ''ExternalIDField'' \<mapsto> VString ''Alias'']\<rparr> demoSys
     = Some (None, after demoSys demoTransport [demoRequest ''POST'' (sobjectPath ''User'' '''') (JsonBody body)])
   \<and> body ''ProfileId'' = Some (VString ''00e1'') \<and> body ''Alias'' = None"
proof -
  let ?doc = "JsonDoc [] (VMap [''id'' \<mapsto> VString ''005n'', ''success'' \<mapsto> VBool True])"
  let ?rq = "\<lparr>ucr_Email = ''a@b.c'', ucr_Alias = ''ab'', ucr_LastName = ''B'', ucr_FirstName = ''A'', ucr_ProfileId = ''00e1'',
        ucr_TimeZoneSid = ''UTC'', ucr_ContactID = '''',
        ucr_ExtraFields = [''ProfileId'' \<mapsto> VString ''00eADMIN'', ''ExternalIDField'' \<mapsto> VString ''Alias'']\<rparr>"
  have scalars: "\<forall>v \<in> ran (ucr_ExtraFields ?rq). isScalar v" by (auto simp: ran_def split: if_splits)
  obtain body where body: "body = (\<lambda>k. if k \<in> {''Id'', ''ExternalIDField'', ''Alias''} \<union> set blacklistedUpdateFields then None
      else if userCore ?rq k \<noteq> None then userCore ?rq k
      else if ucr_ExtraFields ?rq k \<noteq> None then ucr_ExtraFields ?rq k else userDefaults k)" by blast
  have named: "''Alias'' = (case ucr_ExtraFields ?rq ''ExternalIDField'' of Some (VString f) \<Rightarrow> f | _ \<Rightarrow> '''')" by simp
  have post: "httpRequest (logEnv (tableServer [] ?doc)) demoClient demoTransport ''POST'' (makeURL demoClient (sobjectPath ''User'' '''')) (JsonBody body) (sys_w demoSys)
      = Some (Inr ?doc, demoTransport, [demoRequest ''POST'' (sobjectPath ''User'' '''') (JsonBody body)])"
    using tableServer_write [of "''POST''" "sobjectPath ''User'' ''''" "[]" ?doc "JsonBody body"] by (simp add: plain_simps)
  have core: "userCore ?rq ''Alias'' = Some (VString ''ab'')" "userCore ?rq ''ProfileId'' = Some (VString ''00e1'')"
    by (simp_all add: userCore_def)
  from CreateUser_posts_merged_fields [OF demo_session(1) scalars _ _ named body, of "logEnv (tableServer [] ?doc)"] post core
  show ?thesis by (auto simp: decodeCreated_def mapIndex_def intro!: exI [of _ body])
qed

end
