(* ===== verification/Sf_Traffic.thy ===== *)
theory Sf_Traffic
  imports Sf_Writes
begin

text \<open>
  What the client sends, in any environment: an environment is instrumented with a log of the requests
  that reach the network, and every operation of the client is given the number of writes it may
  send. The laws compose, so the operations of the connector inherit them.
\<close>

section \<open>The instrumented environment\<close>

definition lifted :: "('w \<Rightarrow> 'a \<times> 'w) \<Rightarrow> 'w \<times> request list \<Rightarrow> 'a \<times> 'w \<times> request list" where
  "lifted f w = (case f (fst w) of (r, w') \<Rightarrow> (r, w', snd w))"

definition tracedEnv :: "'w env \<Rightarrow> ('w \<times> request list) env" where
  "tracedEnv env =
     \<lparr>e_roundTrip = (\<lambda>rq w. case e_roundTrip env rq (fst w) of (r, w') \<Rightarrow> (r, w', snd w @ [rq])),
      e_token = lifted (e_token env), e_cacheGet = (\<lambda>rq. lifted (e_cacheGet env rq)),
      e_cacheSet = (\<lambda>rq r w. (e_cacheSet env rq r (fst w), snd w)), e_clearCaches = lifted (e_clearCaches env),
      e_wrapNet = e_wrapNet env, e_newClient = lifted (e_newClient env), e_newBaseClient = lifted (e_newBaseClient env),
      e_ipLiteral = e_ipLiteral env, e_wait = (\<lambda>d. lifted (e_wait env d)),
      e_parseAddress = e_parseAddress env, e_loadLocation = e_loadLocation env\<rparr>"

text \<open>A write is anything but a GET and the SOAP call of the login.\<close>

definition isWrite :: "request \<Rightarrow> bool" where
  "isWrite rq \<longleftrightarrow> rq_method rq \<noteq> ''GET'' \<and> rq_header rq ''Soapaction'' = None"

definition grew :: "nat \<Rightarrow> 'w \<times> request list \<Rightarrow> 'w \<times> request list \<Rightarrow> bool" where
  "grew n w w' \<longleftrightarrow> (\<exists>rqs. snd w' = snd w @ rqs \<and> length (filter isWrite rqs) \<le> n)"

lemma grew_same [simp]: "snd w' = snd w \<Longrightarrow> grew n w w'"
  by (simp add: grew_def)

lemma grew_trans: "grew m w w' \<Longrightarrow> grew n w' w'' \<Longrightarrow> grew (m + n) w w''"
  by (fastforce simp: grew_def)

lemma grew_mono: "grew m w w' \<Longrightarrow> m \<le> n \<Longrightarrow> grew n w w'"
  by (auto simp: grew_def)

lemma grew_then0: "grew n w w' \<Longrightarrow> grew 0 w' w'' \<Longrightarrow> grew n w w''"
  using grew_trans [of n w w' 0 w''] by simp

lemma grew_after0: "grew 0 w w' \<Longrightarrow> grew n w' w'' \<Longrightarrow> grew n w w''"
  using grew_trans [of 0 w w' n w''] by simp

lemma grew_same_left: "snd w1 = snd w \<Longrightarrow> grew n w1 w' \<longleftrightarrow> grew n w w'"
  by (simp add: grew_def)

lemma grew_same_right: "snd w1 = snd w' \<Longrightarrow> grew n w w1 \<longleftrightarrow> grew n w w'"
  by (simp add: grew_def)

lemma lifted_log [simp]: "snd (snd (lifted f w)) = snd w"
  by (simp add: lifted_def split: prod.splits)

lemma lifted_eq: "lifted f w = (r, w') \<Longrightarrow> snd w' = snd w"
  by (auto simp: lifted_def split: prod.splits)

lemma traced_simps [simp]:
  "e_token (tracedEnv env) = lifted (e_token env)" "e_cacheGet (tracedEnv env) rq = lifted (e_cacheGet env rq)"
  "snd (e_cacheSet (tracedEnv env) rq r w) = snd w"
  "e_clearCaches (tracedEnv env) = lifted (e_clearCaches env)" "e_newClient (tracedEnv env) = lifted (e_newClient env)"
  "e_newBaseClient (tracedEnv env) = lifted (e_newBaseClient env)" "e_wait (tracedEnv env) d = lifted (e_wait env d)"
  by (simp_all add: tracedEnv_def)

section \<open>Requests\<close>

definition costOf :: "request \<Rightarrow> nat" where "costOf rq = (if isWrite rq then 1 else 0)"

lemma roundTrip_grew: "e_roundTrip (tracedEnv env) rq w = (r, w') \<Longrightarrow> grew (costOf rq) w w'"
  by (auto simp: tracedEnv_def grew_def costOf_def split: prod.splits)

lemma costOf_header [simp]: "k \<noteq> ''Soapaction'' \<Longrightarrow> costOf (rq\<lparr>rq_header := (rq_header rq)(k \<mapsto> v)\<rparr>) = costOf rq"
  by (simp add: costOf_def isWrite_def)

lemma authorize_grew:
  assumes "authorize (tracedEnv env) b rq w = (rq', w')"
  shows "snd w' = snd w" "costOf rq' = costOf rq"
  using assms by (auto simp: authorize_def dest!: lifted_eq split: if_splits prod.splits sum.splits)

lemma RoundTrip_grew:
  assumes "RoundTrip (tracedEnv env) t rq w = (r, t', w')" shows "grew (costOf rq) w w'"
proof -
  obtain rq' w1 where a: "authorize (tracedEnv env) (tr_tokenSource t) rq w = (rq', w1)" by (rule prod.exhaust)
  obtain r1 w2 where b: "e_roundTrip (tracedEnv env) rq' w1 = (r1, w2)" by (rule prod.exhaust)
  with a assms have "w' = w2" by (auto simp: RoundTrip_def split: sum.splits)
  with roundTrip_grew [OF b] grew_same_left [OF authorize_grew(1) [OF a]] authorize_grew(2) [OF a]
  show ?thesis by simp
qed

lemma finishDo_grew: "finishDo (tracedEnv env) rq resp t w = (r, t', w') \<Longrightarrow> snd w' = snd w"
  by (auto simp: finishDo_def split: if_splits)

lemma sendDo_grew:
  assumes "sendDo (tracedEnv env) t rq w = (r, t', w')" shows "grew (costOf rq) w w'"
proof -
  obtain r1 t1 w1 where a: "RoundTrip (tracedEnv env) t rq w = (r1, t1, w1)" by (rule prod_cases3)
  with assms have "snd w' = snd w1" by (auto simp: sendDo_def dest: finishDo_grew split: sum.splits)
  from grew_same_right [OF this] RoundTrip_grew [OF a] show ?thesis by simp
qed

lemma uhttpDo_grew:
  assumes "uhttpDo (tracedEnv env) t rq w = (r, t', w')" shows "grew (costOf rq) w w'"
proof (cases "rq_method rq = ''GET'' \<and> \<not> noCache rq")
  case True
  obtain c w1 where c: "lifted (e_cacheGet env rq) w = (c, w1)" by (rule prod.exhaust)
  from lifted_eq [OF c] have w1: "snd w1 = snd w" .
  with assms True c show ?thesis
    by (auto simp: uhttpDo_def grew_same_left [OF w1, symmetric] dest: sendDo_grew finishDo_grew
        split: sum.splits option.splits)
next
  case False
  with assms show ?thesis by (auto simp: uhttpDo_def intro: sendDo_grew)
qed

definition methodCost :: "string \<Rightarrow> nat" where "methodCost m = (if m = ''GET'' then 0 else 1)"

lemma httpRequest_grew:
  "httpRequest (tracedEnv env) cl t m u b w = Some (r, t', w') \<Longrightarrow> grew (methodCost m) w w'"
  by (auto simp: httpRequest_def Let_def methodCost_def costOf_def isWrite_def dest!: uhttpDo_grew
      split: option.split_asm prod.split_asm if_split_asm Option.bind_split_asm)

lemma LoginPassword_grew:
  assumes "LoginPassword (tracedEnv env) u p k cl t w = Some (r, t', w')" shows "grew 0 w w'"
proof -
  have "costOf (loginRequest cl u p k) = 0" by (simp add: costOf_def isWrite_def loginRequest_def)
  with assms show ?thesis
    by (auto simp: LoginPassword_def Let_def dest!: uhttpDo_grew
      split: option.split_asm prod.split_asm if_split_asm Option.bind_split_asm document.split_asm)
qed

text \<open>The calls on a session, by what they may write.\<close>

definition callCost :: "nat \<Rightarrow> (sfclient \<Rightarrow> transport \<Rightarrow> 'w \<times> request list \<Rightarrow> ('a \<times> transport \<times> 'w \<times> request list) option) \<Rightarrow> bool" where
  "callCost n f \<longleftrightarrow> (\<forall>cl t w r t' w'. f cl t w = Some (r, t', w') \<longrightarrow> grew n w w')"

lemma callCosts [simp, intro]:
  "callCost 0 (clientQuery (tracedEnv env) q)"
  "callCost (methodCost m) (ApexREST (tracedEnv env) m path)"
  "callCost 0 (\<lambda>cl. sobjGet (tracedEnv env) cl obj i)"
  "callCost (Suc 0) (\<lambda>cl. sobjCreate (tracedEnv env) cl obj)"
  "callCost (Suc 0) (\<lambda>cl. sobjUpdate (tracedEnv env) cl obj)"
  "callCost (Suc 0) (\<lambda>cl. sobjDelete (tracedEnv env) cl obj)"
  by (auto simp: callCost_def clientQuery_def ApexREST_def sobjGet_def sobjCreate_def sobjUpdate_def sobjDelete_def
      methodCost_def dest!: httpRequest_grew split: if_split_asm sum.split_asm Option.bind_split_asm)

lemma callCostD: "callCost n f \<Longrightarrow> f cl t w = Some (r, t', w') \<Longrightarrow> grew n w w'"
  unfolding callCost_def by blast

lemma callCost_delete [simp, intro]: "callCost (Suc 0) (ApexREST (tracedEnv env) ''DELETE'' path)"
  using callCosts(2) [of "''DELETE''"] by (simp add: methodCost_def)

lemma onClient_grew: "callCost n f \<Longrightarrow> onClient f s = Some (r, s') \<Longrightarrow> grew n (sys_w s) (sys_w s')"
  by (auto simp: onClient_def dest: callCostD split: Option.bind_split_asm)

lemma makeHttpClients_log: "makeHttpClients (tracedEnv env) w = (e, w') \<Longrightarrow> snd w' = snd w"
  by (auto simp: makeHttpClients_def dest!: lifted_eq split: prod.split_asm option.split_asm)

lemma authenticate_grew: "authenticate (tracedEnv env) c cl t w = Some (r, t', w') \<Longrightarrow> grew 0 w w'"
  by (auto simp: authenticate_def dest!: LoginPassword_grew dest: lifted_eq split: if_split_asm prod.split_asm sum.split_asm)

lemma Initialize_grew:
  assumes "Initialize (tracedEnv env) s = Some (r, s')" shows "grew 0 (sys_w s) (sys_w s')"
proof -
  obtain e w1 where m: "makeHttpClients (tracedEnv env) (sys_w s) = (e, w1)" by (rule prod.exhaust)
  from makeHttpClients_log [OF m] have w1: "snd w1 = snd (sys_w s)" .
  from assms m show ?thesis
    by (auto simp: Initialize_def Let_def w1 grew_same_left [OF w1, symmetric] dest!: authenticate_grew
      split: if_split_asm option.split_asm Option.bind_split_asm sum.split_asm)
qed

section \<open>Operations\<close>

text \<open>
  The contract of an operation that may send a number of writes, and what follows for any operation
  that runs it after others.
\<close>

locale metered =
  fixes oper :: "('a, 'w \<times> request list) op" and cost :: nat
  assumes op_grew: "oper s = Some (r, s') \<Longrightarrow> grew cost (sys_w s) (sys_w s')"
begin

lemma after_reads: "grew 0 w (sys_w s) \<Longrightarrow> oper s = Some (r, s') \<Longrightarrow> grew cost w (sys_w s')"
  using op_grew grew_after0 by blast

lemma after_writes: "grew n w (sys_w s) \<Longrightarrow> oper s = Some (r, s') \<Longrightarrow> grew (n + cost) w (sys_w s')"
  using op_grew grew_trans by blast

end

lemma init_call_grew:
  "Initialize (tracedEnv env) s = Some (e, s1) \<Longrightarrow> onClient f s1 = Some (r, s') \<Longrightarrow> callCost n f \<Longrightarrow>
     grew n (sys_w s) (sys_w s')"
  by (rule grew_after0 [OF Initialize_grew onClient_grew])

lemma init_fail_grew: "Initialize (tracedEnv env) s = Some (e, s1) \<Longrightarrow> grew n (sys_w s) (sys_w s1)"
  by (rule grew_mono [OF Initialize_grew]) auto

lemmas client_splits = option.split_asm sum.split_asm prod.split_asm if_split_asm Option.bind_split_asm

interpretation m_query: metered "query (tracedEnv env) q p n" 0 for env q p n
  by unfold_locales
    (auto simp: query_def intro: init_fail_grew init_call_grew split: option.split_asm prod.split_asm Option.bind_split_asm)

interpretation m_queryV: metered "queryWithAPIVersion (tracedEnv env) q p v" 0 for env q p v
  by unfold_locales
    (auto simp: queryWithAPIVersion_def intro: init_fail_grew init_call_grew
      split: option.split_asm prod.split_asm Option.bind_split_asm)

interpretation m_create: metered "CreateObject (tracedEnv env) tb vs" 1 for env tb vs
  by unfold_locales
    (auto simp: CreateObject_def initCall_def intro: init_fail_grew init_call_grew
      split: option.split_asm prod.split_asm Option.bind_split_asm)

interpretation m_update: metered "UpdateObject (tracedEnv env) tb i vs" 1 for env tb i vs
  by unfold_locales
    (auto simp: UpdateObject_def intro: init_fail_grew init_call_grew split: option.split_asm prod.split_asm Option.bind_split_asm)

interpretation m_delete: metered "DeleteObject (tracedEnv env) tb i" 1 for env tb i
  by unfold_locales
    (auto simp: DeleteObject_def intro: init_fail_grew init_call_grew split: option.split_asm prod.split_asm Option.bind_split_asm)

interpretation m_ping: metered "Ping (tracedEnv env)" 0 for env
  by unfold_locales
    (auto simp: Ping_def intro: init_fail_grew init_call_grew [OF _ _ callCosts(2) [where m = "''GET''", unfolded methodCost_def, simplified]]
      split: option.split_asm prod.split_asm Option.bind_split_asm)

interpretation m_one_user: metered "getOneUser (tracedEnv env) u" 0 for env u
  by unfold_locales
    (auto simp: getOneUser_def intro: init_fail_grew init_call_grew split: option.split_asm prod.split_asm Option.bind_split_asm)

interpretation m_update_user: metered "updateUser (tracedEnv env) u f v" 1 for env u f v
  by unfold_locales
    (auto simp: updateUser_def intro: onClient_grew [OF callCosts(5)] split: prod.split_asm Option.bind_split_asm)

text \<open>The reads of the connector write nothing.\<close>

lemmas op_split_asm = sum.split_asm prod.split_asm if_split_asm Option.bind_split_asm

interpretation m_list: metered "listQuery (tracedEnv env) q row tok n" 0 for env q row tok n
  by unfold_locales (auto simp: listQuery_def dest: m_query.op_grew split: op_split_asm)

interpretation m_listE: metered "listQueryE (tracedEnv env) keep q row tok n" 0 for env keep q row tok n
  by unfold_locales (auto simp: listQueryE_def dest: m_query.op_grew split: prod.split_asm Option.bind_split_asm)

interpretation m_lookup: metered "lookupQuery (tracedEnv env) q row" 0 for env q row
  by unfold_locales (auto simp: lookupQuery_def dest: m_query.op_grew split: op_split_asm)

interpretation m_first: metered "getSObject (tracedEnv env) q" 0 for env q
  by unfold_locales (auto simp: getSObject_def dest: m_query.op_grew split: op_split_asm)

interpretation m_bots: metered "GetBotDefinitions (tracedEnv env) tok" 0 for env tok
  by unfold_locales (auto simp: GetBotDefinitions_def dest: m_queryV.op_grew split: prod.split_asm Option.bind_split_asm)

interpretation m_territories: metered "GetTerritories (tracedEnv env) tok n" 0 for env tok n
  by unfold_locales (auto simp: GetTerritories_def dest: m_query.op_grew split: op_split_asm)

interpretation m_territory_roles: metered "GetTerritoryRoles (tracedEnv env)" 0 for env
  by unfold_locales (auto simp: GetTerritoryRoles_def dest: m_query.op_grew split: prod.split_asm Option.bind_split_asm)

interpretation m_psg_one: metered "GetOnePermissionSetGroupAssignment (tracedEnv env) u g" 0 for env u g
  by unfold_locales (auto simp: GetOnePermissionSetGroupAssignment_def dest: m_lookup.op_grew split: op_split_asm)

interpretation m_login: metered "GetUserLogin (tracedEnv env) u" 0 for env u
  by unfold_locales (auto simp: GetUserLogin_def dest: m_query.op_grew split: prod.split_asm Option.bind_split_asm)

interpretation m_email: metered "GetUserByEmail (tracedEnv env) email" 0 for env email
  by unfold_locales (auto simp: GetUserByEmail_def dest: m_query.op_grew split: prod.split_asm Option.bind_split_asm)

interpretation m_exist: metered "UserExist (tracedEnv env) email" 0 for env email
  by unfold_locales (auto simp: UserExist_def dest: m_email.op_grew split: prod.split_asm Option.bind_split_asm)

lemma loginChunks_grew:
  "loginChunks (tracedEnv env) cs result rl s = Some (r, s') \<Longrightarrow> grew 0 (sys_w s) (sys_w s')"
proof (induction cs arbitrary: s result rl)
  case (Cons c cs)
  from Cons.prems obtain rl1 r1 s1 where q: "query (tracedEnv env) (loginQuery c) '''' (int (length c)) s = Some ((rl1, r1), s1)"
    by (auto split: Option.bind_split_asm prod.split_asm)
  note step = m_query.op_grew [OF q]
  from step Cons.prems q show ?case
    by (auto intro: grew_after0 [OF step Cons.IH] split: sum.split_asm if_split_asm)
qed simp

interpretation m_logins: metered "GetUserLoginsByUserIDs (tracedEnv env) ids" 0 for env ids
  by unfold_locales (auto simp: GetUserLoginsByUserIDs_def dest: loginChunks_grew split: if_split_asm)

lemma retryUser_grew:
  "retryUser (tracedEnv env) k email s = Some (r, s') \<Longrightarrow> grew 0 (sys_w s) (sys_w s')"
proof (induction k arbitrary: s)
  case (Suc k)
  obtain ce w1 where c: "lifted (e_clearCaches env) (sys_w s) = (ce, w1)" by (rule prod.exhaust)
  note w1 = lifted_eq [OF c]
  show ?case
  proof (cases ce)
    case (Some e)
    with Suc.prems c w1 show ?thesis by (auto simp: Let_def)
  next
    case None
    with Suc.prems c obtain r1 s1 where g: "GetUserByEmail (tracedEnv env) email (s\<lparr>sys_w := w1\<rparr>) = Some (r1, s1)"
      by (auto simp: Let_def split: Option.bind_split_asm)
    from m_email.op_grew [OF g] w1 have step: "grew 0 (sys_w s) (sys_w s1)" by (simp add: grew_same_left [OF w1])
    have wait: "grew 0 (sys_w s) w2" if "lifted (e_wait env d) (sys_w s1) = (y, w2)" for w2 y d
      using step grew_same_right [OF lifted_eq [OF that]] by simp
    have again: "grew 0 (sys_w s) (sys_w s')" if "retryUser (tracedEnv env) k email (s1\<lparr>sys_w := w2\<rparr>) = Some (r, s')"
      "lifted (e_wait env d) (sys_w s1) = (y, w2)" for w2 y d
      using grew_after0 [OF wait [OF that(2)]] Suc.IH [OF that(1)] by simp
    from Suc.prems c None g step show ?thesis
      by (auto simp: Let_def intro: wait again grew_after0 [OF step Suc.IH]
          split: sum.split_asm if_split_asm prod.split_asm option.split_asm)
  qed
qed simp

interpretation m_retry: metered "GetUserByEmailWithRetry (tracedEnv env) email" 0 for env email
  by unfold_locales (auto simp: GetUserByEmailWithRetry_def dest: retryUser_grew)

text \<open>The writes of the connector write once.\<close>

interpretation m_set: metered "setValue (tracedEnv env) u f v" 1 for env u f v
  by unfold_locales
    (auto simp: setValue_def dest!: m_one_user.op_grew intro: grew_mono m_update_user.after_reads [simplified]
      split: op_split_asm)

interpretation m_clear: metered "clearValue (tracedEnv env) u f v" 1 for env u f v
  by unfold_locales
    (auto simp: clearValue_def dest!: m_one_user.op_grew intro: grew_mono m_update_user.after_reads [simplified]
      split: op_split_asm)

interpretation m_find_delete: metered "findAndDelete (tracedEnv env) q tb" 1 for env q tb
  by unfold_locales
    (auto simp: findAndDelete_def dest!: m_first.op_grew intro: grew_mono m_delete.after_reads [simplified]
      split: op_split_asm)

interpretation m_leave_group: metered "RemoveUserFromGroup (tracedEnv env) u g" 1 for env u g
  by unfold_locales
    (auto simp: RemoveUserFromGroup_def getGroupMembership_def dest!: m_first.op_grew
      intro: grew_mono m_delete.after_reads [simplified] split: op_split_asm)

interpretation m_assoc: metered "createAssociation (tracedEnv env) vs" 1 for env vs
  by unfold_locales
    (auto simp: createAssociation_def dest: m_create.op_grew split: prod.split_asm Option.bind_split_asm)

interpretation m_clear_role: metered "ClearUserTerritoryRole (tracedEnv env) u t r" 1 for env u t r
  by unfold_locales
    (auto simp: ClearUserTerritoryRole_def GetUserTerritoryAssociation_def Let_def dest!: m_first.op_grew
      intro: grew_mono m_update.after_reads [simplified] split: op_split_asm)

interpretation m_create_user: metered "CreateUser (tracedEnv env) rq" 1 for env rq
  by unfold_locales
    (auto simp: CreateUser_def dest: m_create.op_grew split: option.split_asm prod.split_asm Option.bind_split_asm)

interpretation m_reset: metered "SendResetPasswordEmail (tracedEnv env) u" 1 for env u
  by unfold_locales
    (auto simp: SendResetPasswordEmail_def intro: onClient_grew [OF callCost_delete]
      split: prod.split_asm Option.bind_split_asm)

end
