(* ===== verification/Baton_Sdk.thy ===== *)
theory Baton_Sdk
  imports Sf_Traffic
begin

text \<open>
  The data of the Baton SDK that the connector builds (resources, entitlements, grants, annotations,
  with the identifiers the SDK derives from them), the resource types of \<^verbatim>\<open>resource_types.go\<close>, and
  the shapes every syncer shares: a page of a listing, and the rate limit annotations. The copies of
  status and profile that the SDK also keeps on the resource itself are not modelled.
\<close>

section \<open>Data\<close>

record ResourceId =
  ri_ResourceType :: string
  ri_Resource :: string

datatype user_status = STATUS_DISABLED | STATUS_ENABLED
datatype account_type = ACCOUNT_TYPE_HUMAN | ACCOUNT_TYPE_SERVICE

record UserTrait =
  ut_Profile :: gomap
  ut_Emails :: "(string \<times> bool) list"
  ut_Status :: user_status
  ut_Login :: string
  ut_AccountType :: account_type
  ut_LastLogin :: "gotime option"

record AgentTrait =
  at_Profile :: gomap
  at_IdentityResourceId :: "ResourceId option"

datatype annotation =
    AnnRateLimit RateLimitDescription
  | AnnGrantAlreadyExists
  | AnnGrantAlreadyRevoked
  | AnnGrantExpandable "string list"
  | AnnSkipEntitlements
  | AnnSkipEntitlementsAndGrants
  | AnnOptInRequired
  | AnnCapabilityPermissions "string list"
  | AnnUserTrait UserTrait
  | AnnGroupTrait
  | AnnRoleTrait
  | AnnAppTrait
  | AnnAgentTrait AgentTrait
  | AnnNonHumanIdentity string

datatype trait = TRAIT_USER | TRAIT_GROUP | TRAIT_ROLE | TRAIT_APP | TRAIT_AGENT

record ResourceType =
  rt_Id :: string
  rt_DisplayName :: string
  rt_Description :: string
  rt_Traits :: "trait list"
  rt_Annotations :: "annotation list"

record Resource =
  r_Id :: ResourceId
  r_DisplayName :: string
  r_ParentResourceId :: "ResourceId option"
  r_Annotations :: "annotation list"

text \<open>The resource of an entitlement is nil for the static entitlements of a resource type.\<close>

record Entitlement =
  en_Id :: string
  en_DisplayName :: string
  en_Description :: string
  en_Slug :: string
  en_GrantableTo :: "string list"
  en_Resource :: "Resource option"

record Grant =
  gr_Id :: string
  gr_Entitlement :: Entitlement
  gr_Principal :: Resource
  gr_Annotations :: "annotation list"

section \<open>Resource types\<close>

definition resourceTypeGroup :: ResourceType where
  "resourceTypeGroup = \<lparr>rt_Id = ''group'', rt_DisplayName = ''Group'', rt_Description = '''', rt_Traits = [TRAIT_GROUP],
     rt_Annotations = []\<rparr>"

definition resourceTypePermissionSet :: ResourceType where
  "resourceTypePermissionSet = \<lparr>rt_Id = ''permission'', rt_DisplayName = ''Permission Set'', rt_Description = '''',
     rt_Traits = [], rt_Annotations = []\<rparr>"

definition resourceTypeRole :: ResourceType where
  "resourceTypeRole = \<lparr>rt_Id = ''role'', rt_DisplayName = ''Role'', rt_Description = '''', rt_Traits = [TRAIT_ROLE],
     rt_Annotations = []\<rparr>"

definition resourceTypeProfile :: ResourceType where
  "resourceTypeProfile = \<lparr>rt_Id = ''profile'', rt_DisplayName = ''Profile'', rt_Description = '''', rt_Traits = [],
     rt_Annotations = []\<rparr>"

definition annotationsForUserResourceType :: "annotation list" where
  "annotationsForUserResourceType = [AnnSkipEntitlementsAndGrants]"

definition resourceTypeUser :: ResourceType where
  "resourceTypeUser = \<lparr>rt_Id = ''user'', rt_DisplayName = ''User'', rt_Description = '''', rt_Traits = [TRAIT_USER],
     rt_Annotations = annotationsForUserResourceType\<rparr>"

definition resourceTypePermissionSetGroup :: ResourceType where
  "resourceTypePermissionSetGroup = \<lparr>rt_Id = ''permission_set_group'', rt_DisplayName = ''Permission Set Group'',
     rt_Description = '''', rt_Traits = [], rt_Annotations = []\<rparr>"

definition resourceTypeConnectedApplication :: ResourceType where
  "resourceTypeConnectedApplication = \<lparr>rt_Id = ''connected_application'', rt_DisplayName = ''Connected Application'',
     rt_Description = '''', rt_Traits = [TRAIT_APP], rt_Annotations = []\<rparr>"

definition resourceTypeTerritory :: ResourceType where
  "resourceTypeTerritory = \<lparr>rt_Id = ''territory'', rt_DisplayName = ''Territory'',
     rt_Description = ''Requires Enterprise Territory Management 2.0 to be enabled in Salesforce.'',
     rt_Traits = [], rt_Annotations = [AnnSkipEntitlements, AnnOptInRequired]\<rparr>"

definition capabilityPermissions :: "string list \<Rightarrow> annotation" where
  "capabilityPermissions perms = AnnCapabilityPermissions perms"

definition resourceTypeAgent :: ResourceType where
  "resourceTypeAgent = \<lparr>rt_Id = ''agent'', rt_DisplayName = ''Agent'',
     rt_Description = ''Agentforce agents and Einstein Bots (BotDefinition). Requires Agentforce or Einstein Bots to be enabled in Salesforce.'',
     rt_Traits = [TRAIT_AGENT],
     rt_Annotations = [AnnSkipEntitlementsAndGrants, AnnOptInRequired,
       capabilityPermissions [''Agentforce agents or Einstein Bots (BotDefinition)'']]\<rparr>"

lemmas resource_type_defs =
  resourceTypeGroup_def resourceTypePermissionSet_def resourceTypeRole_def resourceTypeProfile_def resourceTypeUser_def
  resourceTypePermissionSetGroup_def resourceTypeConnectedApplication_def resourceTypeTerritory_def resourceTypeAgent_def

section \<open>Constructors of the SDK\<close>

definition NewResource :: "string \<Rightarrow> ResourceType \<Rightarrow> string \<Rightarrow> ResourceId option \<Rightarrow> annotation list \<Rightarrow> Resource" where
  "NewResource name ty objectID parent annos =
     \<lparr>r_Id = \<lparr>ri_ResourceType = rt_Id ty, ri_Resource = objectID\<rparr>, r_DisplayName = name,
      r_ParentResourceId = parent, r_Annotations = annos\<rparr>"

definition NewEntitlementID :: "Resource option \<Rightarrow> string \<Rightarrow> string" where
  "NewEntitlementID res permission =
     (case res of None \<Rightarrow> '''' | Some r \<Rightarrow> ri_ResourceType (r_Id r)) @ '':'' @
     (case res of None \<Rightarrow> '''' | Some r \<Rightarrow> ri_Resource (r_Id r)) @ '':'' @ permission"

definition NewAssignmentEntitlement ::
  "Resource option \<Rightarrow> string \<Rightarrow> string \<Rightarrow> string \<Rightarrow> ResourceType list \<Rightarrow> Entitlement" where
  "NewAssignmentEntitlement res name displayName description grantableTo =
     \<lparr>en_Id = NewEntitlementID res name, en_DisplayName = displayName, en_Description = description, en_Slug = name,
      en_GrantableTo = map rt_Id grantableTo, en_Resource = res\<rparr>"

definition bareResource :: "ResourceId \<Rightarrow> Resource" where
  "bareResource i = \<lparr>r_Id = i, r_DisplayName = '''', r_ParentResourceId = None, r_Annotations = []\<rparr>"

definition NewGrant :: "Resource \<Rightarrow> string \<Rightarrow> ResourceId \<Rightarrow> annotation list \<Rightarrow> Grant" where
  "NewGrant res entitlementName prin annos =
     (let eid = NewEntitlementID (Some res) entitlementName in
      \<lparr>gr_Id = eid @ '':'' @ ri_ResourceType prin @ '':'' @ ri_Resource prin,
       gr_Entitlement = \<lparr>en_Id = eid, en_DisplayName = '''', en_Description = '''', en_Slug = '''', en_GrantableTo = [],
         en_Resource = Some res\<rparr>,
       gr_Principal = bareResource prin, gr_Annotations = annos\<rparr>)"

definition userId :: "string \<Rightarrow> ResourceId" where
  "userId i = \<lparr>ri_ResourceType = rt_Id resourceTypeUser, ri_Resource = i\<rparr>"

text \<open>\<open>WithRateLimitAnnotations\<close>: a nil description is appended as an empty message.\<close>

definition WithRateLimitAnnotations :: "RateLimitDescription option list \<Rightarrow> annotation list" where
  "WithRateLimitAnnotations rls =
     map (\<lambda>rl. AnnRateLimit (case rl of None \<Rightarrow> emptyRateLimit | Some d \<Rightarrow> d)) rls"

text \<open>\<^verbatim>\<open>utf8.ValidString\<close>, which decides whether a profile can be stored as a protobuf struct.\<close>

definition cont :: "nat \<Rightarrow> nat \<Rightarrow> nat \<Rightarrow> bool" where
  "cont lo hi n \<longleftrightarrow> lo \<le> n \<and> n \<le> hi"

fun utf8Bytes :: "nat list \<Rightarrow> bool" where
  "utf8Bytes [] = True"
| "utf8Bytes (a # rest) =
     (if a < 128 then utf8Bytes rest
      else if cont 194 223 a then (case rest of b # r \<Rightarrow> cont 128 191 b \<and> utf8Bytes r | _ \<Rightarrow> False)
      else if cont 224 239 a then
        (case rest of
           b # c # r \<Rightarrow> cont (if a = 224 then 160 else 128) (if a = 237 then 159 else 191) b \<and> cont 128 191 c \<and> utf8Bytes r
         | _ \<Rightarrow> False)
      else if cont 240 244 a then
        (case rest of
           b # c # d # r \<Rightarrow> cont (if a = 240 then 144 else 128) (if a = 244 then 143 else 191) b
             \<and> cont 128 191 c \<and> cont 128 191 d \<and> utf8Bytes r
         | _ \<Rightarrow> False)
      else False)"

definition validUtf8 :: "string \<Rightarrow> bool" where
  "validUtf8 s = utf8Bytes (map of_char s)"

text \<open>\<^verbatim>\<open>structpb.NewStruct\<close> on a profile of strings.\<close>

definition newStruct :: "(string \<times> string) list \<Rightarrow> goerror + gomap" where
  "newStruct kvs =
     (if list_all (\<lambda>(k, v). validUtf8 k \<and> validUtf8 v) kvs
      then Inr (map_of (rev (map (\<lambda>(k, v). (k, VString v)) kvs))) else Inl (ErrNew ''invalid UTF-8 in string''))"

section \<open>Listings of a syncer\<close>

record SyncOpResults =
  sy_NextPageToken :: string
  sy_Annotations :: "annotation list"

type_synonym 'a listed = "'a list \<times> SyncOpResults \<times> goerror option"

definition failedList :: "annotation list \<Rightarrow> goerror \<Rightarrow> 'a listed" where
  "failedList annos e = ([], \<lparr>sy_NextPageToken = '''', sy_Annotations = annos\<rparr>, Some e)"

text \<open>
  The body of every \<open>List\<close> and \<open>Grants\<close>: fetch a page, report its rate limit, turn every item into
  zero or more outputs (one of which may fail), pass the next token on.
\<close>

definition syncPage ::
  "(goerror \<Rightarrow> goerror) \<Rightarrow> (goerror \<Rightarrow> goerror) \<Rightarrow> ('a page reply, 'w) op \<Rightarrow> ('a \<Rightarrow> goerror + 'b list) \<Rightarrow> ('b listed, 'w) op" where
  "syncPage wrapFetch wrapItem fetch item s =
     do {
       ((rl, r), s) \<leftarrow> fetch s;
       let annos = WithRateLimitAnnotations [rl];
       Some (case r of
               Inl e \<Rightarrow> failedList annos (wrapFetch e)
             | Inr (xs, next) \<Rightarrow>
                 (case mapE (\<lambda>x. case item x of Inl e \<Rightarrow> Inl e | Inr ys \<Rightarrow> Inr (Some ys)) xs of
                    Inl e \<Rightarrow> failedList annos (wrapItem e)
                  | Inr yss \<Rightarrow> (concat yss, \<lparr>sy_NextPageToken = next, sy_Annotations = annos\<rparr>, None)), s)
     }"

abbreviation "one x \<equiv> Inr [x]"

section \<open>Facts\<close>

lemma mapE_total: "mapE (\<lambda>x. Inr (Some (f x))) xs = Inr (map f xs)"
  by (induction xs) simp_all

text \<open>A listing whose items cannot fail is the concatenation of the outputs of its items.\<close>

lemma syncPage_total:
  assumes "\<And>x. item x = Inr (f x)"
  shows "syncPage wrF wrI fetch item s = do {
     ((rl, r), s) \<leftarrow> fetch s;
     Some (case r of
       Inl e \<Rightarrow> failedList (WithRateLimitAnnotations [rl]) (wrF e)
     | Inr (xs, next) \<Rightarrow> (concat (map f xs), \<lparr>sy_NextPageToken = next, sy_Annotations = WithRateLimitAnnotations [rl]\<rparr>, None), s) }"
proof -
  have "(\<lambda>x. case item x of Inl e \<Rightarrow> Inl e | Inr ys \<Rightarrow> Inr (Some ys)) = (\<lambda>x. Inr (Some (f x)))"
    using assms by simp
  then show ?thesis unfolding syncPage_def Let_def by (simp add: mapE_total cong: sum.case_cong)
qed

lemma syncPage_evolves:
  assumes "syncPage wrF wrI fetch item s = Some (r, s')" and "\<And>x s'. fetch s = Some (x, s') \<Longrightarrow> evolves (sys_c s) (sys_c s')"
  shows "evolves (sys_c s) (sys_c s')"
  using assms by (auto simp: syncPage_def Let_def split: Option.bind_split_asm prod.split_asm)

text \<open>Grant identifiers: the entitlement, then the principal.\<close>

lemma NewGrant_simps [simp]:
  "gr_Principal (NewGrant res name p annos) = bareResource p"
  "en_Id (gr_Entitlement (NewGrant res name p annos)) = NewEntitlementID (Some res) name"
  "en_Resource (gr_Entitlement (NewGrant res name p annos)) = Some res"
  "gr_Annotations (NewGrant res name p annos) = annos"
  "r_Id (bareResource p) = p"
  by (simp_all add: NewGrant_def Let_def bareResource_def)

end
