(* ===== verification/Conn_Base.thy ===== *)
theory Conn_Base
  imports Baton_Sdk
begin

text \<open>
  What the resource builders of the connector share: the results of provisioning calls, the contract
  of a \<open>Grant\<close> that accepts users only, the contract of operations that write nothing, and the
  chains of pages a sync walks through.
\<close>

section \<open>Results\<close>

text \<open>A nil \<open>SyncOpResults\<close> is the one without token and annotations.\<close>

definition noResults :: SyncOpResults where
  "noResults = \<lparr>sy_NextPageToken = '''', sy_Annotations = []\<rparr>"

text \<open>\<open>Grant\<close> and \<open>Revoke\<close> return annotations and an error; the newer interface returns grants as well.\<close>

type_synonym changed = "annotation list \<times> goerror option"
type_synonym granted = "Grant list \<times> annotation list \<times> goerror option"

fun errorOf :: "goerror + 'a \<Rightarrow> goerror option" where
  "errorOf (Inl e) = Some e"
| "errorOf (Inr _) = None"

text \<open>The last lines of most operations: report the rate limit, pass the error on.\<close>

definition reportChange :: "(unit reply, 'w) op \<Rightarrow> (changed, 'w) op" where
  "reportChange oper s = do { ((rl, r), s) \<leftarrow> oper s; Some ((WithRateLimitAnnotations [rl], errorOf r), s) }"

definition isUser :: "ResourceId \<Rightarrow> bool" where
  "isUser i \<longleftrightarrow> ri_ResourceType i = rt_Id resourceTypeUser"

section \<open>Only users can be granted\<close>

text \<open>
  Executing a list of grant requests one after the other; the results are collected.
\<close>

fun runGrants :: "(Resource \<Rightarrow> Entitlement \<Rightarrow> ('r, 'w) op) \<Rightarrow> (Resource \<times> Entitlement) list \<Rightarrow> ('r list, 'w) op" where
  "runGrants grant [] s = Some ([], s)"
| "runGrants grant ((p, e) # rest) s =
     do { (r, s) \<leftarrow> grant p e s; (rs, s) \<leftarrow> runGrants grant rest s; Some (r # rs, s) }"

locale user_only =
  fixes grant :: "Resource \<Rightarrow> Entitlement \<Rightarrow> ('r, 'w) op" and failed :: "'r \<Rightarrow> bool"
  assumes rejects: "\<not> isUser (r_Id p) \<Longrightarrow> \<exists>r. failed r \<and> grant p e s = Some (r, s)"
begin

text \<open>Requests for other principals can be dropped from a run without changing where it ends.\<close>

lemma run_users:
  "map_option snd (runGrants grant reqs s) = map_option snd (runGrants grant (filter (\<lambda>q. isUser (r_Id (fst q))) reqs) s)"
proof (induction reqs arbitrary: s)
  case (Cons q reqs)
  obtain p e where q: "q = (p, e)" by (rule prod.exhaust)
  have drop: "map_option snd (do { (rs, s') \<leftarrow> X; Some (r # rs, s') }) = map_option snd X"
    for X :: "('r list \<times> 'w sys) option" and r by (cases X) auto
  show ?case
  proof (cases "isUser (r_Id p)")
    case True
    then show ?thesis
    proof (cases "grant p e s")
      case (Some y)
      then show ?thesis using True Cons.IH by (cases y) (simp add: q drop)
    qed (simp add: q True)
  next
    case False
    from rejects [OF this, of e s] obtain r where "grant p e s = Some (r, s)" by blast
    with False Cons.IH show ?thesis by (simp add: q drop)
  qed
qed simp

lemma all_rejected:
  assumes "\<forall>q \<in> set reqs. \<not> isUser (r_Id (fst q))"
  shows "\<exists>rs. runGrants grant reqs s = Some (rs, s) \<and> length rs = length reqs \<and> (\<forall>r \<in> set rs. failed r)"
  using assms
proof (induction reqs)
  case (Cons q reqs)
  then obtain rs where rs: "runGrants grant reqs s = Some (rs, s)" "length rs = length reqs" "\<forall>r \<in> set rs. failed r"
    by auto
  obtain p e where q: "q = (p, e)" by (rule prod.exhaust)
  with Cons.prems rejects [of p e s] obtain r where "failed r" "grant p e s = Some (r, s)" by auto
  with rs show ?case by (simp add: q)
qed simp

end

section \<open>Pages\<close>

text \<open>
  A sync reads the first page with the empty token and goes on with the token it was given until that is
  empty: \<open>chain ok sync tok s xs s'\<close> says that from token \<open>tok\<close> and state \<open>s\<close> it ends in \<open>s'\<close> with the
  items \<open>xs\<close>, every token in between satisfying \<open>ok\<close>.
\<close>

inductive chain :: "(string \<Rightarrow> bool) \<Rightarrow> (string \<Rightarrow> ('a listed, 'w) op) \<Rightarrow> string \<Rightarrow> 'w sys \<Rightarrow> 'a list \<Rightarrow> 'w sys \<Rightarrow> bool"
  for ok sync where
  final: "sync tok s = Some ((xs, res, None), s') \<Longrightarrow> sy_NextPageToken res = '''' \<Longrightarrow> chain ok sync tok s xs s'"
| onward: "sync tok s = Some ((xs, res, None), s1) \<Longrightarrow> sy_NextPageToken res = nxt \<Longrightarrow> nxt \<noteq> '''' \<Longrightarrow> ok nxt \<Longrightarrow>
    chain ok sync nxt s1 ys s' \<Longrightarrow> chain ok sync tok s (xs @ ys) s'"

inductive_cases chainE: "chain ok sync tok s xs s'"

text \<open>A sync ends in at most one way.\<close>

lemma chain_deterministic: "chain ok sync tok s xs s' \<Longrightarrow> chain ok sync tok s ys s'' \<Longrightarrow> xs = ys \<and> s' = s''"
proof (induction arbitrary: ys s'' rule: chain.induct)
  case (final tok s xs res s')
  note first = final.hyps
  from final.prems show ?case by (cases rule: chain.cases) (use first in simp_all)
next
  case (onward tok s xs res s1 nxt zs s')
  note page = onward.hyps(1-3) and rest = onward.IH
  from onward.prems show ?case
  proof (cases rule: chain.cases)
    case final
    with page show ?thesis by simp
  next
    case onward
    with page rest show ?thesis by simp
  qed
qed

lemma chain_mono: "chain ok sync tok s xs s' \<Longrightarrow> (\<And>t. ok t \<Longrightarrow> ok' t) \<Longrightarrow> chain ok' sync tok s xs s'"
  by (induction rule: chain.induct) (auto intro: chain.intros)

section \<open>Pages and changes write what their client call writes\<close>

lemma syncPage_grew:
  assumes "syncPage wrF wrI fetch item s = Some (r, s')"
    and "\<And>x s1. fetch s = Some (x, s1) \<Longrightarrow> grew 0 (sys_w s) (sys_w s1)"
  shows "grew 0 (sys_w s) (sys_w s')"
  using assms by (auto simp: syncPage_def Let_def split: Option.bind_split_asm prod.split_asm)

lemma reportChange_grew:
  assumes "reportChange oper s = Some (r, s')"
    and "\<And>x s1. oper s = Some (x, s1) \<Longrightarrow> grew n (sys_w s) (sys_w s1)"
  shows "grew n (sys_w s) (sys_w s')"
  using assms by (auto simp: reportChange_def split: Option.bind_split_asm prod.split_asm)

text \<open>What a call left determines the transport and the world.\<close>

lemma after_inj [simp]: "after s t w = after s t' w' \<longleftrightarrow> t = t' \<and> w = w'"
proof
  assume "after s t w = after s t' w'"
  from arg_cong [OF this, of "\<lambda>s. (sc_salesforceTransport (sys_c s), sys_w s)"] show "t = t' \<and> w = w'"
    by (simp add: after_def)
qed simp

text \<open>A query with one condition on a known table has a text.\<close>

lemma one_condition_text:
  assumes "tb \<in> set knownTables" and "plain f"
  shows "\<exists>qs. getQueryString (WhereEq (NewQuery tb []) f a) '''' n = Some qs"
  using getQueryString_known [of tb "[CEq f a]" n] assms by (auto simp: max_int64_def)

end
