(* ===== verification/Page_Server.thy ===== *)
theory Page_Server
  imports Conn_Base
begin

text \<open>
  Salesforce as the server of a query result in pages, and the contract of a listing that is read page
  by page: such a listing ends, with what every record of every page describes.
\<close>

section \<open>Results in pages\<close>

text \<open>
  A query or a page path \<open>q\<close> is answered by the result \<open>res\<close> while \<open>P\<close> holds of the world, whatever the state
  of the transport is; answering keeps \<open>P\<close>. What \<open>P\<close> says is that the data does not change meanwhile.
\<close>

definition answers :: "('w \<Rightarrow> bool) \<Rightarrow> 'w env \<Rightarrow> sfclient \<Rightarrow> string \<Rightarrow> QueryResult \<Rightarrow> bool" where
  "answers P env cl q res \<longleftrightarrow>
     (\<forall>t w. P w \<longrightarrow> (\<exists>doc t' w'. httpRequest env cl t ''GET'' (queryURL cl q) NoBody w = Some (Inr doc, t', w')
        \<and> decodeQueryResult doc = Some (Inr res) \<and> P w'))"

text \<open>
  A result in pages: \<open>recs\<close> is the first page, \<open>rest\<close> the following ones with the path of each. Every page
  but the last says that there is more and names the path of the next one, a path of the REST API.
\<close>

fun serves :: "('w \<Rightarrow> bool) \<Rightarrow> 'w env \<Rightarrow> sfclient \<Rightarrow> string \<Rightarrow> sobject list \<Rightarrow> (string \<times> sobject list) list \<Rightarrow> bool" where
  "serves P env cl q recs [] = answers P env cl q \<lparr>qr_Done = True, qr_NextRecordsURL = '''', qr_Records = recs\<rparr>"
| "serves P env cl q recs ((url, recs') # rest) =
     (hasPrefix url ''/services/data''
      \<and> answers P env cl q \<lparr>qr_Done = False, qr_NextRecordsURL = url, qr_Records = recs\<rparr>
      \<and> serves P env cl url recs' rest)"

definition allRecords :: "sobject list \<Rightarrow> (string \<times> sobject list) list \<Rightarrow> sobject list" where
  "allRecords recs rest = recs @ concat (map snd rest)"

lemma answers_query:
  assumes "isLoggedIn cl" and "answers P env cl q res" and "P w"
  shows "\<exists>t' w'. clientQuery env q cl t w = Some (Inr res, t', w') \<and> P w'"
proof -
  from assms(2,3) obtain doc t' w' where "httpRequest env cl t ''GET'' (queryURL cl q) NoBody w = Some (Inr doc, t', w')"
    "decodeQueryResult doc = Some (Inr res)" "P w'"
    unfolding answers_def by blast
  with assms(1) show ?thesis by (simp add: clientQuery_def)
qed

lemma collect_append:
  "collect f (xs @ ys) = Some zs \<longleftrightarrow> (\<exists>as bs. collect f xs = Some as \<and> collect f ys = Some bs \<and> zs = as @ bs)"
  by (induction xs arbitrary: zs) (auto simp: Option.bind_eq_Some_conv)

section \<open>Listings\<close>

text \<open>What one record contributes: nothing when the row is skipped, \<open>None\<close> when the page would fail.\<close>

definition yields :: "(sobject \<Rightarrow> goerror + 'a option) \<Rightarrow> ('a \<Rightarrow> goerror + 'b list) \<Rightarrow> sobject \<Rightarrow> 'b list option" where
  "yields row item rec =
     (case row rec of
        Inl _ \<Rightarrow> None
      | Inr None \<Rightarrow> Some []
      | Inr (Some x) \<Rightarrow> (case item x of Inl _ \<Rightarrow> None | Inr ys \<Rightarrow> Some ys))"

abbreviation total :: "('a \<Rightarrow> 'b) \<Rightarrow> 'a \<Rightarrow> goerror + 'b option" where
  "total f x \<equiv> Inr (Some (f x))"

text \<open>
  The contract of a listing: the empty token stands for the query \<open>first\<close>, any other token for
  itself; a page whose records can all be described is the concatenation of what they contribute, with
  the token of the result, and the session stays open.
\<close>

locale listing =
  fixes P :: "'w \<Rightarrow> bool" and env :: "'w env" and cl :: sfclient and first :: "string option"
    and yield :: "sobject \<Rightarrow> 'a list option" and sync :: "string \<Rightarrow> ('a listed, 'w) op"
  assumes page: "session s cl t \<Longrightarrow> (if tok = '''' then first else Some tok) = Some q \<Longrightarrow>
      clientQuery env q cl t (sys_w s) = Some (Inr res, t', w') \<Longrightarrow> P w' \<Longrightarrow> collect yield (qr_Records res) = Some yss \<Longrightarrow>
      \<exists>annos t'' w''. sync tok s
        = Some ((concat yss, \<lparr>sy_NextPageToken = snd (pageOf res), sy_Annotations = annos\<rparr>, None), after s t'' w'') \<and> P w''"
begin

lemma pages_end:
  assumes "isLoggedIn cl" and "session s cl t" and "P (sys_w s)" and "(if tok = '''' then first else Some tok) = Some q"
    and "serves P env cl q recs rest" and "collect yield (allRecords recs rest) = Some yss"
  shows "\<exists>t' w'. chain (\<lambda>u. hasPrefix u ''/services/data'') sync tok s (concat yss) (after s t' w') \<and> P w'"
  using assms(2-)
proof (induction rest arbitrary: s t tok q recs yss)
  case Nil
  then obtain t' w' where ans: "clientQuery env q cl t (sys_w s)
      = Some (Inr \<lparr>qr_Done = True, qr_NextRecordsURL = '''', qr_Records = recs\<rparr>, t', w')" "P w'"
    using answers_query [OF assms(1), of P env q] by fastforce
  from page [OF Nil.prems(1,3) ans, of yss] Nil.prems(5) obtain annos t'' w'' where
    "sync tok s = Some ((concat yss, \<lparr>sy_NextPageToken = '''', sy_Annotations = annos\<rparr>, None), after s t'' w'')" "P w''"
    by (auto simp: allRecords_def pageOf_def)
  from chain.final [where sync = sync, OF this(1)] this(2) show ?case by auto
next
  case (Cons p rest)
  obtain url recs' where p: "p = (url, recs')" by (rule prod.exhaust)
  with Cons.prems have url: "hasPrefix url ''/services/data''" "url \<noteq> ''''" by (auto simp: hasPrefix_def)
  from Cons.prems(5) obtain xss zss where parts: "collect yield recs = Some xss"
    "collect yield (allRecords recs' rest) = Some zss" "yss = xss @ zss"
    by (auto simp: p allRecords_def collect_append)
  from Cons.prems(2,4) obtain t1 w1 where ans: "clientQuery env q cl t (sys_w s)
      = Some (Inr \<lparr>qr_Done = False, qr_NextRecordsURL = url, qr_Records = recs\<rparr>, t1, w1)" "P w1"
    using answers_query [OF assms(1), of P env q] by (fastforce simp: p)
  from page [OF Cons.prems(1,3) ans, of xss] parts(1) obtain annos t2 w2 where
    here: "sync tok s = Some ((concat xss, \<lparr>sy_NextPageToken = url, sy_Annotations = annos\<rparr>, None), after s t2 w2)" and w2: "P w2"
    by (auto simp: pageOf_def)
  from Cons.prems(4) have "serves P env cl url recs' rest" by (simp add: p)
  from Cons.IH [OF session_after [OF Cons.prems(1), of t2 w2] _ _ this parts(2), of url] url(2) w2 obtain t' w' where
    "chain (\<lambda>u. hasPrefix u ''/services/data'') sync url (after s t2 w2) (concat zss) (after s t' w')" "P w'"
    by fastforce
  with url have "chain (\<lambda>u. hasPrefix u ''/services/data'') sync tok s (concat xss @ concat zss) (after s t' w')"
    by (intro chain.onward [where sync = sync, OF here]) simp_all
  with parts(3) \<open>P w'\<close> show ?case by auto
qed

lemmas full_sync = pages_end [where tok = "''''", simplified]

end

section \<open>How pages are read\<close>

lemma query_page:
  assumes "session s cl t" and "(if tok = '''' then getQueryString q '''' n else Some tok) = Some qs"
    and "clientQuery env qs cl t (sys_w s) = Some (Inr res, t', w')"
  shows "query env q tok n s = Some ((tr_rateLimit t', Inr (pageOf res)), after s t' w')"
  using query_session [OF assms(1) _ assms(3), of q tok n] assms(2)
  by (auto simp: mapReply_def getQueryString_def split: if_splits)

text \<open>The rows and items of a page whose records can all be described.\<close>

lemma yields_rows:
  assumes "collect (yields row item) recs = Some yss"
  shows "\<exists>xs zss. mapE row recs = Inr xs
    \<and> mapE (\<lambda>x. case item x of Inl e \<Rightarrow> Inl e | Inr ys \<Rightarrow> Inr (Some ys)) xs = Inr zss \<and> concat zss = concat yss"
  using assms
proof (induction recs arbitrary: yss)
  case (Cons rec recs)
  then obtain ys zss where head: "yields row item rec = Some ys" and "collect (yields row item) recs = Some zss"
    and yss: "yss = ys # zss"
    by (auto simp: Option.bind_eq_Some_conv)
  with Cons.IH obtain xs uss where "mapE row recs = Inr xs"
    "mapE (\<lambda>x. case item x of Inl e \<Rightarrow> Inl e | Inr ys \<Rightarrow> Inr (Some ys)) xs = Inr uss" "concat uss = concat zss"
    by blast
  with head yss show ?case by (auto simp: yields_def split: sum.split_asm option.split_asm)
qed simp

lemma listQuery_total: "listQuery env q row = listQueryE env True q (total row)"
proof (intro ext)
  fix tok n s
  have "mapE (total row) xs = Inr (map row xs)" for xs by (rule mapE_total)
  then show "listQuery env q row tok n s = listQueryE env True q (total row) tok n s"
    by (auto simp: listQuery_def listQueryE_def mapReply_def split: Option.bind_split sum.splits)
qed

lemma syncPage_listing:
  assumes "\<And>tok. sync tok = syncPage wrF wrI (listQueryE env keep q row tok n) item"
  shows "listing P env cl (getQueryString q '''' n) (yields row item) sync"
proof unfold_locales
  fix s t tok qs res t' w' yss
  assume open_session: "session s cl t" and first: "(if tok = '''' then getQueryString q '''' n else Some tok) = Some qs"
    and answer: "clientQuery env qs cl t (sys_w s) = Some (Inr res, t', w')" "P w'"
    and described: "collect (yields row item) (qr_Records res) = Some yss"
  from yields_rows [OF described] query_page [OF open_session first answer(1)] answer(2)
  show "\<exists>annos t'' w''. sync tok s
      = Some ((concat yss, \<lparr>sy_NextPageToken = snd (pageOf res), sy_Annotations = annos\<rparr>, None), after s t'' w'') \<and> P w''"
    by (auto simp: assms syncPage_def listQueryE_def pageOf_def Let_def)
qed

section \<open>A concrete server\<close>

text \<open>A server that answers a request by its URL; \<open>morePage\<close> is the document of a page that is not the last.\<close>

definition pagedEnv :: "(string \<Rightarrow> document) \<Rightarrow> request list env" where
  "pagedEnv docs = logEnv (\<lambda>rq. okResponse (docs (rq_url rq)))"

definition morePage :: "string \<Rightarrow> gomap list \<Rightarrow> document" where
  "morePage url ms = JsonDoc [] (VMap [''done'' \<mapsto> VBool False, ''nextRecordsUrl'' \<mapsto> VString url, ''records'' \<mapsto> VList (map VMap ms)])"

lemma decode_morePage:
  "decodeQueryResult (morePage url ms)
     = Some (Inr \<lparr>qr_Done = False, qr_NextRecordsURL = url, qr_Records = map setClient ms\<rparr>)"
  by (simp add: decodeQueryResult_def morePage_def mapIndex_def jsonRecords_def collect_recordEntry collect_id_Some)

lemma pagedEnv_http:
  "requestable u \<Longrightarrow> \<exists>t' w'. httpRequest (pagedEnv docs) cl t m u b w = Some (Inr (docs u), t', w')"
  by (auto simp: pagedEnv_def httpRequest_def uhttpDo_def sendDo_def RoundTrip_def authorize_def finishDo_def Let_def
      split: prod.splits)

lemma pagedEnv_answers:
  assumes "decodeQueryResult (docs (queryURL cl q)) = Some (Inr res)" and "requestable (queryURL cl q)"
  shows "answers (\<lambda>_. True) (pagedEnv docs) cl q res"
  using pagedEnv_http [OF assms(2), of docs cl _ "''GET''" NoBody] assms(1) unfolding answers_def by metis

end
