(* ===== verification/Conn_Groups.thy ===== *)
theory Conn_Groups
  imports Page_Server
begin

text \<open>
  The group and role syncers and provisioners (\<^verbatim>\<open>connector/groups.go\<close>, \<^verbatim>\<open>connector/roles.go\<close>). An
  entitlement without resource is dereferenced, a panic. The logging of the source is left out.
\<close>

section \<open>Groups\<close>

definition groupMemberEntitlementName :: string where "groupMemberEntitlementName = ''member''"
definition organizationGroupName :: string where "organizationGroupName = ''All Internal Users''"

definition groupDisplayName :: "SalesforceGroup \<Rightarrow> string" where
  "groupDisplayName gp =
     (if sg_Type gp = ''RoleAndSubordinates'' then sg_Name gp @ '' (role and subordinates)''
      else if sg_Type gp = ''Role'' then sg_Name gp @ '' (role)''
      else if sg_Type gp = ''Organization'' then organizationGroupName
      else sg_Name gp)"

definition groupResource :: "SalesforceGroup \<Rightarrow> Resource" where
  "groupResource gp = NewResource (groupDisplayName gp) resourceTypeGroup (sg_ID gp) None [AnnGroupTrait]"

definition groupList :: "'w env \<Rightarrow> string \<Rightarrow> int \<Rightarrow> (Resource listed, 'w) op" where
  "groupList env tok sz = syncPage id id (GetGroups env tok sz) (\<lambda>g. one (groupResource g))"

definition groupEntitlements :: "Resource \<Rightarrow> Entitlement listed" where
  "groupEntitlements res =
     ([NewAssignmentEntitlement (Some res) groupMemberEntitlementName (r_DisplayName res @ '' Group Member'')
         (''Member of '' @ r_DisplayName res @ '' Salesforce group'') [resourceTypeUser]], noResults, None)"

definition groupGrants :: "'w env \<Rightarrow> Resource \<Rightarrow> string \<Rightarrow> int \<Rightarrow> (Grant listed, 'w) op" where
  "groupGrants env res tok sz =
     syncPage id id (GetGroupMemberships env (ri_Resource (r_Id res)) tok sz)
       (\<lambda>mb. one (NewGrant res groupMemberEntitlementName
          \<lparr>ri_ResourceType = rt_Id (if gm_IsGroup mb then resourceTypeGroup else resourceTypeUser),
           ri_Resource = gm_PrincipalID mb\<rparr> []))"

definition groupGrant :: "'w env \<Rightarrow> Resource \<Rightarrow> Entitlement \<Rightarrow> (changed, 'w) op" where
  "groupGrant env p ent s =
     (if ri_ResourceType (r_Id p) \<noteq> rt_Id resourceTypeUser
      then Some (([], Some (ErrNew ''salesforce-connector: only users can be granted group membership'')), s)
      else do {
        res \<leftarrow> en_Resource ent;
        reportChange (AddUserToGroup env (ri_Resource (r_Id p)) (ri_Resource (r_Id res))) s
      })"

definition groupRevoke :: "'w env \<Rightarrow> Grant \<Rightarrow> (changed, 'w) op" where
  "groupRevoke env g s =
     do {
       res \<leftarrow> en_Resource (gr_Entitlement g);
       ((wasRevoked, rl, err), s) \<leftarrow> RemoveUserFromGroup env (ri_Resource (r_Id (gr_Principal g))) (ri_Resource (r_Id res)) s;
       let annos = WithRateLimitAnnotations [rl];
       Some (case err of
               Some e \<Rightarrow> (annos, Some e)
             | None \<Rightarrow> (if wasRevoked then annos else annos @ [AnnGrantAlreadyRevoked], None), s)
     }"

section \<open>Roles\<close>

definition roleAssignmentEntitlementName :: string where "roleAssignmentEntitlementName = ''assigned''"

definition roleResource :: "SalesforceRole \<Rightarrow> Resource" where
  "roleResource role = NewResource (sr_Name role) resourceTypeRole (sr_ID role) None [AnnRoleTrait]"

definition roleList :: "'w env \<Rightarrow> string \<Rightarrow> int \<Rightarrow> (Resource listed, 'w) op" where
  "roleList env tok sz = syncPage id id (GetUserRoles env tok sz) (\<lambda>r. one (roleResource r))"

definition roleEntitlements :: "Resource \<Rightarrow> Entitlement listed" where
  "roleEntitlements res =
     ([NewAssignmentEntitlement (Some res) roleAssignmentEntitlementName (r_DisplayName res @ '' User Role'')
         (''Has the '' @ r_DisplayName res @ '' role in Salesforce'') [resourceTypeUser]], noResults, None)"

definition roleGrants :: "'w env \<Rightarrow> Resource \<Rightarrow> string \<Rightarrow> int \<Rightarrow> (Grant listed, 'w) op" where
  "roleGrants env res tok sz =
     syncPage id id (GetRoleAssignments env (ri_Resource (r_Id res)) tok sz)
       (\<lambda>u. one (NewGrant res roleAssignmentEntitlementName (userId (su_ID u)) []))"

definition roleGrant :: "'w env \<Rightarrow> Resource \<Rightarrow> Entitlement \<Rightarrow> (changed, 'w) op" where
  "roleGrant env p ent s =
     (if ri_ResourceType (r_Id p) \<noteq> rt_Id resourceTypeUser
      then Some (([], Some (ErrNew ''salesforce-connector: only users can be granted roles'')), s)
      else do {
        res \<leftarrow> en_Resource ent;
        reportChange (AddUserToRole env (ri_Resource (r_Id p)) (ri_Resource (r_Id res))) s
      })"

definition roleRevoke :: "'w env \<Rightarrow> Grant \<Rightarrow> (changed, 'w) op" where
  "roleRevoke env g s =
     do {
       res \<leftarrow> en_Resource (gr_Entitlement g);
       reportChange (RemoveUserFromRole env (ri_Resource (r_Id (gr_Principal g))) (ri_Resource (r_Id res))) s
     }"

section \<open>Contracts\<close>

abbreviation "changeFailed r \<equiv> snd r \<noteq> None"

interpretation group_users: user_only "groupGrant env" "\<lambda>r. changeFailed r" for env
  by unfold_locales (simp add: groupGrant_def isUser_def)

interpretation role_users: user_only "roleGrant env" "\<lambda>r. changeFailed r" for env
  by unfold_locales (simp add: roleGrant_def isUser_def)

interpretation m_groupList: metered "groupList (tracedEnv env) tok n" 0 for env tok n
  by unfold_locales (auto simp: groupList_def GetGroups_def intro: syncPage_grew m_list.op_grew)

interpretation m_groupGrants: metered "groupGrants (tracedEnv env) res tok n" 0 for env res tok n
  by unfold_locales (auto simp: groupGrants_def GetGroupMemberships_def intro: syncPage_grew m_listE.op_grew)

interpretation m_roleList: metered "roleList (tracedEnv env) tok n" 0 for env tok n
  by unfold_locales (auto simp: roleList_def GetUserRoles_def intro: syncPage_grew m_list.op_grew)

interpretation m_roleGrants: metered "roleGrants (tracedEnv env) res tok n" 0 for env res tok n
  by unfold_locales (auto simp: roleGrants_def GetRoleAssignments_def getAssignments_def intro: syncPage_grew m_list.op_grew)

interpretation m_groupGrant: metered "groupGrant (tracedEnv env) p e" 1 for env p e
  by unfold_locales
    (auto simp: groupGrant_def AddUserToGroup_def intro: reportChange_grew m_create.op_grew [simplified]
      split: if_split_asm Option.bind_split_asm)

interpretation m_groupRevoke: metered "groupRevoke (tracedEnv env) g" 1 for env g
  by unfold_locales
    (auto simp: groupRevoke_def Let_def dest: m_leave_group.op_grew split: prod.split_asm Option.bind_split_asm)

interpretation m_roleGrant: metered "roleGrant (tracedEnv env) p e" 1 for env p e
  by unfold_locales
    (auto simp: roleGrant_def AddUserToRole_def intro: reportChange_grew m_set.op_grew [simplified]
      split: if_split_asm Option.bind_split_asm)

interpretation m_roleRevoke: metered "roleRevoke (tracedEnv env) g" 1 for env g
  by unfold_locales
    (auto simp: roleRevoke_def RemoveUserFromRole_def intro: reportChange_grew m_clear.op_grew [simplified]
      split: Option.bind_split_asm)

section \<open>Pages\<close>

text \<open>What a record contributes to a listing of groups, roles or their grants.\<close>

definition groupYield :: "sobject \<Rightarrow> Resource list option" where
  "groupYield = yields (total rowGroup) (\<lambda>g. one (groupResource g))"

definition groupMemberGrant :: "Resource \<Rightarrow> SalesforceGroupMembership \<Rightarrow> Grant" where
  "groupMemberGrant res mb = NewGrant res groupMemberEntitlementName
     \<lparr>ri_ResourceType = rt_Id (if gm_IsGroup mb then resourceTypeGroup else resourceTypeUser),
      ri_Resource = gm_PrincipalID mb\<rparr> []"

definition memberYield :: "Resource \<Rightarrow> sobject \<Rightarrow> Grant list option" where
  "memberYield res = yields rowGroupMembership (\<lambda>mb. one (groupMemberGrant res mb))"

definition roleYield :: "sobject \<Rightarrow> Resource list option" where
  "roleYield = yields (total rowRole) (\<lambda>r. one (roleResource r))"

definition roleHolderYield :: "Resource \<Rightarrow> sobject \<Rightarrow> Grant list option" where
  "roleHolderYield res =
     yields (total rowAssignedUser) (\<lambda>u. one (NewGrant res roleAssignmentEntitlementName (userId (su_ID u)) []))"

definition assignedUsersQuery :: "string \<Rightarrow> string \<Rightarrow> SalesforceQuery" where
  "assignedUsersQuery k v = WhereEq (WhereEq (NewQuery TableNameUsers []) ''UserType'' ''Standard'') k v"

interpretation groupList_pages:
  listing P env cl "getQueryString (NewQuery TableNameGroups []) '''' n" groupYield "\<lambda>tok. groupList env tok n" for P env cl n
  unfolding groupYield_def by (rule syncPage_listing) (simp add: groupList_def GetGroups_def listQuery_total)

interpretation groupGrants_pages:
  listing P env cl "getQueryString (WhereEq (NewQuery TableNameGroupMemberships []) ''GroupId'' (ri_Resource (r_Id res))) '''' n"
    "memberYield res" "\<lambda>tok. groupGrants env res tok n" for P env cl res n
  unfolding memberYield_def by (rule syncPage_listing) (simp add: groupGrants_def GetGroupMemberships_def groupMemberGrant_def)

interpretation roleList_pages:
  listing P env cl "getQueryString (NewQuery TableNameRoles []) '''' n" roleYield "\<lambda>tok. roleList env tok n" for P env cl n
  unfolding roleYield_def by (rule syncPage_listing) (simp add: roleList_def GetUserRoles_def listQuery_total)

interpretation roleGrants_pages:
  listing P env cl "getQueryString (assignedUsersQuery ''UserRoleId'' (ri_Resource (r_Id res))) '''' n"
    "roleHolderYield res" "\<lambda>tok. roleGrants env res tok n" for P env cl res n
  unfolding roleHolderYield_def
  by (rule syncPage_listing)
    (simp add: roleGrants_def GetRoleAssignments_def getAssignments_def assignedUsersQuery_def listQuery_total)

end
