(* ===== verification/Conn_Permissions.thy ===== *)
theory Conn_Permissions
  imports Conn_Groups
begin

text \<open>
  Permission sets (\<^verbatim>\<open>connector/permissions.go\<close>), with the two phases of their grants, and permission set
  groups (\<^verbatim>\<open>connector/permission_set_group.go\<close>).
\<close>

section \<open>Permission sets\<close>

definition permissionSetAssignmentEntitlementName :: string where "permissionSetAssignmentEntitlementName = ''assigned''"
definition permPsgPageTokenPrefix :: string where "permPsgPageTokenPrefix = ''psg:''"
definition permissionSetGroupMemberEntitlementName :: string where "permissionSetGroupMemberEntitlementName = ''member''"

definition permissionResource :: "SalesforcePermission \<Rightarrow> Resource" where
  "permissionResource pm = NewResource (sp_Type pm @ '' - '' @ sp_Name pm) resourceTypePermissionSet (sp_ID pm) None []"

definition permissionList :: "'w env \<Rightarrow> string \<Rightarrow> int \<Rightarrow> (Resource listed, 'w) op" where
  "permissionList env tok sz = syncPage id id (GetPermissionSets env tok sz) (\<lambda>p. one (permissionResource p))"

definition permissionEntitlements :: "Resource \<Rightarrow> Entitlement listed" where
  "permissionEntitlements res =
     ([NewAssignmentEntitlement (Some res) permissionSetAssignmentEntitlementName (r_DisplayName res @ '' Permission Set'')
         (''Has the '' @ r_DisplayName res @ '' permission set in Salesforce'')
         [resourceTypeUser, resourceTypePermissionSetGroup]], noResults, None)"

text \<open>
  The two kinds of grants of a permission set: its users, and the permission set groups that contain it,
  which expand to the members of the group.
\<close>

definition assignmentGrant :: "Resource \<Rightarrow> PermissionSetAssignment \<Rightarrow> Grant" where
  "assignmentGrant res a = NewGrant res permissionSetAssignmentEntitlementName (userId (pa_UserID a)) []"

definition componentGrant :: "Resource \<Rightarrow> PermissionSetGroupComponent \<Rightarrow> Grant" where
  "componentGrant res c =
     (let memberEntitlementID = rt_Id resourceTypePermissionSetGroup @ '':'' @ pc_PermissionSetGroupID c @ '':''
            @ permissionSetGroupMemberEntitlementName
      in NewGrant res permissionSetAssignmentEntitlementName
           \<lparr>ri_ResourceType = rt_Id resourceTypePermissionSetGroup, ri_Resource = pc_PermissionSetGroupID c\<rparr>
           [AnnGrantExpandable [memberEntitlementID]])"

definition permissionGrants :: "'w env \<Rightarrow> Resource \<Rightarrow> int \<Rightarrow> string \<Rightarrow> (Grant listed, 'w) op" where
  "permissionGrants env res sz pageToken s =
     (if hasPrefix pageToken permPsgPageTokenPrefix
      then do {
        ((rl, r), s) \<leftarrow> GetPermissionSetGroupComponentsByPermissionSet env (ri_Resource (r_Id res))
           (trimPrefix pageToken permPsgPageTokenPrefix) sz s;
        let annos = WithRateLimitAnnotations [rl];
        Some (case r of
                Inl e \<Rightarrow> failedList annos e
              | Inr (components, nextPsgToken) \<Rightarrow>
                  (map (componentGrant res) components,
                   \<lparr>sy_NextPageToken = (if nextPsgToken \<noteq> '''' then permPsgPageTokenPrefix @ nextPsgToken else ''''),
                    sy_Annotations = annos\<rparr>, None), s)
      }
      else do {
        ((rl, r), s) \<leftarrow> GetPermissionSetAssignments env (ri_Resource (r_Id res)) pageToken sz s;
        let annos = WithRateLimitAnnotations [rl];
        Some (case r of
                Inl e \<Rightarrow> failedList annos e
              | Inr (assignments, nextUserToken) \<Rightarrow>
                  (map (assignmentGrant res) assignments,
                   \<lparr>sy_NextPageToken = (if nextUserToken \<noteq> '''' then nextUserToken else permPsgPageTokenPrefix),
                    sy_Annotations = annos\<rparr>, None), s)
      })"

definition permissionGrant :: "'w env \<Rightarrow> Resource \<Rightarrow> Entitlement \<Rightarrow> (changed, 'w) op" where
  "permissionGrant env p ent s =
     (if ri_ResourceType (r_Id p) \<noteq> rt_Id resourceTypeUser
      then Some (([], Some (ErrNew ''salesforce-connector: only users can be granted permission sets'')), s)
      else do {
        res \<leftarrow> en_Resource ent;
        reportChange (AddUserToPermissionSet env (ri_Resource (r_Id p)) (ri_Resource (r_Id res))) s
      })"

definition permissionRevoke :: "'w env \<Rightarrow> Grant \<Rightarrow> (changed, 'w) op" where
  "permissionRevoke env g s =
     (if ri_ResourceType (r_Id (gr_Principal g)) \<noteq> rt_Id resourceTypeUser
      then Some (([], Some (ErrNew ''salesforce-connector: only users can have permission set grants revoked'')), s)
      else do {
        res \<leftarrow> en_Resource (gr_Entitlement g);
        reportChange (RemoveUserFromPermissionSet env (ri_Resource (r_Id (gr_Principal g))) (ri_Resource (r_Id res))) s
      })"

section \<open>Permission set groups\<close>

definition permissionSetGroupResource :: "PermissionSetGroup \<Rightarrow> Resource" where
  "permissionSetGroupResource pg = NewResource (pg_MasterLabel pg) resourceTypePermissionSetGroup (pg_ID pg) None []"

definition psgList :: "'w env \<Rightarrow> string \<Rightarrow> int \<Rightarrow> (Resource listed, 'w) op" where
  "psgList env tok sz = syncPage id id (GetPermissionSetGroups env tok sz) (\<lambda>g. one (permissionSetGroupResource g))"

definition psgEntitlements :: "Resource \<Rightarrow> Entitlement listed" where
  "psgEntitlements res =
     ([NewAssignmentEntitlement (Some res) permissionSetGroupMemberEntitlementName
         (r_DisplayName res @ '' Permission Set Group Member'')
         (''Assigned to the '' @ r_DisplayName res @ '' permission set group in Salesforce'') [resourceTypeUser]],
      noResults, None)"

definition psgGrants :: "'w env \<Rightarrow> Resource \<Rightarrow> string \<Rightarrow> int \<Rightarrow> (Grant listed, 'w) op" where
  "psgGrants env res tok sz =
     syncPage id id (GetPermissionSetGroupAssignments env (ri_Resource (r_Id res)) tok sz)
       (\<lambda>a. one (NewGrant res permissionSetGroupMemberEntitlementName (userId (pa_UserID a)) []))"

definition unsupportedType :: "ResourceId \<Rightarrow> goerror" where
  "unsupportedType i = ErrNew (''baton-salesforce: resource type '' @ ri_ResourceType i @ '' is not supported'')"

definition psgGrant :: "'w env \<Rightarrow> Resource \<Rightarrow> Entitlement \<Rightarrow> (granted, 'w) op" where
  "psgGrant env p ent s =
     (if ri_ResourceType (r_Id p) \<noteq> rt_Id resourceTypeUser then Some (([], [], Some (unsupportedType (r_Id p))), s)
      else do {
        res \<leftarrow> en_Resource ent;
        (r, s) \<leftarrow> GetOnePermissionSetGroupAssignment env (ri_Resource (r_Id p)) (ri_Resource (r_Id res)) s;
        case r of
          Inl e \<Rightarrow> Some (([], [], Some e), s)
        | Inr (Some _) \<Rightarrow> Some (([], [AnnGrantAlreadyExists], None), s)
        | Inr None \<Rightarrow>
            do {
              ((_, r), s) \<leftarrow> AddUserToPermissionSetGroup env (ri_Resource (r_Id p)) (ri_Resource (r_Id res)) s;
              Some (case r of
                      Inl e \<Rightarrow> ([], [], Some e)
                    | Inr _ \<Rightarrow> ([NewGrant res permissionSetGroupMemberEntitlementName (r_Id p) []], [], None), s)
            }
      })"

definition psgRevoke :: "'w env \<Rightarrow> Grant \<Rightarrow> (changed, 'w) op" where
  "psgRevoke env g s =
     (if ri_ResourceType (r_Id (gr_Principal g)) \<noteq> rt_Id resourceTypeUser
      then Some (([], Some (unsupportedType (r_Id (gr_Principal g)))), s)
      else do {
        res \<leftarrow> en_Resource (gr_Entitlement g);
        (r, s) \<leftarrow> GetOnePermissionSetGroupAssignment env (ri_Resource (r_Id (gr_Principal g))) (ri_Resource (r_Id res)) s;
        case r of
          Inl e \<Rightarrow> Some (([], Some e), s)
        | Inr None \<Rightarrow> Some (([AnnGrantAlreadyRevoked], None), s)
        | Inr (Some existing) \<Rightarrow>
            do {
              ((_, r), s) \<leftarrow> RemoveUserFromPermissionSetGroup env (pa_ID existing) s;
              Some (([], errorOf r), s)
            }
      })"

section \<open>Contracts\<close>

abbreviation "grantFailed r \<equiv> snd (snd r) \<noteq> None"

interpretation permission_users: user_only "permissionGrant env" "\<lambda>r. changeFailed r" for env
  by unfold_locales (simp add: permissionGrant_def isUser_def)

interpretation psg_users: user_only "psgGrant env" "\<lambda>r. grantFailed r" for env
  by unfold_locales (simp add: psgGrant_def isUser_def)

interpretation m_permissionList: metered "permissionList (tracedEnv env) tok n" 0 for env tok n
  by unfold_locales (auto simp: permissionList_def GetPermissionSets_def intro: syncPage_grew m_list.op_grew)

interpretation m_permissionGrants: metered "permissionGrants (tracedEnv env) res n tok" 0 for env res tok n
  by unfold_locales
    (auto simp: permissionGrants_def GetPermissionSetAssignments_def GetPermissionSetGroupComponentsByPermissionSet_def
      Let_def dest: m_list.op_grew m_listE.op_grew split: if_split_asm prod.split_asm Option.bind_split_asm)

interpretation m_psgList: metered "psgList (tracedEnv env) tok n" 0 for env tok n
  by unfold_locales (auto simp: psgList_def GetPermissionSetGroups_def intro: syncPage_grew m_listE.op_grew)

interpretation m_psgGrants: metered "psgGrants (tracedEnv env) res tok n" 0 for env res tok n
  by unfold_locales (auto simp: psgGrants_def GetPermissionSetGroupAssignments_def intro: syncPage_grew m_list.op_grew)

interpretation m_permissionGrant: metered "permissionGrant (tracedEnv env) p e" 1 for env p e
  by unfold_locales
    (auto simp: permissionGrant_def AddUserToPermissionSet_def intro: reportChange_grew m_create.op_grew [simplified]
      split: if_split_asm Option.bind_split_asm)

interpretation m_permissionRevoke: metered "permissionRevoke (tracedEnv env) g" 1 for env g
  by unfold_locales
    (auto simp: permissionRevoke_def RemoveUserFromPermissionSet_def intro: reportChange_grew m_find_delete.op_grew [simplified]
      split: if_split_asm Option.bind_split_asm)

interpretation m_psgGrant: metered "psgGrant (tracedEnv env) p e" 1 for env p e
  by unfold_locales
    (auto simp: psgGrant_def AddUserToPermissionSetGroup_def dest!: m_psg_one.op_grew
      intro: grew_mono m_create.after_reads [simplified] split: option.split_asm op_split_asm)

interpretation m_psgRevoke: metered "psgRevoke (tracedEnv env) g" 1 for env g
  by unfold_locales
    (auto simp: psgRevoke_def RemoveUserFromPermissionSetGroup_def dest!: m_psg_one.op_grew
      intro: grew_mono m_delete.after_reads [simplified] split: option.split_asm op_split_asm)

section \<open>The two phases of the grants\<close>

text \<open>The pages of each kind of grants on its own, as the simple syncers list theirs.\<close>

definition assignmentPages :: "'w env \<Rightarrow> Resource \<Rightarrow> int \<Rightarrow> string \<Rightarrow> (Grant listed, 'w) op" where
  "assignmentPages env res sz tok =
     syncPage id id (GetPermissionSetAssignments env (ri_Resource (r_Id res)) tok sz) (\<lambda>a. one (assignmentGrant res a))"

definition componentPages :: "'w env \<Rightarrow> Resource \<Rightarrow> int \<Rightarrow> string \<Rightarrow> (Grant listed, 'w) op" where
  "componentPages env res sz tok =
     syncPage id id (GetPermissionSetGroupComponentsByPermissionSet env (ri_Resource (r_Id res)) tok sz)
       (\<lambda>c. one (componentGrant res c))"

lemma concat_singletons: "concat (map (\<lambda>x. [f x]) xs) = map f xs"
  by (induction xs) simp_all

text \<open>A page of one phase, under the token that names the phase.\<close>

lemma phase_one:
  assumes "assignmentPages env res sz tok s = Some ((gs, r, None), s')" and "\<not> hasPrefix tok permPsgPageTokenPrefix"
  shows "permissionGrants env res sz tok s = Some ((gs,
    r\<lparr>sy_NextPageToken := if sy_NextPageToken r \<noteq> '''' then sy_NextPageToken r else permPsgPageTokenPrefix\<rparr>, None), s')"
  using assms
  by (auto simp: assignmentPages_def permissionGrants_def syncPage_total [of _ "\<lambda>a. [assignmentGrant res a]"]
      concat_singletons failedList_def Let_def split: Option.bind_split_asm sum.split_asm prod.split_asm)

lemma phase_two:
  assumes "componentPages env res sz tok s = Some ((gs, r, None), s')"
  shows "permissionGrants env res sz (permPsgPageTokenPrefix @ tok) s = Some ((gs,
    r\<lparr>sy_NextPageToken := if sy_NextPageToken r \<noteq> '''' then permPsgPageTokenPrefix @ sy_NextPageToken r else ''''\<rparr>, None), s')"
  using assms
  by (auto simp: componentPages_def permissionGrants_def syncPage_total [of _ "\<lambda>a. [componentGrant res a]"]
      concat_singletons failedList_def Let_def split: Option.bind_split_asm sum.split_asm prod.split_asm)

lemma chain_phase_two:
  "chain ok (componentPages env res sz) tok s gs s' \<Longrightarrow>
     chain (\<lambda>_. True) (permissionGrants env res sz) (permPsgPageTokenPrefix @ tok) s gs s'"
proof (induction rule: chain.induct)
  case (final tok s xs r s')
  from final(2) show ?case by (intro chain.final [where sync = "permissionGrants env res sz", OF phase_two [OF final(1)]]) simp
next
  case (onward tok s xs r s1 nxt ys s')
  from onward show ?case by (intro chain.onward [where sync = "permissionGrants env res sz" and ok = "\<lambda>_. True", OF phase_two [OF onward(1)] refl _ TrueI]) simp_all
qed

lemma chain_phase_one:
  "chain (\<lambda>t. \<not> hasPrefix t permPsgPageTokenPrefix) (assignmentPages env res sz) tok s gs s1 \<Longrightarrow>
     \<not> hasPrefix tok permPsgPageTokenPrefix \<Longrightarrow>
     chain (\<lambda>_. True) (permissionGrants env res sz) permPsgPageTokenPrefix s1 cs s' \<Longrightarrow>
     chain (\<lambda>_. True) (permissionGrants env res sz) tok s (gs @ cs) s'"
proof (induction rule: chain.induct)
  case (final tok s xs r s1)
  from final(2,4) show ?case
    by (intro chain.onward [where sync = "permissionGrants env res sz" and ok = "\<lambda>_. True", OF phase_one [OF final(1,3)] refl _ TrueI]) (simp_all add: permPsgPageTokenPrefix_def)
next
  case (onward tok s xs r s1 nxt ys s2)
  from onward have "chain (\<lambda>_. True) (permissionGrants env res sz) nxt s1 (ys @ cs) s'" by blast
  with onward(2,3) show ?case
    unfolding append_assoc by (intro chain.onward [where sync = "permissionGrants env res sz" and ok = "\<lambda>_. True", OF phase_one [OF onward(1,7)] refl _ TrueI]) simp_all
qed

section \<open>Properties\<close>

text \<open>
  C26. A sync of the grants of a permission set walks through both phases: when the pages of user
  assignments and the pages of permission set group components both end, and no page token of Salesforce
  (a path) starts with the prefix of the second phase, then the sync ends, and what it has collected is
  every assignment grant followed by every component grant, nothing lost and nothing repeated.
\<close>

theorem permissionGrants_two_phases:
  assumes "chain (\<lambda>t. \<not> hasPrefix t permPsgPageTokenPrefix) (assignmentPages env res sz) '''' s us s1"
    and "chain (\<lambda>_. True) (componentPages env res sz) '''' s1 cs s2"
  shows "chain (\<lambda>_. True) (permissionGrants env res sz) '''' s gs s' \<longleftrightarrow> gs = us @ cs \<and> s' = s2"
proof -
  have "\<not> hasPrefix '''' permPsgPageTokenPrefix" by (simp add: hasPrefix_def permPsgPageTokenPrefix_def)
  from chain_phase_one [OF assms(1) this] chain_phase_two [OF assms(2)]
  have "chain (\<lambda>_. True) (permissionGrants env res sz) '''' s (us @ cs) s2" by simp
  with chain_deterministic show ?thesis by blast
qed

text \<open>Concrete pages: every query is answered with the same last page.\<close>

lemma demo_list:
  assumes "getQueryString q [] n = Some qs" and "selects q"
  shows "\<exists>w'. listQuery (logEnv (\<lambda>_. okResponse (lastPage ms))) q row [] n (after demoSys demoTransport w)
    = Some ((None, Inr (map row (map setClient ms), '''')), after demoSys demoTransport w')"
  using demo_query [OF assms(1) decode_lastPage assms(2)] by (auto simp: listQuery_def pageOf_def mapReply_def)

lemma demo_listE:
  assumes "getQueryString q [] n = Some qs" and "mapE row (map setClient ms) = Inr xs" and "selects q"
  shows "\<exists>w'. listQueryE (logEnv (\<lambda>_. okResponse (lastPage ms))) keep q row [] n (after demoSys demoTransport w)
    = Some ((None, Inr (xs, '''')), after demoSys demoTransport w')"
  using demo_query [OF assms(1) decode_lastPage assms(3)] assms(2) by (auto simp: listQueryE_def pageOf_def)

definition demoAssignment :: gomap where
  "demoAssignment = [''Id'' \<mapsto> VString ''0Pa1'', ''AssigneeId'' \<mapsto> VString ''005u'',
     ''PermissionSetGroupId'' \<mapsto> VString ''0PG1'', ''IsDeleted'' \<mapsto> VBool False]"

theorem permissionGrants_two_phases_witness:
  "\<exists>gs s'. chain (\<lambda>_. True) (permissionGrants (logEnv (\<lambda>_. okResponse (lastPage [demoAssignment])))
       (bareResource \<lparr>ri_ResourceType = ''permission'', ri_Resource = ''0PS1''\<rparr>) 100) '''' demoSys gs s'
     \<and> map (ri_Resource \<circ> r_Id \<circ> gr_Principal) gs = [''005u'', ''0PG1'']"
proof -
  let ?env = "logEnv (\<lambda>_. okResponse (lastPage [demoAssignment]))"
  let ?res = "bareResource \<lparr>ri_ResourceType = ''permission'', ri_Resource = ''0PS1''\<rparr>"
  have kn: "TableNamePermissionAssignments \<in> set knownTables" "TablePermissionSetGroupComponent \<in> set knownTables"
    "plain ''PermissionSetId''" by (simp_all add: knownTables_def plain_char_def)
  obtain qs1 where q1: "getQueryString (WhereEq (NewQuery TableNamePermissionAssignments []) ''PermissionSetId'' ''0PS1'') '''' 100 = Some qs1"
    using one_condition_text [OF kn(1,3)] by blast
  obtain qs2 where q2: "getQueryString (WhereEq (NewQuery TablePermissionSetGroupComponent []) ''PermissionSetId'' ''0PS1'') '''' 100 = Some qs2"
    using one_condition_text [OF kn(2,3)] by blast
  from demo_list [OF q1, of "[demoAssignment]" rowPermissionSetAssignment "[]"] obtain w1 where
    "assignmentPages ?env ?res 100 '''' demoSys = Some (([assignmentGrant ?res (rowPermissionSetAssignment (setClient demoAssignment))],
       \<lparr>sy_NextPageToken = '''', sy_Annotations = WithRateLimitAnnotations [None]\<rparr>, None), after demoSys demoTransport w1)"
    by (auto simp: assignmentPages_def GetPermissionSetAssignments_def demoSys_after bareResource_def
        syncPage_total [of _ "\<lambda>a. [assignmentGrant ?res a]"])
  then have c1: "chain (\<lambda>t. \<not> hasPrefix t permPsgPageTokenPrefix) (assignmentPages ?env ?res 100) '''' demoSys
      [assignmentGrant ?res (rowPermissionSetAssignment (setClient demoAssignment))] (after demoSys demoTransport w1)"
    by (rule chain.final) simp
  obtain c where c: "rowGroupComponent (setClient demoAssignment) = Inr (Some c)" "pc_PermissionSetGroupID c = ''0PG1''"
    by (auto simp: rowGroupComponent_def demoAssignment_def setClient_def getBoolField_def mapIndex_def sobject_key_defs
        StringField_def bindSum_def)
  then have "mapE rowGroupComponent (map setClient [demoAssignment]) = Inr [c]" by (simp add: bindSum_def)
  from demo_listE [OF q2 this, of True w1] obtain w2 where
    "componentPages ?env ?res 100 '''' (after demoSys demoTransport w1) = Some (([componentGrant ?res c],
       \<lparr>sy_NextPageToken = '''', sy_Annotations = WithRateLimitAnnotations [None]\<rparr>, None), after demoSys demoTransport w2)"
    by (auto simp: componentPages_def GetPermissionSetGroupComponentsByPermissionSet_def bareResource_def
        syncPage_total [of _ "\<lambda>a. [componentGrant ?res a]"])
  then have c2: "chain (\<lambda>_. True) (componentPages ?env ?res 100) '''' (after demoSys demoTransport w1)
      [componentGrant ?res c] (after demoSys demoTransport w2)"
    by (rule chain.final) simp
  have ids: "map (ri_Resource \<circ> r_Id \<circ> gr_Principal)
      ([assignmentGrant ?res (rowPermissionSetAssignment (setClient demoAssignment))] @ [componentGrant ?res c]) = [''005u'', ''0PG1'']"
    by (simp add: assignmentGrant_def componentGrant_def Let_def c userId_def rowPermissionSetAssignment_def demoAssignment_def
        setClient_def StringField_def mapIndex_def sobject_key_defs)
  from permissionGrants_two_phases [OF c1 c2, THEN iffD2, OF conjI [OF refl refl]] ids show ?thesis
    by (intro exI conjI)
qed

section \<open>Pages\<close>

definition permissionYield :: "sobject \<Rightarrow> Resource list option" where
  "permissionYield = yields (total rowPermission) (\<lambda>p. one (permissionResource p))"

definition assignmentYield :: "Resource \<Rightarrow> sobject \<Rightarrow> Grant list option" where
  "assignmentYield res = yields (total rowPermissionSetAssignment) (\<lambda>a. one (assignmentGrant res a))"

definition componentYield :: "Resource \<Rightarrow> sobject \<Rightarrow> Grant list option" where
  "componentYield res = yields rowGroupComponent (\<lambda>c. one (componentGrant res c))"

definition psgYield :: "sobject \<Rightarrow> Resource list option" where
  "psgYield = yields rowPermissionSetGroup (\<lambda>g. one (permissionSetGroupResource g))"

definition psgMemberYield :: "Resource \<Rightarrow> sobject \<Rightarrow> Grant list option" where
  "psgMemberYield res = yields (total rowGroupAssignment)
     (\<lambda>a. one (NewGrant res permissionSetGroupMemberEntitlementName (userId (pa_UserID a)) []))"

interpretation permissionList_pages:
  listing P env cl "getQueryString (NewQuery TableNamePermissionsSets []) '''' n" permissionYield
    "\<lambda>tok. permissionList env tok n" for P env cl n
  unfolding permissionYield_def by (rule syncPage_listing) (simp add: permissionList_def GetPermissionSets_def listQuery_total)

interpretation assignment_pages:
  listing P env cl
    "getQueryString (WhereEq (NewQuery TableNamePermissionAssignments []) ''PermissionSetId'' (ri_Resource (r_Id res))) '''' n"
    "assignmentYield res" "assignmentPages env res n" for P env cl res n
  unfolding assignmentYield_def
  by (rule syncPage_listing) (simp add: assignmentPages_def GetPermissionSetAssignments_def listQuery_total)

interpretation component_pages:
  listing P env cl
    "getQueryString (WhereEq (NewQuery TablePermissionSetGroupComponent []) ''PermissionSetId'' (ri_Resource (r_Id res))) '''' n"
    "componentYield res" "componentPages env res n" for P env cl res n
  unfolding componentYield_def
  by (rule syncPage_listing) (simp add: componentPages_def GetPermissionSetGroupComponentsByPermissionSet_def)

interpretation psgList_pages:
  listing P env cl "getQueryString (NewQuery TablePermissionSetGroup []) '''' n" psgYield "\<lambda>tok. psgList env tok n" for P env cl n
  unfolding psgYield_def by (rule syncPage_listing) (simp add: psgList_def GetPermissionSetGroups_def)

interpretation psgGrants_pages:
  listing P env cl
    "getQueryString (WhereEq (NewQuery TableNamePermissionAssignments groupAssignmentSelectors) ''PermissionSetGroupId''
        (ri_Resource (r_Id res))) '''' n"
    "psgMemberYield res" "\<lambda>tok. psgGrants env res tok n" for P env cl res n
  unfolding psgMemberYield_def
  by (rule syncPage_listing) (simp add: psgGrants_def GetPermissionSetGroupAssignments_def listQuery_total)

text \<open>The paths of Salesforce are not taken for tokens of the second phase.\<close>

lemma path_not_second_phase: "hasPrefix u ''/services/data'' \<Longrightarrow> \<not> hasPrefix u permPsgPageTokenPrefix"
  by (cases u) (auto simp: hasPrefix_def permPsgPageTokenPrefix_def)

text \<open>Both phases, one after the other, in one sync.\<close>

lemma permissionGrants_full_sync:
  assumes "isLoggedIn cl" and "session s cl t" and "P (sys_w s)"
    and "getQueryString (WhereEq (NewQuery TableNamePermissionAssignments []) ''PermissionSetId'' (ri_Resource (r_Id res))) '''' n = Some q1"
    and "serves P env cl q1 recs1 rest1" and "collect (assignmentYield res) (allRecords recs1 rest1) = Some gss"
    and "getQueryString (WhereEq (NewQuery TablePermissionSetGroupComponent []) ''PermissionSetId'' (ri_Resource (r_Id res))) '''' n = Some q2"
    and "serves P env cl q2 recs2 rest2" and "collect (componentYield res) (allRecords recs2 rest2) = Some css"
  shows "\<exists>t' w'. chain (\<lambda>_. True) (permissionGrants env res n) '''' s (concat gss @ concat css) (after s t' w') \<and> P w'"
proof -
  from assignment_pages.full_sync [OF assms(1-6)] obtain t1 w1 where
    first: "chain (\<lambda>u. hasPrefix u ''/services/data'') (assignmentPages env res n) '''' s (concat gss) (after s t1 w1)" "P w1" by blast
  from chain_mono [OF first(1) path_not_second_phase]
  have users: "chain (\<lambda>u. \<not> hasPrefix u permPsgPageTokenPrefix) (assignmentPages env res n) '''' s (concat gss) (after s t1 w1)" .
  have "P (sys_w (after s t1 w1))" using first(2) by simp
  from component_pages.full_sync [OF assms(1) session_after [OF assms(2)] this assms(7-9)] obtain t' w' where
    "chain (\<lambda>u. hasPrefix u ''/services/data'') (componentPages env res n) '''' (after s t1 w1) (concat css) (after s t' w')" "P w'" by auto
  with chain_phase_two [OF this(1)] chain_phase_one [OF users] show ?thesis by (auto simp: hasPrefix_def permPsgPageTokenPrefix_def)
qed

end
