(* ===== verification/Conn_Territories.thy ===== *)
theory Conn_Territories
  imports Conn_Permissions
begin

text \<open>
  Territories (\<^verbatim>\<open>connector/territories.go\<close>). Membership in a territory is an association record, a role in
  the territory is a field of that record, so a role can only be held by a member.
\<close>

definition territoryMemberPermission :: string where "territoryMemberPermission = ''member''"
definition territoryRolePermissionPrefix :: string where "territoryRolePermissionPrefix = ''role:''"

definition territoryResource :: "sobject \<Rightarrow> Resource" where
  "territoryResource rec =
     (let parentID = StringField rec ''ParentTerritory2Id'' in
      NewResource (StringField rec ''Name'') resourceTypeTerritory (sobjID rec)
        (if parentID \<noteq> ''''
         then Some \<lparr>ri_ResourceType = rt_Id resourceTypeTerritory, ri_Resource = parentID\<rparr> else None) [])"

definition territoryList :: "'w env \<Rightarrow> string \<Rightarrow> int \<Rightarrow> (Resource listed, 'w) op" where
  "territoryList env tok sz = syncPage id id (GetTerritories env tok sz) (\<lambda>t. one (territoryResource t))"

definition territoryEntitlements :: "Resource \<Rightarrow> Entitlement listed" where
  "territoryEntitlements res = ([], noResults, None)"

definition roleSlug :: "string \<Rightarrow> string" where
  "roleSlug role = territoryRolePermissionPrefix @ role"

definition territoryStaticEntitlements :: "'w env \<Rightarrow> (Entitlement listed, 'w) op" where
  "territoryStaticEntitlements env s =
     do {
       ((rl, r), s) \<leftarrow> GetTerritoryRoles env s;
       let annos = WithRateLimitAnnotations [rl];
       Some (case r of
               Inl e \<Rightarrow> failedList annos (ErrWrap ''baton-salesforce: territories: failed to get static entitlements'' e)
             | Inr roles \<Rightarrow>
                 (NewAssignmentEntitlement None territoryMemberPermission ''Member''
                    ''Assigned to this territory in Salesforce'' [resourceTypeUser]
                  # map (\<lambda>role. NewAssignmentEntitlement None (roleSlug role) role
                      (''Has the '' @ role @ '' role in this territory in Salesforce'') [resourceTypeUser]) roles,
                  \<lparr>sy_NextPageToken = '''', sy_Annotations = annos\<rparr>, None), s)
     }"

definition memberGrants :: "Resource \<Rightarrow> UserTerritory2Association \<Rightarrow> Grant list" where
  "memberGrants res mb =
     NewGrant res territoryMemberPermission (userId (ta_UserId mb)) []
     # (if ta_RoleInTerritory2 mb \<noteq> '''' then [NewGrant res (roleSlug (ta_RoleInTerritory2 mb)) (userId (ta_UserId mb)) []]
        else [])"

definition territoryGrants :: "'w env \<Rightarrow> Resource \<Rightarrow> string \<Rightarrow> int \<Rightarrow> (Grant listed, 'w) op" where
  "territoryGrants env res tok sz =
     syncPage id id (GetTerritoryMembers env (ri_Resource (r_Id res)) tok sz) (\<lambda>mb. Inr (memberGrants res mb))"

text \<open>The permission is what follows the second colon of the entitlement ID.\<close>

definition parseTerritoryEntitlementID :: "string \<Rightarrow> goerror + string" where
  "parseTerritoryEntitlementID eID =
     (case splitN CHR '':'' 3 eID of
        [_, _, p] \<Rightarrow> Inr p
      | _ \<Rightarrow> Inl (ErrNew (''baton-salesforce: unexpected territory entitlement ID: '' @ eID)))"

text \<open>The creation of an association: a duplicate counts as a grant that exists.\<close>

definition createdGrants :: "Grant list \<Rightarrow> (unit reply, 'w) op \<Rightarrow> (granted, 'w) op" where
  "createdGrants grants oper s =
     do {
       ((rl, r), s) \<leftarrow> oper s;
       Some (case r of
               Inl e \<Rightarrow> if errorsIs e ErrObjectAlreadyExists then ([], [AnnGrantAlreadyExists], None)
                        else ([], WithRateLimitAnnotations [rl], Some e)
             | Inr _ \<Rightarrow> (grants, WithRateLimitAnnotations [rl], None), s)
     }"

definition territoryGrant :: "'w env \<Rightarrow> Resource \<Rightarrow> Entitlement \<Rightarrow> (granted, 'w) op" where
  "territoryGrant env p ent s =
     (if ri_ResourceType (r_Id p) \<noteq> rt_Id resourceTypeUser
      then Some (([], [], Some (ErrNew ''baton-salesforce: only users can be granted territory membership'')), s)
      else do {
        res \<leftarrow> en_Resource ent;
        let userID = ri_Resource (r_Id p);
        let territoryID = ri_Resource (r_Id res);
        case parseTerritoryEntitlementID (en_Id ent) of
          Inl e \<Rightarrow> Some (([], [], Some e), s)
        | Inr permission \<Rightarrow>
            do {
              ((rl, r), s) \<leftarrow> GetUserTerritoryAssociation env userID territoryID s;
              let role = trimPrefix permission territoryRolePermissionPrefix;
              let memberGrant = NewGrant res territoryMemberPermission (r_Id p) [];
              let roleGrant = NewGrant res (roleSlug role) (r_Id p) [];
              case r of
                Inl e \<Rightarrow>
                  if \<not> errorsIs e ErrObjectNotFound then Some (([], WithRateLimitAnnotations [rl], Some e), s)
                  else if permission = territoryMemberPermission
                  then createdGrants [memberGrant] (AddUserToTerritory env userID territoryID) s
                  else createdGrants [memberGrant, roleGrant] (AddUserToTerritoryWithRole env userID territoryID role) s
              | Inr membership \<Rightarrow>
                  if permission = territoryMemberPermission then Some (([], [AnnGrantAlreadyExists], None), s)
                  else if StringField membership ''RoleInTerritory2'' = role
                  then Some (([], [AnnGrantAlreadyExists], None), s)
                  else do {
                    ((rl, r), s) \<leftarrow> SetUserTerritoryRole env (sobjID membership) role s;
                    Some (case r of
                            Inl e \<Rightarrow> ([], WithRateLimitAnnotations [rl], Some e)
                          | Inr _ \<Rightarrow> ([roleGrant], WithRateLimitAnnotations [rl], None), s)
                  }
            }
      })"

text \<open>A removal after which some errors mean that there was nothing left to revoke.\<close>

definition revokedUnless :: "goerror list \<Rightarrow> (unit reply, 'w) op \<Rightarrow> (changed, 'w) op" where
  "revokedUnless gone oper s =
     do {
       ((rl, r), s) \<leftarrow> oper s;
       Some (case r of
               Inl e \<Rightarrow> if \<exists>g \<in> set gone. errorsIs e g then ([AnnGrantAlreadyRevoked], None)
                        else (WithRateLimitAnnotations [rl], Some e)
             | Inr _ \<Rightarrow> (WithRateLimitAnnotations [rl], None), s)
     }"

definition territoryRevoke :: "'w env \<Rightarrow> Grant \<Rightarrow> (changed, 'w) op" where
  "territoryRevoke env g s =
     do {
       res \<leftarrow> en_Resource (gr_Entitlement g);
       let userID = ri_Resource (r_Id (gr_Principal g));
       let territoryID = ri_Resource (r_Id res);
       case parseTerritoryEntitlementID (en_Id (gr_Entitlement g)) of
         Inl e \<Rightarrow> Some (([], Some e), s)
       | Inr permission \<Rightarrow>
           if permission = territoryMemberPermission
           then revokedUnless [ErrObjectNotFound] (RemoveUserFromTerritory env userID territoryID) s
           else revokedUnless [ErrObjectNotFound, ErrRoleAlreadyCleared, ErrRoleMismatch]
                  (ClearUserTerritoryRole env userID territoryID (trimPrefix permission territoryRolePermissionPrefix)) s
     }"

section \<open>Contracts\<close>

interpretation territory_users: user_only "territoryGrant env" "\<lambda>r. grantFailed r" for env
  by unfold_locales (simp add: territoryGrant_def isUser_def)

interpretation m_territoryList: metered "territoryList (tracedEnv env) tok n" 0 for env tok n
  by unfold_locales (auto simp: territoryList_def intro: syncPage_grew m_territories.op_grew)

interpretation m_territoryGrants: metered "territoryGrants (tracedEnv env) res tok n" 0 for env res tok n
  by unfold_locales (auto simp: territoryGrants_def GetTerritoryMembers_def intro: syncPage_grew m_list.op_grew)

interpretation m_territoryStatic: metered "territoryStaticEntitlements (tracedEnv env)" 0 for env
  by unfold_locales
    (auto simp: territoryStaticEntitlements_def Let_def dest: m_territory_roles.op_grew split: prod.split_asm Option.bind_split_asm)

lemma createdGrants_grew:
  assumes "createdGrants gs (createAssociation (tracedEnv env) vs) s = Some (r, s')" and "grew 0 w (sys_w s)"
  shows "grew (Suc 0) w (sys_w s')"
  using assms by (auto simp: createdGrants_def dest: m_assoc.after_reads split: prod.split_asm Option.bind_split_asm)

interpretation m_territoryGrant: metered "territoryGrant (tracedEnv env) p e" 1 for env p e
  by unfold_locales
    (auto simp: territoryGrant_def Let_def GetUserTerritoryAssociation_def AddUserToTerritory_def AddUserToTerritoryWithRole_def
      SetUserTerritoryRole_def dest!: m_first.op_grew
      intro: grew_mono createdGrants_grew m_update.after_reads [simplified] split: op_split_asm)

lemma revokedUnless_grew:
  assumes "revokedUnless gone oper s = Some (r, s')"
    and "\<And>x s1. oper s = Some (x, s1) \<Longrightarrow> grew n (sys_w s) (sys_w s1)"
  shows "grew n (sys_w s) (sys_w s')"
  using assms by (auto simp: revokedUnless_def split: prod.split_asm Option.bind_split_asm)

interpretation m_territoryRevoke: metered "territoryRevoke (tracedEnv env) g" 1 for env g
  by unfold_locales
    (auto simp: territoryRevoke_def Let_def RemoveUserFromTerritory_def
      intro: revokedUnless_grew m_find_delete.op_grew [simplified] m_clear_role.op_grew [simplified]
      split: sum.split_asm if_split_asm Option.bind_split_asm)

section \<open>Pages\<close>

definition territoryYield :: "sobject \<Rightarrow> Resource list option" where
  "territoryYield = yields (total id) (\<lambda>t. one (territoryResource t))"

definition territoryMemberYield :: "Resource \<Rightarrow> sobject \<Rightarrow> Grant list option" where
  "territoryMemberYield res = yields (total rowTerritoryMember) (\<lambda>mb. Inr (memberGrants res mb))"

text \<open>The territories of the active model; the text of the sub-query is fixed.\<close>

lemma activeModel_text:
  "queryString (WhereEq (NewIDQuery TableNameTerritory2Model) ''State'' ''Active'')
     = Some (''SELECT Id FROM Territory2Model WHERE State = '' @ [CHR 0x27] @ ''Active'' @ [CHR 0x27])"
  by code_simp

definition territoriesQuery :: SalesforceQuery where
  "territoriesQuery = (let q = NewQuery TableNameTerritory2 [] in
     q\<lparr>q_sb := sbWhere (q_sb q) (''Territory2ModelId IN (SELECT Id FROM Territory2Model WHERE State = ''
       @ [CHR 0x27] @ ''Active'' @ [CHR 0x27] @ '')'')\<rparr>)"

lemma GetTerritories_listing: "GetTerritories env tok n = listQueryE env True territoriesQuery (total id) tok n"
proof -
  have "WhereInSubQuery (NewQuery TableNameTerritory2 []) ''Territory2ModelId''
      (WhereEq (NewIDQuery TableNameTerritory2Model) ''State'' ''Active'') = Some territoriesQuery"
    unfolding WhereInSubQuery_def activeModel_text territoriesQuery_def by (simp add: Let_def)
  then show ?thesis
    by (auto simp: GetTerritories_def listQueryE_def mapE_total fun_eq_iff split: Option.bind_split sum.splits)
qed

interpretation territoryList_pages:
  listing P env cl "getQueryString territoriesQuery '''' n" territoryYield "\<lambda>tok. territoryList env tok n" for P env cl n
  unfolding territoryYield_def by (rule syncPage_listing) (simp add: territoryList_def GetTerritories_listing)

interpretation territoryGrants_pages:
  listing P env cl "getQueryString (WhereEq (NewQuery TableNameUserTerritory2Assoc []) ''Territory2Id'' (ri_Resource (r_Id res))) '''' n"
    "territoryMemberYield res" "\<lambda>tok. territoryGrants env res tok n" for P env cl res n
  unfolding territoryMemberYield_def
  by (rule syncPage_listing) (simp add: territoryGrants_def GetTerritoryMembers_def listQuery_total)

end
