(* ===== verification/Conn_Profiles.thy ===== *)
theory Conn_Profiles
  imports Conn_Groups
begin

text \<open>
  Profiles (\<^verbatim>\<open>connector/profiles.go\<close>). A user always has exactly one profile, so revoking a profile moves
  the user to the least privileged profile configured for the license of the profile.
\<close>

definition profileAssignmentEntitlementName :: string where "profileAssignmentEntitlementName = ''assigned''"

record profileBuilder =
  pb_licenseToLeastProfileMapping :: "string \<rightharpoonup> string"

definition newProfileBuilder :: "(string \<rightharpoonup> string) \<Rightarrow> profileBuilder" where
  "newProfileBuilder mapping = \<lparr>pb_licenseToLeastProfileMapping = mapping\<rparr>"

definition profileResource :: "SalesforceProfile \<Rightarrow> Resource" where
  "profileResource pf = NewResource (pf_Name pf) resourceTypeProfile (pf_ID pf) None []"

definition profileList :: "'w env \<Rightarrow> string \<Rightarrow> int \<Rightarrow> (Resource listed, 'w) op" where
  "profileList env tok sz = syncPage id id (GetProfiles env tok sz) (\<lambda>p. one (profileResource p))"

definition profileEntitlements :: "Resource \<Rightarrow> Entitlement listed" where
  "profileEntitlements res =
     ([NewAssignmentEntitlement (Some res) profileAssignmentEntitlementName (r_DisplayName res @ '' Profile'')
         (''Has the '' @ r_DisplayName res @ '' profile in Salesforce'') [resourceTypeUser]], noResults, None)"

definition profileGrants :: "'w env \<Rightarrow> Resource \<Rightarrow> string \<Rightarrow> int \<Rightarrow> (Grant listed, 'w) op" where
  "profileGrants env res tok sz =
     syncPage id id (GetProfileAssignments env (ri_Resource (r_Id res)) tok sz)
       (\<lambda>u. one (NewGrant res profileAssignmentEntitlementName (userId (su_ID u)) []))"

definition profileGrant :: "'w env \<Rightarrow> Resource \<Rightarrow> Entitlement \<Rightarrow> (changed, 'w) op" where
  "profileGrant env p ent s =
     (if ri_ResourceType (r_Id p) \<noteq> rt_Id resourceTypeUser
      then Some (([], Some (ErrNew ''salesforce-connector: only users can be granted a profile'')), s)
      else do {
        res \<leftarrow> en_Resource ent;
        reportChange (AddUserToProfile env (ri_Resource (r_Id p)) (ri_Resource (r_Id res))) s
      })"

text \<open>
  \<open>Revoke\<close>: neither the profile of the grant nor the least privileged profile is compared with nil
  before a field of it is read, so a look-up without result is a panic.
\<close>

definition profileRevoke :: "'w env \<Rightarrow> profileBuilder \<Rightarrow> Grant \<Rightarrow> (changed, 'w) op" where
  "profileRevoke env b g s =
     do {
       res \<leftarrow> en_Resource (gr_Entitlement g);
       ((_, r), s) \<leftarrow> GetProfileById env (ri_Resource (r_Id res)) s;
       case r of
         Inl e \<Rightarrow> Some (([], Some e), s)
       | Inr foundProfile \<Rightarrow>
           do {
             profile \<leftarrow> foundProfile;
             ((_, r), s) \<leftarrow> GetUserLicenseByID env (pf_UserLicenseId profile) s;
             case r of
               Inl e \<Rightarrow> Some (([], Some (ErrWrap ''salesforce-connector: error getting user license by name'' e)), s)
             | Inr None \<Rightarrow>
                 Some (([], Some (ErrNew (''salesforce-connector: user license not found for profile '' @ pf_UserLicenseId profile))), s)
             | Inr (Some license) \<Rightarrow>
                 (case pb_licenseToLeastProfileMapping b (ul_Name license) of
                    None \<Rightarrow> Some (([], Some (ErrNew (''salesforce-connector: no least privileged profile found for license ''
                        @ ul_Name license @ ''. Please add a mapping in the connector configuration''))), s)
                  | Some leastName \<Rightarrow>
                      do {
                        ((_, r), s) \<leftarrow> GetProfileByName env leastName s;
                        case r of
                          Inl e \<Rightarrow> Some (([], Some (ErrWrap ''salesforce-connector: error getting least privileged profile'' e)), s)
                        | Inr foundLeast \<Rightarrow>
                            do {
                              least \<leftarrow> foundLeast;
                              ((rl, r), s) \<leftarrow> SetNewUserProfile env (ri_Resource (r_Id (gr_Principal g))) (pf_ID least) s;
                              Some (case r of
                                      Inl e \<Rightarrow> ([], Some (ErrWrap
                                        ''salesforce-connector: error setting new user's profile to the least privileged profile'' e))
                                    | Inr _ \<Rightarrow> (WithRateLimitAnnotations [rl], None), s)
                            }
                      })
           }
     }"

section \<open>Contracts\<close>

interpretation profile_users: user_only "profileGrant env" "\<lambda>r. changeFailed r" for env
  by unfold_locales (simp add: profileGrant_def isUser_def)

interpretation m_profileList: metered "profileList (tracedEnv env) tok n" 0 for env tok n
  by unfold_locales (auto simp: profileList_def GetProfiles_def intro: syncPage_grew m_list.op_grew)

interpretation m_profileGrants: metered "profileGrants (tracedEnv env) res tok n" 0 for env res tok n
  by unfold_locales
    (auto simp: profileGrants_def GetProfileAssignments_def getAssignments_def intro: syncPage_grew m_list.op_grew)

interpretation m_profileGrant: metered "profileGrant (tracedEnv env) p e" 1 for env p e
  by unfold_locales
    (auto simp: profileGrant_def AddUserToProfile_def setOneValue_eq intro: reportChange_grew m_set.op_grew [simplified]
      split: if_split_asm Option.bind_split_asm)

lemma grew_pad: "grew 0 w w' \<Longrightarrow> grew n w w'"
  by (erule grew_mono) (rule le0)

interpretation m_profileRevoke: metered "profileRevoke (tracedEnv env) b g" 1 for env b g
  by unfold_locales
    (auto simp: profileRevoke_def GetProfileById_def GetUserLicenseByID_def GetProfileByName_def SetNewUserProfile_def
      setOneValue_eq dest!: m_lookup.op_grew m_set.op_grew intro: grew_pad
      elim!: grew_after0 split: option.split_asm op_split_asm)

section \<open>Properties\<close>

text \<open>
  C17. A revocation of a profile that succeeds has moved the user to the least privileged profile
  configured for the license of the profile: the profile and its license were found, the configuration
  maps the name of the license, the profile of that name was found, and setting the user's \<open>ProfileId\<close> to
  its identifier was accepted as the last step. A license without a mapping therefore never succeeds.
\<close>

theorem profile_revocation_moves_to_mapped:
  assumes "profileRevoke env b g s = Some ((annos, None), s')"
  shows "\<exists>res prof license name least x1 x2 x3 rl s1 s2 s3.
      en_Resource (gr_Entitlement g) = Some res
    \<and> GetProfileById env (ri_Resource (r_Id res)) s = Some ((x1, Inr (Some prof)), s1)
    \<and> GetUserLicenseByID env (pf_UserLicenseId prof) s1 = Some ((x2, Inr (Some license)), s2)
    \<and> pb_licenseToLeastProfileMapping b (ul_Name license) = Some name
    \<and> GetProfileByName env name s2 = Some ((x3, Inr (Some least)), s3)
    \<and> setValue env (ri_Resource (r_Id (gr_Principal g))) ''ProfileId'' (pf_ID least) s3 = Some ((rl, Inr ()), s')
    \<and> annos = WithRateLimitAnnotations [rl]"
  using assms
  by (auto simp: profileRevoke_def SetNewUserProfile_def setOneValue_eq
      split: Option.bind_split_asm sum.split_asm option.split_asm prod.split_asm)

text \<open>
  C38. The look-ups of a revocation can come back empty, and two of them are not checked: when
  Salesforce does not know the profile, or when no profile has the name that the configuration gives for
  the license, revoking panics.
\<close>

theorem profile_revocation_panics:
  assumes "en_Resource (gr_Entitlement g) = Some res"
    and "GetProfileById env (ri_Resource (r_Id res)) s = Some ((x1, Inr found), s1)"
    and "found = None \<or> (\<exists>prof license name x2 x3 s2 s3. found = Some prof
      \<and> GetUserLicenseByID env (pf_UserLicenseId prof) s1 = Some ((x2, Inr (Some license)), s2)
      \<and> pb_licenseToLeastProfileMapping b (ul_Name license) = Some name
      \<and> GetProfileByName env name s2 = Some ((x3, Inr None), s3))"
  shows "profileRevoke env b g s = None"
  using assms by (auto simp: profileRevoke_def)

text \<open>
  A server that gives the same answer to every request: a page with one record that serves as profile and
  as license, in a document that also serves as the user.
\<close>

definition demoProfileRecord :: gomap where
  "demoProfileRecord = [''Id'' \<mapsto> VString ''00e1'', ''Name'' \<mapsto> VString ''Salesforce'', ''UserLicenseId'' \<mapsto> VString ''1001'']"

definition demoDocument :: "gomap list \<Rightarrow> gomap" where
  "demoDocument ms = [''done'' \<mapsto> VBool True, ''records'' \<mapsto> VList (map VMap ms),
     ''attributes'' \<mapsto> VMap [''type'' \<mapsto> VString ''User''], ''Id'' \<mapsto> VString ''005x'']"

abbreviation "demoProfileEnv ms \<equiv> logEnv (\<lambda>_. okResponse (JsonDoc [] (VMap (demoDocument ms))))"

definition demoProfileGrant :: Grant where
  "demoProfileGrant = NewGrant (bareResource \<lparr>ri_ResourceType = ''profile'', ri_Resource = ''00e1''\<rparr>)
     profileAssignmentEntitlementName (userId ''005x'') []"

lemma decode_demoDocument:
  "decodeQueryResult (JsonDoc [] (VMap (demoDocument ms)))
     = Some (Inr \<lparr>qr_Done = True, qr_NextRecordsURL = '''', qr_Records = map setClient ms\<rparr>)"
  by (simp add: decodeQueryResult_def demoDocument_def mapIndex_def jsonRecords_def collect_recordEntry collect_id_Some)

lemma demo_lookup:
  assumes "tb \<in> set knownTables" and "plain f"
  shows "\<exists>w'. lookupQuery (demoProfileEnv ms) (WhereEq (NewQuery tb []) f a) row (after demoSys demoTransport w)
    = Some ((None, Inr (case ms of [] \<Rightarrow> None | m # _ \<Rightarrow> Some (row (setClient m)))), after demoSys demoTransport w')"
proof -
  obtain qs where "getQueryString (WhereEq (NewQuery tb []) f a) '''' 1 = Some qs"
    using one_condition_text [OF assms] by blast
  from demo_query [OF this decode_demoDocument [of ms], of w] show ?thesis
    by (auto simp: lookupQuery_def mapReply_def pageOf_def split: list.split)
qed

lemma demo_set:
  "\<exists>w'. setValue (demoProfileEnv ms) ''005x'' ''ProfileId'' v (after demoSys demoTransport w)
    = Some ((None, Inr ()), after demoSys demoTransport w')"
proof -
  have m: "userRecord ''005x'' (demoDocument ms)" by (auto simp: userRecord_def demoDocument_def mapIndex_def)
  have s: "session (after demoSys demoTransport w) demoClient demoTransport" using demo_session(1) by (rule session_after)
  have http: "httpRequest (demoProfileEnv ms) demoClient demoTransport meth (makeURL demoClient p) b w
      = Some (Inr (JsonDoc [] (VMap (demoDocument ms))), demoTransport, w @ [demoRequest meth p b])" if "isPlain p" for meth p b w
    by (subst demo_http) (simp_all add: that)
  show ?thesis using setValue_session [OF s m sendable_fields(2) http http, of v] by simp
qed

lemma demo_fields: "plain ''Id''" "plain ''Name''" "TableNameProfiles \<in> set knownTables" "TableNameUserLicenses \<in> set knownTables"
  by (simp_all add: plain_char_def knownTables_def)

theorem profile_revocation_moves_to_mapped_witness:
  "\<exists>annos s' (least :: SalesforceProfile) s3 rl. profileRevoke (demoProfileEnv [demoProfileRecord]) (newProfileBuilder [''Salesforce'' \<mapsto> ''Minimum Access''])
       demoProfileGrant demoSys = Some ((annos, None), s')
     \<and> setValue (demoProfileEnv [demoProfileRecord]) ''005x'' ''ProfileId'' (pf_ID least) s3 = Some ((rl, Inr ()), s')"
proof -
  let ?env = "demoProfileEnv [demoProfileRecord]" and ?rec = "setClient demoProfileRecord"
  have rows: "rowProfile ?rec = \<lparr>pf_ID = ''00e1'', pf_Name = ''Salesforce'', pf_UserLicenseId = ''1001''\<rparr>"
    "ul_Name (rowUserLicense ?rec) = ''Salesforce''"
    by (simp_all add: rowProfile_def rowUserLicense_def demoProfileRecord_def setClient_def sobjID_def StringField_def
        mapIndex_def sobject_key_defs)
  note look = demo_lookup [where ms = "[demoProfileRecord]", simplified]
  obtain w1 where w1: "GetProfileById ?env ''00e1'' demoSys = Some ((None, Inr (Some (rowProfile ?rec))), after demoSys demoTransport w1)"
    using look [OF demo_fields(3,1), of "''00e1''" rowProfile "[]"] by (auto simp: GetProfileById_def demoSys_after)
  obtain w2 where w2: "GetUserLicenseByID ?env ''1001'' (after demoSys demoTransport w1)
      = Some ((None, Inr (Some (rowUserLicense ?rec))), after demoSys demoTransport w2)"
    using look [OF demo_fields(4,1), of "''1001''" rowUserLicense w1] by (auto simp: GetUserLicenseByID_def)
  obtain w3 where w3: "GetProfileByName ?env ''Minimum Access'' (after demoSys demoTransport w2)
      = Some ((None, Inr (Some (rowProfile ?rec))), after demoSys demoTransport w3)"
    using look [OF demo_fields(3,2), of "''Minimum Access''" rowProfile w2] by (auto simp: GetProfileByName_def)
  obtain w4 where w4: "setValue ?env ''005x'' ''ProfileId'' ''00e1'' (after demoSys demoTransport w3)
      = Some ((None, Inr ()), after demoSys demoTransport w4)"
    using demo_set by blast
  have r: "profileRevoke ?env (newProfileBuilder [''Salesforce'' \<mapsto> ''Minimum Access'']) demoProfileGrant demoSys
      = Some ((WithRateLimitAnnotations [None], None), after demoSys demoTransport w4)"
    using w1 w2 w3 w4 rows
    by (simp add: profileRevoke_def SetNewUserProfile_def setOneValue_eq demoProfileGrant_def NewGrant_def Let_def bareResource_def
        userId_def newProfileBuilder_def)
  have uid: "ri_Resource (r_Id (gr_Principal demoProfileGrant)) = ''005x''" by (simp add: demoProfileGrant_def userId_def)
  from profile_revocation_moves_to_mapped [OF r, unfolded uid] obtain least :: SalesforceProfile and rl s3 where
    "setValue ?env ''005x'' ''ProfileId'' (pf_ID least) s3 = Some ((rl, Inr ()), after demoSys demoTransport w4)"
    by (elim exE conjE)
  with r show ?thesis by (intro exI conjI)
qed

theorem profile_revocation_panics_witness:
  "profileRevoke (demoProfileEnv []) (newProfileBuilder Map.empty) demoProfileGrant demoSys = None"
proof -
  obtain w1 where w1: "GetProfileById (demoProfileEnv []) ''00e1'' demoSys = Some ((None, Inr None), after demoSys demoTransport w1)"
    using demo_lookup [OF demo_fields(3,1), of "[]" "''00e1''" rowProfile "[]"] by (auto simp: GetProfileById_def demoSys_after)
  show ?thesis
    by (rule profile_revocation_panics [where found = None])
      (use w1 in \<open>auto simp: demoProfileGrant_def NewGrant_def Let_def bareResource_def\<close>)
qed

section \<open>Pages\<close>

definition profileYield :: "sobject \<Rightarrow> Resource list option" where
  "profileYield = yields (total rowProfile) (\<lambda>p. one (profileResource p))"

definition profileHolderYield :: "Resource \<Rightarrow> sobject \<Rightarrow> Grant list option" where
  "profileHolderYield res =
     yields (total rowAssignedUser) (\<lambda>u. one (NewGrant res profileAssignmentEntitlementName (userId (su_ID u)) []))"

interpretation profileList_pages:
  listing P env cl "getQueryString (NewQuery TableNameProfiles []) '''' n" profileYield "\<lambda>tok. profileList env tok n" for P env cl n
  unfolding profileYield_def by (rule syncPage_listing) (simp add: profileList_def GetProfiles_def listQuery_total)

interpretation profileGrants_pages:
  listing P env cl "getQueryString (assignedUsersQuery ''ProfileId'' (ri_Resource (r_Id res))) '''' n"
    "profileHolderYield res" "\<lambda>tok. profileGrants env res tok n" for P env cl res n
  unfolding profileHolderYield_def
  by (rule syncPage_listing)
    (simp add: profileGrants_def GetProfileAssignments_def getAssignments_def assignedUsersQuery_def listQuery_total)

end
