(* ===== verification/Conn_Refinement.thy ===== *)
theory Conn_Refinement
  imports Conn_Territories Conn_Profiles
begin

text \<open>
  What the SDK asks of the connector for one change of access to a territory, a group or a permission set group, the abstract
  memberships of a territory, and the texts and bodies of the requests that are made for it.
\<close>

section \<open>The abstract memberships\<close>

text \<open>Nobody, or a member with a role; the empty string is no role.\<close>

type_synonym membership = "string option"

datatype access = GrantMember | RevokeMember | GrantRole string | RevokeRole string

fun access_step :: "access \<Rightarrow> membership \<Rightarrow> membership" where
  "access_step GrantMember None = Some ''''"
| "access_step GrantMember (Some r) = Some r"
| "access_step RevokeMember m = None"
| "access_step (GrantRole r) m = Some r"
| "access_step (RevokeRole r) None = None"
| "access_step (RevokeRole r) (Some c) = Some (if c = r then '''' else c)"

text \<open>A role is held by members only, and only one at a time.\<close>

section \<open>Territory requests\<close>

fun slugOf :: "access \<Rightarrow> string" where
  "slugOf GrantMember = territoryMemberPermission"
| "slugOf RevokeMember = territoryMemberPermission"
| "slugOf (GrantRole r) = roleSlug r"
| "slugOf (RevokeRole r) = roleSlug r"

text \<open>
  The request the SDK makes of the connector for one access change of a user: the entitlement carries the
  identifier the SDK derives from the resource and the slug.
\<close>

definition accessGrant :: "string \<Rightarrow> Resource \<Rightarrow> access \<Rightarrow> Grant" where
  "accessGrant uid res a = NewGrant res (slugOf a) (userId uid) []"

definition territoryAccess :: "'w env \<Rightarrow> string \<Rightarrow> Resource \<Rightarrow> access \<Rightarrow> (changed, 'w) op" where
  "territoryAccess env uid res a s =
     (let g = accessGrant uid res a in
      if a = RevokeMember \<or> (\<exists>r. a = RevokeRole r) then territoryRevoke env g s
      else do {
        ((gs, annos, err), s) \<leftarrow> territoryGrant env (gr_Principal g) (gr_Entitlement g) s;
        Some ((annos, err), s)
      })"

section \<open>Identifiers\<close>

lemma splitN_parse:
  assumes "CHR '':'' \<notin> set a" and "CHR '':'' \<notin> set b"
  shows "splitN CHR '':'' 3 (a @ '':'' @ b @ '':'' @ c) = [a, b, c]"
  using splitN_found [OF assms(1), of 1 "b @ '':'' @ c"] splitN_found [OF assms(2), of 0 c]
  by (simp add: numeral_3_eq_3)

lemma parse_entitlement_id:
  assumes "CHR '':'' \<notin> set (ri_ResourceType (r_Id res))" and "CHR '':'' \<notin> set (ri_Resource (r_Id res))"
  shows "parseTerritoryEntitlementID (NewEntitlementID (Some res) p) = Inr p"
  using splitN_parse [OF assms, of p] by (simp add: parseTerritoryEntitlementID_def NewEntitlementID_def)

lemma slug_cases [simp]:
  "roleSlug r \<noteq> territoryMemberPermission" "trimPrefix (roleSlug r) territoryRolePermissionPrefix = r"
  by (simp_all add: roleSlug_def territoryMemberPermission_def territoryRolePermissionPrefix_def trimPrefix_def hasPrefix_def)

lemma StringField_client [simp]: "f \<noteq> ''__client__'' \<Longrightarrow> StringField (setClient m) f = StringField m f"
  by (simp add: StringField_def mapIndex_def setClient_def sobject_key_defs)

section \<open>Associations\<close>

definition assocKeys :: "string \<Rightarrow> string \<Rightarrow> gomap" where
  "assocKeys uid tid = [''UserId'' \<mapsto> VString uid, ''Territory2Id'' \<mapsto> VString tid]"

definition territoryRes :: "string \<Rightarrow> Resource \<Rightarrow> bool" where
  "territoryRes tid res \<longleftrightarrow>
     r_Id res = \<lparr>ri_ResourceType = rt_Id resourceTypeTerritory, ri_Resource = tid\<rparr> \<and> CHR '':'' \<notin> set tid"

lemma territoryRes_parse: "territoryRes tid res \<Longrightarrow> parseTerritoryEntitlementID (NewEntitlementID (Some res) p) = Inr p"
  by (rule parse_entitlement_id) (simp_all add: territoryRes_def resourceTypeTerritory_def)

lemma no_marker [simp]:
  "AnnGrantAlreadyExists \<notin> set (WithRateLimitAnnotations rls)" "AnnGrantAlreadyRevoked \<notin> set (WithRateLimitAnnotations rls)"
  by (auto simp: WithRateLimitAnnotations_def)

lemma createAssociation_created:
  "CreateObject env TableNameUserTerritory2Assoc vs s = Some ((rl, Inr ()), s') \<Longrightarrow>
     createdGrants gs (createAssociation env vs) s = Some ((gs, WithRateLimitAnnotations [rl], None), s')"
  by (simp add: createdGrants_def createAssociation_def)

lemma assoc_plain: "plainValues (assocKeys uid tid)" "plainValues ((assocKeys uid tid)(''RoleInTerritory2'' \<mapsto> VString r))"
  by (auto simp: assocKeys_def plainValues_def)

lemmas territory_request_defs = territoryAccess_def accessGrant_def GetUserTerritoryAssociation_def userId_def territoryRes_def Let_def

section \<open>Groups and permission set groups\<close>

definition groupAccess :: "'w env \<Rightarrow> string \<Rightarrow> Resource \<Rightarrow> access \<Rightarrow> (changed, 'w) op" where
  "groupAccess env uid res a s =
     (let g = NewGrant res groupMemberEntitlementName (userId uid) [] in
      if a = RevokeMember then groupRevoke env g s else groupGrant env (gr_Principal g) (gr_Entitlement g) s)"

definition psgAccess :: "'w env \<Rightarrow> string \<Rightarrow> Resource \<Rightarrow> access \<Rightarrow> (changed, 'w) op" where
  "psgAccess env uid res a s =
     (let g = NewGrant res permissionSetGroupMemberEntitlementName (userId uid) [] in
      if a = RevokeMember then psgRevoke env g s
      else do {
        ((gs, annos, err), s) \<leftarrow> psgGrant env (gr_Principal g) (gr_Entitlement g) s;
        Some ((annos, err), s)
      })"

text \<open>The texts of the queries that look for a membership.\<close>

definition associationText :: "string \<Rightarrow> string \<Rightarrow> string" where
  "associationText uid tid =
     renderQuery (querySelectors TableNameUserTerritory2Assoc []) TableNameUserTerritory2Assoc
       [CEq ''Territory2Id'' tid, CEq ''UserId'' uid] SalesforcePK"

definition groupMemberText :: "string \<Rightarrow> string \<Rightarrow> string" where
  "groupMemberText uid gid =
     renderQuery (querySelectors TableNameGroupMemberships []) TableNameGroupMemberships
       [CEq ''GroupId'' gid, CEq ''UserOrGroupId'' uid] SalesforcePK"

definition psgMemberText :: "string \<Rightarrow> string \<Rightarrow> string" where
  "psgMemberText uid gid =
     renderQuery (querySelectors TableNamePermissionAssignments groupAssignmentSelectors) TableNamePermissionAssignments
       [CEq ''AssigneeId'' uid, CEq ''PermissionSetGroupId'' gid] SalesforcePK"

lemma membership_texts:
  "getQueryString (territoryAssociationQuery uid tid) [] n = Some (associationText uid tid)"
  "getQueryString (WhereEq (WhereEq (NewQuery TableNameGroupMemberships []) ''GroupId'' gid) ''UserOrGroupId'' uid) [] n
     = Some (groupMemberText uid gid)"
  unfolding territoryAssociationQuery_def associationText_def groupMemberText_def
  by (rule two_conditions_text; simp add: knownTables_def plain_char_def)+

lemma psg_text:
  "getQueryString (WhereEq (WhereEq (NewQuery TableNamePermissionAssignments groupAssignmentSelectors) ''AssigneeId'' uid)
     ''PermissionSetGroupId'' gid) [] n = Some (psgMemberText uid gid)"
  using getQueryString_conds [of TableNamePermissionAssignments groupAssignmentSelectors
      "[CEq ''AssigneeId'' uid, CEq ''PermissionSetGroupId'' gid]" n]
  by (simp add: psgMemberText_def querySelectors_def groupAssignmentSelectors_def table_defs clean_def plain_char_def max_int64_def)

definition groupKeys :: "string \<Rightarrow> string \<Rightarrow> gomap" where
  "groupKeys uid gid = [''GroupId'' \<mapsto> VString gid, ''UserOrGroupId'' \<mapsto> VString uid]"

definition psgKeys :: "string \<Rightarrow> string \<Rightarrow> gomap" where
  "psgKeys uid gid = [''AssigneeId'' \<mapsto> VString uid, ''PermissionSetGroupId'' \<mapsto> VString gid]"

lemma key_plain: "plainValues (groupKeys uid gid)" "plainValues (psgKeys uid gid)"
  by (auto simp: groupKeys_def psgKeys_def plainValues_def)

section \<open>Runs\<close>

fun runAccess :: "('a \<Rightarrow> (changed, 'w) op) \<Rightarrow> 'a list \<Rightarrow> (changed list, 'w) op" where
  "runAccess oper [] s = Some ([], s)"
| "runAccess oper (a # as) s = do { (r, s) \<leftarrow> oper a s; (rs, s) \<leftarrow> runAccess oper as s; Some (r # rs, s) }"

text \<open>A request that is reported as having found nothing to change.\<close>

definition marked :: "changed \<Rightarrow> bool" where
  "marked r \<longleftrightarrow> AnnGrantAlreadyExists \<in> set (fst r) \<or> AnnGrantAlreadyRevoked \<in> set (fst r)"

lemma plain_tables [simp]:
  "isPlain TableNameGroupMemberships" "isPlain TableNamePermissionAssignments" "isPlain TableNameUserTerritory2Assoc"
  by (simp_all add: table_defs plain_simps)

lemma membership_no_path [simp]:
  "\<not> hasPrefix (associationText u t) ''/services/data''" "\<not> hasPrefix (groupMemberText u t) ''/services/data''"
  "\<not> hasPrefix (psgMemberText u t) ''/services/data''"
  by (simp_all add: associationText_def groupMemberText_def psgMemberText_def)

lemma demo_logged: "isLoggedIn demoClient"
  by (simp add: isLoggedIn_def demoClient_def)

definition demoTerritory :: Resource where
  "demoTerritory = bareResource \<lparr>ri_ResourceType = ''territory'', ri_Resource = ''0M1''\<rparr>"

section \<open>Properties\<close>

text \<open>
  C24. The grants a territory sync emits can be revoked again: for a territory whose identifier has no
  colon, the entitlement identifiers of the grants of a member parse back to the membership permission
  and, when the member has a role, to a permission from which the role is read back, whatever characters
  the role contains.
\<close>

theorem territory_grant_ids_roundtrip:
  assumes "territoryRes tid res"
  shows "map (\<lambda>g. parseTerritoryEntitlementID (en_Id (gr_Entitlement g))) (memberGrants res mb)
      = Inr territoryMemberPermission # (if ta_RoleInTerritory2 mb = '''' then [] else [Inr (roleSlug (ta_RoleInTerritory2 mb))])
    \<and> trimPrefix (roleSlug (ta_RoleInTerritory2 mb)) territoryRolePermissionPrefix = ta_RoleInTerritory2 mb
    \<and> roleSlug (ta_RoleInTerritory2 mb) \<noteq> territoryMemberPermission"
  using territoryRes_parse [OF assms] by (simp add: memberGrants_def)

theorem territory_grant_ids_roundtrip_witness:
  "map (\<lambda>g. parseTerritoryEntitlementID (en_Id (gr_Entitlement g)))
     (memberGrants demoTerritory \<lparr>ta_ID = ''a'', ta_UserId = ''005u'', ta_Territory2Id = ''0M1'', ta_RoleInTerritory2 = ''a:member''\<rparr>)
   = [Inr ''member'', Inr ''role:a:member'']"
proof -
  have "territoryRes ''0M1'' demoTerritory" by (simp add: territoryRes_def demoTerritory_def resourceTypeTerritory_def)
  from territory_grant_ids_roundtrip [OF this] show ?thesis
    by (simp add: territoryMemberPermission_def roleSlug_def territoryRolePermissionPrefix_def)
qed

end
