(* ===== verification/Conn_Outcomes.thy ===== *)
theory Conn_Outcomes
  imports Conn_Refinement
begin

text \<open>
  How provisioning is specified: a request ends in one of three ways, a machine says which and what it changes, and a sequence of
  requests performs the machine. Reads may come from the response cache, so what a request finds is current only when
  the cache is, as after \<^verbatim>\<open>ClearCaches\<close>. The role and the profile of a user, fields of the user, are the first case.
\<close>

section \<open>Outcomes\<close>

text \<open>What the caller is told: done, nothing to do (already granted or already revoked), or an error.\<close>

datatype outcome = Done | Already | Failed

definition outcomeOf :: "changed \<Rightarrow> outcome" where
  "outcomeOf r = (if snd r \<noteq> None then Failed else if marked r then Already else Done)"

lemma outcomeOf_simps [simp]:
  "outcomeOf (annos, Some e) = Failed" "outcomeOf (WithRateLimitAnnotations rls, None) = Done"
  "outcomeOf (WithRateLimitAnnotations rls @ [AnnGrantAlreadyRevoked], None) = Already"
  by (simp_all add: outcomeOf_def marked_def)

text \<open>A machine run over a sequence of requests.\<close>

fun runSpec :: "('a \<Rightarrow> 'm \<Rightarrow> outcome \<times> 'm) \<Rightarrow> 'a list \<Rightarrow> 'm \<Rightarrow> outcome list \<times> 'm" where
  "runSpec spec [] m = ([], m)"
| "runSpec spec (a # as) m = (case spec a m of (r, m1) \<Rightarrow> case runSpec spec as m1 of (rs, m2) \<Rightarrow> (r # rs, m2))"

text \<open>One request does what the machine does, and keeps the session.\<close>

definition performs ::
  "(changed, 'w) op \<Rightarrow> ('m \<Rightarrow> outcome \<times> 'm) \<Rightarrow> ('w \<Rightarrow> 'm) \<Rightarrow> sfclient \<Rightarrow> 'w sys \<Rightarrow> bool" where
  "performs oper spec ab cl s \<longleftrightarrow>
     (\<exists>r s' t'. oper s = Some (r, s') \<and> session s' cl t' \<and> spec (ab (sys_w s)) = (outcomeOf r, ab (sys_w s')))"

lemma performsI:
  assumes "oper s = Some (r, after s' t' w')" "session s' cl t" "spec (ab (sys_w s)) = (outcomeOf r, ab w')"
  shows "performs oper spec ab cl s"
  unfolding performs_def using assms session_after [OF assms(2), of t' w'] by fastforce

lemma run_performs:
  assumes step: "\<And>a s t. a \<in> A \<Longrightarrow> session s cl t \<Longrightarrow> performs (oper a) (spec a) ab cl s"
    and "set as \<subseteq> A" and "session s cl t"
  shows "\<exists>rs s' t'. runAccess oper as s = Some (rs, s') \<and> session s' cl t'
    \<and> (map outcomeOf rs, ab (sys_w s')) = runSpec spec as (ab (sys_w s))"
  using assms(2,3)
proof (induction as arbitrary: s t)
  case (Cons a as)
  then obtain r s1 t1 where s1: "oper a s = Some (r, s1)" "session s1 cl t1" "spec a (ab (sys_w s)) = (outcomeOf r, ab (sys_w s1))"
    using step [of a s t] by (auto simp: performs_def)
  from Cons.IH [OF _ s1(2)] Cons.prems(1) obtain rs s2 t2 where "runAccess oper as s1 = Some (rs, s2)" "session s2 cl t2"
    "(map outcomeOf rs, ab (sys_w s2)) = runSpec spec as (ab (sys_w s1))" by auto
  with s1 show ?case by (auto intro!: exI [of _ "r # rs"] split: prod.splits)
qed auto

section \<open>The response cache\<close>

text \<open>
  \<open>fresh\<close> says that the response cache is current. Clearing the caches makes it so and changes nothing else; \<open>cleared\<close> is an
  operation with the caches cleared before it.
\<close>

definition clears :: "'w env \<Rightarrow> ('w \<Rightarrow> bool) \<Rightarrow> ('w \<Rightarrow> 'm) \<Rightarrow> bool" where
  "clears env fresh st \<longleftrightarrow> (\<forall>w. fresh (snd (e_clearCaches env w)) \<and> st (snd (e_clearCaches env w)) = st w)"

definition afterClear :: "'w env \<Rightarrow> 'w sys \<Rightarrow> 'w sys" where
  "afterClear env s = s\<lparr>sys_w := snd (e_clearCaches env (sys_w s))\<rparr>"

definition cleared :: "'w env \<Rightarrow> ('a, 'w) op \<Rightarrow> ('a, 'w) op" where
  "cleared env oper s = oper (afterClear env s)"

lemma afterClear_session [simp]: "session (afterClear env s) cl t \<longleftrightarrow> session s cl t"
  by (simp add: session_def afterClear_def)

lemma afterClear_fresh:
  "clears env fresh st \<Longrightarrow> fresh (sys_w (afterClear env s)) \<and> st (sys_w (afterClear env s)) = st (sys_w s)"
  by (simp add: clears_def afterClear_def)

lemma performs_cleared:
  assumes "clears env fresh st" and "session s cl t"
    and "\<And>s. session s cl t \<Longrightarrow> fresh (sys_w s) \<Longrightarrow> performs oper spec (\<lambda>w. f (st w)) cl s"
  shows "performs (cleared env oper) spec (\<lambda>w. f (st w)) cl s"
  using assms(3) [of "afterClear env s"] assms(2) afterClear_fresh [OF assms(1), of s] by (simp add: performs_def cleared_def)

section \<open>Permission sets\<close>

definition permissionAccess :: "'w env \<Rightarrow> string \<Rightarrow> Resource \<Rightarrow> access \<Rightarrow> (changed, 'w) op" where
  "permissionAccess env uid res a s =
     (let g = NewGrant res permissionSetAssignmentEntitlementName (userId uid) [] in
      if a = RevokeMember then permissionRevoke env g s else permissionGrant env (gr_Principal g) (gr_Entitlement g) s)"

definition permissionText :: "string \<Rightarrow> string \<Rightarrow> string" where
  "permissionText uid pid =
     renderQuery (querySelectors TableNamePermissionAssignments []) TableNamePermissionAssignments
       [CEq ''AssigneeId'' uid, CEq ''PermissionSetId'' pid] SalesforcePK"

lemma permission_text:
  "getQueryString (WhereEq (WhereEq (NewQuery TableNamePermissionAssignments []) ''AssigneeId'' uid) ''PermissionSetId'' pid) [] n
     = Some (permissionText uid pid)"
  unfolding permissionText_def by (rule two_conditions_text) (simp_all add: knownTables_def plain_char_def)

definition permissionKeys :: "string \<Rightarrow> string \<Rightarrow> gomap" where
  "permissionKeys uid pid = [''AssigneeId'' \<mapsto> VString uid, ''PermissionSetId'' \<mapsto> VString pid]"

lemma permissionKeys_plain: "plainValues (permissionKeys uid pid)"
  by (auto simp: permissionKeys_def plainValues_def)

section \<open>The role and the profile of a user\<close>

text \<open>
  A user has one role, possibly none, and one profile; both are fields of the user, so a grant replaces
  what was there, and a role is revoked only from a user who has it.
\<close>

record userFields =
  uf_UserRoleId :: string
  uf_ProfileId :: string

datatype fieldChange = GrantUserRole string | RevokeUserRole string | GrantProfile string

fun fieldStep :: "fieldChange \<Rightarrow> userFields \<Rightarrow> outcome \<times> userFields" where
  "fieldStep (GrantUserRole r) u = (Done, u\<lparr>uf_UserRoleId := r\<rparr>)"
| "fieldStep (RevokeUserRole r) u = (if uf_UserRoleId u = r then (Done, u\<lparr>uf_UserRoleId := ''''\<rparr>) else (Failed, u))"
| "fieldStep (GrantProfile p) u = (Done, u\<lparr>uf_ProfileId := p\<rparr>)"

definition roleRes :: "string \<Rightarrow> Resource" where
  "roleRes r = bareResource \<lparr>ri_ResourceType = rt_Id resourceTypeRole, ri_Resource = r\<rparr>"

definition profileRes :: "string \<Rightarrow> Resource" where
  "profileRes p = bareResource \<lparr>ri_ResourceType = rt_Id resourceTypeProfile, ri_Resource = p\<rparr>"

fun fieldAccess :: "'w env \<Rightarrow> string \<Rightarrow> fieldChange \<Rightarrow> (changed, 'w) op" where
  "fieldAccess env uid (GrantUserRole r) =
     (let g = NewGrant (roleRes r) roleAssignmentEntitlementName (userId uid) [] in roleGrant env (gr_Principal g) (gr_Entitlement g))"
| "fieldAccess env uid (RevokeUserRole r) = roleRevoke env (NewGrant (roleRes r) roleAssignmentEntitlementName (userId uid) [])"
| "fieldAccess env uid (GrantProfile p) =
     (let g = NewGrant (profileRes p) profileAssignmentEntitlementName (userId uid) []
      in profileGrant env (gr_Principal g) (gr_Entitlement g))"

text \<open>
  Salesforce as the store of the user: reading it, with a current cache, returns a record with the stored fields, patching one of
  the two fields changes that one.
\<close>

definition fieldsOf :: "gomap \<Rightarrow> userFields" where
  "fieldsOf m = \<lparr>uf_UserRoleId = StringField m ''UserRoleId'', uf_ProfileId = StringField m ''ProfileId''\<rparr>"

definition patched :: "string \<Rightarrow> string \<Rightarrow> userFields \<Rightarrow> userFields" where
  "patched f v u = (if f = ''UserRoleId'' then u\<lparr>uf_UserRoleId := v\<rparr> else u\<lparr>uf_ProfileId := v\<rparr>)"

text \<open>
  The user may be one of many in what is stored: \<open>rd\<close> reads its fields there and \<open>wr\<close> replaces them.
\<close>

definition user_cell ::
  "'w env \<Rightarrow> sfclient \<Rightarrow> string \<Rightarrow> ('w \<Rightarrow> bool) \<Rightarrow> ('w \<Rightarrow> 'm) \<Rightarrow> ('m \<Rightarrow> userFields) \<Rightarrow> (userFields \<Rightarrow> 'm \<Rightarrow> 'm) \<Rightarrow> bool" where
  "user_cell env cl uid fresh st rd wr \<longleftrightarrow>
     (\<forall>m. wr (rd m) m = m)
     \<and> (\<forall>t w. fresh w \<longrightarrow>
         (\<exists>x m t' w'. httpRequest env cl t ''GET'' (makeURL cl (sobjectPath ''User'' uid)) NoBody w = Some (Inr (JsonDoc x (VMap m)), t', w')
           \<and> userRecord uid m \<and> fieldsOf m = rd (st w) \<and> st w' = st w))
     \<and> (\<forall>t w f v. f \<in> {''UserRoleId'', ''ProfileId''} \<longrightarrow>
         (\<exists>doc t' w'. httpRequest env cl t ''PATCH'' (makeURL cl (sobjectPath ''User'' uid)) (JsonBody [f \<mapsto> VString v]) w
             = Some (Inr doc, t', w') \<and> st w' = wr (patched f v (rd (st w))) (st w)))"

text \<open>A step of the machine on the fields of that user.\<close>

definition onFields :: "('m \<Rightarrow> 'x) \<Rightarrow> ('x \<Rightarrow> 'm \<Rightarrow> 'm) \<Rightarrow> ('x \<Rightarrow> outcome \<times> 'x) \<Rightarrow> 'm \<Rightarrow> outcome \<times> 'm" where
  "onFields rd wr step m = (case step (rd m) of (out, x) \<Rightarrow> (out, wr x m))"

lemma user_get:
  assumes "user_cell env cl uid fresh st rd wr" and "fresh w"
  shows "\<exists>x m t' w'. httpRequest env cl t ''GET'' (makeURL cl (sobjectPath ''User'' uid)) NoBody w = Some (Inr (JsonDoc x (VMap m)), t', w')
    \<and> userRecord uid m \<and> fieldsOf m = rd (st w) \<and> st w' = st w"
  using assms(1) [unfolded user_cell_def, THEN conjunct2, THEN conjunct1] assms(2) by blast

lemma user_patch:
  assumes "user_cell env cl uid fresh st rd wr" and "f \<in> {''UserRoleId'', ''ProfileId''}"
  shows "\<exists>doc t' w'. httpRequest env cl t ''PATCH'' (makeURL cl (sobjectPath ''User'' uid)) (JsonBody [f \<mapsto> VString v]) w = Some (Inr doc, t', w')
    \<and> st w' = wr (patched f v (rd (st w))) (st w)"
  using assms(1) [unfolded user_cell_def, THEN conjunct2, THEN conjunct2] assms(2) by blast

lemma user_set:
  assumes "user_cell env cl uid fresh st rd wr" and "session s cl t" and "f \<in> {''UserRoleId'', ''ProfileId''}" and "fresh (sys_w s)"
  shows "\<exists>rl t' w'. setValue env uid f v s = Some ((rl, Inr ()), after s t' w')
    \<and> st w' = wr (patched f v (rd (st (sys_w s)))) (st (sys_w s))"
proof -
  obtain x m t1 w1 where get: "httpRequest env cl t ''GET'' (makeURL cl (sobjectPath ''User'' uid)) NoBody (sys_w s)
      = Some (Inr (JsonDoc x (VMap m)), t1, w1)" "userRecord uid m" "st w1 = st (sys_w s)"
    using user_get [OF assms(1,4)] by blast
  obtain doc t2 w2 where patch: "httpRequest env cl t1 ''PATCH'' (makeURL cl (sobjectPath ''User'' uid))
      (JsonBody [f \<mapsto> VString v]) w1 = Some (Inr doc, t2, w2)" "st w2 = wr (patched f v (rd (st w1))) (st w1)"
    using user_patch [OF assms(1,3)] by blast
  have "sendable f" using assms(3) sendable_fields by auto
  from setValue_session [OF assms(2) get(2) this get(1) patch(1)] get(3) patch(2) show ?thesis by auto
qed

lemma user_clear:
  assumes "user_cell env cl uid fresh st rd wr" and "session s cl t" and "fresh (sys_w s)"
  shows "\<exists>rl r t' w'. clearValue env uid ''UserRoleId'' v s = Some ((rl, r), after s t' w')
    \<and> onFields rd wr (fieldStep (RevokeUserRole v)) (st (sys_w s)) = (case r of Inl e \<Rightarrow> Failed | Inr _ \<Rightarrow> Done, st w')"
proof -
  obtain x m t1 w1 where get: "httpRequest env cl t ''GET'' (makeURL cl (sobjectPath ''User'' uid)) NoBody (sys_w s)
      = Some (Inr (JsonDoc x (VMap m)), t1, w1)" "userRecord uid m" "fieldsOf m = rd (st (sys_w s))" "st w1 = st (sys_w s)"
    using user_get [OF assms(1,3)] by blast
  obtain doc t2 w2 where patch: "httpRequest env cl t1 ''PATCH'' (makeURL cl (sobjectPath ''User'' uid))
      (JsonBody [''UserRoleId'' \<mapsto> VString '''']) w1 = Some (Inr doc, t2, w2)" "st w2 = wr (patched ''UserRoleId'' '''' (rd (st w1))) (st w1)"
    using user_patch [OF assms(1), of "''UserRoleId''"] by blast
  have same: "wr (rd (st (sys_w s))) (st (sys_w s)) = st (sys_w s)" using assms(1) by (simp add: user_cell_def)
  have "uf_UserRoleId (rd (st (sys_w s))) = StringField m ''UserRoleId''" using get(3) [symmetric] by (simp add: fieldsOf_def)
  with clearValue_session [OF assms(2) get(2) sendable_fields(1) get(1) patch(1), of v] get(4) patch(2) same
  show ?thesis by (cases "StringField m ''UserRoleId'' = v") (auto simp: patched_def onFields_def)
qed

lemma field_performs:
  assumes "user_cell env cl uid fresh st rd wr" and "session s cl t" and "fresh (sys_w s)"
  shows "performs (fieldAccess env uid c) (onFields rd wr (fieldStep c)) st cl s"
proof (cases c)
  case (GrantUserRole r)
  from user_set [OF assms(1,2) _ assms(3), of "''UserRoleId''" r] obtain rl t' w' where
    set: "setValue env uid ''UserRoleId'' r s = Some ((rl, Inr ()), after s t' w')"
      "st w' = wr ((rd (st (sys_w s)))\<lparr>uf_UserRoleId := r\<rparr>) (st (sys_w s))"
    by (auto simp: patched_def)
  then have "fieldAccess env uid c s = Some ((WithRateLimitAnnotations [rl], None), after s t' w')"
    by (simp add: GrantUserRole roleGrant_def AddUserToRole_def reportChange_def roleRes_def bareResource_def userId_def Let_def)
  note performsI [where oper = "fieldAccess env uid c" and spec = "onFields rd wr (fieldStep c)" and ab = st, OF this assms(2)]
  with set show ?thesis by (simp add: GrantUserRole onFields_def)
next
  case (RevokeUserRole r)
  from user_clear [OF assms, of r] obtain rl x t' w' where
    clear: "clearValue env uid ''UserRoleId'' r s = Some ((rl, x), after s t' w')"
      "onFields rd wr (fieldStep (RevokeUserRole r)) (st (sys_w s)) = (case x of Inl e \<Rightarrow> Failed | Inr _ \<Rightarrow> Done, st w')" by blast
  then have "fieldAccess env uid c s = Some ((WithRateLimitAnnotations [rl], errorOf x), after s t' w')"
    by (simp add: RevokeUserRole roleRevoke_def RemoveUserFromRole_def reportChange_def roleRes_def bareResource_def userId_def)
  note performsI [where oper = "fieldAccess env uid c" and spec = "onFields rd wr (fieldStep c)" and ab = st, OF this assms(2)]
  with clear show ?thesis by (cases x) (simp_all add: RevokeUserRole)
next
  case (GrantProfile p)
  from user_set [OF assms(1,2) _ assms(3), of "''ProfileId''" p] obtain rl t' w' where
    set: "setValue env uid ''ProfileId'' p s = Some ((rl, Inr ()), after s t' w')"
      "st w' = wr ((rd (st (sys_w s)))\<lparr>uf_ProfileId := p\<rparr>) (st (sys_w s))"
    by (auto simp: patched_def)
  then have "fieldAccess env uid c s = Some ((WithRateLimitAnnotations [rl], None), after s t' w')"
    by (simp add: GrantProfile profileGrant_def AddUserToProfile_def setOneValue_eq reportChange_def profileRes_def bareResource_def userId_def Let_def)
  note performsI [where oper = "fieldAccess env uid c" and spec = "onFields rd wr (fieldStep c)" and ab = st, OF this assms(2)]
  with set show ?thesis by (simp add: GrantProfile onFields_def)
qed

end
