(* ===== verification/Conn_Users.thy ===== *)
theory Conn_Users
  imports Page_Server
begin

text \<open>
  The user syncer and account manager of \<^verbatim>\<open>connector/users.go\<close>: the classification of accounts, the
  resource of a user, the listing with its login records, the parameters of a new account, account
  creation and deactivation, and the action of \<^verbatim>\<open>connector/actions.go\<close>.
\<close>

section \<open>Resources\<close>

record userBuilder =
  ub_shouldUseUsernameForEmail :: bool
  ub_syncDeactivatedUsers :: bool
  ub_syncNonStandardUsers :: bool

definition newUserBuilder :: "bool \<Rightarrow> bool \<Rightarrow> bool \<Rightarrow> userBuilder" where
  "newUserBuilder useUsername deactivated nonStandard =
     \<lparr>ub_shouldUseUsernameForEmail = useUsername, ub_syncDeactivatedUsers = deactivated,
      ub_syncNonStandardUsers = nonStandard\<rparr>"

definition userTypeAutomatedProcess :: string where "userTypeAutomatedProcess = ''AutomatedProcess''"
definition userTypeCloudIntegration :: string where "userTypeCloudIntegration = ''CloudIntegrationUser''"
definition agentLicenseKeyPrefix :: string where "agentLicenseKeyPrefix = ''PID_DigitalAgent''"
definition integrationLicenseKeySuffix :: string where "integrationLicenseKeySuffix = ''_INTEGRATION_USER''"
definition xOrgProxyLicenseKey :: string where "xOrgProxyLicenseKey = ''PID_XOrg_Proxy_User''"

lemmas license_defs = userTypeAutomatedProcess_def userTypeCloudIntegration_def agentLicenseKeyPrefix_def
  integrationLicenseKeySuffix_def xOrgProxyLicenseKey_def

definition accountTypeForUser :: "string \<Rightarrow> string \<Rightarrow> account_type" where
  "accountTypeForUser userType licenseKey =
     (if userType = userTypeAutomatedProcess \<or> userType = userTypeCloudIntegration then ACCOUNT_TYPE_SERVICE
      else if hasPrefix licenseKey agentLicenseKeyPrefix \<or> hasSuffix licenseKey integrationLicenseKeySuffix
        \<or> licenseKey = xOrgProxyLicenseKey then ACCOUNT_TYPE_SERVICE
      else ACCOUNT_TYPE_HUMAN)"

definition userResource :: "SalesforceUser \<Rightarrow> UserLogin option \<Rightarrow> bool \<Rightarrow> goerror + Resource" where
  "userResource user userLogin shouldUseUsernameForEmail =
     (let displayName = su_FirstName user @ '' '' @ su_LastName user;
          status = (if su_IsActive user
                    then (case userLogin of
                            Some lg \<Rightarrow> if lg_IsFrozen lg then STATUS_DISABLED else STATUS_ENABLED
                          | None \<Rightarrow> STATUS_ENABLED)
                    else STATUS_DISABLED);
          email = (if shouldUseUsernameForEmail then su_Username user else su_Email user)
      in bindSum (newStruct [(''full_name'', displayName), (''username'', su_Username user),
             (''account_type'', su_UserType user), (''email'', email), (''id'', su_ID user)])
           (\<lambda>profile. Inr (NewResource displayName resourceTypeUser (su_ID user) None
             [AnnUserTrait \<lparr>ut_Profile = profile, ut_Emails = (if email = '''' then [] else [(email, True)]),
                ut_Status = status, ut_Login = su_Username user,
                ut_AccountType = accountTypeForUser (su_UserType user) (su_LicenseDefinitionKey user),
                ut_LastLogin = su_LastLoginDate user\<rparr>])))"

section \<open>Syncing\<close>

definition userList :: "'w env \<Rightarrow> userBuilder \<Rightarrow> string \<Rightarrow> int \<Rightarrow> (Resource listed, 'w) op" where
  "userList env b tok sz s =
     do {
       ((usersRL, r), s) \<leftarrow> GetUsers env tok sz (ub_syncDeactivatedUsers b) (ub_syncNonStandardUsers b) s;
       case r of
         Inl e \<Rightarrow> Some (failedList (WithRateLimitAnnotations [usersRL])
                     (ErrWrap ''baton-salesforce: failed to list users'' e), s)
       | Inr (users, nextToken) \<Rightarrow>
           do {
             ((loginsRL, r), s) \<leftarrow> GetUserLoginsByUserIDs env (map su_ID users) s;
             let annos = WithRateLimitAnnotations [usersRL, loginsRL];
             Some (case r of
                     Inl e \<Rightarrow> failedList annos (ErrWrap ''baton-salesforce: failed to list user logins'' e)
                   | Inr userLogins \<Rightarrow>
                       (case mapE (\<lambda>u. case userResource u (userLogins (su_ID u)) (ub_shouldUseUsernameForEmail b) of
                                         Inl e \<Rightarrow> Inl e | Inr res \<Rightarrow> Inr (Some res)) users of
                          Inl e \<Rightarrow> failedList annos (ErrWrap ''baton-salesforce: failed to build user resource'' e)
                        | Inr rv \<Rightarrow> (rv, \<lparr>sy_NextPageToken = nextToken, sy_Annotations = annos\<rparr>, None)), s)
           }
     }"

definition userEntitlements :: "Resource \<Rightarrow> Entitlement listed" where
  "userEntitlements res = ([], noResults, None)"

definition userGrants :: "Resource \<Rightarrow> Grant listed" where
  "userGrants res = ([], noResults, None)"

section \<open>Accounts\<close>

text \<open>
  The kinds of a protobuf value, and a struct: its entries with unique keys, in the order in which
  Go happens to iterate over the map.
\<close>

datatype pbvalue =
    PbNull
  | PbNumber rat
  | PbString string
  | PbBool bool
  | PbStruct "(string \<times> pbvalue) list"
  | PbList "pbvalue list"
  | PbUnset

type_synonym pbstruct = "(string \<times> pbvalue) list"

definition GetProfileStringValue :: "pbstruct option \<Rightarrow> string \<Rightarrow> string option" where
  "GetProfileStringValue profile k =
     (case profile of
        None \<Rightarrow> None
      | Some fs \<Rightarrow> (case map_of fs k of Some (PbString s) \<Rightarrow> Some s | _ \<Rightarrow> None))"

text \<open>The fields of \<open>accountCreationSchema\<close>, all of them string fields, with the default value of the field.\<close>

record SchemaStringField =
  asf_DisplayName :: string
  asf_Required :: bool
  asf_Description :: string
  asf_DefaultValue :: "string option"
  asf_Placeholder :: string
  asf_Order :: nat

definition defaultAccountCreationTimezone :: string where
  "defaultAccountCreationTimezone = ''America/New_York''"

definition accountCreationSchema :: "(string \<times> SchemaStringField) list" where
  "accountCreationSchema =
     [(''email'', \<lparr>asf_DisplayName = ''Email'', asf_Required = True,
        asf_Description = ''This email will be used as the login for the user.'',
        asf_DefaultValue = None, asf_Placeholder = ''Email'', asf_Order = 1\<rparr>),
      (''profileId'', \<lparr>asf_DisplayName = ''Profile ID'', asf_Required = True, asf_Description = ''Salesforce Profile ID'',
        asf_DefaultValue = None, asf_Placeholder = ''ProfileId'', asf_Order = 2\<rparr>),
      (''alias'', \<lparr>asf_DisplayName = ''Alias'', asf_Required = True, asf_Description = ''User Alias'',
        asf_DefaultValue = None, asf_Placeholder = ''Alias'', asf_Order = 3\<rparr>),
      (''first_name'', \<lparr>asf_DisplayName = ''First Name'', asf_Required = True, asf_Description = ''User first name'',
        asf_DefaultValue = None, asf_Placeholder = ''FirstName'', asf_Order = 5\<rparr>),
      (''last_name'', \<lparr>asf_DisplayName = ''Last Name'', asf_Required = True, asf_Description = ''User last name'',
        asf_DefaultValue = None, asf_Placeholder = ''LastName'', asf_Order = 4\<rparr>),
      (''timezone'', \<lparr>asf_DisplayName = ''Time Zone'', asf_Required = True, asf_Description = ''User time zone'',
        asf_DefaultValue = Some defaultAccountCreationTimezone, asf_Placeholder = ''TimeZone'', asf_Order = 6\<rparr>),
      (''contactID'', \<lparr>asf_DisplayName = ''Contact ID'', asf_Required = False,
        asf_Description = ''Salesforce Contact ID. Required for Community/Experience Cloud users.'',
        asf_DefaultValue = None, asf_Placeholder = ''ContactID'', asf_Order = 7\<rparr>)]"

definition isSchemaField :: "string \<Rightarrow> bool" where
  "isSchemaField k \<longleftrightarrow> k \<in> fst ` set accountCreationSchema"

text \<open>The loop over the profile: scalars are passed on, nulls skipped, anything else is an error.\<close>

fun extraFields :: "pbstruct \<Rightarrow> gomap \<Rightarrow> goerror + gomap" where
  "extraFields [] acc = Inr acc"
| "extraFields ((key, val) # rest) acc =
     (if isSchemaField key then extraFields rest acc
      else (case val of
              PbString v \<Rightarrow> extraFields rest (acc(key \<mapsto> VString v))
            | PbNumber v \<Rightarrow> extraFields rest (acc(key \<mapsto> VFloat64 v))
            | PbBool v \<Rightarrow> extraFields rest (acc(key \<mapsto> VBool v))
            | PbNull \<Rightarrow> extraFields rest acc
            | _ \<Rightarrow> Inl (ErrNew (''baton-salesforce: extra field '' @ key @ '' has unsupported value type''))))"

definition required :: "pbstruct option \<Rightarrow> string \<Rightarrow> goerror + string" where
  "required profile k =
     (case GetProfileStringValue profile k of
        Some v \<Rightarrow> Inr v
      | None \<Rightarrow> Inl (ErrNew (''baton-salesforce: missing '' @ k @ '' in account info'')))"

definition getUserCreateRequestParams :: "pbstruct option \<Rightarrow> goerror + UserCreateRequest" where
  "getUserCreateRequestParams profile =
     bindSum (required profile ''email'') (\<lambda>email.
     bindSum (required profile ''alias'') (\<lambda>alias.
     bindSum (required profile ''first_name'') (\<lambda>firstName.
     bindSum (required profile ''last_name'') (\<lambda>lastName.
     bindSum (required profile ''profileId'') (\<lambda>profileId.
     bindSum (required profile ''timezone'') (\<lambda>timezone.
     bindSum (extraFields (case profile of None \<Rightarrow> [] | Some fs \<Rightarrow> fs) Map.empty) (\<lambda>extra.
       Inr \<lparr>ucr_Email = email, ucr_Alias = alias, ucr_LastName = lastName, ucr_FirstName = firstName,
            ucr_ProfileId = profileId, ucr_TimeZoneSid = timezone,
            ucr_ContactID = (case GetProfileStringValue profile ''contactID'' of Some c \<Rightarrow> c | None \<Rightarrow> ''''),
            ucr_ExtraFields = extra\<rparr>)))))))"

definition userDelete :: "'w env \<Rightarrow> ResourceId \<Rightarrow> (changed, 'w) op" where
  "userDelete env i s =
     do {
       ((rl, r), s) \<leftarrow> SetUserActiveState env (ri_Resource i) False s;
       Some (case r of Inl e \<Rightarrow> ([], Some e) | Inr _ \<Rightarrow> (WithRateLimitAnnotations [rl], None), s)
     }"

text \<open>
  The three parts of \<open>CreateAccount\<close>: make sure there is an active user with the e-mail, find it,
  send the e-mail that resets its password and describe it.
\<close>

definition ensureUser :: "'w env \<Rightarrow> UserCreateRequest \<Rightarrow> (changed, 'w) op" where
  "ensureUser env rq s =
     do {
       (r, s) \<leftarrow> UserExist env (ucr_Email rq) s;
       case r of
         Inl e \<Rightarrow> Some (([], Some (ErrWrap ''baton-salesforce: check if user exists failed'' e)), s)
       | Inr True \<Rightarrow>
           do {
             (r, s) \<leftarrow> GetUserByEmail env (ucr_Email rq) s;
             case r of
               Inl e \<Rightarrow> Some (([], Some e), s)
             | Inr user \<Rightarrow>
                 if \<not> su_IsActive user
                 then do {
                   ((rl, r), s) \<leftarrow> SetUserActiveState env (su_ID user) True s;
                   Some (case r of Inl e \<Rightarrow> (WithRateLimitAnnotations [rl], Some e) | Inr _ \<Rightarrow> ([], None), s)
                 }
                 else Some (([], None), s)
           }
       | Inr False \<Rightarrow>
           do { (err, s) \<leftarrow> CreateUser env rq s; Some (([], err), s) }
     }"

definition welcomeUser :: "'w env \<Rightarrow> bool \<Rightarrow> string \<Rightarrow> (goerror + Resource, 'w) op" where
  "welcomeUser env useUsername email s =
     do {
       (r, s) \<leftarrow> GetUserByEmailWithRetry env email s;
       case r of
         Inl e \<Rightarrow> Some (Inl e, s)
       | Inr user \<Rightarrow>
           do {
             (err, s) \<leftarrow> SendResetPasswordEmail env (su_ID user) s;
             case err of
               Some e \<Rightarrow> Some (Inl e, s)
             | None \<Rightarrow>
                 do {
                   ((rl, r), s) \<leftarrow> GetUserLogin env (su_ID user) s;
                   Some (case r of
                           Inl e \<Rightarrow> Inl e
                         | Inr login \<Rightarrow>
                             (case userResource user login useUsername of
                                Inl e \<Rightarrow> Inl (ErrWrap ''baton-salesforce: cannot create user resource'' e)
                              | Inr res \<Rightarrow> Inr res), s)
                 }
           }
     }"

definition CreateAccount :: "'w env \<Rightarrow> userBuilder \<Rightarrow> pbstruct option \<Rightarrow> ((goerror + Resource) \<times> annotation list, 'w) op" where
  "CreateAccount env b profile s =
     (case getUserCreateRequestParams profile of
        Inl e \<Rightarrow> Some ((Inl (ErrWrap ''baton-salesforce: create account get InviteUserParams failed'' e), []), s)
      | Inr rq \<Rightarrow>
          do {
            ((annos, err), s) \<leftarrow> ensureUser env rq s;
            case err of
              Some e \<Rightarrow> Some ((Inl e, annos), s)
            | None \<Rightarrow>
                do {
                  (r, s) \<leftarrow> welcomeUser env (ub_shouldUseUsernameForEmail b) (ucr_Email rq) s;
                  Some ((r, []), s)
                }
          })"

section \<open>The action on the status of a user\<close>

definition updateUserStatus :: "'w env \<Rightarrow> pbstruct \<Rightarrow> ((goerror + pbstruct) \<times> annotation list, 'w) op" where
  "updateUserStatus env args s =
     (case map_of args ''resource_id'' of
        Some (PbString uid) \<Rightarrow>
          (case map_of args ''is_active'' of
             Some (PbBool isActive) \<Rightarrow>
               do {
                 ((rl, r), s) \<leftarrow> SetUserActiveState env uid isActive s;
                 Some (case r of
                         Inl e \<Rightarrow> (Inl e, [])
                       | Inr _ \<Rightarrow> (Inr [(''success'', PbBool True)], WithRateLimitAnnotations [rl]), s)
               }
           | _ \<Rightarrow> Some ((Inl (ErrNew ''missing is_active''), []), s))
      | _ \<Rightarrow> Some ((Inl (ErrNew ''missing resource ID''), []), s))"

section \<open>Contracts\<close>

interpretation m_active: metered "SetUserActiveState (tracedEnv env) u b" 1 for env u b
  by unfold_locales (auto simp: SetUserActiveState_def setOneValue_eq dest: m_set.op_grew)

interpretation m_userList: metered "userList (tracedEnv env) b tok n" 0 for env b tok n
  by unfold_locales
    (auto simp: userList_def GetUsers_def Let_def dest!: m_listE.op_grew intro: m_logins.after_reads
      split: sum.split_asm prod.split_asm Option.bind_split_asm)

interpretation m_userDelete: metered "userDelete (tracedEnv env) i" 1 for env i
  by unfold_locales (auto simp: userDelete_def dest: m_active.op_grew split: prod.split_asm Option.bind_split_asm)

interpretation m_updateUserStatus: metered "updateUserStatus (tracedEnv env) args" 1 for env args
  by unfold_locales
    (auto simp: updateUserStatus_def dest: m_active.op_grew
      split: option.split_asm pbvalue.split_asm prod.split_asm Option.bind_split_asm)

interpretation m_ensure: metered "ensureUser (tracedEnv env) rq" 1 for env rq
  by unfold_locales
    (auto simp: ensureUser_def dest!: m_exist.op_grew m_email.op_grew m_active.op_grew m_create_user.op_grew
      intro: grew_mono elim!: grew_after0
      split: sum.split_asm bool.split_asm if_split_asm prod.split_asm Option.bind_split_asm)

interpretation m_welcome: metered "welcomeUser (tracedEnv env) b email" 1 for env b email
  by unfold_locales
    (auto simp: welcomeUser_def dest!: m_retry.op_grew m_reset.op_grew m_login.op_grew
      intro: grew_mono grew_then0 elim!: grew_after0
      split: sum.split_asm option.split_asm prod.split_asm Option.bind_split_asm)

section \<open>The parameters of a new account\<close>

fun scalarOf :: "pbvalue \<Rightarrow> govalue option" where
  "scalarOf (PbString v) = Some (VString v)"
| "scalarOf (PbNumber v) = Some (VFloat64 v)"
| "scalarOf (PbBool v) = Some (VBool v)"
| "scalarOf _ = None"

definition acceptable :: "pbvalue \<Rightarrow> bool" where
  "acceptable v \<longleftrightarrow> v = PbNull \<or> scalarOf v \<noteq> None"

text \<open>The reference: what the extra fields of a profile are, independent of the order of its entries.\<close>

definition extraOf :: "pbstruct \<Rightarrow> gomap" where
  "extraOf fs k = (if isSchemaField k then None else Option.bind (map_of fs k) scalarOf)"

lemma extraFields_ok:
  assumes "distinct (map fst fs)"
  shows "(\<exists>m. extraFields fs acc = Inr m) \<longleftrightarrow> (\<forall>(k, v) \<in> set fs. isSchemaField k \<or> acceptable v)"
  using assms by (induction fs acc rule: extraFields.induct) (auto simp: acceptable_def split: pbvalue.splits)

lemma extraFields_step:
  assumes "\<not> isSchemaField key" and "acc key = None" and "extraFields ((key, val) # rest) acc = Inr m"
  shows "extraFields rest (acc(key := scalarOf val)) = Inr m"
proof -
  have "acc(key := None) = acc" using assms(2) by auto
  with assms show ?thesis by (cases val) simp_all
qed

lemma extraFields_value:
  assumes "extraFields fs acc = Inr m" and "distinct (map fst fs)" and "\<forall>k \<in> fst ` set fs. acc k = None"
  shows "m k = (if extraOf fs k = None then acc k else extraOf fs k)"
  using assms
proof (induction fs arbitrary: acc)
  case (Cons f rest)
  obtain key val where f: "f = (key, val)" by (rule prod.exhaust)
  have fresh: "map_of rest key = None" using Cons.prems(2) f by (auto simp: map_of_eq_None_iff)
  show ?case
  proof (cases "isSchemaField key")
    case True
    with Cons show ?thesis by (auto simp: extraOf_def f)
  next
    case False
    let ?acc = "acc(key := scalarOf val)"
    have none: "acc key = None" using Cons.prems(3) f by auto
    have "extraFields rest ?acc = Inr m" using extraFields_step [of key acc val rest m] False Cons.prems f by auto
    moreover have "\<forall>k \<in> fst ` set rest. ?acc k = None" using Cons.prems(2,3) f by auto
    ultimately have "m k = (if extraOf rest k = None then ?acc k else extraOf rest k)"
      using Cons.IH Cons.prems(2) f by auto
    with False fresh none show ?thesis by (auto simp: extraOf_def f)
  qed
qed (simp add: extraOf_def)

definition requiredFields :: "string list" where
  "requiredFields = [''email'', ''alias'', ''first_name'', ''last_name'', ''profileId'', ''timezone'']"

lemma required_ok: "required (Some fs) k = Inr v \<longleftrightarrow> map_of fs k = Some (PbString v)"
  by (auto simp: required_def GetProfileStringValue_def split: option.splits pbvalue.splits)

lemma bindSum_Inr: "bindSum x f = Inr y \<longleftrightarrow> (\<exists>v. x = Inr v \<and> f v = Inr y)"
  by (cases x) (auto simp: bindSum_def)

section \<open>Properties\<close>

text \<open>
  C15. The parameters of a new account are read exactly: a profile is accepted if and only if the six
  required fields are strings and every field outside the account schema is a scalar or null; the request
  then carries the six strings, the contact if it is a string, and as extra fields precisely the scalar
  fields outside the schema, so no schema field is ever passed on as an extra field.
\<close>

theorem create_request_params:
  assumes "distinct (map fst fs)"
  shows "((\<exists>rq. getUserCreateRequestParams (Some fs) = Inr rq) \<longleftrightarrow>
      (\<forall>k \<in> set requiredFields. \<exists>v. map_of fs k = Some (PbString v)) \<and> (\<forall>(k, v) \<in> set fs. isSchemaField k \<or> acceptable v))
    \<and> (getUserCreateRequestParams (Some fs) = Inr rq \<longrightarrow>
      map_of fs ''email'' = Some (PbString (ucr_Email rq)) \<and> map_of fs ''alias'' = Some (PbString (ucr_Alias rq))
      \<and> map_of fs ''first_name'' = Some (PbString (ucr_FirstName rq)) \<and> map_of fs ''last_name'' = Some (PbString (ucr_LastName rq))
      \<and> map_of fs ''profileId'' = Some (PbString (ucr_ProfileId rq)) \<and> map_of fs ''timezone'' = Some (PbString (ucr_TimeZoneSid rq))
      \<and> ucr_ContactID rq = (case map_of fs ''contactID'' of Some (PbString c) \<Rightarrow> c | _ \<Rightarrow> '''')
      \<and> ucr_ExtraFields rq = extraOf fs)"
proof -
  have extra: "m = extraOf fs" if "extraFields fs Map.empty = Inr m" for m
    using extraFields_value [OF that assms] by (auto simp: fun_eq_iff)
  note unfold = getUserCreateRequestParams_def bindSum_Inr required_ok option.case
  have "(\<exists>rq. getUserCreateRequestParams (Some fs) = Inr rq) \<longleftrightarrow>
      (\<forall>k \<in> set requiredFields. \<exists>v. map_of fs k = Some (PbString v)) \<and> (\<forall>(k, v) \<in> set fs. isSchemaField k \<or> acceptable v)"
    unfolding extraFields_ok [OF assms, of Map.empty, symmetric] unfold requiredFields_def by auto
  moreover have "getUserCreateRequestParams (Some fs) = Inr rq \<longrightarrow>
      map_of fs ''email'' = Some (PbString (ucr_Email rq)) \<and> map_of fs ''alias'' = Some (PbString (ucr_Alias rq))
      \<and> map_of fs ''first_name'' = Some (PbString (ucr_FirstName rq)) \<and> map_of fs ''last_name'' = Some (PbString (ucr_LastName rq))
      \<and> map_of fs ''profileId'' = Some (PbString (ucr_ProfileId rq)) \<and> map_of fs ''timezone'' = Some (PbString (ucr_TimeZoneSid rq))
      \<and> ucr_ContactID rq = (case map_of fs ''contactID'' of Some (PbString c) \<Rightarrow> c | _ \<Rightarrow> '''')
      \<and> ucr_ExtraFields rq = extraOf fs"
    unfolding unfold by (auto simp: GetProfileStringValue_def dest: extra split: option.splits pbvalue.splits)
  ultimately show ?thesis by blast
qed

definition demoProfile :: pbstruct where
  "demoProfile = [(''email'', PbString ''a@b.c''), (''Department'', PbString ''Ops''), (''alias'', PbString ''ab''),
     (''first_name'', PbString ''A''), (''last_name'', PbString ''B''), (''note'', PbNull), (''profileId'', PbString ''00e1''),
     (''timezone'', PbString ''UTC''), (''contactID'', PbNumber 7)]"

theorem create_request_params_witness:
  "\<exists>rq. getUserCreateRequestParams (Some demoProfile) = Inr rq \<and> ucr_Email rq = ''a@b.c''
     \<and> ucr_ExtraFields rq = [''Department'' \<mapsto> VString ''Ops'']"
proof -
  have d: "distinct (map fst demoProfile)" by (simp add: demoProfile_def)
  have "(\<forall>k \<in> set requiredFields. \<exists>v. map_of demoProfile k = Some (PbString v))
      \<and> (\<forall>(k, v) \<in> set demoProfile. isSchemaField k \<or> acceptable v)"
    by (simp add: requiredFields_def demoProfile_def acceptable_def isSchemaField_def accountCreationSchema_def)
  with create_request_params [OF d] obtain rq where rq: "getUserCreateRequestParams (Some demoProfile) = Inr rq" by blast
  have "extraOf demoProfile = [''Department'' \<mapsto> VString ''Ops'']"
    by (auto simp: fun_eq_iff extraOf_def demoProfile_def isSchemaField_def accountCreationSchema_def)
  with create_request_params [OF d, of rq] rq show ?thesis by (auto simp: demoProfile_def)
qed

text \<open>What a listed user says about the record it was made from, given the login records of the page.\<close>

definition serviceUser :: "SalesforceUser \<Rightarrow> bool" where
  "serviceUser u \<longleftrightarrow> su_UserType u \<in> {''AutomatedProcess'', ''CloudIntegrationUser''}
     \<or> (\<exists>t. su_LicenseDefinitionKey u = ''PID_DigitalAgent'' @ t) \<or> (\<exists>t. su_LicenseDefinitionKey u = t @ ''_INTEGRATION_USER'')
     \<or> su_LicenseDefinitionKey u = ''PID_XOrg_Proxy_User''"

definition describesUser :: "bool \<Rightarrow> (string \<rightharpoonup> UserLogin) \<Rightarrow> SalesforceUser \<Rightarrow> Resource \<Rightarrow> bool" where
  "describesUser useUsername logins u r \<longleftrightarrow>
     r_Id r = userId (su_ID u)
     \<and> (\<exists>t. r_Annotations r = [AnnUserTrait t]
          \<and> (ut_Status t = STATUS_ENABLED \<longleftrightarrow> su_IsActive u \<and> \<not> (\<exists>lg. logins (su_ID u) = Some lg \<and> lg_IsFrozen lg))
          \<and> (ut_AccountType t = ACCOUNT_TYPE_SERVICE \<longleftrightarrow> serviceUser u)
          \<and> ut_Profile t ''email'' = Some (VString (if useUsername then su_Username u else su_Email u))
          \<and> ut_Login t = su_Username u \<and> ut_LastLogin t = su_LastLoginDate u)"

lemma userResource_describes:
  assumes "userResource u (logins (su_ID u)) useUsername = Inr r"
  shows "describesUser useUsername logins u r"
  using assms
  by (auto simp: userResource_def Let_def bindSum_def newStruct_def describesUser_def serviceUser_def accountTypeForUser_def
      license_defs hasPrefix_conv hasSuffix_conv NewResource_def userId_def
      split: sum.splits if_splits option.splits)

lemma mapE_each:
  assumes "mapE (\<lambda>u. case f u of Inl e \<Rightarrow> Inl e | Inr r \<Rightarrow> Inr (Some r)) us = Inr rs"
  shows "list_all2 (\<lambda>u r. f u = Inr r) us rs"
  using assms
proof (induction us arbitrary: rs)
  case (Cons u us)
  then show ?case by (cases "f u") (auto simp: bindSum_def split: sum.split_asm)
qed simp

text \<open>
  C12. A page of users reports every user of the page, in order, with the right state: enabled exactly
  when the user is active and no login record of the page says it is frozen, a service account exactly
  when the user type or the license key marks an automated, integration, agent or proxy user, and the
  e-mail, login and last login of the record.
\<close>

theorem user_listing_describes_users:
  assumes "userList env b tok n s = Some ((rs, res, None), s')"
  shows "\<exists>users logins rl1 rl2 s1.
      GetUsers env tok n (ub_syncDeactivatedUsers b) (ub_syncNonStandardUsers b) s = Some ((rl1, Inr (users, sy_NextPageToken res)), s1)
    \<and> GetUserLoginsByUserIDs env (map su_ID users) s1 = Some ((rl2, Inr logins), s')
    \<and> list_all2 (describesUser (ub_shouldUseUsernameForEmail b) logins) users rs"
proof -
  from assms obtain users logins rl1 rl2 s1 where
    g: "GetUsers env tok n (ub_syncDeactivatedUsers b) (ub_syncNonStandardUsers b) s = Some ((rl1, Inr (users, sy_NextPageToken res)), s1)"
    and l: "GetUserLoginsByUserIDs env (map su_ID users) s1 = Some ((rl2, Inr logins), s')"
    and m: "mapE (\<lambda>u. case userResource u (logins (su_ID u)) (ub_shouldUseUsernameForEmail b) of
              Inl e \<Rightarrow> Inl e | Inr res \<Rightarrow> Inr (Some res)) users = Inr rs"
    by (fastforce simp: userList_def Let_def failedList_def split: Option.bind_split_asm sum.split_asm prod.split_asm)
  from mapE_each [OF m] have "list_all2 (describesUser (ub_shouldUseUsernameForEmail b) logins) users rs"
    by (rule list_all2_mono) (rule userResource_describes)
  with g l show ?thesis by blast
qed

definition demoFrozen :: gomap where
  "demoFrozen = [''Id'' \<mapsto> VString ''005x'', ''IsActive'' \<mapsto> VBool True, ''UserType'' \<mapsto> VString ''Standard'',
     ''UserId'' \<mapsto> VString ''005x'', ''IsFrozen'' \<mapsto> VBool True, ''IsPasswordLocked'' \<mapsto> VBool False]"

theorem user_listing_describes_users_witness:
  "\<exists>r res s' t. userList (logEnv (\<lambda>_. okResponse (lastPage [demoFrozen]))) (newUserBuilder False False False) '''' 100 demoSys
       = Some (([r], res, None), s') \<and> r_Annotations r = [AnnUserTrait t] \<and> ut_Status t = STATUS_DISABLED"
proof -
  let ?env = "logEnv (\<lambda>_. okResponse (lastPage [demoFrozen]))" and ?b = "newUserBuilder False False False"
  let ?rec = "setClient demoFrozen"
  obtain q1 where q1: "getQueryString (usersQuery False) '''' 100 = Some q1"
    using getQueryString_known [of TableNameUsers "[CEq ''UserType'' ''Standard'']" 100]
    by (auto simp: usersQuery_def knownTables_def plain_char_def max_int64_def)
  obtain q2 where q2: "getQueryString (loginQuery [''005x'']) '''' 1 = Some q2"
    using loginQuery_text [of "[''005x'']" 1] by (auto simp: max_int64_def)
  note page = decode_lastPage [of "[demoFrozen]"]
  obtain lg where lg: "rowUserLogin ?rec = Inr lg" "lg_UserId lg = ''005x''" "lg_IsFrozen lg"
    by (simp add: demoFrozen_def rowUserLogin_def getBoolField_def setClient_def mapIndex_def sobject_key_defs StringField_def bindSum_def)
  have chunk: "chunksOf userLoginInClauseChunkSize [''005x''] = [[''005x'']]"
    by (subst chunksOf.simps, subst chunksOf.simps) (simp add: userLoginInClauseChunkSize_def)
  obtain u r where u: "rowUser False False ?rec = Inr (Some u)" and uid: "su_ID u = ''005x''"
    and r: "userResource u (Some lg) False = Inr r"
    by (simp add: demoFrozen_def rowUser_def getIsActive_def setClient_def mapIndex_def shouldSkipSyncingUserType_def
        sobject_key_defs parseSalesforceDatetime_def StringField_def userTypesToSkip_def sobjID_def getBoolField_def
        licenseDefinitionKey_def SObjectField_def userResource_def newStruct_def validUtf8_def cont_def Let_def bindSum_def)
  from demo_query [OF q1 page, of "[]"] obtain w1 where
    g: "GetUsers ?env '''' 100 False False demoSys = Some ((None, Inr ([u], '''')), after demoSys demoTransport w1)"
    by (auto simp: GetUsers_def listQueryE_def demoSys_after pageOf_def u bindSum_def)
  from demo_query [OF q2 page, of w1] obtain w2 where
    k: "GetUserLoginsByUserIDs ?env [''005x''] (after demoSys demoTransport w1)
      = Some ((None, Inr [''005x'' \<mapsto> lg]), after demoSys demoTransport w2)"
    by (auto simp: GetUserLoginsByUserIDs_def chunk pageOf_def lg bindSum_def)
  have l: "userList ?env ?b '''' 100 demoSys = Some (([r], \<lparr>sy_NextPageToken = '''', sy_Annotations = WithRateLimitAnnotations [None, None]\<rparr>,
      None), after demoSys demoTransport w2)"
    by (simp add: userList_def newUserBuilder_def g k uid r bindSum_def)
  from user_listing_describes_users [OF l] g k uid lg have "describesUser False [''005x'' \<mapsto> lg] u r"
    by (auto simp: newUserBuilder_def)
  then have "\<exists>t. r_Annotations r = [AnnUserTrait t] \<and> ut_Status t = STATUS_DISABLED"
    using uid lg(3) by (auto simp: describesUser_def intro: user_status.exhaust)
  with l show ?thesis by blast
qed

text \<open>
  C28. The status action and the deletion of a user change one field: with a user identifier and a
  status, the action reads the user and sends one PATCH whose body is the new active state, and reports
  success exactly when that was accepted; deleting a user is the same request with the state false. An
  action without these arguments, or with arguments of another type, fails and changes nothing.
\<close>

theorem status_action_changes_one_field:
  assumes "session s cl t" and "userRecord uid m"
    and "httpRequest env cl t ''GET'' (makeURL cl (sobjectPath ''User'' uid)) NoBody (sys_w s)
      = Some (Inr (JsonDoc x (VMap m)), t1, w1)"
    and "httpRequest env cl t1 ''PATCH'' (makeURL cl (sobjectPath ''User'' uid))
        (JsonBody [''IsActive'' \<mapsto> VString (formatBool active)]) w1 = Some (r, t2, w2)"
  shows "(map_of args ''resource_id'' = Some (PbString uid) \<and> map_of args ''is_active'' = Some (PbBool active) \<longrightarrow>
      updateUserStatus env args s = Some (case r of
          Inl e \<Rightarrow> (Inl e, [])
        | Inr _ \<Rightarrow> (Inr [(''success'', PbBool True)], WithRateLimitAnnotations [tr_rateLimit t2]), after s t2 w2))
    \<and> (\<not> active \<longrightarrow> userDelete env (userId uid) s = Some (case r of
          Inl e \<Rightarrow> ([], Some e)
        | Inr _ \<Rightarrow> (WithRateLimitAnnotations [tr_rateLimit t2], None), after s t2 w2))
    \<and> ((\<nexists>u. map_of args ''resource_id'' = Some (PbString u)) \<or> (\<nexists>b. map_of args ''is_active'' = Some (PbBool b)) \<longrightarrow>
        (\<exists>e. updateUserStatus env args s = Some ((Inl e, []), s)))"
proof -
  have set: "SetUserActiveState env uid active s
      = Some ((tr_rateLimit t2, case r of Inl e \<Rightarrow> Inl e | Inr _ \<Rightarrow> Inr ()), after s t2 w2)"
    using setValue_session [OF assms(1,2) sendable_fields(3) assms(3,4)] by (simp add: SetUserActiveState_def setOneValue_eq)
  then show ?thesis
    by (auto simp: updateUserStatus_def userDelete_def userId_def split: sum.split option.split pbvalue.split)
qed

theorem status_action_changes_one_field_witness:
  "\<exists>w. updateUserStatus (logEnv demoServer) [(''resource_id'', PbString ''005x''), (''is_active'', PbBool False)] demoSys
      = Some ((Inr [(''success'', PbBool True)], WithRateLimitAnnotations [None]), after demoSys demoTransport w)
    \<and> length w = 2"
proof -
  let ?p = "sobjectPath ''User'' ''005x''" and ?b = "JsonBody [''IsActive'' \<mapsto> VString (formatBool False)]"
  have g: "httpRequest (logEnv demoServer) demoClient demoTransport ''GET'' (makeURL demoClient ?p) NoBody (sys_w demoSys)
      = Some (Inr (JsonDoc [] (VMap demoUser)), demoTransport, [demoRequest ''GET'' ?p NoBody])"
    by (subst demo_http) (simp_all add: demoServer_def demoRequest_def bearerRequest_def)
  have p: "httpRequest (logEnv demoServer) demoClient demoTransport ''PATCH'' (makeURL demoClient ?p) ?b
        [demoRequest ''GET'' ?p NoBody]
      = Some (Inr (RawDoc []), demoTransport, [demoRequest ''GET'' ?p NoBody, demoRequest ''PATCH'' ?p ?b])"
    by (subst demo_http) (simp_all add: demoServer_def demoRequest_def bearerRequest_def)
  show ?thesis
    using status_action_changes_one_field [OF demo_session(1) demoUser_record g p,
        where args = "[(''resource_id'', PbString ''005x''), (''is_active'', PbBool False)]"] by auto
qed

section \<open>Pages\<close>

text \<open>
  Salesforce as the server of login records: the query for the records of some users, at most 250, is answered in
  one page by exactly the records of those users, in any order. A user has at most one login record.
\<close>

definition serves_logins :: "('w \<Rightarrow> bool) \<Rightarrow> 'w env \<Rightarrow> sfclient \<Rightarrow> (string \<rightharpoonup> sobject) \<Rightarrow> bool" where
  "serves_logins P env cl logins \<longleftrightarrow>
     (\<forall>u rec. logins u = Some rec \<longrightarrow> StringField rec ''UserId'' = u \<and> (\<exists>lg. rowUserLogin rec = Inr lg))
     \<and> (\<forall>ids q. ids \<noteq> [] \<and> length ids \<le> userLoginInClauseChunkSize \<and> getQueryString (loginQuery ids) '''' (int (length ids)) = Some q \<longrightarrow>
          (\<exists>recs. answers P env cl q \<lparr>qr_Done = True, qr_NextRecordsURL = '''', qr_Records = recs\<rparr>
             \<and> set recs = {rec. \<exists>u \<in> set ids. logins u = Some rec}))"

definition loginRow :: "(string \<rightharpoonup> sobject) \<Rightarrow> string \<rightharpoonup> UserLogin" where
  "loginRow logins u = do { rec \<leftarrow> logins u; case rowUserLogin rec of Inl _ \<Rightarrow> None | Inr lg \<Rightarrow> Some lg }"

text \<open>What a user record contributes to the listing, given the login records.\<close>

definition userYield :: "userBuilder \<Rightarrow> (string \<rightharpoonup> sobject) \<Rightarrow> sobject \<Rightarrow> Resource list option" where
  "userYield b logins = yields (rowUser (ub_syncDeactivatedUsers b) (ub_syncNonStandardUsers b))
     (\<lambda>u. case userResource u (loginRow logins (su_ID u)) (ub_shouldUseUsernameForEmail b) of Inl e \<Rightarrow> Inl e | Inr res \<Rightarrow> one res)"

lemma rowUserLogin_user: "rowUserLogin rec = Inr lg \<Longrightarrow> lg_UserId lg = StringField rec ''UserId''"
  by (auto simp: rowUserLogin_def bindSum_def split: sum.splits)

lemma addLogins_served:
  assumes "\<And>u rec. logins u = Some rec \<Longrightarrow> StringField rec ''UserId'' = u \<and> (\<exists>lg. rowUserLogin rec = Inr lg)"
    and "\<forall>rec \<in> set recs. \<exists>u. logins u = Some rec"
  shows "addLogins recs acc = Inr (\<lambda>u. if \<exists>rec \<in> set recs. logins u = Some rec then loginRow logins u else acc u)"
  using assms(2)
proof (induction recs arbitrary: acc)
  case (Cons rec recs)
  then obtain u where u: "logins u = Some rec" by auto
  with assms(1) obtain lg where lg: "rowUserLogin rec = Inr lg" "StringField rec ''UserId'' = u" by blast
  have only: "logins v = Some rec \<longleftrightarrow> v = u" for v using u lg(2) assms(1) by blast
  have "loginRow logins u = Some lg" using u lg(1) by (simp add: loginRow_def)
  then have "(\<lambda>v. if \<exists>rec \<in> set recs. logins v = Some rec then loginRow logins v else (acc(u \<mapsto> lg)) v)
      = (\<lambda>v. if \<exists>rec' \<in> set (rec # recs). logins v = Some rec' then loginRow logins v else acc v)"
    by (auto simp: fun_eq_iff only)
  moreover have "addLogins recs (acc(u \<mapsto> lg))
      = Inr (\<lambda>v. if \<exists>rec \<in> set recs. logins v = Some rec then loginRow logins v else (acc(u \<mapsto> lg)) v)"
    using Cons.prems by (intro Cons.IH) simp
  moreover have "addLogins (rec # recs) acc = addLogins recs (acc(u \<mapsto> lg))" using lg by (simp add: rowUserLogin_user)
  ultimately show ?case by (simp only:)
qed simp

lemma loginChunks_served:
  assumes "serves_logins P env cl logins" and "isLoggedIn cl" and "session s cl t" and "P (sys_w s)"
    and "\<forall>c \<in> set cs. c \<noteq> [] \<and> length c \<le> userLoginInClauseChunkSize"
  shows "\<exists>rl' m t' w'. loginChunks env cs acc rl s = Some ((rl', Inr m), after s t' w')
    \<and> P w' \<and> (\<forall>u. m u = (if \<exists>c \<in> set cs. u \<in> set c \<and> logins u \<noteq> None then loginRow logins u else acc u))"
  using assms(3-5)
proof (induction cs arbitrary: s t acc rl)
  case Nil
  then have "loginChunks env [] acc rl s = Some ((rl, Inr acc), after s t (sys_w s))" by (simp add: session_def after_def)
  with Nil.prems(2) show ?case by auto
next
  case (Cons c cs)
  then have len: "c \<noteq> []" "length c \<le> userLoginInClauseChunkSize" by simp_all
  then obtain q where q: "getQueryString (loginQuery c) '''' (int (length c)) = Some q"
    using loginQuery_text [of c "int (length c)"] by (auto simp: max_int64_def userLoginInClauseChunkSize_def)
  with len assms(1) obtain recs where recs: "answers P env cl q \<lparr>qr_Done = True, qr_NextRecordsURL = '''', qr_Records = recs\<rparr>"
    "set recs = {rec. \<exists>u \<in> set c. logins u = Some rec}"
    unfolding serves_logins_def by blast
  from answers_query [OF assms(2) recs(1) Cons.prems(2), of t] obtain t1 w1 where
    ans: "clientQuery env q cl t (sys_w s) = Some (Inr \<lparr>qr_Done = True, qr_NextRecordsURL = '''', qr_Records = recs\<rparr>, t1, w1)" "P w1" by blast
  from query_session [OF Cons.prems(1) q ans(1)]
  have query: "query env (loginQuery c) '''' (int (length c)) s = Some ((tr_rateLimit t1, Inr (recs, '''')), after s t1 w1)"
    by (simp add: mapReply_def pageOf_def)
  let ?acc = "\<lambda>u. if \<exists>rec \<in> set recs. logins u = Some rec then loginRow logins u else acc u"
  have add: "addLogins recs acc = Inr ?acc"
    using assms(1) recs(2) by (intro addLogins_served) (auto simp: serves_logins_def)
  from Cons.IH [OF session_after [OF Cons.prems(1), of t1 w1], of "?acc" "tr_rateLimit t1"] Cons.prems(3) ans(2) obtain rl' m t' w' where
    rest: "loginChunks env cs ?acc (tr_rateLimit t1) (after s t1 w1) = Some ((rl', Inr m), after s t' w')" "P w'"
    "\<forall>u. m u = (if \<exists>c \<in> set cs. u \<in> set c \<and> logins u \<noteq> None then loginRow logins u else ?acc u)"
    by (fastforce simp: after_after)
  have "logins u = Some rec \<Longrightarrow> logins v = Some rec \<Longrightarrow> u = v" for u v rec
    using assms(1) unfolding serves_logins_def by metis
  then have "(\<exists>rec \<in> set recs. logins u = Some rec) \<longleftrightarrow> u \<in> set c \<and> logins u \<noteq> None" for u
    unfolding recs(2) by blast
  with rest(3) have "\<forall>u. m u = (if \<exists>d \<in> set (c # cs). u \<in> set d \<and> logins u \<noteq> None then loginRow logins u else acc u)"
    by simp
  moreover have "loginChunks env (c # cs) acc rl s = Some ((rl', Inr m), after s t' w')"
    using rest(1) query add by simp
  ultimately show ?case using rest(2) by blast
qed

lemma GetUserLogins_served:
  assumes "serves_logins P env cl logins" and "isLoggedIn cl" and "session s cl t" and "P (sys_w s)"
  shows "\<exists>rl m t' w'. GetUserLoginsByUserIDs env ids s = Some ((rl, Inr m), after s t' w') \<and> P w' \<and> (\<forall>u \<in> set ids. m u = loginRow logins u)"
proof (cases "ids = []")
  case True
  have "GetUserLoginsByUserIDs env ids s = Some ((None, Inr Map.empty), after s t (sys_w s))"
    using assms(3) by (simp add: GetUserLoginsByUserIDs_def True session_def after_def)
  with True assms(4) show ?thesis by auto
next
  case False
  let ?cs = "chunksOf userLoginInClauseChunkSize ids"
  have "\<forall>c \<in> set ?cs. c \<noteq> [] \<and> length c \<le> userLoginInClauseChunkSize" using chunksOf_bounds by fastforce
  from loginChunks_served [OF assms this, of Map.empty None] obtain rl m t' w' where
    m: "loginChunks env ?cs Map.empty None s = Some ((rl, Inr m), after s t' w')" "P w'"
    "\<forall>u. m u = (if \<exists>c \<in> set ?cs. u \<in> set c \<and> logins u \<noteq> None then loginRow logins u else None)" by blast
  have "concat ?cs = ids" by (rule chunksOf_concat) (simp add: userLoginInClauseChunkSize_def)
  then have "u \<in> set ids \<Longrightarrow> \<exists>c \<in> set ?cs. u \<in> set c" for u by (metis UN_E set_concat)
  with m(3) have "\<forall>u \<in> set ids. m u = loginRow logins u" by (auto simp: loginRow_def)
  with m(1,2) False show ?thesis by (auto simp: GetUserLoginsByUserIDs_def)
qed

lemma mapE_cong: "(\<And>x. x \<in> set xs \<Longrightarrow> f x = g x) \<Longrightarrow> mapE f xs = mapE g xs"
  by (induction xs) simp_all

lemma mapE_ones:
  "mapE (\<lambda>x. case (case f x of Inl e \<Rightarrow> Inl e | Inr y \<Rightarrow> one y) of Inl e \<Rightarrow> Inl e | Inr ys \<Rightarrow> Inr (Some ys)) xs = Inr zss \<Longrightarrow>
     mapE (\<lambda>x. case f x of Inl e \<Rightarrow> Inl e | Inr y \<Rightarrow> Inr (Some y)) xs = Inr (concat zss)"
  by (induction xs arbitrary: zss) (auto simp: bindSum_def split: sum.splits)

text \<open>Users are listed page by page, each page with the login records of its users.\<close>

lemma userList_pages:
  assumes "serves_logins P env cl logins" and "isLoggedIn cl"
  shows "listing P env cl (getQueryString (usersQuery (ub_syncNonStandardUsers b)) '''' n) (userYield b logins)
    (\<lambda>tok. userList env b tok n)"
proof unfold_locales
  fix s :: "'a sys" and t tok q res t' w' yss
  assume open_session: "session s cl t"
    and first: "(if tok = '''' then getQueryString (usersQuery (ub_syncNonStandardUsers b)) '''' n else Some tok) = Some q"
    and answer: "clientQuery env q cl t (sys_w s) = Some (Inr res, t', w')" "P w'"
    and described: "collect (userYield b logins) (qr_Records res) = Some yss"
  let ?row = "rowUser (ub_syncDeactivatedUsers b) (ub_syncNonStandardUsers b)"
  let ?item = "\<lambda>m u. case userResource u (m (su_ID u)) (ub_shouldUseUsernameForEmail b) of Inl e \<Rightarrow> Inl e | Inr r \<Rightarrow> Inr (Some r)"
  from yields_rows [OF described [unfolded userYield_def]] obtain us zss where users: "mapE ?row (qr_Records res) = Inr us"
    "mapE (?item (loginRow logins)) us = Inr (concat zss)" "concat zss = concat yss"
    using mapE_ones [where f = "\<lambda>u. userResource u (loginRow logins (su_ID u)) (ub_shouldUseUsernameForEmail b)"]
    by blast
  have fetched: "GetUsers env tok n (ub_syncDeactivatedUsers b) (ub_syncNonStandardUsers b) s
      = Some ((tr_rateLimit t', Inr (us, snd (pageOf res))), after s t' w')"
    using query_page [OF open_session first answer(1)] users(1) by (simp add: GetUsers_def listQueryE_def pageOf_def)
  from GetUserLogins_served [OF assms session_after [OF open_session, of t' w'], of "map su_ID us"] answer(2) obtain rl m t2 w2 where
    logins: "GetUserLoginsByUserIDs env (map su_ID us) (after s t' w') = Some ((rl, Inr m), after s t2 w2)" "P w2"
    "\<forall>u \<in> set us. m (su_ID u) = loginRow logins (su_ID u)" by auto
  have "mapE (?item m) us = Inr (concat yss)"
    using users(2,3) logins(3) mapE_cong [of us "?item m" "?item (loginRow logins)"] by simp
  with fetched logins(1,2) show "\<exists>annos t'' w''. userList env b tok n s
      = Some ((concat yss, \<lparr>sy_NextPageToken = snd (pageOf res), sy_Annotations = annos\<rparr>, None), after s t'' w'') \<and> P w''"
    by (auto simp: userList_def Let_def)
qed

end
