(* ===== verification/Conn_Apps.thy ===== *)
theory Conn_Apps
  imports Page_Server
begin

text \<open>
  Agents (\<^verbatim>\<open>connector/agents.go\<close>) and connected applications (\<^verbatim>\<open>connector/connected_applications.go\<close>):
  resources without entitlements.
\<close>

definition agentResource :: "BotDefinition \<Rightarrow> goerror + Resource" where
  "agentResource agent =
     (let name = (if bd_MasterLabel agent = '''' then bd_DeveloperName agent else bd_MasterLabel agent);
          profile = [(''id'', bd_ID agent), (''developer_name'', bd_DeveloperName agent), (''master_label'', bd_MasterLabel agent)]
            @ (if bd_BotUserID agent \<noteq> '''' then [(''bot_user_id'', bd_BotUserID agent)] else [])
      in bindSum (newStruct profile) (\<lambda>pf.
           Inr (NewResource name resourceTypeAgent (bd_ID agent) None
             [AnnAgentTrait \<lparr>at_Profile = pf,
                at_IdentityResourceId = (if bd_BotUserID agent \<noteq> '''' then Some (userId (bd_BotUserID agent)) else None)\<rparr>])))"

definition agentList :: "'w env \<Rightarrow> string \<Rightarrow> (Resource listed, 'w) op" where
  "agentList env tok =
     syncPage (ErrWrap ''baton-salesforce: failed to list agents'') (ErrWrap ''baton-salesforce: failed to build agent resource'')
       (GetBotDefinitions env tok) (\<lambda>a. case agentResource a of Inl e \<Rightarrow> Inl e | Inr res \<Rightarrow> one res)"

definition agentEntitlements :: "Resource \<Rightarrow> Entitlement listed" where
  "agentEntitlements res = ([], noResults, None)"

definition agentGrants :: "Resource \<Rightarrow> Grant listed" where
  "agentGrants res = ([], noResults, None)"

definition connectedApplicationResource :: "ConnectedApplication \<Rightarrow> Resource" where
  "connectedApplicationResource app =
     NewResource (ca_Name app) resourceTypeConnectedApplication (ca_ID app) None
       [AnnAppTrait, AnnNonHumanIdentity ''salesforce.connected_application'']"

definition appList :: "'w env \<Rightarrow> string \<Rightarrow> int \<Rightarrow> (Resource listed, 'w) op" where
  "appList env tok sz = syncPage id id (GetConnectedApplications env tok sz) (\<lambda>a. one (connectedApplicationResource a))"

definition appEntitlements :: "Resource \<Rightarrow> Entitlement listed" where
  "appEntitlements res = ([], noResults, None)"

definition appGrants :: "Resource \<Rightarrow> Grant listed" where
  "appGrants res = ([], noResults, None)"

section \<open>Contracts\<close>

interpretation m_agentList: metered "agentList (tracedEnv env) tok" 0 for env tok
  by unfold_locales (auto simp: agentList_def intro: syncPage_grew m_bots.op_grew)

interpretation m_appList: metered "appList (tracedEnv env) tok n" 0 for env tok n
  by unfold_locales (auto simp: appList_def GetConnectedApplications_def intro: syncPage_grew m_list.op_grew)

section \<open>Pages\<close>

definition agentYield :: "sobject \<Rightarrow> Resource list option" where
  "agentYield = yields (total rowBotDefinition) (\<lambda>a. case agentResource a of Inl e \<Rightarrow> Inl e | Inr res \<Rightarrow> one res)"

definition appYield :: "sobject \<Rightarrow> Resource list option" where
  "appYield = yields (total rowConnectedApplication) (\<lambda>a. one (connectedApplicationResource a))"

interpretation appList_pages:
  listing P env cl "getQueryString (NewQuery TableNameConnectedApps []) '''' n" appYield "\<lambda>tok. appList env tok n" for P env cl n
  unfolding appYield_def by (rule syncPage_listing) (simp add: appList_def GetConnectedApplications_def listQuery_total)

text \<open>The agents are read with their own version of the API, in the path of the first request only.\<close>

lemma GetBotDefinitions_page:
  assumes "session s cl t" and "(if tok = '''' then Some (versionedPath AgentforceAPIVersion botSoql) else Some tok) = Some q"
    and "clientQuery env q cl t (sys_w s) = Some (Inr res, t', w')"
  shows "GetBotDefinitions env tok s
    = Some ((tr_rateLimit t', Inr (map rowBotDefinition (qr_Records res), snd (pageOf res))), after s t' w')"
proof -
  have "queryWithAPIVersion env (NewQuery TableNameBotDefinition []) tok AgentforceAPIVersion s
      = Some ((tr_rateLimit t', Inr (pageOf res)), after s t' w')"
    using assms(2) onClient_session [OF assms(1), of "clientQuery env q", OF assms(3)]
    by (auto simp: queryWithAPIVersion_def Initialize_session [OF assms(1)] botSoql_text mapReply_def wrapErr_def split: if_splits)
  then show ?thesis by (simp add: GetBotDefinitions_def pageOf_def)
qed

interpretation agentList_pages:
  listing P env cl "Some (versionedPath AgentforceAPIVersion botSoql)" agentYield "agentList env" for P env cl
proof unfold_locales
  fix s :: "'a sys" and t tok q res t' w' yss
  assume open_session: "session s cl t"
    and first: "(if tok = '''' then Some (versionedPath AgentforceAPIVersion botSoql) else Some tok) = Some q"
    and answer: "clientQuery env q cl t (sys_w s) = Some (Inr res, t', w')" "P w'"
    and described: "collect agentYield (qr_Records res) = Some yss"
  from yields_rows [OF described [unfolded agentYield_def]] GetBotDefinitions_page [OF open_session first answer(1)] answer(2)
  show "\<exists>annos t'' w''. agentList env tok s
      = Some ((concat yss, \<lparr>sy_NextPageToken = snd (pageOf res), sy_Annotations = annos\<rparr>, None), after s t'' w'') \<and> P w''"
    by (auto simp: agentList_def syncPage_def Let_def mapE_total)
qed

end
