(* ===== verification/Conn_Config.thy ===== *)
theory Conn_Config
  imports Go_Base
begin

text \<open>
  The configuration of the connector: the schema of \<^verbatim>\<open>config/config.go\<close> (fields, and groups of fields per
  authentication method), the record the SDK generates from it with its getters by field name
  (\<^verbatim>\<open>config/conf.gen.go\<close>), and the reading of the profile mapping (\<^verbatim>\<open>config/helper.go\<close>).
\<close>

section \<open>The schema\<close>

datatype field_type =
    FString string
  | FBool bool
  | FStringMap
  | FOauth2
  | FFileUpload "string list"

record SchemaField =
  fd_Name :: string
  fd_Type :: field_type
  fd_DisplayName :: string
  fd_Description :: string
  fd_Required :: bool
  fd_IsSecret :: bool

record SchemaFieldGroup =
  fg_Name :: string
  fg_DisplayName :: string
  fg_HelpText :: string
  fg_Fields :: "SchemaField list"
  fg_Default :: bool

record ConfigurationSchema =
  cf_Fields :: "SchemaField list"
  cf_DisplayName :: string
  cf_HelpUrl :: string
  cf_IconUrl :: string
  cf_FieldGroups :: "SchemaFieldGroup list"

definition SalesforceUsernamePasswordGroup :: string where "SalesforceUsernamePasswordGroup = ''username-password-group''"
definition SalesforceOAuthGroup :: string where "SalesforceOAuthGroup = ''oauth-group''"
definition SalesforceJWTBearerGroup :: string where "SalesforceJWTBearerGroup = ''jwt-bearer-group''"
definition SalesforceClientCredentialsGroup :: string where "SalesforceClientCredentialsGroup = ''client-credentials-group''"

definition InstanceUrlField :: SchemaField where
  "InstanceUrlField = \<lparr>fd_Name = ''instance-url'', fd_Type = FString '''', fd_DisplayName = ''Instance URL'',
     fd_Description = ''Your Salesforce domain, ex: acme.my.salesforce.com'', fd_Required = True, fd_IsSecret = False\<rparr>"

definition UseUsernameForEmailField :: SchemaField where
  "UseUsernameForEmailField = \<lparr>fd_Name = ''user-username-for-email'', fd_Type = FBool False,
     fd_DisplayName = ''Use Username for Email'', fd_Description = ''Use Salesforce usernames for email'',
     fd_Required = False, fd_IsSecret = False\<rparr>"

definition UsernameField :: SchemaField where
  "UsernameField = \<lparr>fd_Name = ''salesforce-username'', fd_Type = FString '''', fd_DisplayName = ''Salesforce Username'',
     fd_Description = ''Salesforce account username'', fd_Required = True, fd_IsSecret = False\<rparr>"

definition PasswordField :: SchemaField where
  "PasswordField = \<lparr>fd_Name = ''salesforce-password'', fd_Type = FString '''', fd_DisplayName = ''Salesforce Password'',
     fd_Description = ''Salesforce account password'', fd_Required = True, fd_IsSecret = True\<rparr>"

definition Oauth2TokenField :: SchemaField where
  "Oauth2TokenField = \<lparr>fd_Name = ''oauth2-token'', fd_Type = FOauth2, fd_DisplayName = ''OAuth Authentication'',
     fd_Description = ''The OAuth Authentication field'', fd_Required = False, fd_IsSecret = False\<rparr>"

definition SecurityTokenField :: SchemaField where
  "SecurityTokenField = \<lparr>fd_Name = ''security-token'', fd_Type = FString '''', fd_DisplayName = ''Security Token'',
     fd_Description = ''Salesforce security token (optional if trusted IP is configured)'', fd_Required = False, fd_IsSecret = True\<rparr>"

definition SyncConnectedApps :: SchemaField where
  "SyncConnectedApps = \<lparr>fd_Name = ''sync-connected-apps'', fd_Type = FBool False, fd_DisplayName = ''Sync Connected Apps'',
     fd_Description = ''Optionally sync access to connected apps'', fd_Required = False, fd_IsSecret = False\<rparr>"

definition SyncDeactivatedUsers :: SchemaField where
  "SyncDeactivatedUsers = \<lparr>fd_Name = ''sync-deactivated-users'', fd_Type = FBool True,
     fd_DisplayName = ''Sync Deactivated Users'', fd_Description = ''Optionally sync deactivated users'',
     fd_Required = False, fd_IsSecret = False\<rparr>"

definition SyncNonStandardUsers :: SchemaField where
  "SyncNonStandardUsers = \<lparr>fd_Name = ''sync-non-standard-users'', fd_Type = FBool False,
     fd_DisplayName = ''Sync Non-Standard Users'',
     fd_Description = ''Optionally sync non-standard user types (Customer Community, etc)'', fd_Required = False, fd_IsSecret = False\<rparr>"

definition LicenseToLeastPrivilegedProfileMapping :: SchemaField where
  "LicenseToLeastPrivilegedProfileMapping = \<lparr>fd_Name = ''license-to-least-privileged-profile-mapping'', fd_Type = FStringMap,
     fd_DisplayName = ''License to Least Privileged Profile Mapping'',
     fd_Description = ''Mapping of Salesforce license types to least privileged profiles'', fd_Required = False, fd_IsSecret = False\<rparr>"

definition ClientIDField :: SchemaField where
  "ClientIDField = \<lparr>fd_Name = ''salesforce-client-id'', fd_Type = FString '''', fd_DisplayName = ''Client ID'',
     fd_Description = ''OAuth Client ID / Consumer Key of the Connected App or External Client App'',
     fd_Required = True, fd_IsSecret = False\<rparr>"

definition ClientSecretField :: SchemaField where
  "ClientSecretField = \<lparr>fd_Name = ''salesforce-client-secret'', fd_Type = FString '''', fd_DisplayName = ''Client Secret'',
     fd_Description = ''OAuth Client Secret / Consumer Secret'', fd_Required = True, fd_IsSecret = True\<rparr>"

definition PrivateKeyField :: SchemaField where
  "PrivateKeyField = \<lparr>fd_Name = ''salesforce-private-key'', fd_Type = FFileUpload [''.pem''],
     fd_DisplayName = ''Private Key (.pem)'', fd_Description = ''PEM private key for JWT Bearer flow'',
     fd_Required = True, fd_IsSecret = True\<rparr>"

definition JWTSubjectField :: SchemaField where
  "JWTSubjectField = \<lparr>fd_Name = ''salesforce-jwt-subject'', fd_Type = FString '''', fd_DisplayName = ''JWT Subject'',
     fd_Description = ''Salesforce username of the integration user the connector will authenticate as'',
     fd_Required = True, fd_IsSecret = False\<rparr>"

definition LoginURLField :: SchemaField where
  "LoginURLField = \<lparr>fd_Name = ''salesforce-login-url'', fd_Type = FString ''https://login.salesforce.com'',
     fd_DisplayName = ''Login URL'', fd_Description = ''Salesforce login URL for JWT Bearer token exchange.'',
     fd_Required = False, fd_IsSecret = False\<rparr>"

definition configurationFields :: "SchemaField list" where
  "configurationFields =
     [UsernameField, PasswordField, SecurityTokenField, InstanceUrlField, UseUsernameForEmailField, SyncConnectedApps,
      SyncDeactivatedUsers, SyncNonStandardUsers, LicenseToLeastPrivilegedProfileMapping, Oauth2TokenField, ClientIDField,
      ClientSecretField, PrivateKeyField, JWTSubjectField, LoginURLField]"

definition Configuration :: ConfigurationSchema where
  "Configuration = \<lparr>cf_Fields = configurationFields, cf_DisplayName = ''Salesforce'', cf_HelpUrl = ''/docs/baton/salesforce'',
     cf_IconUrl = ''/static/app-icons/salesforce.svg'',
     cf_FieldGroups =
       [\<lparr>fg_Name = SalesforceUsernamePasswordGroup, fg_DisplayName = ''Username and password (deprecated)'',
         fg_HelpText = ''Use a username and password for authentication. Deprecated: Salesforce is disabling SOAP API login for new orgs.'',
         fg_Fields = [UsernameField, PasswordField, SecurityTokenField, InstanceUrlField, UseUsernameForEmailField,
           SyncConnectedApps, SyncDeactivatedUsers, SyncNonStandardUsers, LicenseToLeastPrivilegedProfileMapping],
         fg_Default = False\<rparr>,
        \<lparr>fg_Name = SalesforceOAuthGroup, fg_DisplayName = ''OAuth'', fg_HelpText = ''Use OAuth for authentication.'',
         fg_Fields = [InstanceUrlField, UseUsernameForEmailField, SyncConnectedApps, SyncDeactivatedUsers,
           SyncNonStandardUsers, LicenseToLeastPrivilegedProfileMapping, Oauth2TokenField],
         fg_Default = True\<rparr>,
        \<lparr>fg_Name = SalesforceJWTBearerGroup, fg_DisplayName = ''JWT Bearer'',
         fg_HelpText = ''Authenticate using a signed JWT assertion and private key.'',
         fg_Fields = [InstanceUrlField, LoginURLField, ClientIDField, PrivateKeyField, JWTSubjectField,
           UseUsernameForEmailField, SyncConnectedApps, SyncDeactivatedUsers, SyncNonStandardUsers,
           LicenseToLeastPrivilegedProfileMapping],
         fg_Default = False\<rparr>,
        \<lparr>fg_Name = SalesforceClientCredentialsGroup, fg_DisplayName = ''Client Credentials'',
         fg_HelpText = ''Authenticate using a client ID and secret.'',
         fg_Fields = [InstanceUrlField, ClientIDField, ClientSecretField, UseUsernameForEmailField, SyncConnectedApps,
           SyncDeactivatedUsers, SyncNonStandardUsers, LicenseToLeastPrivilegedProfileMapping],
         fg_Default = False\<rparr>]\<rparr>"

section \<open>The generated record\<close>

record SalesforceConfig =
  SalesforceUsername :: string
  SalesforcePassword :: string
  SecurityToken :: string
  InstanceUrl :: string
  UserUsernameForEmail :: bool
  cfg_SyncConnectedApps :: bool
  cfg_SyncDeactivatedUsers :: bool
  cfg_SyncNonStandardUsers :: bool
  cfg_LicenseToLeastPrivilegedProfileMapping :: gomap
  Oauth2Token :: string
  SalesforceClientId :: string
  SalesforceClientSecret :: string
  SalesforcePrivateKey :: string
  SalesforceJwtSubject :: string
  SalesforceLoginUrl :: string

text \<open>A field read by reflection: a string, a bool, a byte slice or a map.\<close>

datatype confvalue = CString string | CBool bool | CBytes string | CMap gomap

text \<open>The fields in the order of the struct, each under its \<^verbatim>\<open>mapstructure\<close> tag.\<close>

definition taggedFields :: "SalesforceConfig \<Rightarrow> (string \<times> confvalue) list" where
  "taggedFields c =
     [(''salesforce-username'', CString (SalesforceUsername c)),
      (''salesforce-password'', CString (SalesforcePassword c)),
      (''security-token'', CString (SecurityToken c)),
      (''instance-url'', CString (InstanceUrl c)),
      (''user-username-for-email'', CBool (UserUsernameForEmail c)),
      (''sync-connected-apps'', CBool (cfg_SyncConnectedApps c)),
      (''sync-deactivated-users'', CBool (cfg_SyncDeactivatedUsers c)),
      (''sync-non-standard-users'', CBool (cfg_SyncNonStandardUsers c)),
      (''license-to-least-privileged-profile-mapping'', CMap (cfg_LicenseToLeastPrivilegedProfileMapping c)),
      (''oauth2-token'', CString (Oauth2Token c)),
      (''salesforce-client-id'', CString (SalesforceClientId c)),
      (''salesforce-client-secret'', CString (SalesforceClientSecret c)),
      (''salesforce-private-key'', CBytes (SalesforcePrivateKey c)),
      (''salesforce-jwt-subject'', CString (SalesforceJwtSubject c)),
      (''salesforce-login-url'', CString (SalesforceLoginUrl c))]"

definition findFieldByTag :: "SalesforceConfig \<Rightarrow> string \<Rightarrow> confvalue option" where
  "findFieldByTag c tag = map_of (taggedFields c) tag"

text \<open>The getters; the outer option is the panic on a field of another type.\<close>

definition GetStringSlice :: "SalesforceConfig \<Rightarrow> string \<Rightarrow> string list option" where
  "GetStringSlice c name = (case findFieldByTag c name of None \<Rightarrow> Some [] | Some _ \<Rightarrow> None)"

definition GetString :: "SalesforceConfig \<Rightarrow> string \<Rightarrow> string option" where
  "GetString c name =
     (case findFieldByTag c name of
        None \<Rightarrow> Some ''''
      | Some (CString t) \<Rightarrow> Some t
      | Some (CBytes t) \<Rightarrow> Some t
      | Some _ \<Rightarrow> None)"

definition GetInt :: "SalesforceConfig \<Rightarrow> string \<Rightarrow> int option" where
  "GetInt c name = (case findFieldByTag c name of None \<Rightarrow> Some 0 | Some _ \<Rightarrow> None)"

definition GetBool :: "SalesforceConfig \<Rightarrow> string \<Rightarrow> bool option" where
  "GetBool c name =
     (case findFieldByTag c name of None \<Rightarrow> Some False | Some (CBool t) \<Rightarrow> Some t | Some _ \<Rightarrow> None)"

definition GetStringMap :: "SalesforceConfig \<Rightarrow> string \<Rightarrow> gomap option" where
  "GetStringMap c name =
     (case findFieldByTag c name of None \<Rightarrow> Some Map.empty | Some (CMap t) \<Rightarrow> Some t | Some _ \<Rightarrow> None)"

text \<open>Entries of the profile mapping that are not strings are dropped.\<close>

definition GetLicenseToLeastPrivilegedProfileMapping :: "SalesforceConfig \<Rightarrow> (string \<rightharpoonup> string)" where
  "GetLicenseToLeastPrivilegedProfileMapping c =
     (\<lambda>k. Option.bind (cfg_LicenseToLeastPrivilegedProfileMapping c k) asString)"

end
