(* ===== verification/Conn_Auth.thy ===== *)
theory Conn_Auth
  imports Conn_Base Conn_Config
begin

text \<open>
  How the connector finds its instance and its access tokens: the completion of the configured domain to
  a URL (\<open>fallBackToHTTPS\<close> of \<^verbatim>\<open>connector/connector.go\<close>), and the token sources of \<^verbatim>\<open>client/auth.go\<close> on top of
  the caching token source of \<^verbatim>\<open>golang.org/x/oauth2\<close>. The exchange itself (the signature of the assertion
  and the request to the token endpoint) and the clock belong to the environment of this theory.
\<close>

section \<open>The instance URL\<close>

definition fallBackToHTTPS :: "(string \<Rightarrow> goerror + string) \<Rightarrow> string \<Rightarrow> goerror + string" where
  "fallBackToHTTPS ip domain =
     (case urlParse ip domain of
        Inl e \<Rightarrow> Inl e
      | Inr parsed \<Rightarrow>
          if u_Scheme parsed = ''''
          then map_sum id urlString (urlParse ip (''https://'' @ domain))
          else Inr (urlString parsed))"

section \<open>Tokens\<close>

record oauthToken = token +
  tok_Expiry :: "int option"

text \<open>The claims of the assertion and the two requests for a token.\<close>

record ClaimSet =
  cs_Iss :: string
  cs_Aud :: string
  cs_Sub :: string
  cs_Prn :: string

datatype tokenRequest =
    JwtRequest string ClaimSet string
  | CredentialsRequest string string string

record 'w authEnv =
  x_exchange :: "tokenRequest \<Rightarrow> 'w \<Rightarrow> (goerror + oauthToken) \<times> 'w"
  x_now :: "'w \<Rightarrow> int"

text \<open>The fields of the two configurations that the connector sets.\<close>

record jwtConfig =
  jc_Email :: string
  jc_Subject :: string
  jc_PrivateKey :: string
  jc_TokenURL :: string
  jc_Audience :: string

record credentialsConfig =
  cc_ClientID :: string
  cc_ClientSecret :: string
  cc_TokenURL :: string

datatype source = JwtSource jwtConfig | CredentialsSource credentialsConfig

definition claimSet :: "jwtConfig \<Rightarrow> ClaimSet" where
  "claimSet conf = \<lparr>cs_Iss = jc_Email conf,
     cs_Aud = (if jc_Audience conf \<noteq> '''' then jc_Audience conf else jc_TokenURL conf),
     cs_Sub = jc_Subject conf, cs_Prn = jc_Subject conf\<rparr>"

fun sourceToken :: "'w authEnv \<Rightarrow> source \<Rightarrow> 'w \<Rightarrow> (goerror + oauthToken) \<times> 'w" where
  "sourceToken x (JwtSource conf) w = x_exchange x (JwtRequest (jc_TokenURL conf) (claimSet conf) (jc_PrivateKey conf)) w"
| "sourceToken x (CredentialsSource conf) w =
     x_exchange x (CredentialsRequest (cc_TokenURL conf) (cc_ClientID conf) (cc_ClientSecret conf)) w"

text \<open>A token without an expiry time does not expire; otherwise it is renewed ten seconds early.\<close>

definition defaultExpiryDelta :: int where "defaultExpiryDelta = 10"

definition expired :: "oauthToken \<Rightarrow> int \<Rightarrow> bool" where
  "expired t now = (case tok_Expiry t of None \<Rightarrow> False | Some e \<Rightarrow> e - defaultExpiryDelta < now)"

definition validToken :: "oauthToken \<Rightarrow> int \<Rightarrow> bool" where
  "validToken t now \<longleftrightarrow> tok_AccessToken t \<noteq> '''' \<and> \<not> expired t now"

record reuseTokenSource =
  rt_new :: source
  rt_t :: "oauthToken option"

definition reuseToken :: "'w authEnv \<Rightarrow> reuseTokenSource \<Rightarrow> 'w \<Rightarrow> (goerror + oauthToken) \<times> reuseTokenSource \<times> 'w" where
  "reuseToken x s w =
     (case rt_t s of
        Some t \<Rightarrow>
          if validToken t (x_now x w) then (Inr t, s, w)
          else (case sourceToken x (rt_new s) w of
                  (Inl e, w) \<Rightarrow> (Inl e, s, w)
                | (Inr t, w) \<Rightarrow> (Inr t, s\<lparr>rt_t := Some t\<rparr>, w))
      | None \<Rightarrow>
          (case sourceToken x (rt_new s) w of
             (Inl e, w) \<Rightarrow> (Inl e, s, w)
           | (Inr t, w) \<Rightarrow> (Inr t, s\<lparr>rt_t := Some t\<rparr>, w)))"

text \<open>\<open>ReuseTokenSource(t, src)\<close> for a source that is itself a caching one.\<close>

definition ReuseTokenSource :: "oauthToken option \<Rightarrow> reuseTokenSource \<Rightarrow> reuseTokenSource" where
  "ReuseTokenSource t src = (case t of None \<Rightarrow> src | Some _ \<Rightarrow> \<lparr>rt_new = rt_new src, rt_t = t\<rparr>)"

section \<open>The token sources of the connector\<close>

definition oauthTokenPath :: string where "oauthTokenPath = ''/services/oauth2/token''"

text \<open>The eager first exchange, whose token the returned source starts with.\<close>

definition primed :: "'w authEnv \<Rightarrow> string \<Rightarrow> source \<Rightarrow> 'w \<Rightarrow> (goerror + reuseTokenSource) \<times> 'w" where
  "primed x failure src w =
     (case reuseToken x \<lparr>rt_new = src, rt_t = None\<rparr> w of
        (Inl e, _, w) \<Rightarrow> (Inl (ErrWrap failure e), w)
      | (Inr tok, ts, w) \<Rightarrow> (Inr (ReuseTokenSource (Some tok) ts), w))"

definition NewJWTBearerTokenSource ::
  "'w authEnv \<Rightarrow> (string \<Rightarrow> goerror + string) \<Rightarrow> string \<Rightarrow> string \<Rightarrow> string \<Rightarrow> string \<Rightarrow> 'w \<Rightarrow> (goerror + reuseTokenSource) \<times> 'w" where
  "NewJWTBearerTokenSource x ip clientID subject loginURL privateKey w =
     (if loginURL = '''' then (Inl (ErrNew ''baton-salesforce: loginURL must not be empty''), w)
      else (case urlParse ip loginURL of
              Inl e \<Rightarrow> (Inl (ErrWrap ''baton-salesforce: invalid loginURL'' e), w)
            | Inr u \<Rightarrow>
                primed x ''baton-salesforce: JWT bearer token exchange failed''
                  (JwtSource \<lparr>jc_Email = clientID, jc_Subject = subject, jc_PrivateKey = privateKey,
                     jc_TokenURL = urlString (JoinPath u oauthTokenPath), jc_Audience = urlString u\<rparr>) w))"

definition NewClientCredentialsTokenSource ::
  "'w authEnv \<Rightarrow> (string \<Rightarrow> goerror + string) \<Rightarrow> string \<Rightarrow> string \<Rightarrow> string \<Rightarrow> 'w \<Rightarrow> (goerror + reuseTokenSource) \<times> 'w" where
  "NewClientCredentialsTokenSource x ip clientID clientSecret instanceURL w =
     (if instanceURL = '''' then (Inl (ErrNew ''baton-salesforce: instanceURL must not be empty''), w)
      else (case urlParse ip instanceURL of
              Inl e \<Rightarrow> (Inl (ErrWrap ''baton-salesforce: invalid instanceURL'' e), w)
            | Inr u \<Rightarrow>
                primed x ''baton-salesforce: client credentials token exchange failed''
                  (CredentialsSource \<lparr>cc_ClientID = clientID, cc_ClientSecret = clientSecret,
                     cc_TokenURL = urlString (JoinPath u oauthTokenPath)\<rparr>) w))"

section \<open>Facts\<close>

text \<open>A plain host name, optionally followed by a slash: what the fields of the configuration ask for.\<close>

definition isOrigin :: "string \<Rightarrow> string \<Rightarrow> bool" where
  "isOrigin h p \<longleftrightarrow> isHostName h \<and> (p = '''' \<or> p = ''/'')"

lemma isOrigin_plain: "isOrigin h p \<Longrightarrow> isHostName h \<and> isPlainPath p"
  by (auto simp: isOrigin_def isPlainPath_def)

lemma token_path: "pathJoin [''/'', oauthTokenPath] = oauthTokenPath"
  by code_simp

lemma token_path_plain: "\<forall>c \<in> set oauthTokenPath. \<not> shouldEscape c encodePath"
  by code_simp

lemma token_endpoint:
  assumes "isOrigin h p" and "sch \<noteq> []"
  shows "urlString (JoinPath (emptyUrl\<lparr>u_Scheme := sch, u_Host := h, u_Path := p\<rparr>) oauthTokenPath)
    = sch @ ''://'' @ h @ oauthTokenPath"
proof -
  let ?u = "emptyUrl\<lparr>u_Scheme := sch, u_Host := h, u_Path := p\<rparr>"
  have host: "urlEscape h encodeHost = h" "h \<noteq> []"
    using assms(1) host_byte(1) by (auto simp: isOrigin_def plain_defs intro!: urlEscape_plain)
  have suffix: "\<not> hasSuffix oauthTokenPath ''/''" by code_simp
  have escape: "urlEscape '''' encodePath = ''''" "urlEscape ''/'' encodePath = ''/''" by code_simp+
  define q where "q = (if p = '''' then tl oauthTokenPath else oauthTokenPath)"
  have q: "\<forall>c \<in> set q. \<not> shouldEscape c encodePath"
    using token_path_plain list.set_sel(2) [of oauthTokenPath] by (auto simp: q_def oauthTokenPath_def)
  have "JoinPath ?u oauthTokenPath = ?u\<lparr>u_Path := q, u_RawPath := []\<rparr>"
    using assms(1) suffix setPath_plain [OF q, of ?u]
    by (auto simp: JoinPath_def EscapedPath_def escapedAs_def emptyUrl_def isOrigin_def escape token_path hasPrefix_def q_def Let_def)
  moreover have "urlEscape q encodePath = q" using q by (rule urlEscape_plain)
  ultimately show ?thesis
    using assms(2) host
    by (auto simp: urlString_def emptyUrl_def EscapedPath_def escapedAs_def authorityString_def Let_def q_def oauthTokenPath_def)
qed

lemma scheme_https: "isScheme ''https''" "map lowerByte ''https'' = ''https''"
  by code_simp+

text \<open>An eager exchange succeeds with the token of exactly one request, which the source then keeps.\<close>

lemma primed_ok:
  "primed x f src w = (Inr ts, w') \<longleftrightarrow> (\<exists>tok. sourceToken x src w = (Inr tok, w') \<and> ts = \<lparr>rt_new = src, rt_t = Some tok\<rparr>)"
  by (auto simp: primed_def reuseToken_def ReuseTokenSource_def split: prod.splits sum.splits)

section \<open>Properties\<close>

text \<open>
  C36. The configured domain becomes a URL: a host name, with or without a path, is completed with the
  scheme \<^verbatim>\<open>https\<close>, and a URL that names a scheme keeps it (in lower case), so completing twice is completing
  once.
\<close>

theorem domain_completed_to_https:
  assumes "isHostName h" and "isPlainPath p" and "isScheme sch"
  shows "fallBackToHTTPS ip (h @ p) = Inr (''https://'' @ h @ p)
    \<and> fallBackToHTTPS ip (sch @ ''://'' @ h @ p) = Inr (map lowerByte sch @ ''://'' @ h @ p)"
proof -
  have "urlParse ip (''https://'' @ h @ p) = Inr (emptyUrl\<lparr>u_Scheme := ''https'', u_Host := h, u_Path := p\<rparr>)"
    using urlParse_plain [OF scheme_https(1) assms(1,2)] scheme_https(2) by simp
  moreover have "map lowerByte sch \<noteq> []" using assms(3) by (simp add: isScheme_def)
  ultimately show ?thesis
    using urlParse_relative [OF assms(1,2)] urlParse_plain [OF assms(3,1,2)]
      urlString_plain [OF _ assms(1,2), of "''https''"] urlString_plain [OF _ assms(1,2), of "map lowerByte sch"]
    by (simp add: fallBackToHTTPS_def) (simp add: emptyUrl_def)
qed

theorem domain_completed_to_https_witness:
  "fallBackToHTTPS Inr ''acme.my.salesforce.com'' = Inr ''https://acme.my.salesforce.com''
   \<and> fallBackToHTTPS Inr ''HTTP://acme.my.salesforce.com'' = Inr ''http://acme.my.salesforce.com''"
proof -
  have "isHostName ''acme.my.salesforce.com''" "isPlainPath ''''" "isScheme ''HTTP''" "map lowerByte ''HTTP'' = ''http''"
    by code_simp+
  with domain_completed_to_https [of "''acme.my.salesforce.com''" "''''" "''HTTP''" Inr] show ?thesis by simp
qed

text \<open>
  C39. A host name with a port but without a scheme is not completed: it is read as a scheme, and the URL
  that results has neither \<^verbatim>\<open>https\<close> nor the host.
\<close>

theorem port_hides_missing_scheme:
  assumes "isScheme h" and "list_all is_digit port"
  shows "fallBackToHTTPS ip (h @ '':'' @ port) = Inr (map lowerByte h @ '':'' @ port)
    \<and> (\<exists>u. urlParse ip (h @ '':'' @ port) = Inr u \<and> u_Host u = '''')"
proof -
  have "EscapedPath (emptyUrl\<lparr>u_Scheme := s, u_Opaque := port\<rparr>) = ''''" for s
    by (simp add: EscapedPath_def escapedAs_def emptyUrl_def urlEscape_def)
  then show ?thesis
    using urlParse_host_port [OF assms, of ip] assms(1)
    by (auto simp: fallBackToHTTPS_def urlString_def authorityString_def emptyUrl_def isScheme_def urlEscape_def Let_def)
qed

theorem port_hides_missing_scheme_witness:
  "fallBackToHTTPS Inr ''localhost:8080'' = Inr ''localhost:8080''"
proof -
  have "isScheme ''localhost''" "list_all is_digit ''8080''" "map lowerByte ''localhost'' = ''localhost''" by code_simp+
  with port_hides_missing_scheme [of "''localhost''" "''8080''" Inr] show ?thesis by simp
qed

text \<open>
  C23. A JWT token source asks the right endpoint and asks once: for a login URL that is an \<^verbatim>\<open>https\<close> origin,
  its creation is exactly one exchange at the token endpoint of that origin, with the consumer key as
  issuer, the configured user as subject and the login URL as audience; from then on the token is
  returned without an exchange for as long as it is valid, and once it is not, one more exchange with the
  same request replaces it, or its error is returned and the source stays as it is.
\<close>

theorem jwt_source_exchanges_once:
  assumes "isOrigin h p" and "NewJWTBearerTokenSource x ip clientID subject (''https://'' @ h @ p) key w = (Inr ts, w1)"
  defines "rq \<equiv> JwtRequest (''https://'' @ h @ oauthTokenPath)
      \<lparr>cs_Iss = clientID, cs_Aud = ''https://'' @ h @ p, cs_Sub = subject, cs_Prn = subject\<rparr> key"
  shows "\<exists>tok. x_exchange x rq w = (Inr tok, w1)
    \<and> (\<forall>w2. reuseToken x ts w2 =
         (if validToken tok (x_now x w2) then (Inr tok, ts, w2)
          else (case x_exchange x rq w2 of
                  (Inl e, w3) \<Rightarrow> (Inl e, ts, w3)
                | (Inr t, w3) \<Rightarrow> (Inr t, ts\<lparr>rt_t := Some t\<rparr>, w3))))"
proof -
  let ?u = "emptyUrl\<lparr>u_Scheme := ''https'', u_Host := h, u_Path := p\<rparr>"
  have plain: "isHostName h" "isPlainPath p" using isOrigin_plain [OF assms(1)] by auto
  have "urlParse ip (''https://'' @ h @ p) = Inr ?u"
    using urlParse_plain [OF scheme_https(1) plain] scheme_https(2) by simp
  moreover have "urlString ?u = ''https://'' @ h @ p" using urlString_plain [OF _ plain, of "''https''"] by simp
  moreover have "urlString (JoinPath ?u oauthTokenPath) = ''https://'' @ h @ oauthTokenPath"
    using token_endpoint [OF assms(1), of "''https''"] by simp
  ultimately obtain tok src where tok: "sourceToken x src w = (Inr tok, w1)" and ts: "ts = \<lparr>rt_new = src, rt_t = Some tok\<rparr>"
    and src: "\<And>w. sourceToken x src w = x_exchange x rq w"
    using assms(2) by (auto simp: NewJWTBearerTokenSource_def primed_ok claimSet_def rq_def)
  then show ?thesis by (auto simp: reuseToken_def)
qed

definition demoAuth :: "tokenRequest list authEnv" where
  "demoAuth = \<lparr>x_exchange = (\<lambda>rq w. (Inr \<lparr>tok_AccessToken = ''tok'', tok_instance_url = None, tok_Expiry = Some 100\<rparr>, w @ [rq])),
     x_now = (\<lambda>w. 95 * int (length w))\<rparr>"

theorem jwt_source_exchanges_once_witness:
  "\<exists>ts w1 tok. NewJWTBearerTokenSource demoAuth Inr ''key'' ''ops'' ''https://login.salesforce.com'' ''pem'' [] = (Inr ts, w1)
     \<and> length w1 = 1 \<and> reuseToken demoAuth ts [] = (Inr tok, ts, [])
     \<and> length (snd (snd (reuseToken demoAuth ts w1))) = 2"
proof -
  have o: "isOrigin ''login.salesforce.com'' ''''" by code_simp
  have "urlParse Inr ''https://login.salesforce.com'' = Inr (emptyUrl\<lparr>u_Scheme := ''https'', u_Host := ''login.salesforce.com''\<rparr>)"
    by code_simp
  then obtain ts w1 where new: "NewJWTBearerTokenSource demoAuth Inr ''key'' ''ops'' ''https://login.salesforce.com'' ''pem'' [] = (Inr ts, w1)"
    by (simp add: NewJWTBearerTokenSource_def primed_def reuseToken_def demoAuth_def)
  with jwt_source_exchanges_once [OF o, of demoAuth Inr "''key''" "''ops''" "''pem''" "[]" ts w1]
  show ?thesis by (auto simp: demoAuth_def validToken_def expired_def defaultExpiryDelta_def)
qed

end
