(* ===== verification/Connector.thy ===== *)
theory Connector
  imports Conn_Users Conn_Refinement Conn_Apps Conn_Auth
begin

text \<open>
  The connector object of \<^verbatim>\<open>connector/connector.go\<close>: its resource syncers, which the SDK calls through one
  interface, the validation of the credentials and the registration of its action.
\<close>

section \<open>The connector\<close>

record Salesforce =
  sf_instanceURL :: string
  sf_shouldUseUsernameForEmail :: bool
  sf_syncConnectedApps :: bool
  sf_syncDeactivatedUsers :: bool
  sf_syncNonStandardUsers :: bool
  sf_licenseToLeastProfileMapping :: "string \<rightharpoonup> string"

text \<open>The implementations of the SDK's \<open>ResourceSyncerV2\<close> interface; the client they share is in the state.\<close>

datatype syncer =
    Users userBuilder
  | Groups
  | Permissions
  | Profiles profileBuilder
  | Roles
  | PermissionSetGroups
  | Territories
  | Agents
  | ConnectedApplications

text \<open>The constructors of the builders that hold nothing but the client.\<close>

definition newGroupBuilder :: syncer where "newGroupBuilder = Groups"
definition newPermissionBuilder :: syncer where "newPermissionBuilder = Permissions"
definition newRoleBuilder :: syncer where "newRoleBuilder = Roles"
definition newPermissionSetGroupBuilder :: syncer where "newPermissionSetGroupBuilder = PermissionSetGroups"
definition newTerritoryBuilder :: syncer where "newTerritoryBuilder = Territories"
definition newAgentBuilder :: syncer where "newAgentBuilder = Agents"
definition newConnectedApplicationBuilder :: syncer where "newConnectedApplicationBuilder = ConnectedApplications"

lemmas builder_defs = newGroupBuilder_def newPermissionBuilder_def newRoleBuilder_def newPermissionSetGroupBuilder_def
  newTerritoryBuilder_def newAgentBuilder_def newConnectedApplicationBuilder_def

definition ResourceSyncers :: "Salesforce \<Rightarrow> syncer list" where
  "ResourceSyncers d =
     [Users (newUserBuilder (sf_shouldUseUsernameForEmail d) (sf_syncDeactivatedUsers d) (sf_syncNonStandardUsers d)),
      newGroupBuilder, newPermissionBuilder, Profiles (newProfileBuilder (sf_licenseToLeastProfileMapping d)), newRoleBuilder,
      newPermissionSetGroupBuilder, newTerritoryBuilder, newAgentBuilder]
     @ (if sf_syncConnectedApps d then [newConnectedApplicationBuilder] else [])"

text \<open>The method \<open>ResourceType\<close> of every builder.\<close>

definition userResourceType :: ResourceType where "userResourceType = resourceTypeUser"
definition groupResourceType :: ResourceType where "groupResourceType = resourceTypeGroup"
definition permissionResourceType :: ResourceType where "permissionResourceType = resourceTypePermissionSet"
definition profileResourceType :: ResourceType where "profileResourceType = resourceTypeProfile"
definition roleResourceType :: ResourceType where "roleResourceType = resourceTypeRole"
definition psgResourceType :: ResourceType where "psgResourceType = resourceTypePermissionSetGroup"
definition territoryResourceType :: ResourceType where "territoryResourceType = resourceTypeTerritory"
definition agentResourceType :: ResourceType where "agentResourceType = resourceTypeAgent"
definition appResourceType :: ResourceType where "appResourceType = resourceTypeConnectedApplication"

lemmas resourceType_methods [simp] = userResourceType_def groupResourceType_def permissionResourceType_def profileResourceType_def roleResourceType_def
  psgResourceType_def territoryResourceType_def agentResourceType_def appResourceType_def

fun syncerType :: "syncer \<Rightarrow> ResourceType" where
  "syncerType (Users b) = userResourceType"
| "syncerType Groups = groupResourceType"
| "syncerType Permissions = permissionResourceType"
| "syncerType (Profiles b) = profileResourceType"
| "syncerType Roles = roleResourceType"
| "syncerType PermissionSetGroups = psgResourceType"
| "syncerType Territories = territoryResourceType"
| "syncerType Agents = agentResourceType"
| "syncerType ConnectedApplications = appResourceType"

section \<open>Calls through the interface\<close>

fun syncerList :: "'w env \<Rightarrow> syncer \<Rightarrow> string \<Rightarrow> int \<Rightarrow> (Resource listed, 'w) op" where
  "syncerList env (Users b) tok sz = userList env b tok sz"
| "syncerList env Groups tok sz = groupList env tok sz"
| "syncerList env Permissions tok sz = permissionList env tok sz"
| "syncerList env (Profiles b) tok sz = profileList env tok sz"
| "syncerList env Roles tok sz = roleList env tok sz"
| "syncerList env PermissionSetGroups tok sz = psgList env tok sz"
| "syncerList env Territories tok sz = territoryList env tok sz"
| "syncerList env Agents tok sz = agentList env tok"
| "syncerList env ConnectedApplications tok sz = appList env tok sz"

definition pureListing :: "'a listed \<Rightarrow> ('a listed, 'w) op" where
  "pureListing l s = Some (l, s)"

fun syncerEntitlements :: "syncer \<Rightarrow> Resource \<Rightarrow> Entitlement listed" where
  "syncerEntitlements (Users b) res = userEntitlements res"
| "syncerEntitlements Groups res = groupEntitlements res"
| "syncerEntitlements Permissions res = permissionEntitlements res"
| "syncerEntitlements (Profiles b) res = profileEntitlements res"
| "syncerEntitlements Roles res = roleEntitlements res"
| "syncerEntitlements PermissionSetGroups res = psgEntitlements res"
| "syncerEntitlements Territories res = territoryEntitlements res"
| "syncerEntitlements Agents res = agentEntitlements res"
| "syncerEntitlements ConnectedApplications res = appEntitlements res"

fun syncerGrants :: "'w env \<Rightarrow> syncer \<Rightarrow> Resource \<Rightarrow> string \<Rightarrow> int \<Rightarrow> (Grant listed, 'w) op" where
  "syncerGrants env (Users b) res tok sz = pureListing (userGrants res)"
| "syncerGrants env Groups res tok sz = groupGrants env res tok sz"
| "syncerGrants env Permissions res tok sz = permissionGrants env res sz tok"
| "syncerGrants env (Profiles b) res tok sz = profileGrants env res tok sz"
| "syncerGrants env Roles res tok sz = roleGrants env res tok sz"
| "syncerGrants env PermissionSetGroups res tok sz = psgGrants env res tok sz"
| "syncerGrants env Territories res tok sz = territoryGrants env res tok sz"
| "syncerGrants env Agents res tok sz = pureListing (agentGrants res)"
| "syncerGrants env ConnectedApplications res tok sz = pureListing (appGrants res)"

text \<open>
  Provisioning: the older interface returns no grants. A syncer that implements neither interface
  cannot be asked.
\<close>

definition withoutGrants :: "(changed, 'w) op \<Rightarrow> (granted, 'w) op" where
  "withoutGrants oper s = do { ((annos, err), s) \<leftarrow> oper s; Some (([], annos, err), s) }"

fun syncerGrant :: "'w env \<Rightarrow> syncer \<Rightarrow> (Resource \<Rightarrow> Entitlement \<Rightarrow> (granted, 'w) op) option" where
  "syncerGrant env Groups = Some (\<lambda>p e. withoutGrants (groupGrant env p e))"
| "syncerGrant env Permissions = Some (\<lambda>p e. withoutGrants (permissionGrant env p e))"
| "syncerGrant env (Profiles b) = Some (\<lambda>p e. withoutGrants (profileGrant env p e))"
| "syncerGrant env Roles = Some (\<lambda>p e. withoutGrants (roleGrant env p e))"
| "syncerGrant env PermissionSetGroups = Some (psgGrant env)"
| "syncerGrant env Territories = Some (territoryGrant env)"
| "syncerGrant env _ = None"

fun syncerRevoke :: "'w env \<Rightarrow> syncer \<Rightarrow> (Grant \<Rightarrow> (changed, 'w) op) option" where
  "syncerRevoke env Groups = Some (groupRevoke env)"
| "syncerRevoke env Permissions = Some (permissionRevoke env)"
| "syncerRevoke env (Profiles b) = Some (profileRevoke env b)"
| "syncerRevoke env Roles = Some (roleRevoke env)"
| "syncerRevoke env PermissionSetGroups = Some (psgRevoke env)"
| "syncerRevoke env Territories = Some (territoryRevoke env)"
| "syncerRevoke env _ = None"

section \<open>Validation, metadata and actions\<close>

definition Validate :: "'w env \<Rightarrow> (changed, 'w) op" where
  "Validate env = reportChange (Ping env)"

record ConnectorMetadata =
  md_DisplayName :: string
  md_Description :: string
  md_AccountCreationSchema :: "(string \<times> SchemaStringField) list"

definition Metadata :: ConnectorMetadata where
  "Metadata = \<lparr>md_DisplayName = ''Salesforce'', md_Description = ''Connector syncing Salesforce users'',
     md_AccountCreationSchema = accountCreationSchema\<rparr>"

text \<open>The schema of the action: its name, its arguments with their kinds, all required, and its result.\<close>

datatype field_kind = StringKind | BoolKind

record ActionField =
  af_Name :: string
  af_DisplayName :: string
  af_Description :: string
  af_Field :: field_kind
  af_IsRequired :: bool

record ActionSchema =
  as_Name :: string
  as_Arguments :: "ActionField list"
  as_ReturnTypes :: "ActionField list"

definition updateUserStatusActionSchema :: ActionSchema where
  "updateUserStatusActionSchema = \<lparr>as_Name = ''update_user_status'',
     as_Arguments =
       [\<lparr>af_Name = ''resource_id'', af_DisplayName = ''User Resource ID'',
         af_Description = ''The ID of the user resource to update the status of'', af_Field = StringKind, af_IsRequired = True\<rparr>,
        \<lparr>af_Name = ''is_active'', af_DisplayName = ''Is Active'',
         af_Description = ''Update the user status to active or inactive'', af_Field = BoolKind, af_IsRequired = True\<rparr>],
     as_ReturnTypes =
       [\<lparr>af_Name = ''success'', af_DisplayName = ''Success'',
         af_Description = ''Whether the user resource status was updated successfully'', af_Field = BoolKind, af_IsRequired = False\<rparr>]\<rparr>"

text \<open>\<open>GlobalActions\<close>: one registration, whose error is returned; the registry belongs to the SDK.\<close>

definition GlobalActions ::
  "(ActionSchema \<Rightarrow> 'h \<Rightarrow> 'reg \<Rightarrow> goerror + 'reg) \<Rightarrow> 'h \<Rightarrow> 'reg \<Rightarrow> goerror + 'reg" where
  "GlobalActions register handler reg = register updateUserStatusActionSchema handler reg"

section \<open>Contracts of the interface\<close>

interpretation m_syncerList: metered "syncerList (tracedEnv env) b tok n" 0 for env b tok n
proof unfold_locales
  fix s s' :: "('a \<times> request list) sys" and r
  assume "syncerList (tracedEnv env) b tok n s = Some (r, s')"
  then show "grew 0 (sys_w s) (sys_w s')"
    by (cases b) (auto dest: m_userList.op_grew m_groupList.op_grew m_permissionList.op_grew m_profileList.op_grew
        m_roleList.op_grew m_psgList.op_grew m_territoryList.op_grew m_agentList.op_grew m_appList.op_grew)
qed

interpretation m_syncerGrants: metered "syncerGrants (tracedEnv env) b res tok n" 0 for env b res tok n
proof unfold_locales
  fix s s' :: "('a \<times> request list) sys" and r
  assume "syncerGrants (tracedEnv env) b res tok n s = Some (r, s')"
  then show "grew 0 (sys_w s) (sys_w s')"
    by (cases b) (auto simp: pureListing_def dest: m_groupGrants.op_grew m_permissionGrants.op_grew m_profileGrants.op_grew
        m_roleGrants.op_grew m_psgGrants.op_grew m_territoryGrants.op_grew)
qed

interpretation m_validate: metered "Validate (tracedEnv env)" 0 for env
  by unfold_locales (auto simp: Validate_def intro: reportChange_grew m_ping.op_grew)

lemma withoutGrants_grew:
  "withoutGrants oper s = Some (r, s') \<Longrightarrow> (\<And>x s1. oper s = Some (x, s1) \<Longrightarrow> grew n (sys_w s) (sys_w s1)) \<Longrightarrow>
     grew n (sys_w s) (sys_w s')"
  by (auto simp: withoutGrants_def split: prod.split_asm Option.bind_split_asm)

section \<open>Construction\<close>

text \<open>
  \<open>New\<close> of \<^verbatim>\<open>connector.go\<close>. The options carry the selected authentication method and possibly a token source of
  the SDK. The result is the connector, its client and where the client's tokens come from.
\<close>

record ConnectorOpts =
  co_SelectedAuthMethod :: string
  co_TokenSource :: bool

datatype token_origin = Supplied | Created reuseTokenSource

definition newConnector ::
  "'w authEnv \<Rightarrow> (string \<Rightarrow> goerror + string) \<Rightarrow> SalesforceConfig \<Rightarrow> ConnectorOpts option \<Rightarrow> 'w
     \<Rightarrow> (goerror + Salesforce \<times> SalesforceClient \<times> token_origin option) \<times> 'w" where
  "newConnector x ip cfg opts w =
     (case fallBackToHTTPS ip (InstanceUrl cfg) of
        Inl e \<Rightarrow> (Inl e, w)
      | Inr instanceURL \<Rightarrow>
          let authMethod = (case opts of None \<Rightarrow> '''' | Some p \<Rightarrow> co_SelectedAuthMethod p);
              salesforce = \<lparr>sf_instanceURL = instanceURL, sf_shouldUseUsernameForEmail = UserUsernameForEmail cfg,
                sf_syncConnectedApps = cfg_SyncConnectedApps cfg, sf_syncDeactivatedUsers = cfg_SyncDeactivatedUsers cfg,
                sf_syncNonStandardUsers = cfg_SyncNonStandardUsers cfg,
                sf_licenseToLeastProfileMapping = GetLicenseToLeastPrivilegedProfileMapping cfg\<rparr>;
              withTokens = (\<lambda>ts. Inr (salesforce, New instanceURL (ts \<noteq> None) '''' '''' '''', ts))
          in if authMethod = SalesforceOAuthGroup
             then (withTokens (if \<exists>p. opts = Some p \<and> co_TokenSource p then Some Supplied else None), w)
             else if authMethod = SalesforceJWTBearerGroup
             then (case NewJWTBearerTokenSource x ip (SalesforceClientId cfg) (SalesforceJwtSubject cfg) (SalesforceLoginUrl cfg)
                          (SalesforcePrivateKey cfg) w of
                     (Inl e, w) \<Rightarrow> (Inl (ErrWrap ''baton-salesforce: failed to create JWT bearer token source'' e), w)
                   | (Inr ts, w) \<Rightarrow> (withTokens (Some (Created ts)), w))
             else if authMethod = SalesforceClientCredentialsGroup
             then (case NewClientCredentialsTokenSource x ip (SalesforceClientId cfg) (SalesforceClientSecret cfg) instanceURL w of
                     (Inl e, w) \<Rightarrow> (Inl (ErrWrap ''baton-salesforce: failed to create client credentials token source'' e), w)
                   | (Inr ts, w) \<Rightarrow> (withTokens (Some (Created ts)), w))
             else (Inr (salesforce, New instanceURL False (SalesforceUsername cfg) (SalesforcePassword cfg) (SecurityToken cfg), None), w))"

text \<open>\<open>Asset\<close> serves nothing, and new accounts get no password from the connector.\<close>

definition Asset :: "string \<times> goerror option" where
  "Asset = ('''', None)"

datatype credential_option = CREDENTIAL_OPTION_NO_PASSWORD

definition CreateAccountCapabilityDetails :: "credential_option list \<times> credential_option" where
  "CreateAccountCapabilityDetails = ([CREDENTIAL_OPTION_NO_PASSWORD], CREDENTIAL_OPTION_NO_PASSWORD)"

section \<open>Properties\<close>

lemma primed_source:
  "primed x failure src w = (Inr r, w') \<Longrightarrow> \<exists>tok. r = \<lparr>rt_new = src, rt_t = Some tok\<rparr> \<and> sourceToken x src w = (Inr tok, w')"
  by (auto simp: primed_def reuseToken_def ReuseTokenSource_def split: prod.split_asm sum.split_asm)

text \<open>The source of a new token source, and the exchange that its first token comes from.\<close>

lemma NewJWTBearerTokenSource_source:
  "NewJWTBearerTokenSource x ip clientID subject loginURL key w = (Inr r, w') \<Longrightarrow>
     \<exists>u tok. urlParse ip loginURL = Inr u
       \<and> rt_new r = JwtSource \<lparr>jc_Email = clientID, jc_Subject = subject, jc_PrivateKey = key,
            jc_TokenURL = urlString (JoinPath u oauthTokenPath), jc_Audience = urlString u\<rparr>
       \<and> rt_t r = Some tok \<and> sourceToken x (rt_new r) w = (Inr tok, w')"
  by (auto simp: NewJWTBearerTokenSource_def dest!: primed_source split: if_split_asm sum.split_asm)

lemma NewClientCredentialsTokenSource_source:
  "NewClientCredentialsTokenSource x ip clientID clientSecret instanceURL w = (Inr r, w') \<Longrightarrow>
     \<exists>u tok. urlParse ip instanceURL = Inr u
       \<and> rt_new r = CredentialsSource \<lparr>cc_ClientID = clientID, cc_ClientSecret = clientSecret,
            cc_TokenURL = urlString (JoinPath u oauthTokenPath)\<rparr>
       \<and> rt_t r = Some tok \<and> sourceToken x (rt_new r) w = (Inr tok, w')"
  by (auto simp: NewClientCredentialsTokenSource_def dest!: primed_source split: if_split_asm sum.split_asm)

text \<open>
  C22. The connector authenticates as the selected method says: a new connector has an uninitialised client for the
  completed instance URL. With the JWT method its tokens come from an assertion for the configured client id, subject and key,
  sent to the token endpoint of the login URL; with client credentials, from the configured client id and secret, sent to that of the
  instance; in both cases one token has been fetched, which the source starts with. With OAuth they come from the source of the
  SDK; when it supplies none there is neither a source nor a user name, password or security token. These three methods leave the user
  name, password and security token empty; every other one, and none, means those of the configuration and no token source.
\<close>

theorem new_connector_authenticates_one_way:
  assumes "newConnector x ip cfg opts w = (Inr (sf, c, ts), w')"
    and "authMethod = (case opts of None \<Rightarrow> '''' | Some p \<Rightarrow> co_SelectedAuthMethod p)"
    and "credentials = (sc_Username c, sc_password c, sc_securityToken c)"
  shows "fallBackToHTTPS ip (InstanceUrl cfg) = Inr (sc_baseUrl c) \<and> sf_instanceURL sf = sc_baseUrl c \<and> \<not> sc_initialized c
    \<and> sc_TokenSource c = (ts \<noteq> None)
    \<and> (if authMethod = ''oauth-group''
       then w' = w \<and> ts = (if \<exists>p. opts = Some p \<and> co_TokenSource p then Some Supplied else None) \<and> credentials = ('''', '''', '''')
       else if authMethod = ''jwt-bearer-group''
       then credentials = ('''', '''', '''') \<and>
         (\<exists>r tok u. ts = Some (Created r) \<and> urlParse ip (SalesforceLoginUrl cfg) = Inr u
            \<and> rt_new r = JwtSource \<lparr>jc_Email = SalesforceClientId cfg, jc_Subject = SalesforceJwtSubject cfg,
                 jc_PrivateKey = SalesforcePrivateKey cfg, jc_TokenURL = urlString (JoinPath u oauthTokenPath), jc_Audience = urlString u\<rparr>
            \<and> rt_t r = Some tok \<and> sourceToken x (rt_new r) w = (Inr tok, w'))
       else if authMethod = ''client-credentials-group''
       then credentials = ('''', '''', '''') \<and>
         (\<exists>r tok u. ts = Some (Created r) \<and> urlParse ip (sc_baseUrl c) = Inr u
            \<and> rt_new r = CredentialsSource \<lparr>cc_ClientID = SalesforceClientId cfg, cc_ClientSecret = SalesforceClientSecret cfg,
                 cc_TokenURL = urlString (JoinPath u oauthTokenPath)\<rparr>
            \<and> rt_t r = Some tok \<and> sourceToken x (rt_new r) w = (Inr tok, w'))
       else w' = w \<and> ts = None \<and> credentials = (SalesforceUsername cfg, SalesforcePassword cfg, SecurityToken cfg))"
proof -
  note groups = SalesforceOAuthGroup_def SalesforceJWTBearerGroup_def SalesforceClientCredentialsGroup_def
  obtain url where url: "fallBackToHTTPS ip (InstanceUrl cfg) = Inr url"
    using assms(1) by (auto simp: newConnector_def split: sum.split_asm)
  note new = assms(1) [unfolded newConnector_def url sum.case Let_def groups, folded assms(2)]
  consider "authMethod = ''oauth-group''" | "authMethod = ''jwt-bearer-group''" | "authMethod = ''client-credentials-group''"
    | "authMethod \<notin> {''oauth-group'', ''jwt-bearer-group'', ''client-credentials-group''}" by blast
  then show ?thesis
  proof cases
    case 2
    with new obtain r where "NewJWTBearerTokenSource x ip (SalesforceClientId cfg) (SalesforceJwtSubject cfg) (SalesforceLoginUrl cfg)
        (SalesforcePrivateKey cfg) w = (Inr r, w')" "ts = Some (Created r)" "c = New url True '''' '''' ''''" "sf_instanceURL sf = url"
      by (auto split: sum.split_asm prod.split_asm)
    with NewJWTBearerTokenSource_source [OF this(1)] 2 url assms(3) show ?thesis by (auto simp: New_def)
  next
    case 3
    with new obtain r where "NewClientCredentialsTokenSource x ip (SalesforceClientId cfg) (SalesforceClientSecret cfg) url w = (Inr r, w')"
      "ts = Some (Created r)" "c = New url True '''' '''' ''''" "sf_instanceURL sf = url"
      by (auto split: sum.split_asm prod.split_asm)
    with NewClientCredentialsTokenSource_source [OF this(1)] 3 url assms(3) show ?thesis by (auto simp: New_def)
  qed (use new url assms(3) in \<open>auto simp: New_def\<close>)
qed

definition demoConfig :: SalesforceConfig where
  "demoConfig = \<lparr>SalesforceUsername = ''ops@acme.com'', SalesforcePassword = ''pw'', SecurityToken = ''st'',
     InstanceUrl = ''acme.my.salesforce.com'', UserUsernameForEmail = False, cfg_SyncConnectedApps = True,
     cfg_SyncDeactivatedUsers = True, cfg_SyncNonStandardUsers = False,
     cfg_LicenseToLeastPrivilegedProfileMapping = [''lic'' \<mapsto> VString ''Minimum Access''], Oauth2Token = '''',
     SalesforceClientId = '''', SalesforceClientSecret = '''', SalesforcePrivateKey = '''', SalesforceJwtSubject = '''',
     SalesforceLoginUrl = ''''\<rparr>"

theorem new_connector_authenticates_one_way_witness:
  "\<exists>sf c. newConnector demoAuth Inr demoConfig None [] = (Inr (sf, c, None), []) \<and> \<not> sc_TokenSource c
     \<and> (sc_Username c, sc_password c, sc_securityToken c) = (''ops@acme.com'', ''pw'', ''st'')"
proof -
  have "fallBackToHTTPS Inr ''acme.my.salesforce.com'' = Inr ''https://acme.my.salesforce.com''" by code_simp
  then obtain sf c where new: "newConnector demoAuth Inr demoConfig None [] = (Inr (sf, c, None), [])"
    by (simp add: newConnector_def demoConfig_def SalesforceOAuthGroup_def SalesforceJWTBearerGroup_def
        SalesforceClientCredentialsGroup_def Let_def)
  from new_connector_authenticates_one_way [OF new refl refl] new show ?thesis by (simp add: demoConfig_def)
qed

end
