(* ===== verification/Full_Sync.thy ===== *)
theory Full_Sync
  imports Connector
begin

text \<open>
  Whole syncs through the interface of the connector: when Salesforce serves the results of the queries in
  pages, following the page tokens ends, with exactly what the records of all pages describe.
\<close>

section \<open>What is asked for\<close>

text \<open>The first request of the listing of a syncer, and what a record contributes to it.\<close>

fun listText :: "syncer \<Rightarrow> int \<Rightarrow> string option" where
  "listText (Users b) n = getQueryString (usersQuery (ub_syncNonStandardUsers b)) '''' n"
| "listText Groups n = getQueryString (NewQuery TableNameGroups []) '''' n"
| "listText Permissions n = getQueryString (NewQuery TableNamePermissionsSets []) '''' n"
| "listText (Profiles b) n = getQueryString (NewQuery TableNameProfiles []) '''' n"
| "listText Roles n = getQueryString (NewQuery TableNameRoles []) '''' n"
| "listText PermissionSetGroups n = getQueryString (NewQuery TablePermissionSetGroup []) '''' n"
| "listText Territories n = getQueryString territoriesQuery '''' n"
| "listText Agents n = Some (versionedPath AgentforceAPIVersion botSoql)"
| "listText ConnectedApplications n = getQueryString (NewQuery TableNameConnectedApps []) '''' n"

fun listYield :: "(string \<rightharpoonup> sobject) \<Rightarrow> syncer \<Rightarrow> sobject \<Rightarrow> Resource list option" where
  "listYield logins (Users b) = userYield b logins"
| "listYield logins Groups = groupYield"
| "listYield logins Permissions = permissionYield"
| "listYield logins (Profiles b) = profileYield"
| "listYield logins Roles = roleYield"
| "listYield logins PermissionSetGroups = psgYield"
| "listYield logins Territories = territoryYield"
| "listYield logins Agents = agentYield"
| "listYield logins ConnectedApplications = appYield"

text \<open>The grants of a resource are read in phases: two for permission sets, none where there are no grants.\<close>

fun grantPhases :: "syncer \<Rightarrow> Resource \<Rightarrow> int \<Rightarrow> (string option \<times> (sobject \<Rightarrow> Grant list option)) list" where
  "grantPhases Groups res n =
     [(getQueryString (WhereEq (NewQuery TableNameGroupMemberships []) ''GroupId'' (ri_Resource (r_Id res))) '''' n, memberYield res)]"
| "grantPhases Permissions res n =
     [(getQueryString (WhereEq (NewQuery TableNamePermissionAssignments []) ''PermissionSetId'' (ri_Resource (r_Id res))) '''' n,
       assignmentYield res),
      (getQueryString (WhereEq (NewQuery TablePermissionSetGroupComponent []) ''PermissionSetId'' (ri_Resource (r_Id res))) '''' n,
       componentYield res)]"
| "grantPhases (Profiles b) res n =
     [(getQueryString (assignedUsersQuery ''ProfileId'' (ri_Resource (r_Id res))) '''' n, profileHolderYield res)]"
| "grantPhases Roles res n =
     [(getQueryString (assignedUsersQuery ''UserRoleId'' (ri_Resource (r_Id res))) '''' n, roleHolderYield res)]"
| "grantPhases PermissionSetGroups res n =
     [(getQueryString (WhereEq (NewQuery TableNamePermissionAssignments groupAssignmentSelectors) ''PermissionSetGroupId''
         (ri_Resource (r_Id res))) '''' n, psgMemberYield res)]"
| "grantPhases Territories res n =
     [(getQueryString (WhereEq (NewQuery TableNameUserTerritory2Assoc []) ''Territory2Id'' (ri_Resource (r_Id res))) '''' n,
       territoryMemberYield res)]"
| "grantPhases _ res n = []"

text \<open>A phase is served when its query is answered in pages whose records can all be described.\<close>

fun phaseServed ::
  "('w \<Rightarrow> bool) \<Rightarrow> 'w env \<Rightarrow> sfclient \<Rightarrow> string option \<times> (sobject \<Rightarrow> 'a list option) \<Rightarrow> sobject list \<times> (string \<times> sobject list) list \<times> 'a list list \<Rightarrow> bool" where
  "phaseServed P env cl (first, yield) (recs, rest, xss) \<longleftrightarrow>
     (\<exists>q. first = Some q \<and> serves P env cl q recs rest) \<and> collect yield (allRecords recs rest) = Some xss"

section \<open>Listings end\<close>

lemma chain_any: "chain ok sync tok s xs s' \<Longrightarrow> chain (\<lambda>_. True) sync tok s xs s'"
  by (erule chain_mono) simp

lemma syncer_listing:
  assumes "isLoggedIn cl" and "\<forall>ub. b = Users ub \<longrightarrow> serves_logins P env cl logins"
  shows "listing P env cl (listText b n) (listYield logins b) (\<lambda>tok. syncerList env b tok n)"
proof (cases b)
  case (Users ub)
  with assms(2) have "serves_logins P env cl logins" by simp
  from userList_pages [OF this assms(1)] Users show ?thesis by simp
qed (use groupList_pages.listing_axioms permissionList_pages.listing_axioms profileList_pages.listing_axioms
    roleList_pages.listing_axioms psgList_pages.listing_axioms territoryList_pages.listing_axioms
    agentList_pages.listing_axioms appList_pages.listing_axioms in simp_all)

lemma grant_listing:
  assumes "grantPhases b res n = [(first, yield)]"
  shows "listing P env cl first yield (\<lambda>tok. syncerGrants env b res tok n)"
  using assms groupGrants_pages.listing_axioms profileGrants_pages.listing_axioms roleGrants_pages.listing_axioms
    psgGrants_pages.listing_axioms territoryGrants_pages.listing_axioms
  by (cases b) auto

lemma pureListing_chain: "chain (\<lambda>_. True) (\<lambda>tok. pureListing ([], noResults, None)) '''' s [] s"
  by (rule chain.final [where res = noResults]) (simp_all add: pureListing_def noResults_def)

lemma grants_end:
  assumes "isLoggedIn cl" and "session s cl t" and "P (sys_w s)" and "list_all2 (phaseServed P env cl) (grantPhases b res n) served"
  shows "\<exists>t' w'. chain (\<lambda>_. True) (\<lambda>tok. syncerGrants env b res tok n) '''' s (concat (concat (map (snd \<circ> snd) served))) (after s t' w')
    \<and> P w'"
proof -
  consider (none) "grantPhases b res n = []" | (single) first yield where "grantPhases b res n = [(first, yield)]"
    | (two) "b = Permissions" by (cases b) auto
  then show ?thesis
  proof cases
    case none
    with assms(4) have "served = []" by simp
    moreover from none have "syncerGrants env b res tok n = pureListing ([], noResults, None)" for tok
      by (cases b) (simp_all add: userGrants_def agentGrants_def appGrants_def)
    moreover have "after s t (sys_w s) = s" using assms(2) by (simp add: session_def after_def)
    ultimately show ?thesis
      using assms(3) pureListing_chain [of s] by (intro exI [of _ t] exI [of _ "sys_w s"]) simp
  next
    case single
    with assms(4) obtain recs rest gss where served: "served = [(recs, rest, gss)]" "phaseServed P env cl (first, yield) (recs, rest, gss)"
      by (auto simp: list_all2_Cons1)
    then show ?thesis
      using listing.full_sync [OF grant_listing [OF single, of P] assms(1-3)] by (fastforce intro: chain_any)
  next
    case two
    with assms(4) obtain recs1 rest1 gss recs2 rest2 css where "served = [(recs1, rest1, gss), (recs2, rest2, css)]"
      by (auto simp: list_all2_Cons1)
    with assms(4) two permissionGrants_full_sync [where P = P, OF assms(1-3)] show ?thesis by fastforce
  qed
qed

section \<open>Properties\<close>

text \<open>
  C1. A full sync of any resource type ends with everything: when Salesforce, while its data does not change (\<open>P\<close>),
  answers the query of a listing in any number of pages, each but the last naming the path of the next one, and (for
  users) serves the login records, then starting with the empty token and following the returned tokens ends, in
  exactly one way, and the resources collected are those which the records of all pages describe,
  in order and without loss or repetition.
\<close>

theorem full_sync_lists_everything:
  assumes "isLoggedIn cl" and "session s cl t" and "P (sys_w s)" and "\<forall>ub. b = Users ub \<longrightarrow> serves_logins P env cl logins"
    and "phaseServed P env cl (listText b n, listYield logins b) (recs, rest, rss)"
  shows "\<exists>s'. P (sys_w s')
    \<and> (\<forall>xs s''. chain (\<lambda>_. True) (\<lambda>tok. syncerList env b tok n) '''' s xs s'' \<longleftrightarrow> xs = concat rss \<and> s'' = s')"
proof -
  from assms(5) obtain q where "listText b n = Some q" "serves P env cl q recs rest"
    "collect (listYield logins b) (allRecords recs rest) = Some rss" by auto
  from listing.full_sync [OF syncer_listing [OF assms(1,4)] assms(1-3) this] obtain t' w' where
    pages: "chain (\<lambda>u. hasPrefix u ''/services/data'') (\<lambda>tok. syncerList env b tok n) '''' s (concat rss) (after s t' w')" "P w'"
    by blast
  then have "chain (\<lambda>_. True) (\<lambda>tok. syncerList env b tok n) '''' s (concat rss) (after s t' w')" "P (sys_w (after s t' w'))"
    by (simp_all add: chain_any)
  with chain_deterministic show ?thesis by blast
qed

text \<open>A server with two pages of users and no login records.\<close>

definition demoUserOf :: "string \<Rightarrow> gomap" where
  "demoUserOf i = [''Id'' \<mapsto> VString i, ''IsActive'' \<mapsto> VBool True, ''UserType'' \<mapsto> VString ''Standard'']"

definition demoPath :: string where "demoPath = ''/services/data/v54.0/query/01g-2000''"

definition demoDocs :: "string \<Rightarrow> document" where
  "demoDocs url =
     (if Some url = map_option (queryURL demoClient) (listText (Users (newUserBuilder False False False)) 100)
      then morePage demoPath [demoUserOf ''005a'']
      else if url = queryURL demoClient demoPath then lastPage [demoUserOf ''005b''] else lastPage [])"

lemma demo_texts:
  "\<exists>q. listText (Users (newUserBuilder False False False)) 100 = Some (''SELECT FirstName'' @ q)"
  "getQueryString (loginQuery ids) '''' k = Some q \<Longrightarrow> length ids \<le> userLoginInClauseChunkSize \<Longrightarrow> \<exists>q'. q = ''SELECT UserId'' @ q'"
proof -
  show "\<exists>q. listText (Users (newUserBuilder False False False)) 100 = Some (''SELECT FirstName'' @ q)"
    using getQueryString_known [of TableNameUsers "[CEq ''UserType'' ''Standard'']" 100]
    by (simp add: usersQuery_def newUserBuilder_def knownTables_def plain_char_def max_int64_def renderQuery_def
        querySelectors_def TableNamesToFieldsMapping_def table_defs)
  assume "getQueryString (loginQuery ids) '''' k = Some q" "length ids \<le> userLoginInClauseChunkSize"
  then show "\<exists>q'. q = ''SELECT UserId'' @ q'"
    using getQueryString_known [of TableNameUserLogin "[CIn ''UserId'' ids]" k]
    by (auto simp: loginQuery_def userLoginInClauseChunkSize_def knownTables_def plain_char_def max_int64_def renderQuery_def
        querySelectors_def TableNamesToFieldsMapping_def table_defs)
qed

lemma demo_urls:
  "queryURL demoClient (''SELECT UserId'' @ q') \<noteq> queryURL demoClient (''SELECT FirstName'' @ q)"
  "queryURL demoClient (''SELECT UserId'' @ q') \<noteq> queryURL demoClient demoPath"
  "queryURL demoClient demoPath \<noteq> queryURL demoClient (''SELECT FirstName'' @ q)"
  by (simp_all add: queryURL_def demoClient_def demoPath_def hasPrefix_def QueryEscape_def escapeByte_def unreserved_def)

lemma demo_requestable [simp]: "requestable (queryURL demoClient (''SELECT'' @ q))" "requestable (queryURL demoClient demoPath)"
proof -
  have "\<not> hasPrefix (''SELECT'' @ q) ''/services/data''" by (simp add: hasPrefix_def)
  then show "requestable (queryURL demoClient (''SELECT'' @ q))" using requestable_queryURL demo_plain by blast
  show "requestable (queryURL demoClient demoPath)"
    by (rule requestable_pageURL [OF demo_plain]) (simp_all add: demoPath_def hasPrefix_def plain_simps)
qed

lemma demo_serves_logins: "serves_logins (\<lambda>_. True) (pagedEnv demoDocs) demoClient Map.empty"
  unfolding serves_logins_def
proof (intro conjI allI impI)
  fix ids q
  assume "ids \<noteq> [] \<and> length ids \<le> userLoginInClauseChunkSize \<and> getQueryString (loginQuery ids) '''' (int (length ids)) = Some q"
  then obtain q' where q': "q = ''SELECT UserId'' @ q'" using demo_texts(2) by blast
  then have "demoDocs (queryURL demoClient q) = lastPage []"
    using demo_texts(1) demo_urls(1,2) unfolding demoDocs_def by fastforce
  then have "answers (\<lambda>_. True) (pagedEnv demoDocs) demoClient q \<lparr>qr_Done = True, qr_NextRecordsURL = '''', qr_Records = []\<rparr>"
    using demo_requestable(1) [of "'' UserId'' @ q'"] q' by (intro pagedEnv_answers) (simp_all add: decode_lastPage)
  then show "\<exists>recs. answers (\<lambda>_. True) (pagedEnv demoDocs) demoClient q \<lparr>qr_Done = True, qr_NextRecordsURL = '''', qr_Records = recs\<rparr>
      \<and> set recs = {rec. \<exists>u \<in> set ids. Map.empty u = Some rec}" by (intro exI [of _ "[]"]) simp
qed simp_all

lemma demo_pages:
  assumes "listText (Users (newUserBuilder False False False)) 100 = Some q"
  shows "serves (\<lambda>_. True) (pagedEnv demoDocs) demoClient q [setClient (demoUserOf ''005a'')] [(demoPath, [setClient (demoUserOf ''005b'')])]"
proof -
  from demo_texts(1) assms obtain q' where q': "q = ''SELECT FirstName'' @ q'" by fastforce
  then have url: "requestable (queryURL demoClient q)" using demo_requestable(1) [of "'' FirstName'' @ q'"] by simp
  have "queryURL demoClient demoPath \<noteq> queryURL demoClient q" using demo_urls(3) q' by simp
  with assms have "demoDocs (queryURL demoClient q) = morePage demoPath [demoUserOf ''005a'']"
    "demoDocs (queryURL demoClient demoPath) = lastPage [demoUserOf ''005b'']"
    by (simp_all add: demoDocs_def)
  moreover have "hasPrefix demoPath ''/services/data''" by (simp add: demoPath_def hasPrefix_def)
  ultimately show ?thesis using url
    by (auto simp: decode_morePage decode_lastPage intro!: pagedEnv_answers)
qed

lemma demo_described:
  "validUtf8 i \<Longrightarrow> \<exists>r. userYield (newUserBuilder False False False) Map.empty (setClient (demoUserOf i)) = Some [r]
    \<and> r_Id r = userId i"
  by (simp add: userYield_def yields_def demoUserOf_def rowUser_def getIsActive_def setClient_def mapIndex_def shouldSkipSyncingUserType_def
        sobject_key_defs parseSalesforceDatetime_def StringField_def userTypesToSkip_def sobjID_def getBoolField_def newUserBuilder_def
        licenseDefinitionKey_def SObjectField_def userResource_def newStruct_def validUtf8_def cont_def Let_def bindSum_def loginRow_def
        NewResource_def userId_def)

theorem full_sync_lists_everything_witness:
  "\<exists>xs s'. chain (\<lambda>_. True) (\<lambda>tok. syncerList (pagedEnv demoDocs) (Users (newUserBuilder False False False)) tok 100) '''' demoSys xs s'
     \<and> map r_Id xs = [userId ''005a'', userId ''005b'']"
proof -
  let ?b = "Users (newUserBuilder False False False)"
  obtain q where q: "listText ?b 100 = Some q" using demo_texts(1) by blast
  obtain r1 r2 where r: "userYield (newUserBuilder False False False) Map.empty (setClient (demoUserOf ''005a'')) = Some [r1]"
    "userYield (newUserBuilder False False False) Map.empty (setClient (demoUserOf ''005b'')) = Some [r2]"
    "r_Id r1 = userId ''005a''" "r_Id r2 = userId ''005b''"
    using demo_described [of "''005a''"] demo_described [of "''005b''"] by (auto simp: validUtf8_def)
  have served: "phaseServed (\<lambda>_. True) (pagedEnv demoDocs) demoClient (listText ?b 100, listYield Map.empty ?b)
      ([setClient (demoUserOf ''005a'')], [(demoPath, [setClient (demoUserOf ''005b'')])], [[r1], [r2]])"
    using demo_pages [OF q] q r(1,2) by (auto simp: allRecords_def)
  have "isLoggedIn demoClient" by (simp add: isLoggedIn_def demoClient_def)
  from full_sync_lists_everything [OF this demo_session(1) TrueI _ served] demo_serves_logins r(3,4) show ?thesis by auto
qed

text \<open>
  C7. A full sync of the grants of any resource ends with all of them: when Salesforce serves each
  query of the phases in pages (group memberships, role and profile holders, territory associations,
  permission set group assignments; for a permission set first its assignments, then the groups that contain it),
  following the returned tokens ends, in exactly one way, and the grants collected are those which the records of
  all pages of all phases describe, in order and without loss or repetition; the resources without grants end
  at once with none.
\<close>

theorem full_sync_finds_every_grant:
  assumes "isLoggedIn cl" and "session s cl t" and "P (sys_w s)" and "list_all2 (phaseServed P env cl) (grantPhases b res n) served"
  shows "\<exists>s'. P (sys_w s')
    \<and> (\<forall>gs s''. chain (\<lambda>_. True) (\<lambda>tok. syncerGrants env b res tok n) '''' s gs s''
         \<longleftrightarrow> gs = concat (concat (map (snd \<circ> snd) served)) \<and> s'' = s')"
proof -
  from grants_end [OF assms] obtain s' where
    "chain (\<lambda>_. True) (\<lambda>tok. syncerGrants env b res tok n) '''' s (concat (concat (map (snd \<circ> snd) served))) s'" "P (sys_w s')"
    by auto
  with chain_deterministic show ?thesis by blast
qed

theorem full_sync_finds_every_grant_witness:
  "\<exists>gs s'. chain (\<lambda>_. True) (\<lambda>tok. syncerGrants (pagedEnv (\<lambda>_. lastPage [demoAssignment])) Permissions
        (bareResource \<lparr>ri_ResourceType = ''permission'', ri_Resource = ''0PS1''\<rparr>) tok 100) '''' demoSys gs s'
     \<and> map (ri_Resource \<circ> r_Id \<circ> gr_Principal) gs = [''005u'', ''0PG1'']"
proof -
  let ?res = "bareResource \<lparr>ri_ResourceType = ''permission'', ri_Resource = ''0PS1''\<rparr>"
  let ?env = "pagedEnv (\<lambda>_. lastPage [demoAssignment])" and ?rec = "setClient demoAssignment"
  obtain q1 q2 where q: "getQueryString (WhereEq (NewQuery TableNamePermissionAssignments []) ''PermissionSetId'' ''0PS1'') '''' 100 = Some q1"
    "getQueryString (WhereEq (NewQuery TablePermissionSetGroupComponent []) ''PermissionSetId'' ''0PS1'') '''' 100 = Some q2"
    using one_condition_text [of TableNamePermissionAssignments "''PermissionSetId''"]
      one_condition_text [of TablePermissionSetGroupComponent "''PermissionSetId''"] by (fastforce simp: knownTables_def plain_char_def)
  have ans: "answers (\<lambda>_. True) ?env demoClient q' \<lparr>qr_Done = True, qr_NextRecordsURL = '''', qr_Records = [?rec]\<rparr>"
    if "q' = q1 \<or> q' = q2" for q'
    using that getQueryString_no_path [OF q(1)] getQueryString_no_path [OF q(2)]
    by (intro pagedEnv_answers) (auto simp: decode_lastPage intro: requestable_queryURL [OF demo_plain])
  obtain g1 g2 where g: "assignmentYield ?res ?rec = Some [g1]" "componentYield ?res ?rec = Some [g2]"
    "ri_Resource (r_Id (gr_Principal g1)) = ''005u''" "ri_Resource (r_Id (gr_Principal g2)) = ''0PG1''"
    by (simp add: assignmentYield_def componentYield_def yields_def rowPermissionSetAssignment_def rowGroupComponent_def
        demoAssignment_def getBoolField_def setClient_def mapIndex_def sobject_key_defs StringField_def bindSum_def
        assignmentGrant_def componentGrant_def userId_def Let_def)
  have served: "list_all2 (phaseServed (\<lambda>_. True) ?env demoClient) (grantPhases Permissions ?res 100) [([?rec], [], [[g1]]), ([?rec], [], [[g2]])]"
    using q g(1,2) ans by (simp add: bareResource_def allRecords_def)
  have "isLoggedIn demoClient" by (simp add: isLoggedIn_def demoClient_def)
  from full_sync_finds_every_grant [OF this demo_session(1) TrueI served] g(3,4) show ?thesis by auto
qed

end
