(* ===== verification/Member_Tables.thy ===== *)
theory Member_Tables
  imports Conn_Outcomes Full_Sync "HOL-Library.Multiset"
begin

text \<open>
  Group memberships, permission set assignments and permission set group assignments are tables with one record for each
  member. What the connector relies on in such a table is the same for all three, and so is what follows for looking up,
  creating and deleting a record; how a grant or a revocation ends when there is nothing to change differs.
\<close>

section \<open>The three tables\<close>

record memberKind =
  k_table :: string
  k_column :: string
  k_text :: "string \<Rightarrow> string"
  k_list :: string
  k_keys :: "string \<Rightarrow> gomap"

definition groupListText :: "string \<Rightarrow> string" where
  "groupListText gid = renderQuery (querySelectors TableNameGroupMemberships []) TableNameGroupMemberships
     [CEq ''GroupId'' gid] SalesforcePK"

definition permissionListText :: "string \<Rightarrow> string" where
  "permissionListText pid = renderQuery (querySelectors TableNamePermissionAssignments []) TableNamePermissionAssignments
     [CEq ''PermissionSetId'' pid] SalesforcePK"

definition psgListText :: "string \<Rightarrow> string" where
  "psgListText gid = renderQuery (querySelectors TableNamePermissionAssignments groupAssignmentSelectors)
     TableNamePermissionAssignments [CEq ''PermissionSetGroupId'' gid] SalesforcePK"

lemma list_texts:
  "getQueryString (WhereEq (NewQuery TableNameGroupMemberships []) ''GroupId'' x) '''' n = Some (groupListText x)"
  "getQueryString (WhereEq (NewQuery TableNamePermissionAssignments []) ''PermissionSetId'' x) '''' n = Some (permissionListText x)"
  using getQueryString_known [of TableNameGroupMemberships "[CEq ''GroupId'' x]" n]
    getQueryString_known [of TableNamePermissionAssignments "[CEq ''PermissionSetId'' x]" n]
  by (simp_all add: groupListText_def permissionListText_def knownTables_def plain_char_def max_int64_def)

lemma psg_list_text:
  "getQueryString (WhereEq (NewQuery TableNamePermissionAssignments groupAssignmentSelectors) ''PermissionSetGroupId'' x) '''' n
     = Some (psgListText x)"
  using getQueryString_conds [of TableNamePermissionAssignments groupAssignmentSelectors "[CEq ''PermissionSetGroupId'' x]" n]
  by (simp add: psgListText_def querySelectors_def groupAssignmentSelectors_def table_defs clean_def plain_char_def max_int64_def)

fun kindOf :: "syncer \<Rightarrow> string \<Rightarrow> memberKind" where
  "kindOf Groups i = \<lparr>k_table = TableNameGroupMemberships, k_column = ''UserOrGroupId'', k_text = (\<lambda>u. groupMemberText u i),
     k_list = groupListText i, k_keys = (\<lambda>u. groupKeys u i)\<rparr>"
| "kindOf Permissions i = \<lparr>k_table = TableNamePermissionAssignments, k_column = ''AssigneeId'', k_text = (\<lambda>u. permissionText u i),
     k_list = permissionListText i, k_keys = (\<lambda>u. permissionKeys u i)\<rparr>"
| "kindOf _ i = \<lparr>k_table = TableNamePermissionAssignments, k_column = ''AssigneeId'', k_text = (\<lambda>u. psgMemberText u i),
     k_list = psgListText i, k_keys = (\<lambda>u. psgKeys u i)\<rparr>"

abbreviation memberSyncers :: "syncer set" where
  "memberSyncers \<equiv> {Groups, Permissions, PermissionSetGroups}"

lemma kindOf_wf [simp]:
  assumes "b \<in> memberSyncers"
  shows "k_table (kindOf b i) \<noteq> ''''" "plainValues (k_keys (kindOf b i) u)" "isPlain (k_table (kindOf b i))"
    "\<not> hasPrefix (k_text (kindOf b i) u) ''/services/data''" "\<not> hasPrefix (k_list (kindOf b i)) ''/services/data''"
    "k_keys (kindOf b i) u (k_column (kindOf b i)) = Some (VString u)"
  using assms key_plain permissionKeys_plain
  by (auto simp: table_defs plain_simps permissionText_def groupListText_def permissionListText_def psgListText_def
      groupKeys_def permissionKeys_def psgKeys_def)

section \<open>What the connector relies on\<close>

text \<open>A membership record is known by its id and its member.\<close>

type_synonym memberships = "(string \<times> string) list"

definition keyOf :: "memberKind \<Rightarrow> sobject \<Rightarrow> string \<times> string" where
  "keyOf k rec = (sobjID rec, StringField rec (k_column k))"

definition membersOf :: "memberships \<Rightarrow> string set" where
  "membersOf ms = snd ` set ms"

text \<open>
  With a current cache the query for one member finds its record, and the query for all members is served in pages, in any order,
  while the table does not change. A DELETE removes the record. A POST adds a record unless there is one for the member; then it is rejected, or, when Salesforce is lenient, accepted
  without effect, as the server of the repository's tests does. Writes do not care about the cache, and say nothing about it.
\<close>

definition table_wf :: "('w \<Rightarrow> memberships) \<Rightarrow> bool" where
  "table_wf st \<longleftrightarrow> (\<forall>w. distinct (map fst (st w)) \<and> distinct (map snd (st w)) \<and> '''' \<notin> fst ` set (st w))"

definition table_reads :: "'w env \<Rightarrow> sfclient \<Rightarrow> memberKind \<Rightarrow> ('w \<Rightarrow> bool) \<Rightarrow> ('w \<Rightarrow> memberships) \<Rightarrow> bool" where
  "table_reads env cl k fresh st \<longleftrightarrow>
     (\<forall>t w u. fresh w \<longrightarrow>
        (\<exists>doc recs t' w'. httpRequest env cl t ''GET'' (queryURL cl (k_text k u)) NoBody w = Some (Inr doc, t', w')
           \<and> decodeQueryResult doc = Some (Inr \<lparr>qr_Done = True, qr_NextRecordsURL = '''', qr_Records = recs\<rparr>)
           \<and> map (keyOf k) recs = filter (\<lambda>r. snd r = u) (st w) \<and> st w' = st w))"

definition table_creates :: "'w env \<Rightarrow> sfclient \<Rightarrow> memberKind \<Rightarrow> bool \<Rightarrow> ('w \<Rightarrow> memberships) \<Rightarrow> bool" where
  "table_creates env cl k lenient st \<longleftrightarrow>
     (\<forall>t w u. \<exists>r t' w'. httpRequest env cl t ''POST'' (makeURL cl (sobjectPath (k_table k) '''')) (JsonBody (k_keys k u)) w
          = Some (r, t', w')
        \<and> (if u \<in> membersOf (st w)
           then (if lenient then \<exists>doc i. r = Inr doc \<and> decodeCreated doc = Inr i else \<exists>e. r = Inl e) \<and> st w' = st w
           else (\<exists>doc i. r = Inr doc \<and> decodeCreated doc = Inr i \<and> st w' = st w @ [(i, u)])))"

definition table_deletes :: "'w env \<Rightarrow> sfclient \<Rightarrow> memberKind \<Rightarrow> ('w \<Rightarrow> memberships) \<Rightarrow> bool" where
  "table_deletes env cl k st \<longleftrightarrow>
     (\<forall>t w i u. (i, u) \<in> set (st w) \<longrightarrow>
        (\<exists>doc t' w'. httpRequest env cl t ''DELETE'' (makeURL cl (sobjectPath (k_table k) i)) NoBody w = Some (Inr doc, t', w')
           \<and> st w' = filter (\<lambda>r. fst r \<noteq> i) (st w)))"

definition table_lists :: "'w env \<Rightarrow> sfclient \<Rightarrow> memberKind \<Rightarrow> ('w \<Rightarrow> bool) \<Rightarrow> ('w \<Rightarrow> memberships) \<Rightarrow> bool" where
  "table_lists env cl k fresh st \<longleftrightarrow>
     (\<forall>w. fresh w \<longrightarrow>
        (\<exists>recs rest. serves (\<lambda>w'. fresh w' \<and> st w' = st w) env cl (k_list k) recs rest
          \<and> mset (map (keyOf k) (allRecords recs rest)) = mset (st w)))"

definition member_table :: "'w env \<Rightarrow> sfclient \<Rightarrow> memberKind \<Rightarrow> bool \<Rightarrow> ('w \<Rightarrow> bool) \<Rightarrow> ('w \<Rightarrow> memberships) \<Rightarrow> bool" where
  "member_table env cl k lenient fresh st \<longleftrightarrow> isLoggedIn cl \<and> table_wf st \<and> clears env fresh st \<and> table_reads env cl k fresh st
     \<and> table_creates env cl k lenient st \<and> table_deletes env cl k st \<and> table_lists env cl k fresh st"

section \<open>Client operations on a table\<close>

lemma table_query:
  assumes "member_table env cl k lenient fresh st" and "fresh w"
  shows "\<exists>recs t' w'. clientQuery env (k_text k u) cl t w = Some (Inr \<lparr>qr_Done = True, qr_NextRecordsURL = '''', qr_Records = recs\<rparr>, t', w')
    \<and> st w' = st w \<and> (if u \<in> membersOf (st w) then \<exists>rec rest. recs = rec # rest \<and> (sobjID rec, u) \<in> set (st w) else recs = [])"
proof -
  have "table_reads env cl k fresh st" using assms(1) by (simp add: member_table_def)
  with assms(2) obtain doc recs t' w' where
    http: "httpRequest env cl t ''GET'' (queryURL cl (k_text k u)) NoBody w = Some (Inr doc, t', w')"
      "decodeQueryResult doc = Some (Inr \<lparr>qr_Done = True, qr_NextRecordsURL = '''', qr_Records = recs\<rparr>)"
      "map (keyOf k) recs = filter (\<lambda>r. snd r = u) (st w)" "st w' = st w"
    unfolding table_reads_def by blast
  have q: "clientQuery env (k_text k u) cl t w = Some (Inr \<lparr>qr_Done = True, qr_NextRecordsURL = '''', qr_Records = recs\<rparr>, t', w')"
    using assms http(1,2) by (simp add: clientQuery_def member_table_def)
  show ?thesis
  proof (cases recs)
    case Nil
    with http(3) have "filter (\<lambda>r. snd r = u) (st w) = []" by simp
    then have "u \<notin> membersOf (st w)" by (auto simp: membersOf_def filter_empty_conv)
    with q Nil http(4) show ?thesis by simp
  next
    case (Cons rec rest)
    with http(3) have "keyOf k rec \<in> set (filter (\<lambda>r. snd r = u) (st w))" by (metis list.set_intros(1) list.simps(9))
    then have key: "(sobjID rec, u) \<in> set (st w)" by (auto simp: keyOf_def)
    then have "u \<in> membersOf (st w)" by (force simp: membersOf_def)
    with q Cons http(4) key show ?thesis by simp
  qed
qed

lemma table_create:
  assumes "member_table env cl k lenient fresh st" and "session s cl t" and "k_table k \<noteq> ''''" and "plainValues (k_keys k u)"
  shows "\<exists>rl x t' w'. CreateObject env (k_table k) (k_keys k u) s = Some ((rl, x), after s t' w')
    \<and> membersOf (st w') = insert u (membersOf (st (sys_w s)))
    \<and> (if u \<in> membersOf (st (sys_w s)) \<and> \<not> lenient then \<exists>e. x = Inl e else x = Inr ())"
proof -
  from assms(1) obtain r t' w' where http: "httpRequest env cl t ''POST'' (makeURL cl (sobjectPath (k_table k) ''''))
      (JsonBody (k_keys k u)) (sys_w s) = Some (r, t', w')"
    "if u \<in> membersOf (st (sys_w s))
     then (if lenient then \<exists>doc i. r = Inr doc \<and> decodeCreated doc = Inr i else \<exists>e. r = Inl e) \<and> st w' = st (sys_w s)
     else (\<exists>doc i. r = Inr doc \<and> decodeCreated doc = Inr i \<and> st w' = st (sys_w s) @ [(i, u)])"
    unfolding member_table_def table_creates_def by blast
  from CreateObject_session [OF assms(2,4,3) http(1)] http(2) show ?thesis
    by (auto simp: membersOf_def insert_absorb split: if_splits)
qed

lemma table_remove:
  assumes "table_wf st" and "(i, u) \<in> set (st w)"
  shows "membersOf (filter (\<lambda>r. fst r \<noteq> i) (st w)) = membersOf (st w) - {u}"
proof -
  have "fst r = i \<longleftrightarrow> snd r = u" if "r \<in> set (st w)" for r
    using assms that unfolding table_wf_def by (metis eq_key_imp_eq_value fst_conv prod.collapse snd_conv inj_on_eq_iff distinct_map)
  then show ?thesis by (auto simp: membersOf_def)
qed

lemma table_delete:
  assumes "member_table env cl k lenient fresh st" and "session s cl t" and "k_table k \<noteq> ''''" and "(i, u) \<in> set (st (sys_w s))"
  shows "\<exists>rl t' w'. DeleteObject env (k_table k) i s = Some ((rl, Inr ()), after s t' w')
    \<and> membersOf (st w') = membersOf (st (sys_w s)) - {u}"
proof -
  from assms(1,4) obtain doc t' w' where http: "httpRequest env cl t ''DELETE'' (makeURL cl (sobjectPath (k_table k) i)) NoBody (sys_w s)
      = Some (Inr doc, t', w')" "st w' = filter (\<lambda>r. fst r \<noteq> i) (st (sys_w s))"
    unfolding member_table_def table_deletes_def by metis
  have wf: "table_wf st" using assms(1) by (simp add: member_table_def)
  then have "i \<noteq> ''''" using assms(4) by (force simp: table_wf_def)
  from DeleteObject_session [OF assms(2,3) this http(1)] table_remove [OF wf assms(4)] http(2) show ?thesis by simp
qed

text \<open>The look-up of a record, and a look-up followed by its deletion.\<close>

lemma table_find:
  assumes "member_table env cl k lenient fresh st" and "session s cl t" and "getQueryString q [] (- 1) = Some (k_text k u)" and "fresh (sys_w s)"
  shows "\<exists>rl r t' w'. getSObject env q s = Some ((rl, r), after s t' w') \<and> st w' = st (sys_w s)
    \<and> (if u \<in> membersOf (st (sys_w s)) then \<exists>rec. r = Inr rec \<and> (sobjID rec, u) \<in> set (st (sys_w s)) else r = Inl ErrObjectNotFound)"
proof -
  obtain recs t' w' where q: "clientQuery env (k_text k u) cl t (sys_w s)
      = Some (Inr \<lparr>qr_Done = True, qr_NextRecordsURL = '''', qr_Records = recs\<rparr>, t', w')" "st w' = st (sys_w s)"
    "if u \<in> membersOf (st (sys_w s)) then \<exists>rec rest. recs = rec # rest \<and> (sobjID rec, u) \<in> set (st (sys_w s)) else recs = []"
    using table_query [OF assms(1,4)] by blast
  from getSObject_session [OF assms(2,3) q(1)] q(2,3) show ?thesis by (auto split: if_splits)
qed

lemma table_find_delete:
  assumes "member_table env cl k lenient fresh st" and "session s cl t" and "k_table k \<noteq> ''''"
    and "getQueryString q [] (- 1) = Some (k_text k u)" and "fresh (sys_w s)"
  shows "\<exists>rl r t' w'. findAndDelete env q (k_table k) s = Some ((rl, r), after s t' w')
    \<and> membersOf (st w') = membersOf (st (sys_w s)) - {u}
    \<and> r = (if u \<in> membersOf (st (sys_w s)) then Inr () else Inl ErrObjectNotFound)"
proof -
  obtain rl r t1 w1 where f: "getSObject env q s = Some ((rl, r), after s t1 w1)" "st w1 = st (sys_w s)"
    "if u \<in> membersOf (st (sys_w s)) then \<exists>rec. r = Inr rec \<and> (sobjID rec, u) \<in> set (st (sys_w s)) else r = Inl ErrObjectNotFound"
    using table_find [OF assms(1,2,4,5)] by blast
  show ?thesis
  proof (cases "u \<in> membersOf (st (sys_w s))")
    case True
    with f(3) obtain rec where rec: "r = Inr rec" "(sobjID rec, u) \<in> set (st (sys_w (after s t1 w1)))" using f(2) by auto
    from table_delete [OF assms(1) session_after [OF assms(2)] assms(3) rec(2)] f rec(1) True show ?thesis
      by (fastforce simp: findAndDelete_def)
  next
    case False
    with f show ?thesis by (simp add: findAndDelete_def)
  qed
qed

section \<open>Requests\<close>

text \<open>
  The machine: the set of the members. What becomes of a grant to a member and of a revocation from somebody who is none
  depends on the syncer, and, where nothing is looked up first, on what Salesforce makes of a duplicate.
\<close>

fun onPresent :: "bool \<Rightarrow> syncer \<Rightarrow> outcome" where
  "onPresent lenient PermissionSetGroups = Already"
| "onPresent lenient _ = (if lenient then Done else Failed)"

fun onMissing :: "syncer \<Rightarrow> outcome" where
  "onMissing Permissions = Failed"
| "onMissing _ = Already"

fun memberStep :: "bool \<Rightarrow> syncer \<Rightarrow> string \<times> access \<Rightarrow> string set \<Rightarrow> outcome \<times> string set" where
  "memberStep lenient b (u, RevokeMember) S = (if u \<in> S then Done else onMissing b, S - {u})"
| "memberStep lenient b (u, _) S = (if u \<in> S then onPresent lenient b else Done, insert u S)"

fun memberAccess :: "'w env \<Rightarrow> syncer \<Rightarrow> Resource \<Rightarrow> string \<times> access \<Rightarrow> (changed, 'w) op" where
  "memberAccess env Groups res (u, a) = groupAccess env u res a"
| "memberAccess env Permissions res (u, a) = permissionAccess env u res a"
| "memberAccess env _ res (u, a) = psgAccess env u res a"

text \<open>Only users of the requests become members.\<close>

lemma memberStep_members: "snd (runSpec (memberStep lenient b) reqs S) \<subseteq> S \<union> fst ` set reqs"
proof (induction reqs arbitrary: S)
  case (Cons q reqs)
  have "snd (memberStep lenient b q S) \<subseteq> insert (fst q) S" by (cases "(lenient, b, q, S)" rule: memberStep.cases) auto
  with Cons.IH [of "snd (memberStep lenient b q S)"] show ?case by (auto split: prod.splits)
qed simp

lemma group_member_performs:
  assumes table: "member_table env cl (kindOf Groups (ri_Resource (r_Id res))) lenient fresh st" and sess: "session s cl t"
    and fresh: "fresh (sys_w s)" and a: "a = GrantMember \<or> a = RevokeMember"
  shows "performs (memberAccess env Groups res (u, a)) (memberStep lenient Groups (u, a)) (\<lambda>w. membersOf (st w)) cl s"
proof (cases "a = GrantMember")
  case True
  obtain rl x t' w' where c: "CreateObject env TableNameGroupMemberships (groupKeys u (ri_Resource (r_Id res))) s = Some ((rl, x), after s t' w')"
    "membersOf (st w') = insert u (membersOf (st (sys_w s)))" "if u \<in> membersOf (st (sys_w s)) \<and> \<not> lenient then \<exists>e. x = Inl e else x = Inr ()"
    using table_create [OF table sess, of u] key_plain(1) by (auto simp: table_defs)
  then have "groupAccess env u res GrantMember s = Some ((WithRateLimitAnnotations [rl], errorOf x), after s t' w')"
    by (simp add: groupAccess_def groupGrant_def AddUserToGroup_def reportChange_def groupKeys_def userId_def Let_def)
  note performsI [where oper = "groupAccess env u res GrantMember" and spec = "memberStep lenient Groups (u, GrantMember)"
      and ab = "\<lambda>w. membersOf (st w)", OF this sess]
  with c(2,3) True show ?thesis by (auto split: if_splits)
next
  case False
  have "getQueryString (WhereEq (WhereEq (NewQuery TableNameGroupMemberships []) ''GroupId'' (ri_Resource (r_Id res))) ''UserOrGroupId'' u) [] (- 1)
      = Some (k_text (kindOf Groups (ri_Resource (r_Id res))) u)"
    by (simp add: membership_texts(2))
  from table_find [OF table sess this fresh, folded getGroupMembership_def] obtain rl r t1 w1 where
    f: "getGroupMembership env u (ri_Resource (r_Id res)) s = Some ((rl, r), after s t1 w1)" "st w1 = st (sys_w s)"
    "if u \<in> membersOf (st (sys_w s)) then \<exists>rec. r = Inr rec \<and> (sobjID rec, u) \<in> set (st (sys_w s)) else r = Inl ErrObjectNotFound"
    by blast
  note defs = groupAccess_def groupRevoke_def RemoveUserFromGroup_def userId_def Let_def
  note I = performsI [where oper = "groupAccess env u res RevokeMember" and spec = "memberStep lenient Groups (u, RevokeMember)"
      and ab = "\<lambda>w. membersOf (st w)"]
  show ?thesis
  proof (cases "u \<in> membersOf (st (sys_w s))")
    case False
    with f have "groupAccess env u res RevokeMember s = Some ((WithRateLimitAnnotations [rl] @ [AnnGrantAlreadyRevoked], None), after s t1 w1)"
      by (simp add: defs)
    from I [OF this sess] f(2) False a \<open>a \<noteq> GrantMember\<close> show ?thesis by auto
  next
    case True
    with f(2,3) obtain rec where rec: "r = Inr rec" "(sobjID rec, u) \<in> set (st (sys_w (after s t1 w1)))" by auto
    from table_delete [OF table session_after [OF sess] _ rec(2)] obtain rl2 t2 w2 where
      "DeleteObject env TableNameGroupMemberships (sobjID rec) (after s t1 w1) = Some ((rl2, Inr ()), after s t2 w2)"
      "membersOf (st w2) = membersOf (st (sys_w s)) - {u}" using f(2) by (auto simp: table_defs)
    with f(1) rec(1) have "groupAccess env u res RevokeMember s = Some ((WithRateLimitAnnotations [rl2], None), after s t2 w2)"
      by (simp add: defs)
    from I [OF this sess] \<open>membersOf (st w2) = _\<close> True a \<open>a \<noteq> GrantMember\<close> show ?thesis by auto
  qed
qed

lemma permission_member_performs:
  assumes table: "member_table env cl (kindOf Permissions (ri_Resource (r_Id res))) lenient fresh st" and sess: "session s cl t"
    and fresh: "fresh (sys_w s)" and a: "a = GrantMember \<or> a = RevokeMember"
  shows "performs (memberAccess env Permissions res (u, a)) (memberStep lenient Permissions (u, a)) (\<lambda>w. membersOf (st w)) cl s"
proof (cases "a = GrantMember")
  case True
  obtain rl x t' w' where c: "CreateObject env TableNamePermissionAssignments (permissionKeys u (ri_Resource (r_Id res))) s = Some ((rl, x), after s t' w')"
    "membersOf (st w') = insert u (membersOf (st (sys_w s)))" "if u \<in> membersOf (st (sys_w s)) \<and> \<not> lenient then \<exists>e. x = Inl e else x = Inr ()"
    using table_create [OF table sess, of u] permissionKeys_plain by (auto simp: table_defs)
  then have "permissionAccess env u res GrantMember s = Some ((WithRateLimitAnnotations [rl], errorOf x), after s t' w')"
    by (simp add: permissionAccess_def permissionGrant_def AddUserToPermissionSet_def reportChange_def permissionKeys_def userId_def Let_def)
  note performsI [where oper = "permissionAccess env u res GrantMember" and spec = "memberStep lenient Permissions (u, GrantMember)"
      and ab = "\<lambda>w. membersOf (st w)", OF this sess]
  with c(2,3) True show ?thesis by (auto split: if_splits)
next
  case False
  have q: "getQueryString (WhereEq (WhereEq (NewQuery TableNamePermissionAssignments []) ''AssigneeId'' u) ''PermissionSetId''
        (ri_Resource (r_Id res))) [] (- 1) = Some (k_text (kindOf Permissions (ri_Resource (r_Id res))) u)"
    by (simp add: permission_text)
  have tb: "k_table (kindOf Permissions i) = TableNamePermissionAssignments" "k_table (kindOf Permissions i) \<noteq> ''''" for i
    by (simp_all add: table_defs)
  from table_find_delete [OF table sess tb(2) q fresh, unfolded tb(1), folded RemoveUserFromPermissionSet_def] obtain rl r t' w' where
    "RemoveUserFromPermissionSet env u (ri_Resource (r_Id res)) s = Some ((rl, r), after s t' w')"
    and r: "membersOf (st w') = membersOf (st (sys_w s)) - {u}"
      "r = (if u \<in> membersOf (st (sys_w s)) then Inr () else Inl ErrObjectNotFound)"
    by blast
  then have "permissionAccess env u res RevokeMember s = Some ((WithRateLimitAnnotations [rl], errorOf r), after s t' w')"
    by (simp add: permissionAccess_def permissionRevoke_def reportChange_def userId_def Let_def)
  note performsI [where oper = "permissionAccess env u res RevokeMember" and spec = "memberStep lenient Permissions (u, RevokeMember)"
      and ab = "\<lambda>w. membersOf (st w)", OF this sess]
  with r False a show ?thesis by (auto split: if_splits)
qed

lemma psg_outcomes:
  "outcomeOf ([], None) = Done" "outcomeOf ([AnnGrantAlreadyRevoked], None) = Already" "outcomeOf ([AnnGrantAlreadyExists], None) = Already"
  by (simp_all add: outcomeOf_def marked_def)

lemma psg_member_performs:
  assumes table: "member_table env cl (kindOf PermissionSetGroups (ri_Resource (r_Id res))) lenient fresh st" and sess: "session s cl t"
    and fresh: "fresh (sys_w s)" and a: "a = GrantMember \<or> a = RevokeMember"
  shows "performs (memberAccess env PermissionSetGroups res (u, a)) (memberStep lenient PermissionSetGroups (u, a)) (\<lambda>w. membersOf (st w)) cl s"
proof -
  let ?gid = "ri_Resource (r_Id res)"
  obtain recs t1 w1 where q: "clientQuery env (psgMemberText u ?gid) cl t (sys_w s)
      = Some (Inr \<lparr>qr_Done = True, qr_NextRecordsURL = '''', qr_Records = recs\<rparr>, t1, w1)" "st w1 = st (sys_w s)"
    "if u \<in> membersOf (st (sys_w s)) then \<exists>rec rest. recs = rec # rest \<and> (sobjID rec, u) \<in> set (st (sys_w s)) else recs = []"
    using table_query [OF table fresh] by fastforce
  from query_session [OF sess psg_text q(1)]
  have f: "GetOnePermissionSetGroupAssignment env u ?gid s
      = Some (Inr (case recs of [] \<Rightarrow> None | x # _ \<Rightarrow> Some (rowGroupAssignment x)), after s t1 w1)"
    by (simp add: GetOnePermissionSetGroupAssignment_def lookupQuery_def mapReply_def pageOf_def)
  note defs = psgAccess_def psgGrant_def psgRevoke_def userId_def Let_def
  let ?performs = "\<lambda>a. performs (psgAccess env u res a) (memberStep lenient PermissionSetGroups (u, a)) (\<lambda>w. membersOf (st w)) cl s"
  have I: "?performs a" if "psgAccess env u res a s = Some ((annos, None), after s t' w')"
    "memberStep lenient PermissionSetGroups (u, a) (membersOf (st (sys_w s))) = (outcomeOf (annos, None), membersOf (st w'))" for a annos t' w'
    using that(2) by (intro performsI [where oper = "psgAccess env u res a" and spec = "memberStep lenient PermissionSetGroups (u, a)", OF that(1) sess]) simp
  note sess1 = session_after [OF sess, of t1 w1]
  show ?thesis
  proof (cases "u \<in> membersOf (st (sys_w s))")
    case False
    with q(2,3) have recs: "recs = []" and no: "u \<notin> membersOf (st w1)" by simp_all
    obtain rl t2 w2 where c: "CreateObject env TableNamePermissionAssignments (psgKeys u ?gid) (after s t1 w1)
        = Some ((rl, Inr ()), after s t2 w2)" "membersOf (st w2) = insert u (membersOf (st (sys_w s)))"
      using table_create [OF table sess1, of u] key_plain(2) no q(2) by (auto simp: table_defs)
    have g: "psgAccess env u res GrantMember s = Some (([], None), after s t2 w2)"
      using f recs c(1) by (simp add: defs AddUserToPermissionSetGroup_def psgKeys_def)
    have r: "psgAccess env u res RevokeMember s = Some (([AnnGrantAlreadyRevoked], None), after s t1 w1)"
      using f recs by (simp add: defs)
    have m: "memberStep lenient PermissionSetGroups (u, GrantMember) (membersOf (st (sys_w s))) = (Done, membersOf (st w2))"
      "memberStep lenient PermissionSetGroups (u, RevokeMember) (membersOf (st (sys_w s))) = (Already, membersOf (st w1))"
      using False c(2) q(2) by simp_all
    have "?performs GrantMember" by (rule I [OF g]) (simp only: m psg_outcomes)
    moreover have "?performs RevokeMember" by (rule I [OF r]) (simp only: m psg_outcomes)
    ultimately show ?thesis using a by auto
  next
    case True
    with q(2,3) obtain rec rest where recs: "recs = rec # rest" and rec: "(sobjID rec, u) \<in> set (st (sys_w (after s t1 w1)))" by auto
    obtain rl t2 w2 where d: "DeleteObject env TableNamePermissionAssignments (sobjID rec) (after s t1 w1) = Some ((rl, Inr ()), after s t2 w2)"
      "membersOf (st w2) = membersOf (st (sys_w s)) - {u}"
      using table_delete [OF table sess1 _ rec] q(2) by (auto simp: table_defs)
    have g: "psgAccess env u res GrantMember s = Some (([AnnGrantAlreadyExists], None), after s t1 w1)"
      using f recs by (simp add: defs)
    have r: "psgAccess env u res RevokeMember s = Some (([], None), after s t2 w2)"
      using f recs d(1) by (simp add: defs RemoveUserFromPermissionSetGroup_def rowGroupAssignment_def)
    have m: "memberStep lenient PermissionSetGroups (u, GrantMember) (membersOf (st (sys_w s))) = (Already, membersOf (st w1))"
      "memberStep lenient PermissionSetGroups (u, RevokeMember) (membersOf (st (sys_w s))) = (Done, membersOf (st w2))"
      using True d(2) q(2) by (auto simp: insert_absorb)
    have "?performs GrantMember" by (rule I [OF g]) (simp only: m psg_outcomes)
    moreover have "?performs RevokeMember" by (rule I [OF r]) (simp only: m psg_outcomes)
    ultimately show ?thesis using a by auto
  qed
qed

lemma member_performs:
  assumes "b \<in> memberSyncers" and "member_table env cl (kindOf b (ri_Resource (r_Id res))) lenient fresh st" and "session s cl t"
    and "q \<in> UNIV \<times> {GrantMember, RevokeMember}" and "fresh (sys_w s)"
  shows "performs (memberAccess env b res q) (memberStep lenient b q) (\<lambda>w. membersOf (st w)) cl s"
proof -
  obtain u a where q: "q = (u, a)" "a = GrantMember \<or> a = RevokeMember" using assms(4) by auto
  from assms(1) consider "b = Groups" | "b = Permissions" | "b = PermissionSetGroups" by blast
  then show ?thesis
  proof cases
    case 1
    show ?thesis unfolding q(1) 1 by (rule group_member_performs [where fresh = fresh, OF assms(2) [unfolded 1] assms(3,5) q(2)])
  next
    case 2
    show ?thesis unfolding q(1) 2 by (rule permission_member_performs [where fresh = fresh, OF assms(2) [unfolded 2] assms(3,5) q(2)])
  next
    case 3
    show ?thesis unfolding q(1) 3 by (rule psg_member_performs [where fresh = fresh, OF assms(2) [unfolded 3] assms(3,5) q(2)])
  qed
qed

end
