(* ===== verification/Http_Cache.thy ===== *)
theory Http_Cache
  imports Sf_SObject "HOL-Library.Char_ord" "HOL-Library.List_Lexorder"
begin

text \<open>
  The response cache of \<^verbatim>\<open>uhttp\<close> in its default configuration (\<^verbatim>\<open>gocache.go\<close>, an in-memory cache): the key under which the answer
  to a GET is kept, the operations of the cache, and an environment with this cache in front of a server. Writes
  do not invalidate anything, only \<^verbatim>\<open>ClearCaches\<close> does, so what is read may be older than the last write.
\<close>

section \<open>Keys\<close>

text \<open>\<open>url.URL.Query\<close>: the parameters that can be decoded.\<close>

fun splitAll :: "char \<Rightarrow> string \<Rightarrow> string list" where
  "splitAll sep [] = [[]]"
| "splitAll sep (c # s) =
     (if c = sep then [] # splitAll sep s else (case splitAll sep s of x # xs \<Rightarrow> (c # x) # xs | [] \<Rightarrow> [[c]]))"

definition queryParam :: "string \<Rightarrow> (string \<times> string) option" where
  "queryParam part =
     (if part = '''' \<or> CHR '';'' \<in> set part then None
      else (case cutAt CHR ''='' part of (k, v) \<Rightarrow> do { k' \<leftarrow> QueryUnescape k; v' \<leftarrow> QueryUnescape v; Some (k', v') }))"

definition queryParams :: "string \<Rightarrow> (string \<times> string) list" where
  "queryParams raw = List.map_filter queryParam (splitAll CHR ''&'' raw)"

lemma splitAll_plain [simp]: "sep \<notin> set s \<Longrightarrow> splitAll sep s = [s]"
  by (induction s) auto

text \<open>
  \<open>CreateCacheKey\<close> without options: the path in lower case, the sorted parameters and the sorted values of four
  headers. The key is kept as it is; that SHA-256 maps different ones to different sums is taken for granted. Paths are
  ASCII here.
\<close>

definition headerParts :: "(string \<rightharpoonup> string list) \<Rightarrow> string list" where
  "headerParts h = concat (map (\<lambda>k. case h k of None \<Rightarrow> [] | Some vs \<Rightarrow> map (\<lambda>v. k @ ''='' @ v) vs)
     [''Accept'', ''Content-Type'', ''Cookie'', ''Range''])"

definition CreateCacheKey :: "(string \<Rightarrow> goerror + string) \<Rightarrow> request \<Rightarrow> string" where
  "CreateCacheKey ip rq =
     (case urlParse ip (rq_url rq) of
        Inl e \<Rightarrow> ''''
      | Inr u \<Rightarrow> map lowerByte (u_Path u) @ ''?'' @ join ''&'' (sort (map (\<lambda>(k, v). k @ ''='' @ v) (queryParams (u_RawQuery u))))
          @ ''&headers='' @ join ''&'' (sort (headerParts (rq_header rq))))"

section \<open>The cache\<close>

type_synonym httpCache = "string \<rightharpoonup> response"

definition goCacheGet :: "httpCache \<Rightarrow> string \<Rightarrow> response option" where
  "goCacheGet c k = c k"

definition goCacheSet :: "string \<Rightarrow> response \<Rightarrow> httpCache \<Rightarrow> httpCache" where
  "goCacheSet k r c = c(k \<mapsto> r)"

definition goCacheClear :: "httpCache \<Rightarrow> httpCache" where
  "goCacheClear c = Map.empty"

text \<open>What a cache promises: an entry comes from the last answer that was stored under its key since it was cleared.\<close>

locale response_cache =
  fixes lookup :: "'c \<Rightarrow> string \<Rightarrow> response option"
    and store :: "string \<Rightarrow> response \<Rightarrow> 'c \<Rightarrow> 'c"
    and clear :: "'c \<Rightarrow> 'c"
  assumes lookup_clear: "lookup (clear c) k = None"
    and lookup_store: "lookup (store k r c) k' = Some r' \<Longrightarrow> (if k' = k then r' = r else lookup c k' = Some r')"
begin

text \<open>Entries that agree with an answer for each URL of a set still do when one of these answers is stored.\<close>

lemma clear_agrees: "lookup (clear c) (key u) = Some r \<Longrightarrow> r = ans u"
  by (simp add: lookup_clear)

lemma store_agrees:
  assumes "\<forall>u \<in> U. \<forall>r. lookup c (key u) = Some r \<longrightarrow> r = ans u" and "inj_on key U" and "v \<in> U"
  shows "\<forall>u \<in> U. \<forall>r. lookup (store (key v) (ans v) c) (key u) = Some r \<longrightarrow> r = ans u"
proof (intro ballI allI impI)
  fix u r assume u: "u \<in> U" and "lookup (store (key v) (ans v) c) (key u) = Some r"
  with lookup_store [OF this(2)] assms show "r = ans u" by (auto split: if_splits dest: inj_onD)
qed

end

interpretation goCache: response_cache goCacheGet goCacheSet goCacheClear
  by unfold_locales (auto simp: goCacheGet_def goCacheSet_def goCacheClear_def split: if_splits)

text \<open>
  An environment with the cache in front: the world is the cache and the world of the server. When an entry expires or is
  evicted is left open (\<open>alive\<close>).
\<close>

definition beside :: "('w \<Rightarrow> 'a \<times> 'w) \<Rightarrow> httpCache \<times> 'w \<Rightarrow> 'a \<times> httpCache \<times> 'w" where
  "beside f cw = (case f (snd cw) of (r, w') \<Rightarrow> (r, fst cw, w'))"

definition cached :: "('w \<Rightarrow> string \<Rightarrow> bool) \<Rightarrow> 'w env \<Rightarrow> (httpCache \<times> 'w) env" where
  "cached alive env =
     \<lparr>e_roundTrip = (\<lambda>rq. beside (e_roundTrip env rq)), e_token = beside (e_token env),
      e_cacheGet = (\<lambda>rq cw. let k = CreateCacheKey (e_ipLiteral env) rq
                            in (Inr (if alive (snd cw) k then goCacheGet (fst cw) k else None), cw)),
      e_cacheSet = (\<lambda>rq r cw. (goCacheSet (CreateCacheKey (e_ipLiteral env) rq) r (fst cw), snd cw)),
      e_clearCaches = (\<lambda>cw. (None, goCacheClear (fst cw), snd cw)),
      e_wrapNet = e_wrapNet env, e_newClient = beside (e_newClient env), e_newBaseClient = beside (e_newBaseClient env),
      e_ipLiteral = e_ipLiteral env, e_wait = (\<lambda>d. beside (e_wait env d)),
      e_parseAddress = e_parseAddress env, e_loadLocation = e_loadLocation env\<rparr>"

section \<open>Concrete servers behind the cache\<close>

text \<open>A server answers a request from its method, URL and body; \<open>getKey\<close> is the key of a GET of the client.\<close>

type_synonym 'w server = "string \<Rightarrow> string \<Rightarrow> reqbody \<Rightarrow> 'w \<Rightarrow> response \<times> 'w"

definition noIp :: "string \<Rightarrow> goerror + string" where
  "noIp s = Inl (ErrNew ''url'')"

definition serverEnv :: "'w server \<Rightarrow> 'w env" where
  "serverEnv ans =
     \<lparr>e_roundTrip = (\<lambda>rq w. case ans (rq_method rq) (rq_url rq) (rq_body rq) w of (r, w') \<Rightarrow> (Inr r, w')),
      e_token = (\<lambda>w. (Inr \<lparr>tok_AccessToken = ''tok'', tok_instance_url = None\<rparr>, w)),
      e_cacheGet = (\<lambda>rq w. (Inr None, w)), e_cacheSet = (\<lambda>rq r w. w), e_clearCaches = (\<lambda>w. (None, w)),
      e_wrapNet = id, e_newClient = (\<lambda>w. (None, w)), e_newBaseClient = (\<lambda>w. (None, w)),
      e_ipLiteral = noIp, e_wait = (\<lambda>d w. (None, w)), e_parseAddress = (\<lambda>a. None), e_loadLocation = (\<lambda>z. None)\<rparr>"

abbreviation cachedServer :: "('w \<Rightarrow> string \<Rightarrow> bool) \<Rightarrow> 'w server \<Rightarrow> (httpCache \<times> 'w) env" where
  "cachedServer alive ans \<equiv> cached alive (serverEnv ans)"

definition getKey :: "string \<Rightarrow> string" where
  "getKey url = CreateCacheKey noIp (bearerRequest '''' ''GET'' url NoBody)"

lemma bearer_parts: "headerParts (rq_header (bearerRequest sid m url b)) = [''Content-Type=application/json'']"
  by (simp add: headerParts_def bearerRequest_def)

lemma bearer_key: "CreateCacheKey noIp (bearerRequest sid m url b) = getKey url"
  unfolding getKey_def CreateCacheKey_def bearer_parts by (simp add: bearerRequest_def)

lemma getKey_parsed:
  "urlParse noIp url = Inr u \<Longrightarrow> getKey url = map lowerByte (u_Path u) @ ''?''
     @ join ''&'' (sort (map (\<lambda>(k, v). k @ ''='' @ v) (queryParams (u_RawQuery u)))) @ ''&headers=Content-Type=application/json''"
  unfolding getKey_def CreateCacheKey_def bearer_parts by (simp add: bearerRequest_def)

lemma getKey_query:
  assumes "plainInstance cl h" and "\<not> hasPrefix q ''/services/data''"
  shows "\<exists>p. p = map lowerByte (''/services/data/v'' @ cl_apiVersion cl @ ''/query'')
    \<and> getKey (queryURL cl q) = p @ ''?q='' @ q @ ''&headers=Content-Type=application/json''"
proof -
  from requestable_query [OF assms, of noIp] obtain u where u: "urlParse noIp (queryURL cl q) = Inr u"
    "u_Path u = ''/services/data/v'' @ cl_apiVersion cl @ ''/query''" "u_RawQuery u = ''q='' @ QueryEscape q" by blast
  have "c \<in> set (QueryEscape q) \<Longrightarrow> unreserved c \<or> c = CHR ''+'' \<or> c = CHR ''%''" for c
    using escapeByte_bytes by (auto simp: QueryEscape_def)
  then have plain: "CHR ''&'' \<notin> set (QueryEscape q)" "CHR '';'' \<notin> set (QueryEscape q)" by (force simp: unreserved_def)+
  have "cutAt CHR ''='' (''q='' @ QueryEscape q) = (''q'', QueryEscape q)" using cutAt_split [of "CHR ''=''" "''q''"] by simp
  then have "queryParams (''q='' @ QueryEscape q) = [(''q'', q)]"
    using plain QueryUnescape_QueryEscape [of q "[]"] by (simp add: queryParams_def splitAll_plain queryParam_def map_filter_simps)
  with getKey_parsed [OF u(1)] u(2,3) show ?thesis by simp
qed

lemma getKey_record:
  assumes "plainInstance cl h" and "isPlain req"
  shows "getKey (makeURL cl req) = map lowerByte (''/services/data/v'' @ filter (\<lambda>c. c \<noteq> CHR ''v'') (cl_apiVersion cl) @ ''/'' @ req)
    @ ''?&headers=Content-Type=application/json''"
proof -
  let ?p = "''/services/data/v'' @ filter (\<lambda>c. c \<noteq> CHR ''v'') (cl_apiVersion cl) @ ''/'' @ req"
  from assms(1) obtain sch where sch: "isScheme sch" "cl_instanceURL cl = sch @ ''://'' @ h" "isHostName h"
    by (auto simp: plainInstance_def)
  have plain: "isPlain ?p"
    using assms isPlain_filter by (auto simp: plainInstance_def isPlain_def shouldEscape_def isLetter_def)
  from isRequestPath_plain [OF this, of "[]"] have "isRequestPath ?p" by (simp add: QueryEscape_def)
  from urlParse_request [OF sch(1,3) this, of "[]" "[]" noIp] sch(2) obtain u where
    u: "urlParse noIp (makeURL cl req) = Inr u" "u_RawQuery u = []" "urlUnescape encodePath ?p = Inr (u_Path u)"
    by (auto simp: isQueryText_def makeURL_def)
  have "urlUnescape encodePath ?p = Inr ?p" using urlUnescape_append [OF plain, of "[]"] unfolding append_Nil2 by simp
  with u(3) have path: "u_Path u = ?p" by (simp only: sum.inject)
  have "queryParams [] = []" by (simp add: queryParams_def queryParam_def map_filter_simps)
  with getKey_parsed [OF u(1)] show ?thesis unfolding u(2) path by simp
qed

text \<open>The keys of different queries differ, and so do those of queries and records.\<close>

lemma lower_plain: "isPlain p \<Longrightarrow> CHR ''?'' \<notin> set (map lowerByte p)"
proof -
  have "c = CHR ''?''" if low: "lowerByte c = CHR ''?''" for c
  proof (cases "65 \<le> (of_char c :: nat) \<and> (of_char c :: nat) \<le> 90")
    case True
    with low have "(of_char (char_of (of_char c + 32 :: nat)) :: nat) = of_char CHR ''?''" by (simp add: lowerByte_def)
    with True show ?thesis by (simp only: of_char_of) simp
  qed (use low in \<open>auto simp: lowerByte_def Let_def\<close>)
  then show "isPlain p \<Longrightarrow> CHR ''?'' \<notin> set (map lowerByte p)" using path_byte by (fastforce simp: isPlain_def list_all_iff)
qed

lemma query_keys:
  assumes "plainInstance cl h" and "\<not> hasPrefix p ''/services/data''" and "\<not> hasPrefix q ''/services/data''"
  shows "getKey (queryURL cl p) = getKey (queryURL cl q) \<longleftrightarrow> p = q"
  using getKey_query [OF assms(1,2)] getKey_query [OF assms(1,3)] by auto

lemma record_key:
  assumes "plainInstance cl h" and "\<not> hasPrefix q ''/services/data''" and "isPlain req"
  shows "getKey (queryURL cl q) \<noteq> getKey (makeURL cl req)"
proof
  let ?p = "map lowerByte (''/services/data/v'' @ cl_apiVersion cl @ ''/query'')"
  let ?r = "map lowerByte (''/services/data/v'' @ filter (\<lambda>c. c \<noteq> CHR ''v'') (cl_apiVersion cl) @ ''/'' @ req)"
  assume "getKey (queryURL cl q) = getKey (makeURL cl req)"
  then have eq: "?p @ CHR ''?'' # ''q='' @ q @ ''&headers=Content-Type=application/json'' = ?r @ CHR ''?'' # ''&headers=Content-Type=application/json''"
    using getKey_query [OF assms(1,2)] getKey_record [OF assms(1,3)] by simp
  have "isPlain (''/services/data/v'' @ cl_apiVersion cl @ ''/query'')"
    "isPlain (''/services/data/v'' @ filter (\<lambda>c. c \<noteq> CHR ''v'') (cl_apiVersion cl) @ ''/'' @ req)"
    using assms(1,3) isPlain_filter by (auto simp: plainInstance_def isPlain_def shouldEscape_def isLetter_def)
  from this [THEN lower_plain] have "CHR ''?'' \<notin> set ?p" "CHR ''?'' \<notin> set ?r" .
  from cutAt_split [OF this(1)] cutAt_split [OF this(2)] eq
  have "(''q='' @ q @ ''&headers=Content-Type=application/json'') = ''&headers=Content-Type=application/json''" by (metis prod.inject)
  then show False by simp
qed

text \<open>
  The environment of a server with the cache in front of it, request by request: a GET that is cached is not sent; one
  that is not is sent, and its answer is kept; a write is sent and leaves the cache as it is.
\<close>

lemmas one_request = httpRequest_def cached_def serverEnv_def beside_def uhttpDo_def sendDo_def RoundTrip_def authorize_def
  finishDo_def Let_def

lemma served_hit:
  assumes "requestable url" and "alive w (getKey url)" and "c (getKey url) = Some (okResponse doc)"
  shows "httpRequest (cachedServer alive ans) cl t ''GET'' url NoBody (c, w) = Some (Inr doc, t, goCacheSet (getKey url) (okResponse doc) c, w)"
  using assms bearer_key [of "cl_sessionID cl" "''GET''" url NoBody]
  by (simp add: one_request noCache_def goCacheGet_def bearerRequest_def)

lemma served_miss:
  assumes "requestable url" and "\<not> alive w (getKey url) \<or> c (getKey url) = None" and "ans ''GET'' url NoBody w = (okResponse doc, w')"
  shows "\<exists>t'. httpRequest (cachedServer alive ans) cl t ''GET'' url NoBody (c, w)
    = Some (Inr doc, t', goCacheSet (getKey url) (okResponse doc) c, w')"
  using assms bearer_key [of "cl_sessionID cl" "''GET''" url NoBody]
  by (auto simp: one_request noCache_def goCacheGet_def bearerRequest_def header_update)

lemma served_write:
  assumes "requestable url" and "m \<noteq> ''GET''" and "ans m url b w = (okResponse doc, w')"
  shows "\<exists>t'. httpRequest (cachedServer alive ans) cl t m url b (c, w) = Some (Inr doc, t', c, w')"
  using assms by (auto simp: one_request)

definition duplicateResponse :: response where
  "duplicateResponse = \<lparr>rs_status = 400, rs_header = Map.empty,
     rs_body = JsonDoc [] (VList [VMap [''errorCode'' \<mapsto> VString ''DUPLICATE_VALUE'', ''message'' \<mapsto> VString ''duplicate value found'']])\<rparr>"

lemma served_duplicate:
  assumes "requestable url" and "m \<noteq> ''GET''" and "ans m url b w = (duplicateResponse, w')"
  shows "\<exists>e t'. httpRequest (cachedServer alive ans) cl t m url b (c, w) = Some (Inl e, t', c, w')"
  using assms
  by (auto simp: one_request duplicateResponse_def isOk_def parseUhttpError_def ParseSalesforceError_def mapIndex_def errorsJoin_def
      map_filter_simps)

section \<open>When the cache is current\<close>

text \<open>
  The cache is current for some URLs when what it holds for them is what the server would answer now; it is after
  \<^verbatim>\<open>ClearCaches\<close>, and reading keeps it so as long as different URLs have different keys.
\<close>

definition currentIn :: "'w server \<Rightarrow> string set \<Rightarrow> httpCache \<times> 'w \<Rightarrow> bool" where
  "currentIn ans U cw \<longleftrightarrow>
     (\<forall>url \<in> U. \<forall>r. goCacheGet (fst cw) (getKey url) = Some r \<longrightarrow> r = fst (ans ''GET'' url NoBody (snd cw)))"

lemma cleared_current: "e_clearCaches (cachedServer alive ans) (c, w) = (None, goCacheClear c, w)" "currentIn ans U (goCacheClear c, w)"
  by (simp_all add: cached_def currentIn_def goCache.lookup_clear)

lemma served_get:
  assumes "requestable url" and "url \<in> U" and "inj_on getKey U" and "currentIn ans U (c, w)" and "ans ''GET'' url NoBody w = (okResponse doc, w)"
  shows "\<exists>t' c'. httpRequest (cachedServer alive ans) cl t ''GET'' url NoBody (c, w) = Some (Inr doc, t', c', w) \<and> currentIn ans U (c', w)"
proof -
  let ?c = "goCacheSet (getKey url) (okResponse doc) c"
  have "\<forall>v \<in> U. \<forall>r. goCacheGet c (getKey v) = Some r \<longrightarrow> r = fst (ans ''GET'' v NoBody w)" using assms(4) by (simp add: currentIn_def)
  from goCache.store_agrees [where key = getKey and ans = "\<lambda>v. fst (ans ''GET'' v NoBody w)", OF this assms(3,2)] assms(5)
  have "currentIn ans U (?c, w)" by (simp only: currentIn_def fst_conv snd_conv)
  moreover have "\<exists>t'. httpRequest (cachedServer alive ans) cl t ''GET'' url NoBody (c, w) = Some (Inr doc, t', ?c, w)"
  proof (cases "alive w (getKey url) \<and> c (getKey url) \<noteq> None")
    case True
    with assms(2,4,5) have "c (getKey url) = Some (okResponse doc)" by (fastforce simp: currentIn_def goCacheGet_def)
    with served_hit [OF assms(1), of alive w c doc ans cl t] True show ?thesis by auto
  next
    case False
    then have "\<not> alive w (getKey url) \<or> c (getKey url) = None" by blast
    with served_miss [of url alive w c ans doc w cl t] assms(1,5) show ?thesis by blast
  qed
  ultimately show ?thesis by blast
qed

text \<open>The URLs of all queries have different keys, and so have those of records whose ids differ in more than the case.\<close>

definition queryURLs :: "sfclient \<Rightarrow> string set" where
  "queryURLs cl = queryURL cl ` {q. \<not> hasPrefix q ''/services/data''}"

lemma queryURLs_I: "\<not> hasPrefix q ''/services/data'' \<Longrightarrow> queryURL cl q \<in> queryURLs cl"
  by (simp add: queryURLs_def)

lemma queryURLs_inj: "plainInstance cl h \<Longrightarrow> inj_on getKey (queryURLs cl)"
  by (auto simp: queryURLs_def inj_on_def query_keys)

lemma record_keys:
  assumes "plainInstance cl h" and "isPlain ty" and "\<forall>i \<in> I. isPlain i" and "inj_on (map lowerByte) I"
  shows "inj_on getKey (queryURLs cl \<union> (\<lambda>i. makeURL cl (sobjectPath ty i)) ` I)"
proof -
  let ?rec = "\<lambda>i. makeURL cl (sobjectPath ty i)"
  have plain: "isPlain (sobjectPath ty i)" if "i \<in> I" for i using assms(2,3) that by simp
  have "inj_on getKey (?rec ` I)"
  proof (rule inj_onI, clarify)
    fix i j assume I: "i \<in> I" "j \<in> I" and "getKey (?rec i) = getKey (?rec j)"
    with getKey_record [OF assms(1) plain] have "map lowerByte i = map lowerByte j" by (simp add: sobjectPath_def)
    with I assms(4) show "?rec i = ?rec j" by (auto dest: inj_onD)
  qed
  moreover have "getKey a \<noteq> getKey b" if "a \<in> queryURLs cl" "b \<in> ?rec ` I" for a b
    using that record_key [OF assms(1)] plain by (auto simp: queryURLs_def)
  ultimately show ?thesis
    using queryURLs_inj [OF assms(1)] unfolding inj_on_Un by (blast dest: sym)
qed

end
