(* ===== verification/Grant_Visibility.thy ===== *)
theory Grant_Visibility
  imports Member_Tables Http_Cache
begin

text \<open>
  Provisioning and syncing together: what is granted and revoked in a group, a permission set or a permission set group is
  what the next sync of its grants reports, when the response cache is cleared in between.
\<close>

section \<open>The sync of a table\<close>

fun memberEntitlement :: "syncer \<Rightarrow> string" where
  "memberEntitlement Groups = groupMemberEntitlementName"
| "memberEntitlement Permissions = permissionSetAssignmentEntitlementName"
| "memberEntitlement _ = permissionSetGroupMemberEntitlementName"

fun tableYield :: "syncer \<Rightarrow> Resource \<Rightarrow> sobject \<Rightarrow> Grant list option" where
  "tableYield Groups res = memberYield res"
| "tableYield Permissions res = assignmentYield res"
| "tableYield _ res = psgMemberYield res"

text \<open>The principal of a member: the members of a group may be groups, told apart by the prefix of the id.\<close>

definition memberPrincipal :: "syncer \<Rightarrow> string \<Rightarrow> ResourceId" where
  "memberPrincipal b u =
     \<lparr>ri_ResourceType = rt_Id (if b = Groups \<and> hasPrefix u GroupIDPrefix then resourceTypeGroup else resourceTypeUser), ri_Resource = u\<rparr>"

definition knownMember :: "syncer \<Rightarrow> string \<Rightarrow> bool" where
  "knownMember b u \<longleftrightarrow> (b = Groups \<longrightarrow> hasPrefix u GroupIDPrefix \<or> hasPrefix u UserIDPrefix)"

lemma tableYield_known:
  assumes "b \<in> memberSyncers" and "knownMember b (snd (keyOf (kindOf b i) rec))"
  shows "\<exists>g. tableYield b res rec = Some [g] \<and> r_Id (gr_Principal g) = memberPrincipal b (snd (keyOf (kindOf b i) rec))
    \<and> en_Id (gr_Entitlement g) = NewEntitlementID (Some res) (memberEntitlement b)"
proof -
  from assms(1) consider "b = Groups" | "b = Permissions" | "b = PermissionSetGroups" by blast
  then show ?thesis
  proof cases
    case 1
    with assms(2) show ?thesis
      by (auto simp: memberYield_def yields_def rowGroupMembership_def getIsGroup_def groupMemberGrant_def keyOf_def knownMember_def
          memberPrincipal_def Let_def)
  qed (simp_all add: assignmentYield_def psgMemberYield_def yields_def rowPermissionSetAssignment_def rowGroupAssignment_def
      assignmentGrant_def keyOf_def memberPrincipal_def userId_def)
qed

lemma collect_known:
  assumes "b \<in> memberSyncers" and "\<forall>rec \<in> set recs. knownMember b (snd (keyOf (kindOf b i) rec))"
  shows "\<exists>gss. collect (tableYield b res) recs = Some gss
    \<and> map (r_Id \<circ> gr_Principal) (concat gss) = map (memberPrincipal b \<circ> snd \<circ> keyOf (kindOf b i)) recs
    \<and> (\<forall>g \<in> set (concat gss). en_Id (gr_Entitlement g) = NewEntitlementID (Some res) (memberEntitlement b))"
  using assms(2)
proof (induction recs)
  case (Cons rec recs)
  then have "\<forall>rec \<in> set recs. knownMember b (snd (keyOf (kindOf b i) rec))" by simp
  from Cons.IH [OF this] obtain gss where "collect (tableYield b res) recs = Some gss"
    "map (r_Id \<circ> gr_Principal) (concat gss) = map (memberPrincipal b \<circ> snd \<circ> keyOf (kindOf b i)) recs"
    "\<forall>g \<in> set (concat gss). en_Id (gr_Entitlement g) = NewEntitlementID (Some res) (memberEntitlement b)" by blast
  moreover obtain g where "tableYield b res rec = Some [g]" "r_Id (gr_Principal g) = memberPrincipal b (snd (keyOf (kindOf b i) rec))"
    "en_Id (gr_Entitlement g) = NewEntitlementID (Some res) (memberEntitlement b)"
    using tableYield_known [OF assms(1), of i rec res] Cons.prems by auto
  ultimately show ?case by (intro exI [of _ "[g] # gss"]) (simp add: comp_def)
qed simp

lemma collect_total: "collect (\<lambda>x. Some (f x)) xs = Some (map f xs)"
  by (induction xs) simp_all

text \<open>The first phase of the grants reads the table; permission sets have a second one.\<close>

lemma grantPhases_table:
  "b \<in> memberSyncers \<Longrightarrow>
     grantPhases b res n = (Some (k_list (kindOf b (ri_Resource (r_Id res)))), tableYield b res) # tl (grantPhases b res n)"
  by (auto simp: list_texts psg_list_text)

lemma sync_members:
  fixes st :: "'w \<Rightarrow> memberships"
  assumes b: "b \<in> memberSyncers" and table: "member_table env cl (kindOf b (ri_Resource (r_Id res))) lenient fresh st"
    and sess: "session s cl t" and fresh: "fresh (sys_w s)"
    and known: "\<forall>u \<in> membersOf (st (sys_w s)). knownMember b u"
    and others: "list_all2 (phaseServed (\<lambda>w. fresh w \<and> st w = st (sys_w s)) env cl) (tl (grantPhases b res n)) served"
  shows "\<exists>gs s'. chain (\<lambda>_. True) (\<lambda>tok. syncerGrants env b res tok n) '''' s (gs @ concat (concat (map (snd \<circ> snd) served))) s'
    \<and> st (sys_w s') = st (sys_w s)
    \<and> mset (map (r_Id \<circ> gr_Principal) gs) = image_mset (memberPrincipal b) (mset (map snd (st (sys_w s))))
    \<and> (\<forall>g \<in> set gs. en_Id (gr_Entitlement g) = NewEntitlementID (Some res) (memberEntitlement b))"
proof -
  let ?w = "sys_w s" and ?k = "kindOf b (ri_Resource (r_Id res))"
  from table have "table_lists env cl ?k fresh st" by (simp add: member_table_def)
  with fresh obtain recs rest where first: "serves (\<lambda>w. fresh w \<and> st w = st ?w) env cl (k_list ?k) recs rest"
    and all: "mset (map (keyOf ?k) (allRecords recs rest)) = mset (st ?w)"
    unfolding table_lists_def by blast
  from all have "set (map (keyOf ?k) (allRecords recs rest)) = set (st ?w)" by (rule mset_eq_setD)
  with known have "\<forall>rec \<in> set (allRecords recs rest). knownMember b (snd (keyOf ?k rec))"
    by (metis image_eqI list.set_map membersOf_def)
  from collect_known [OF b this, of res] obtain gss where gss: "collect (tableYield b res) (allRecords recs rest) = Some gss"
    "map (r_Id \<circ> gr_Principal) (concat gss) = map (memberPrincipal b \<circ> snd \<circ> keyOf ?k) (allRecords recs rest)"
    "\<forall>g \<in> set (concat gss). en_Id (gr_Entitlement g) = NewEntitlementID (Some res) (memberEntitlement b)" by blast
  have logged: "isLoggedIn cl" using table by (simp add: member_table_def)
  have "list_all2 (phaseServed (\<lambda>w. fresh w \<and> st w = st ?w) env cl) (grantPhases b res n) ((recs, rest, gss) # served)"
    using first gss(1) others by (subst grantPhases_table [OF b]) simp
  from grants_end [OF logged sess _ this] fresh obtain s' where
    "chain (\<lambda>_. True) (\<lambda>tok. syncerGrants env b res tok n) '''' s (concat gss @ concat (concat (map (snd \<circ> snd) served))) s'"
    "st (sys_w s') = st ?w" by auto
  moreover have "mset (map (r_Id \<circ> gr_Principal) (concat gss)) = image_mset (memberPrincipal b) (image_mset snd (mset (map (keyOf ?k) (allRecords recs rest))))"
    unfolding gss(2) by (simp add: image_mset.compositionality comp_def)
  then have "mset (map (r_Id \<circ> gr_Principal) (concat gss)) = image_mset (memberPrincipal b) (mset (map snd (st ?w)))"
    unfolding all by simp
  ultimately show ?thesis using gss(3) by blast
qed

section \<open>A concrete table\<close>

text \<open>The texts of the queries tell the members apart, and a member from the whole list.\<close>

lemma QueryEscape_inj: "QueryEscape p = QueryEscape q \<longleftrightarrow> p = q"
proof
  have "QueryUnescape (QueryEscape r) = Some r" for r using QueryUnescape_QueryEscape [of r "[]"] by simp
  then show "QueryEscape p = QueryEscape q \<Longrightarrow> p = q" by (metis option.inject)
qed simp

lemma queryURL_inj:
  "\<not> hasPrefix p ''/services/data'' \<Longrightarrow> \<not> hasPrefix q ''/services/data'' \<Longrightarrow> queryURL cl p = queryURL cl q \<longleftrightarrow> p = q"
  by (simp add: queryURL_def QueryEscape_inj)

lemma quote_inj [simp]: "quoteStringValue u = quoteStringValue v \<longleftrightarrow> u = v"
  using quoted.enc_inj by blast

lemma member_texts:
  assumes "b \<in> memberSyncers"
  shows "k_text (kindOf b i) u = k_text (kindOf b i) v \<longleftrightarrow> u = v" "k_text (kindOf b i) u \<noteq> k_list (kindOf b i)"
  using assms by (auto simp: groupMemberText_def groupListText_def permissionText_def permissionListText_def psgMemberText_def
      psgListText_def renderQuery_def)

lemma member_urls [simp]:
  assumes "b \<in> memberSyncers"
  shows "queryURL cl (k_text (kindOf b i) u) = queryURL cl (k_text (kindOf b i) v) \<longleftrightarrow> u = v"
    "queryURL cl (k_text (kindOf b i) u) \<noteq> queryURL cl (k_list (kindOf b i))"
    "queryURL cl (k_list (kindOf b i)) \<noteq> queryURL cl (k_text (kindOf b i) u)"
  using member_texts [OF assms, of i] queryURL_inj assms kindOf_wf(4,5) [OF assms] by metis+

text \<open>
  A server whose world is a list of members, for any of the three tables; the id of the record of the member \<open>u\<close> is
  \<open>m\<close> followed by \<open>u\<close>, escaped. Other queries find nothing. A duplicate is accepted or rejected.
\<close>

definition memberId :: "string \<Rightarrow> string" where
  "memberId u = CHR ''m'' # QueryEscape u"

lemma memberId_inj [simp]: "memberId u = memberId v \<longleftrightarrow> u = v" "memberId u \<noteq> []" "[] \<noteq> memberId u"
  by (simp_all add: memberId_def QueryEscape_inj)

definition memberTable :: "string list \<Rightarrow> memberships" where
  "memberTable us = map (\<lambda>u. (memberId u, u)) (remdups us)"

definition memberRow :: "memberKind \<Rightarrow> string \<Rightarrow> gomap" where
  "memberRow k u = [''Id'' \<mapsto> VString (memberId u), k_column k \<mapsto> VString u]"

definition createdDoc :: "string \<Rightarrow> document" where
  "createdDoc i = JsonDoc [] (VMap [''id'' \<mapsto> VString i, ''success'' \<mapsto> VBool True])"

lemma decode_created [simp]: "i \<noteq> [] \<Longrightarrow> decodeCreated (createdDoc i) = Inr i"
  by (simp add: createdDoc_def decodeCreated_def mapIndex_def)

definition tableAnswer :: "sfclient \<Rightarrow> memberKind \<Rightarrow> bool \<Rightarrow> string list server" where
  "tableAnswer cl k lenient method url body us =
     (if method = ''GET''
      then (okResponse (lastPage (map (memberRow k) (filter (\<lambda>u. url = queryURL cl (k_list k)
              \<or> url = queryURL cl (k_text k u)) (remdups us)))), us)
      else if method = ''POST''
      then (case body of
              JsonBody vs \<Rightarrow>
                (case vs (k_column k) of
                   Some (VString u) \<Rightarrow>
                     if u \<notin> set us then (okResponse (createdDoc (memberId u)), us @ [u])
                     else if lenient then (okResponse (createdDoc (memberId u)), us) else (duplicateResponse, us)
                 | _ \<Rightarrow> (duplicateResponse, us))
            | _ \<Rightarrow> (duplicateResponse, us))
      else (okResponse (RawDoc []), filter (\<lambda>u. url \<noteq> makeURL cl (sobjectPath (k_table k) (memberId u))) us))"

text \<open>The table behind the cache, which is fresh when it is current for all queries.\<close>

abbreviation tableEnv :: "(string list \<Rightarrow> string \<Rightarrow> bool) \<Rightarrow> sfclient \<Rightarrow> memberKind \<Rightarrow> bool \<Rightarrow> (httpCache \<times> string list) env" where
  "tableEnv alive cl k lenient \<equiv> cachedServer alive (tableAnswer cl k lenient)"

abbreviation tableFresh :: "sfclient \<Rightarrow> memberKind \<Rightarrow> bool \<Rightarrow> httpCache \<times> string list \<Rightarrow> bool" where
  "tableFresh cl k lenient \<equiv> currentIn (tableAnswer cl k lenient) (queryURLs cl)"

lemma cached_clears: "clears (cachedServer alive ans) (currentIn ans U) (\<lambda>cw. f (snd cw))"
  unfolding clears_def split_paired_All by (simp add: cleared_current)

text \<open>A query that the server answers as long as something holds of its world is so answered behind the cache while that is current.\<close>

lemma cached_answers:
  assumes "requestable (queryURL cl q)" and "queryURL cl q \<in> U" and "inj_on getKey U"
    and "\<And>w. Q w \<Longrightarrow> ans ''GET'' (queryURL cl q) NoBody w = (okResponse doc, w)" and "decodeQueryResult doc = Some (Inr res)"
  shows "answers (\<lambda>cw. currentIn ans U cw \<and> Q (snd cw)) (cachedServer alive ans) cl q res"
  unfolding answers_def
proof (intro allI impI)
  fix t and cw :: "httpCache \<times> 'a"
  obtain c w where cw: "cw = (c, w)" by (cases cw)
  assume "currentIn ans U cw \<and> Q (snd cw)"
  with served_get [OF assms(1-3), of ans c w doc alive cl t] assms(4) [of w] obtain t' c' where
    "httpRequest (cachedServer alive ans) cl t ''GET'' (queryURL cl q) NoBody cw = Some (Inr doc, t', c', w)" "currentIn ans U (c', w)" "Q w"
    by (auto simp: cw)
  with assms(5) show "\<exists>doc t' w'. httpRequest (cachedServer alive ans) cl t ''GET'' (queryURL cl q) NoBody cw = Some (Inr doc, t', w')
      \<and> decodeQueryResult doc = Some (Inr res) \<and> currentIn ans U w' \<and> Q (snd w')"
    by (intro exI [of _ doc] exI [of _ t'] exI [of _ "(c', w)"]) simp
qed

lemma keyOf_memberRow [simp]:
  assumes "b \<in> memberSyncers"
  shows "keyOf (kindOf b i) (setClient (memberRow (kindOf b i) u)) = (memberId u, u)"
  using assms by (auto simp: keyOf_def sobjID_def StringField_def mapIndex_def setClient_def sobject_key_defs memberRow_def)

lemma membersOf_memberTable [simp]: "membersOf (memberTable us) = set us"
  by (force simp: membersOf_def memberTable_def)

lemma remdups_snoc: "x \<notin> set xs \<Longrightarrow> remdups (xs @ [x]) = remdups xs @ [x]"
  by (induction xs) auto

text \<open>The URLs of the table.\<close>

lemma table_urls:
  assumes "plainInstance cl h" and "b \<in> memberSyncers"
  shows "requestable (queryURL cl (k_text (kindOf b i) u))" "requestable (queryURL cl (k_list (kindOf b i)))"
    "requestable (makeURL cl (sobjectPath (k_table (kindOf b i)) ''''))"
    "requestable (makeURL cl (sobjectPath (k_table (kindOf b i)) (memberId u)))"
proof -
  show "requestable (queryURL cl (k_text (kindOf b i) u))" "requestable (queryURL cl (k_list (kindOf b i)))"
    "requestable (makeURL cl (sobjectPath (k_table (kindOf b i)) ''''))"
    using assms by simp_all
  have "isPlain (sobjectPath (k_table (kindOf b i)) ''m'')" using assms(2) by (simp add: plain_simps)
  from requestable_makeURL [OF assms(1) this, of u]
  show "requestable (makeURL cl (sobjectPath (k_table (kindOf b i)) (memberId u)))" by (simp add: sobjectPath_def memberId_def)
qed

lemma table_query_current:
  assumes "plainInstance cl h" and "\<not> hasPrefix q ''/services/data''" and "tableFresh cl k lenient (c, w)"
    and "tableAnswer cl k lenient ''GET'' (queryURL cl q) NoBody w = (okResponse doc, w)"
  shows "\<exists>t' c'. httpRequest (tableEnv alive cl k lenient) cl t ''GET'' (queryURL cl q) NoBody (c, w) = Some (Inr doc, t', c', w)"
  using served_get [OF requestable_queryURL [OF assms(1,2)] queryURLs_I [OF assms(2)] queryURLs_inj [OF assms(1)] assms(3,4)] by blast

lemma tableEnv_reads:
  assumes "plainInstance cl h" and "b \<in> memberSyncers"
  shows "table_reads (tableEnv alive cl (kindOf b i) lenient) cl (kindOf b i) (tableFresh cl (kindOf b i) lenient) (\<lambda>cw. memberTable (snd cw))"
  unfolding table_reads_def
proof (intro allI impI)
  fix t and cw :: "httpCache \<times> string list" and u :: string
  let ?k = "kindOf b i"
  obtain c w where cw: "cw = (c, w)" by (cases cw)
  let ?us = "filter (\<lambda>v. u = v) (remdups w)"
  assume "tableFresh cl ?k lenient cw"
  moreover have "tableAnswer cl ?k lenient ''GET'' (queryURL cl (k_text ?k u)) NoBody w = (okResponse (lastPage (map (memberRow ?k) ?us)), w)"
    using assms(2) by (simp add: tableAnswer_def)
  ultimately obtain t' c' where "httpRequest (tableEnv alive cl ?k lenient) cl t ''GET''
      (queryURL cl (k_text ?k u)) NoBody cw = Some (Inr (lastPage (map (memberRow ?k) ?us)), t', c', w)"
    using table_query_current [OF assms(1) kindOf_wf(4) [OF assms(2)]] unfolding cw by blast
  moreover have "map (keyOf ?k) (map setClient (map (memberRow ?k) ?us)) = filter (\<lambda>r. snd r = u) (memberTable w)"
    using assms(2) by (simp add: memberTable_def filter_map comp_def eq_commute)
  ultimately show "\<exists>doc recs t' w'. httpRequest (tableEnv alive cl ?k lenient) cl t ''GET'' (queryURL cl (k_text ?k u)) NoBody cw = Some (Inr doc, t', w')
      \<and> decodeQueryResult doc = Some (Inr \<lparr>qr_Done = True, qr_NextRecordsURL = '''', qr_Records = recs\<rparr>)
      \<and> map (keyOf ?k) recs = filter (\<lambda>r. snd r = u) (memberTable (snd cw)) \<and> memberTable (snd w') = memberTable (snd cw)"
    unfolding cw snd_conv by (intro exI conjI) (assumption, rule decode_lastPage, assumption, simp)
qed

lemma tableEnv_creates:
  assumes "plainInstance cl h" and "b \<in> memberSyncers"
  shows "table_creates (tableEnv alive cl (kindOf b i) lenient) cl (kindOf b i) lenient (\<lambda>cw. memberTable (snd cw))"
  unfolding table_creates_def
proof (intro allI)
  fix t and cw :: "httpCache \<times> string list" and u :: string
  let ?k = "kindOf b i"
  let ?url = "makeURL cl (sobjectPath (k_table ?k) '''')" and ?b = "JsonBody (k_keys ?k u)"
  obtain c w where cw: "cw = (c, w)" by (cases cw)
  have fresh: "memberTable (w @ [u]) = memberTable w @ [(memberId u, u)]" if "u \<notin> set w"
    using that by (simp add: memberTable_def remdups_snoc)
  have ans: "tableAnswer cl ?k lenient ''POST'' ?url ?b w =
      (if u \<notin> set w then (okResponse (createdDoc (memberId u)), w @ [u])
       else if lenient then (okResponse (createdDoc (memberId u)), w) else (duplicateResponse, w))"
    using assms(2) by (simp add: tableAnswer_def)
  note sent = served_write [where alive = alive and c = c and cl = cl and t = t and ans = "tableAnswer cl ?k lenient" and m = "''POST''",
      OF table_urls(3) [OF assms]]
    served_duplicate [where alive = alive and c = c and cl = cl and t = t and ans = "tableAnswer cl ?k lenient" and m = "''POST''",
      OF table_urls(3) [OF assms]]
  show "\<exists>r t' w'. httpRequest (tableEnv alive cl ?k lenient) cl t ''POST'' ?url ?b cw = Some (r, t', w')
      \<and> (if u \<in> membersOf (memberTable (snd cw))
         then (if lenient then \<exists>doc i. r = Inr doc \<and> decodeCreated doc = Inr i else \<exists>e. r = Inl e) \<and> memberTable (snd w') = memberTable (snd cw)
         else (\<exists>doc j. r = Inr doc \<and> decodeCreated doc = Inr j \<and> memberTable (snd w') = memberTable (snd cw) @ [(j, u)]))"
  proof (cases "u \<in> set w \<and> \<not> lenient")
    case True
    with ans have "tableAnswer cl ?k lenient ''POST'' ?url ?b w = (duplicateResponse, w)" by simp
    from sent(2) [OF _ this] True show ?thesis by (fastforce simp: cw)
  next
    case False
    with ans have "tableAnswer cl ?k lenient ''POST'' ?url ?b w
        = (okResponse (createdDoc (memberId u)), if u \<in> set w then w else w @ [u])" by simp
    from sent(1) [OF _ this] obtain t' where
      "httpRequest (tableEnv alive cl ?k lenient) cl t ''POST'' ?url ?b cw = Some (Inr (createdDoc (memberId u)), t', c, if u \<in> set w then w else w @ [u])"
      by (auto simp: cw)
    then show ?thesis
      using False fresh by (intro exI [of _ "Inr (createdDoc (memberId u))"] exI [of _ t'] exI [of _ "(c, if u \<in> set w then w else w @ [u])"])
        (auto simp: cw)
  qed
qed

lemma tableEnv_deletes:
  assumes "plainInstance cl h" and "b \<in> memberSyncers"
  shows "table_deletes (tableEnv alive cl (kindOf b i) lenient) cl (kindOf b i) (\<lambda>cw. memberTable (snd cw))"
  unfolding table_deletes_def
proof (intro allI impI)
  fix t and cw :: "httpCache \<times> string list" and j u
  obtain c w where cw: "cw = (c, w)" by (cases cw)
  assume "(j, u) \<in> set (memberTable (snd cw))"
  then have j: "j = memberId u" by (auto simp: memberTable_def)
  let ?k = "kindOf b i"
  let ?url = "makeURL cl (sobjectPath (k_table ?k) j)"
  have "?url = makeURL cl (sobjectPath (k_table ?k) (memberId v)) \<longleftrightarrow> u = v" for v
    by (auto simp: j makeURL_def sobjectPath_def)
  then have "tableAnswer cl ?k lenient ''DELETE'' ?url NoBody w = (okResponse (RawDoc []), filter (\<lambda>v. u \<noteq> v) w)"
    by (simp add: tableAnswer_def)
  from served_write [where ans = "tableAnswer cl ?k lenient" and m = "''DELETE''", OF table_urls(4) [OF assms, of i u, folded j] _ this, of alive cl t c]
  obtain t' where "httpRequest (tableEnv alive cl ?k lenient) cl t ''DELETE'' ?url NoBody cw = Some (Inr (RawDoc []), t', c, filter (\<lambda>v. u \<noteq> v) w)"
    by (auto simp: cw)
  moreover have "memberTable (filter (\<lambda>v. u \<noteq> v) w) = filter (\<lambda>r. fst r \<noteq> j) (memberTable w)"
    by (simp add: memberTable_def j filter_map comp_def remdups_filter eq_commute)
  ultimately show "\<exists>doc t' w'. httpRequest (tableEnv alive cl ?k lenient) cl t ''DELETE'' ?url NoBody cw = Some (Inr doc, t', w')
      \<and> memberTable (snd w') = filter (\<lambda>r. fst r \<noteq> j) (memberTable (snd cw))"
    unfolding cw by (intro exI conjI) (assumption, simp)
qed

text \<open>A query whose answer depends on the table only is served in one page while the table does not change.\<close>

lemma tableEnv_serves:
  assumes "plainInstance cl h" and "\<not> hasPrefix q ''/services/data''"
    and "\<And>w'. memberTable w' = x \<Longrightarrow> tableAnswer cl k lenient ''GET'' (queryURL cl q) NoBody w' = (okResponse (lastPage ms), w')"
  shows "serves (\<lambda>cw. tableFresh cl k lenient cw \<and> memberTable (snd cw) = x) (tableEnv alive cl k lenient) cl q (map setClient ms) []"
proof -
  have "answers (\<lambda>cw. tableFresh cl k lenient cw \<and> memberTable (snd cw) = x) (tableEnv alive cl k lenient) cl q
      \<lparr>qr_Done = True, qr_NextRecordsURL = '''', qr_Records = map setClient ms\<rparr>"
    by (rule cached_answers [where ans = "tableAnswer cl k lenient" and Q = "\<lambda>w. memberTable w = x", OF requestable_queryURL [OF assms(1,2)] queryURLs_I [OF assms(2)] queryURLs_inj [OF assms(1)] assms(3) decode_lastPage])
  then show ?thesis by simp
qed

lemma memberTable_remdups: "memberTable w' = memberTable w \<Longrightarrow> remdups w' = remdups w"
proof -
  assume "memberTable w' = memberTable w"
  then have "map snd (memberTable w') = map snd (memberTable w)" by simp
  then show ?thesis by (simp add: memberTable_def comp_def)
qed

lemma tableEnv_lists:
  assumes "plainInstance cl h" and "b \<in> memberSyncers"
  shows "table_lists (tableEnv alive cl (kindOf b i) lenient) cl (kindOf b i) (tableFresh cl (kindOf b i) lenient) (\<lambda>cw. memberTable (snd cw))"
  unfolding table_lists_def
proof (intro allI impI)
  fix cw :: "httpCache \<times> string list"
  let ?k = "kindOf b i" and ?w = "snd cw"
  let ?ms = "map (memberRow ?k) (remdups ?w)"
  have "tableAnswer cl ?k lenient ''GET'' (queryURL cl (k_list ?k)) NoBody w' = (okResponse (lastPage ?ms), w')"
    if "memberTable w' = memberTable ?w" for w'
    using memberTable_remdups [OF that] by (simp add: tableAnswer_def)
  from tableEnv_serves [OF assms(1) kindOf_wf(5) [OF assms(2)] this]
  have "serves (\<lambda>w'. tableFresh cl ?k lenient w' \<and> memberTable (snd w') = memberTable ?w) (tableEnv alive cl ?k lenient) cl (k_list ?k) (map setClient ?ms) []" .
  moreover have "map (keyOf ?k) (allRecords (map setClient ?ms) []) = memberTable ?w"
    using assms(2) by (simp add: allRecords_def memberTable_def)
  ultimately show "\<exists>recs rest. serves (\<lambda>w'. tableFresh cl ?k lenient w' \<and> memberTable (snd w') = memberTable ?w) (tableEnv alive cl ?k lenient) cl (k_list ?k) recs rest
      \<and> mset (map (keyOf ?k) (allRecords recs rest)) = mset (memberTable ?w)"
    by (intro exI [of _ "map setClient ?ms"] exI [of _ "[]"]) (simp only: simp_thms)
qed

lemma tableEnv_table:
  assumes "isLoggedIn cl" and "plainInstance cl h" and "b \<in> memberSyncers"
  shows "member_table (tableEnv alive cl (kindOf b i) lenient) cl (kindOf b i) lenient (tableFresh cl (kindOf b i) lenient) (\<lambda>cw. memberTable (snd cw))"
proof -
  have "table_wf (\<lambda>cw :: httpCache \<times> string list. memberTable (snd cw))"
    by (auto simp: table_wf_def memberTable_def comp_def distinct_map inj_on_def)
  moreover have "clears (tableEnv alive cl (kindOf b i) lenient) (tableFresh cl (kindOf b i) lenient) (\<lambda>cw. memberTable (snd cw))"
    by (rule cached_clears)
  ultimately show ?thesis
    unfolding member_table_def
    using assms(1) tableEnv_reads [OF assms(2,3)] tableEnv_creates [OF assms(2,3)] tableEnv_deletes [OF assms(2,3)] tableEnv_lists [OF assms(2,3)]
    by (intro conjI)
qed

section \<open>Properties\<close>

text \<open>
  C2. What is granted is what is synced, when the response cache is cleared before each request and before the sync: after any
  sequence of requests to grant or revoke the membership of any users in a group, a permission set or a permission set
  group, a full sync of its grants ends, and before the grants of later phases (the permission set groups that contain a permission
  set) it reports each member exactly once, in a group as user or group by the prefix of the id, with the entitlement of the
  resource, and nobody else; who is a member and what is reported of each request are those of the abstract machine on sets of
  members, both for a Salesforce that rejects duplicate records and for one that accepts them without effect.
\<close>

theorem synced_members_are_granted_members:
  fixes st :: "'w \<Rightarrow> memberships"
  assumes "b \<in> {Groups, Permissions, PermissionSetGroups}"
    and "member_table env cl (kindOf b (ri_Resource (r_Id res))) lenient fresh st"
    and "session s cl t" and "snd ` set reqs \<subseteq> {GrantMember, RevokeMember}"
    and "\<forall>u \<in> membersOf (st (sys_w s)) \<union> fst ` set reqs. knownMember b u"
    and "\<forall>x. list_all2 (phaseServed (\<lambda>w. fresh w \<and> st w = x) env cl) (tl (grantPhases b res n)) served"
  shows "\<exists>rs s1 gs s2. runAccess (\<lambda>q. cleared env (memberAccess env b res q)) reqs s = Some (rs, s1)
    \<and> (map outcomeOf rs, membersOf (st (sys_w s1))) = runSpec (memberStep lenient b) reqs (membersOf (st (sys_w s)))
    \<and> chain (\<lambda>_. True) (\<lambda>tok. syncerGrants env b res tok n) '''' (afterClear env s1) (gs @ concat (concat (map (snd \<circ> snd) served))) s2
    \<and> distinct (map (r_Id \<circ> gr_Principal) gs)
    \<and> set (map (r_Id \<circ> gr_Principal) gs) = memberPrincipal b ` snd (runSpec (memberStep lenient b) reqs (membersOf (st (sys_w s))))
    \<and> (\<forall>g \<in> set gs. en_Id (gr_Entitlement g) = NewEntitlementID (Some res) (memberEntitlement b))"
proof -
  have clears: "clears env fresh st" using assms(2) by (simp add: member_table_def)
  let ?oper = "\<lambda>q. cleared env (memberAccess env b res q)"
  have "performs (?oper q) (memberStep lenient b q) (\<lambda>w. membersOf (st w)) cl s'"
    if "q \<in> UNIV \<times> {GrantMember, RevokeMember}" "session s' cl t'" for q s' t'
    by (rule performs_cleared [OF clears that(2)]) (rule member_performs [OF assms(1,2) _ that(1)])
  moreover have "set reqs \<subseteq> UNIV \<times> {GrantMember, RevokeMember}" using assms(4) by auto
  ultimately have "\<exists>rs s1 t1. runAccess ?oper reqs s = Some (rs, s1) \<and> session s1 cl t1
      \<and> (map outcomeOf rs, membersOf (st (sys_w s1))) = runSpec (memberStep lenient b) reqs (membersOf (st (sys_w s)))"
    by (rule run_performs [where oper = ?oper and spec = "memberStep lenient b" and ab = "\<lambda>w. membersOf (st w)", OF _ _ assms(3)])
  then obtain rs s1 t1 where run: "runAccess ?oper reqs s = Some (rs, s1)" "session s1 cl t1"
    "(map outcomeOf rs, membersOf (st (sys_w s1))) = runSpec (memberStep lenient b) reqs (membersOf (st (sys_w s)))" by blast
  then have final: "snd (runSpec (memberStep lenient b) reqs (membersOf (st (sys_w s)))) = membersOf (st (sys_w s1))" by (metis snd_conv)
  have "\<forall>u \<in> membersOf (st (sys_w s1)). knownMember b u"
    using memberStep_members [of lenient b reqs "membersOf (st (sys_w s))"] assms(5) unfolding final by blast
  then have known: "\<forall>u \<in> membersOf (st (sys_w (afterClear env s1))). knownMember b u" using afterClear_fresh [OF clears] by metis
  have start: "session (afterClear env s1) cl t1" "fresh (sys_w (afterClear env s1))" "st (sys_w (afterClear env s1)) = st (sys_w s1)"
    using run(2) afterClear_fresh [OF clears, of s1] by simp_all
  from sync_members [OF assms(1,2) start(1,2) known assms(6) [rule_format]] start(3) obtain gs s2 where
    sync: "chain (\<lambda>_. True) (\<lambda>tok. syncerGrants env b res tok n) '''' (afterClear env s1) (gs @ concat (concat (map (snd \<circ> snd) served))) s2"
      "mset (map (r_Id \<circ> gr_Principal) gs) = image_mset (memberPrincipal b) (mset (map snd (st (sys_w s1))))"
      "\<forall>g \<in> set gs. en_Id (gr_Entitlement g) = NewEntitlementID (Some res) (memberEntitlement b)" by auto
  have perm: "mset (map (r_Id \<circ> gr_Principal) gs) = mset (map (memberPrincipal b \<circ> snd) (st (sys_w s1)))"
    using sync(2) by (simp add: image_mset.compositionality)
  have "inj (memberPrincipal b)" by (rule injI) (simp add: memberPrincipal_def)
  then have "distinct (map (memberPrincipal b \<circ> snd) (st (sys_w s1)))"
    using assms(2) unfolding member_table_def table_wf_def by (metis distinct_map inj_on_subset map_map subset_UNIV)
  with perm have "distinct (map (r_Id \<circ> gr_Principal) gs)" by (metis mset_eq_imp_distinct_iff)
  moreover have "set (map (r_Id \<circ> gr_Principal) gs) = memberPrincipal b ` snd (runSpec (memberStep lenient b) reqs (membersOf (st (sys_w s))))"
    unfolding final using mset_eq_setD [OF perm] by (simp add: membersOf_def image_image)
  ultimately show ?thesis using run(1,3) sync(1,3) by (intro exI conjI) assumption+
qed

text \<open>The query of the second phase is none of those for the members, so the concrete table has nothing for it.\<close>

lemma component_served:
  "\<forall>x. list_all2 (phaseServed (\<lambda>cw. tableFresh demoClient (kindOf Permissions ''0PS1'') lenient cw \<and> memberTable (snd cw) = x)
       (tableEnv alive demoClient (kindOf Permissions ''0PS1'') lenient) demoClient)
     (tl (grantPhases Permissions (bareResource \<lparr>ri_ResourceType = ''permission'', ri_Resource = ''0PS1''\<rparr>) 100)) [([], [], [])]"
proof
  fix x
  let ?k = "kindOf Permissions ''0PS1''"
  let ?q = "renderQuery (querySelectors TablePermissionSetGroupComponent []) TablePermissionSetGroupComponent
    [CEq ''PermissionSetId'' ''0PS1''] SalesforcePK"
  have qs: "getQueryString (WhereEq (NewQuery TablePermissionSetGroupComponent []) ''PermissionSetId'' ''0PS1'') '''' 100 = Some ?q"
    using getQueryString_known [of TablePermissionSetGroupComponent "[CEq ''PermissionSetId'' ''0PS1'']" 100]
    by (simp add: knownTables_def plain_char_def max_int64_def)
  have "?q \<noteq> k_list ?k" "?q \<noteq> k_text ?k u" for u
    by (simp_all add: permissionListText_def permissionText_def renderQuery_def querySelectors_def TableNamesToFieldsMapping_def table_defs)
  then have "queryURL demoClient ?q \<noteq> queryURL demoClient (k_list ?k)" "queryURL demoClient ?q \<noteq> queryURL demoClient (k_text ?k u)" for u
    using queryURL_inj [OF renderQuery_no_path] kindOf_wf(4,5) [of Permissions "''0PS1''"] by blast+
  then have "tableAnswer demoClient ?k lenient ''GET'' (queryURL demoClient ?q) NoBody w' = (okResponse (lastPage []), w')" for w'
    by (simp add: tableAnswer_def)
  from tableEnv_serves [OF demo_plain renderQuery_no_path this, of x]
  show "list_all2 (phaseServed (\<lambda>cw. tableFresh demoClient ?k lenient cw \<and> memberTable (snd cw) = x) (tableEnv alive demoClient ?k lenient) demoClient)
     (tl (grantPhases Permissions (bareResource \<lparr>ri_ResourceType = ''permission'', ri_Resource = ''0PS1''\<rparr>) 100)) [([], [], [])]"
    by (simp add: bareResource_def qs allRecords_def)
qed

abbreviation demoTable :: "(httpCache \<times> string list) env" where
  "demoTable \<equiv> tableEnv (\<lambda>_ _. True) demoClient (kindOf Permissions ''0PS1'') False"

theorem synced_members_are_granted_members_witness:
  "\<exists>rs s1 gs s2. runAccess (\<lambda>q. cleared demoTable (memberAccess demoTable Permissions
        (bareResource \<lparr>ri_ResourceType = ''permission'', ri_Resource = ''0PS1''\<rparr>) q))
      [(''005a'', GrantMember), (''005d'', RevokeMember), (''005b'', RevokeMember), (''005a'', GrantMember)]
      \<lparr>sys_c = sys_c demoSys, sys_w = (Map.empty, [''005b'', ''005c''])\<rparr> = Some (rs, s1)
    \<and> map outcomeOf rs = [Done, Failed, Done, Failed]
    \<and> chain (\<lambda>_. True) (\<lambda>tok. syncerGrants demoTable Permissions
        (bareResource \<lparr>ri_ResourceType = ''permission'', ri_Resource = ''0PS1''\<rparr>) tok 100) '''' (afterClear demoTable s1) gs s2
    \<and> distinct (map (r_Id \<circ> gr_Principal) gs)
    \<and> set (map (r_Id \<circ> gr_Principal) gs) = {userId ''005a'', userId ''005c''}"
proof -
  let ?k = "kindOf Permissions ''0PS1''" and ?res = "bareResource \<lparr>ri_ResourceType = ''permission'', ri_Resource = ''0PS1''\<rparr>"
  let ?s = "\<lparr>sys_c = sys_c demoSys, sys_w = (Map.empty :: httpCache, [''005b'', ''005c''])\<rparr>"
  let ?reqs = "[(''005a'', GrantMember), (''005d'', RevokeMember), (''005b'', RevokeMember), (''005a'', GrantMember)]"
  let ?st = "\<lambda>cw :: httpCache \<times> string list. memberTable (snd cw)"
  have b: "Permissions \<in> memberSyncers" by simp
  have "ri_Resource (r_Id ?res) = ''0PS1''" by (simp add: bareResource_def)
  then have table: "member_table demoTable demoClient (kindOf Permissions (ri_Resource (r_Id ?res))) False (tableFresh demoClient ?k False) ?st"
    using tableEnv_table [OF demo_logged demo_plain b] by metis
  have sess: "session ?s demoClient demoTransport" using demo_session(1) by (simp add: session_def)
  have reqs: "snd ` set ?reqs \<subseteq> {GrantMember, RevokeMember}" by simp
  have known: "\<forall>u \<in> membersOf (?st (sys_w ?s)) \<union> fst ` set ?reqs. knownMember Permissions u"
    by (simp add: knownMember_def)
  have spec: "runSpec (memberStep False Permissions) ?reqs (membersOf (?st (sys_w ?s)))
      = ([Done, Failed, Done, Failed], {''005a'', ''005c''})"
    by auto
  have principals: "memberPrincipal Permissions ` {''005a'', ''005c''} = {userId ''005a'', userId ''005c''}"
    by (simp add: memberPrincipal_def userId_def)
  have later: "gs @ concat (concat (map (snd \<circ> snd) [([] :: sobject list, [] :: (string \<times> sobject list) list, [] :: Grant list list)])) = gs" for gs
    by simp
  show ?thesis
    using synced_members_are_granted_members [OF b table sess reqs known component_served]
    unfolding spec snd_conv principals prod.inject later by (elim exE conjE) (intro exI conjI, assumption+)
qed

end
