(* ===== verification/User_Directory.thy ===== *)
theory User_Directory
  imports Grant_Visibility
begin

text \<open>
  Roles and profiles of all users: a user has one role, possibly none, and one profile, so granting one takes another away.
  Provisioning patches the fields of the users, the sync asks which users have a given value in a field.
\<close>

section \<open>Requests\<close>

type_synonym directory = "string \<Rightarrow> userFields"

text \<open>The profiles and licenses of the organisation, which provisioning only reads.\<close>

record catalog =
  cat_profiles :: "SalesforceProfile list"
  cat_licenses :: "SalesforceUserLicense list"

datatype directoryChange = Assign fieldChange | RevokeProfile string

text \<open>
  The profile to which a user is moved when the profile \<open>p\<close> is revoked, if the configuration has one for the license. A
  revocation that panics is left out: the profile is known, and so is the profile that the configuration names.
\<close>

definition profileIn :: "catalog \<Rightarrow> string \<Rightarrow> SalesforceProfile option" where
  "profileIn cat p = find (\<lambda>x. pf_ID x = p) (cat_profiles cat)"

definition profileNamed :: "catalog \<Rightarrow> string \<Rightarrow> SalesforceProfile option" where
  "profileNamed cat name = find (\<lambda>x. pf_Name x = name) (cat_profiles cat)"

definition licenseIn :: "catalog \<Rightarrow> string \<Rightarrow> SalesforceUserLicense option" where
  "licenseIn cat l = find (\<lambda>x. ul_ID x = l) (cat_licenses cat)"

definition leastName :: "catalog \<Rightarrow> profileBuilder \<Rightarrow> string \<Rightarrow> string option" where
  "leastName cat pb p =
     do { prof \<leftarrow> profileIn cat p;
          license \<leftarrow> licenseIn cat (pf_UserLicenseId prof);
          pb_licenseToLeastProfileMapping pb (ul_Name license) }"

definition leastProfile :: "catalog \<Rightarrow> profileBuilder \<Rightarrow> string \<Rightarrow> string option" where
  "leastProfile cat pb p = do { name \<leftarrow> leastName cat pb p; least \<leftarrow> profileNamed cat name; Some (pf_ID least) }"

definition revocable :: "catalog \<Rightarrow> profileBuilder \<Rightarrow> string \<Rightarrow> bool" where
  "revocable cat pb p \<longleftrightarrow> profileIn cat p \<noteq> None \<and> (\<forall>name. leastName cat pb p = Some name \<longrightarrow> profileNamed cat name \<noteq> None)"

text \<open>The machine: a revocation of a profile moves the user whatever profile the user has.\<close>

fun directoryStep :: "catalog \<Rightarrow> profileBuilder \<Rightarrow> string \<times> directoryChange \<Rightarrow> directory \<Rightarrow> outcome \<times> directory" where
  "directoryStep cat pb (u, Assign c) d = (case fieldStep c (d u) of (out, x) \<Rightarrow> (out, d(u := x)))"
| "directoryStep cat pb (u, RevokeProfile p) d =
     (case leastProfile cat pb p of None \<Rightarrow> (Failed, d) | Some q \<Rightarrow> (Done, d(u := (d u)\<lparr>uf_ProfileId := q\<rparr>)))"

fun directoryAccess :: "'w env \<Rightarrow> profileBuilder \<Rightarrow> string \<times> directoryChange \<Rightarrow> (changed, 'w) op" where
  "directoryAccess env pb (u, Assign c) = fieldAccess env u c"
| "directoryAccess env pb (u, RevokeProfile p) =
     profileRevoke env pb (NewGrant (profileRes p) profileAssignmentEntitlementName (userId u) [])"

section \<open>What the connector relies on\<close>

definition holderText :: "string \<Rightarrow> string \<Rightarrow> string" where
  "holderText c v = renderQuery (querySelectors TableNameUsers []) TableNameUsers [CEq ''UserType'' ''Standard'', CEq c v] SalesforcePK"

definition profileText :: "string \<Rightarrow> string \<Rightarrow> string" where
  "profileText c v = renderQuery (querySelectors TableNameProfiles []) TableNameProfiles [CEq c v] SalesforcePK"

definition licenseText :: "string \<Rightarrow> string" where
  "licenseText v = renderQuery (querySelectors TableNameUserLicenses []) TableNameUserLicenses [CEq ''Id'' v] SalesforcePK"

lemma catalog_texts:
  "getQueryString (WhereEq (NewQuery TableNameProfiles []) ''Id'' v) '''' n = Some (profileText ''Id'' v)"
  "getQueryString (WhereEq (NewQuery TableNameProfiles []) ''Name'' v) '''' n = Some (profileText ''Name'' v)"
  "getQueryString (WhereEq (NewQuery TableNameUserLicenses []) ''Id'' v) '''' n = Some (licenseText v)"
  using getQueryString_known [of TableNameProfiles "[CEq ''Id'' v]" n] getQueryString_known [of TableNameProfiles "[CEq ''Name'' v]" n]
    getQueryString_known [of TableNameUserLicenses "[CEq ''Id'' v]" n]
  by (simp_all add: profileText_def licenseText_def knownTables_def plain_char_def max_int64_def)

lemma holder_text: "plain c \<Longrightarrow> getQueryString (assignedUsersQuery c v) '''' n = Some (holderText c v)"
  unfolding assignedUsersQuery_def holderText_def by (rule two_conditions_text) (simp_all add: knownTables_def plain_char_def)

text \<open>
  With a current cache a look-up finds a record that is read as the expected row, or none, and leaves the cache current. The users are
  those of \<open>ids\<close>; each can be read and patched, and the query for the holders of a role or profile is served in pages, in any
  order, with the standard users that have it, while the directory does not change.
\<close>

definition looksUp :: "'w env \<Rightarrow> sfclient \<Rightarrow> ('w \<Rightarrow> bool) \<Rightarrow> ('w \<Rightarrow> 'm) \<Rightarrow> string \<Rightarrow> (sobject \<Rightarrow> 'a) \<Rightarrow> 'a option \<Rightarrow> bool" where
  "looksUp env cl fresh st q row a \<longleftrightarrow>
     (\<forall>t w. fresh w \<longrightarrow>
        (\<exists>doc recs t' w'. httpRequest env cl t ''GET'' (queryURL cl q) NoBody w = Some (Inr doc, t', w')
           \<and> decodeQueryResult doc = Some (Inr \<lparr>qr_Done = True, qr_NextRecordsURL = '''', qr_Records = recs\<rparr>)
           \<and> (case recs of [] \<Rightarrow> None | x # _ \<Rightarrow> Some (row x)) = a \<and> st w' = st w \<and> fresh w'))"

definition catalog_read :: "'w env \<Rightarrow> sfclient \<Rightarrow> catalog \<Rightarrow> ('w \<Rightarrow> bool) \<Rightarrow> ('w \<Rightarrow> 'm) \<Rightarrow> bool" where
  "catalog_read env cl cat fresh st \<longleftrightarrow>
     (\<forall>v. looksUp env cl fresh st (profileText ''Id'' v) rowProfile (profileIn cat v)
        \<and> looksUp env cl fresh st (profileText ''Name'' v) rowProfile (profileNamed cat v)
        \<and> looksUp env cl fresh st (licenseText v) rowUserLicense (licenseIn cat v))"

fun columnOf :: "string \<Rightarrow> userFields \<Rightarrow> string" where
  "columnOf c x = (if c = ''UserRoleId'' then uf_UserRoleId x else uf_ProfileId x)"

definition directory_lists ::
  "'w env \<Rightarrow> sfclient \<Rightarrow> string list \<Rightarrow> (string \<Rightarrow> bool) \<Rightarrow> ('w \<Rightarrow> bool) \<Rightarrow> ('w \<Rightarrow> directory) \<Rightarrow> bool" where
  "directory_lists env cl ids standard fresh st \<longleftrightarrow>
     (\<forall>w v. \<forall>c \<in> {''UserRoleId'', ''ProfileId''}. fresh w \<and> v \<noteq> '''' \<longrightarrow>
        (\<exists>recs rest. serves (\<lambda>w'. fresh w' \<and> st w' = st w) env cl (holderText c v) recs rest
          \<and> mset (map sobjID (allRecords recs rest)) = mset (filter (\<lambda>u. standard u \<and> columnOf c (st w u) = v) ids)))"

definition user_directory ::
  "'w env \<Rightarrow> sfclient \<Rightarrow> string list \<Rightarrow> (string \<Rightarrow> bool) \<Rightarrow> catalog \<Rightarrow> ('w \<Rightarrow> bool) \<Rightarrow> ('w \<Rightarrow> directory) \<Rightarrow> bool" where
  "user_directory env cl ids standard cat fresh st \<longleftrightarrow>
     isLoggedIn cl \<and> distinct ids \<and> clears env fresh st \<and> (\<forall>u \<in> set ids. user_cell env cl u fresh st (\<lambda>d. d u) (\<lambda>x d. d(u := x)))
     \<and> catalog_read env cl cat fresh st \<and> directory_lists env cl ids standard fresh st"

section \<open>Provisioning\<close>

lemma lookup_session:
  assumes "looksUp env cl fresh st qs row a" and "isLoggedIn cl" and "session s cl t" and "getQueryString q '''' 1 = Some qs" and "fresh (sys_w s)"
  shows "\<exists>rl t' w'. lookupQuery env q row s = Some ((rl, Inr a), after s t' w') \<and> st w' = st (sys_w s) \<and> fresh w'"
proof -
  from assms(1,5) obtain doc recs t' w' where http: "httpRequest env cl t ''GET'' (queryURL cl qs) NoBody (sys_w s) = Some (Inr doc, t', w')"
    "decodeQueryResult doc = Some (Inr \<lparr>qr_Done = True, qr_NextRecordsURL = '''', qr_Records = recs\<rparr>)"
    "(case recs of [] \<Rightarrow> None | x # _ \<Rightarrow> Some (row x)) = a" "st w' = st (sys_w s)" "fresh w'"
    unfolding looksUp_def by blast
  have "clientQuery env qs cl t (sys_w s) = Some (Inr \<lparr>qr_Done = True, qr_NextRecordsURL = '''', qr_Records = recs\<rparr>, t', w')"
    using assms(2) http(1,2) by (simp add: clientQuery_def)
  from query_session [OF assms(3,4) this] http(3-5) show ?thesis by (simp add: lookupQuery_def mapReply_def pageOf_def)
qed

lemma catalog_session:
  assumes "catalog_read env cl cat fresh st" and "isLoggedIn cl" and "session s cl t" and "fresh (sys_w s)"
  shows "\<exists>rl t' w'. GetProfileById env v s = Some ((rl, Inr (profileIn cat v)), after s t' w') \<and> st w' = st (sys_w s) \<and> fresh w'"
    "\<exists>rl t' w'. GetProfileByName env v s = Some ((rl, Inr (profileNamed cat v)), after s t' w') \<and> st w' = st (sys_w s) \<and> fresh w'"
    "\<exists>rl t' w'. GetUserLicenseByID env v s = Some ((rl, Inr (licenseIn cat v)), after s t' w') \<and> st w' = st (sys_w s) \<and> fresh w'"
proof -
  have looks: "looksUp env cl fresh st (profileText ''Id'' v) rowProfile (profileIn cat v)"
    "looksUp env cl fresh st (profileText ''Name'' v) rowProfile (profileNamed cat v)"
    "looksUp env cl fresh st (licenseText v) rowUserLicense (licenseIn cat v)"
    using assms(1) by (simp_all add: catalog_read_def)
  show "\<exists>rl t' w'. GetProfileById env v s = Some ((rl, Inr (profileIn cat v)), after s t' w') \<and> st w' = st (sys_w s) \<and> fresh w'"
    unfolding GetProfileById_def by (rule lookup_session [OF looks(1) assms(2,3) catalog_texts(1) assms(4)])
  show "\<exists>rl t' w'. GetProfileByName env v s = Some ((rl, Inr (profileNamed cat v)), after s t' w') \<and> st w' = st (sys_w s) \<and> fresh w'"
    unfolding GetProfileByName_def by (rule lookup_session [OF looks(2) assms(2,3) catalog_texts(2) assms(4)])
  show "\<exists>rl t' w'. GetUserLicenseByID env v s = Some ((rl, Inr (licenseIn cat v)), after s t' w') \<and> st w' = st (sys_w s) \<and> fresh w'"
    unfolding GetUserLicenseByID_def by (rule lookup_session [OF looks(3) assms(2,3) catalog_texts(3) assms(4)])
qed

text \<open>A revocation of a profile: the look-ups leave the directory as it is, the last step moves the user.\<close>

lemma profile_revocation_run:
  assumes "user_cell env cl u fresh st rd wr" and "catalog_read env cl cat fresh st" and "isLoggedIn cl" and "session s cl t"
    and "revocable cat pb p" and "fresh (sys_w s)"
  shows "\<exists>annos err t' w'. profileRevoke env pb (NewGrant (profileRes p) profileAssignmentEntitlementName (userId u) []) s
      = Some ((annos, err), after s t' w')
    \<and> (case leastProfile cat pb p of
         None \<Rightarrow> err \<noteq> None \<and> st w' = st (sys_w s)
       | Some q \<Rightarrow> (\<exists>rl. annos = WithRateLimitAnnotations [rl]) \<and> err = None
           \<and> st w' = wr ((rd (st (sys_w s)))\<lparr>uf_ProfileId := q\<rparr>) (st (sys_w s)))"
proof -
  note look = catalog_session [OF assms(2,3)]
  note sess = session_after [OF assms(4)]
  obtain prof where prof: "profileIn cat p = Some prof" using assms(5) by (auto simp: revocable_def)
  obtain rl1 t1 w1 where one: "GetProfileById env p s = Some ((rl1, Inr (Some prof)), after s t1 w1)" "st w1 = st (sys_w s)" "fresh w1"
    using look(1) [OF assms(4,6), of p] prof by auto
  obtain rl2 t2 w2 where two: "GetUserLicenseByID env (pf_UserLicenseId prof) (after s t1 w1)
      = Some ((rl2, Inr (licenseIn cat (pf_UserLicenseId prof))), after s t2 w2)" "st w2 = st (sys_w s)" "fresh w2"
    using look(3) [OF sess, of t1 w1 "pf_UserLicenseId prof"] one(2,3) by auto
  note defs = profileRevoke_def profileRes_def bareResource_def userId_def leastProfile_def leastName_def
  show ?thesis
  proof (cases "leastName cat pb p")
    case None
    with one two prof show ?thesis
      by (cases "licenseIn cat (pf_UserLicenseId prof)") (auto simp: defs)
  next
    case (Some name)
    then obtain license least where found: "licenseIn cat (pf_UserLicenseId prof) = Some license"
      "pb_licenseToLeastProfileMapping pb (ul_Name license) = Some name" "profileNamed cat name = Some least"
      using prof assms(5) by (auto simp: leastName_def revocable_def Option.bind_eq_Some_conv)
    obtain rl3 t3 w3 where three: "GetProfileByName env name (after s t2 w2) = Some ((rl3, Inr (Some least)), after s t3 w3)"
      "st w3 = st (sys_w s)" "fresh w3"
      using look(2) [OF sess, of t2 w2 name] two(2,3) found(3) by auto
    obtain rl4 t4 w4 where four: "setValue env u ''ProfileId'' (pf_ID least) (after s t3 w3) = Some ((rl4, Inr ()), after s t4 w4)"
      "st w4 = wr ((rd (st (sys_w s)))\<lparr>uf_ProfileId := pf_ID least\<rparr>) (st (sys_w s))"
      using user_set [OF assms(1) sess [of t3 w3], where f = "''ProfileId''" and v = "pf_ID least"] three(2,3) by (auto simp: patched_def)
    from one(1) two(1) three(1) four prof found show ?thesis
      by (auto simp: defs SetNewUserProfile_def setOneValue_eq)
  qed
qed

lemma directory_performs:
  assumes "user_directory env cl ids standard cat fresh st" and "session s cl t" and "fst q \<in> set ids" and "fresh (sys_w s)"
    and "\<forall>p. snd q = RevokeProfile p \<longrightarrow> revocable cat pb p"
  shows "performs (directoryAccess env pb q) (directoryStep cat pb q) st cl s"
proof -
  obtain u c where q: "q = (u, c)" by (cases q)
  with assms have cell: "user_cell env cl u fresh st (\<lambda>d. d u) (\<lambda>x d. d(u := x))" and cat: "catalog_read env cl cat fresh st" "isLoggedIn cl"
    by (simp_all add: user_directory_def)
  show ?thesis
  proof (cases c)
    case (Assign a)
    have "directoryStep cat pb q = onFields (\<lambda>d. d u) (\<lambda>x d. d(u := x)) (fieldStep a)"
      by (simp add: q Assign onFields_def fun_eq_iff)
    with field_performs [OF cell assms(2,4), of a] show ?thesis by (simp add: q Assign)
  next
    case (RevokeProfile p)
    then have "revocable cat pb p" using assms(5) q by simp
    from profile_revocation_run [OF cell cat assms(2) this assms(4)] obtain annos err t' w' where
      run: "directoryAccess env pb q s = Some ((annos, err), after s t' w')"
        "case leastProfile cat pb p of
           None \<Rightarrow> err \<noteq> None \<and> st w' = st (sys_w s)
         | Some x \<Rightarrow> (\<exists>rl. annos = WithRateLimitAnnotations [rl]) \<and> err = None \<and> st w' = (st (sys_w s))(u := (st (sys_w s) u)\<lparr>uf_ProfileId := x\<rparr>)"
      by (auto simp: q RevokeProfile)
    note performsI [where oper = "directoryAccess env pb q" and spec = "directoryStep cat pb q" and ab = st, OF run(1) assms(2)]
    with run(2) show ?thesis by (auto simp: q RevokeProfile split: option.split_asm)
  qed
qed

section \<open>The sync of the holders\<close>

fun holderColumn :: "syncer \<Rightarrow> string" where
  "holderColumn Roles = ''UserRoleId''"
| "holderColumn _ = ''ProfileId''"

fun holderEntitlement :: "syncer \<Rightarrow> string" where
  "holderEntitlement Roles = roleAssignmentEntitlementName"
| "holderEntitlement _ = profileAssignmentEntitlementName"

fun holdsFields :: "syncer \<Rightarrow> bool" where
  "holdsFields Roles = True"
| "holdsFields (Profiles _) = True"
| "holdsFields _ = False"

lemma collect_holders:
  "\<exists>gss. collect (yields (total rowAssignedUser) (\<lambda>u. one (NewGrant res ent (userId (su_ID u)) []))) recs = Some gss
    \<and> map (r_Id \<circ> gr_Principal) (concat gss) = map (userId \<circ> sobjID) recs
    \<and> (\<forall>g \<in> set (concat gss). en_Id (gr_Entitlement g) = NewEntitlementID (Some res) ent)"
proof -
  have "yields (total rowAssignedUser) (\<lambda>u. one (NewGrant res ent (userId (su_ID u)) []))
      = (\<lambda>rec. Some [NewGrant res ent (userId (sobjID rec)) []])"
    by (simp add: yields_def rowAssignedUser_def fun_eq_iff)
  then show ?thesis by (simp only: collect_total) (auto simp: concat_map_singleton)
qed

lemma grantPhases_holders:
  assumes "holdsFields b"
  shows "grantPhases b res n = [(Some (holderText (holderColumn b) (ri_Resource (r_Id res))),
     yields (total rowAssignedUser) (\<lambda>u. one (NewGrant res (holderEntitlement b) (userId (su_ID u)) [])))]"
proof -
  have "plain ''UserRoleId''" "plain ''ProfileId''" by (simp_all add: plain_char_def)
  with assms show ?thesis by (cases b) (simp_all add: holder_text roleHolderYield_def profileHolderYield_def)
qed

lemma sync_holders:
  fixes st :: "'w \<Rightarrow> directory"
  assumes dir: "user_directory env cl ids standard cat fresh st" and sess: "session s cl t" and b: "holdsFields b"
    and fresh: "fresh (sys_w s)" and "ri_Resource (r_Id res) \<noteq> ''''"
  shows "\<exists>gs s'. chain (\<lambda>_. True) (\<lambda>tok. syncerGrants env b res tok n) '''' s gs s'
    \<and> mset (map (r_Id \<circ> gr_Principal) gs) = mset (map userId (filter (\<lambda>u. standard u
        \<and> columnOf (holderColumn b) (st (sys_w s) u) = ri_Resource (r_Id res)) ids))
    \<and> (\<forall>g \<in> set gs. en_Id (gr_Entitlement g) = NewEntitlementID (Some res) (holderEntitlement b))"
proof -
  let ?v = "ri_Resource (r_Id res)" and ?c = "holderColumn b"
  have "?c \<in> {''UserRoleId'', ''ProfileId''}" using b by (cases b) simp_all
  moreover have "directory_lists env cl ids standard fresh st" using dir by (simp add: user_directory_def)
  ultimately obtain recs rest where served: "serves (\<lambda>w'. fresh w' \<and> st w' = st (sys_w s)) env cl (holderText ?c ?v) recs rest"
    "mset (map sobjID (allRecords recs rest)) = mset (filter (\<lambda>u. standard u \<and> columnOf ?c (st (sys_w s) u) = ?v) ids)"
    using fresh assms(5) unfolding directory_lists_def by blast
  from collect_holders [of res "holderEntitlement b" "allRecords recs rest"] obtain gss where
    gss: "collect (yields (total rowAssignedUser) (\<lambda>u. one (NewGrant res (holderEntitlement b) (userId (su_ID u)) []))) (allRecords recs rest)
        = Some gss"
      "map (r_Id \<circ> gr_Principal) (concat gss) = map (userId \<circ> sobjID) (allRecords recs rest)"
      "\<forall>g \<in> set (concat gss). en_Id (gr_Entitlement g) = NewEntitlementID (Some res) (holderEntitlement b)" by blast
  have "list_all2 (phaseServed (\<lambda>w'. fresh w' \<and> st w' = st (sys_w s)) env cl) (grantPhases b res n) [(recs, rest, gss)]"
    unfolding grantPhases_holders [OF b] using served(1) gss(1) by simp
  from grants_end [OF _ sess _ this] dir fresh have "\<exists>s'. chain (\<lambda>_. True) (\<lambda>tok. syncerGrants env b res tok n) '''' s (concat gss) s'"
    by (auto simp: user_directory_def)
  moreover have "mset (map (r_Id \<circ> gr_Principal) (concat gss)) = image_mset userId (mset (map sobjID (allRecords recs rest)))"
    unfolding gss(2) by (simp add: image_mset.compositionality comp_def)
  then have "mset (map (r_Id \<circ> gr_Principal) (concat gss)) = mset (map userId (filter (\<lambda>u. standard u
      \<and> columnOf ?c (st (sys_w s) u) = ?v) ids))"
    unfolding served(2) by simp
  ultimately show ?thesis using gss(3) by blast
qed

section \<open>A concrete directory\<close>

text \<open>
  A server for the users \<open>ids\<close> and a catalogue; its world is the directory. A query for a field value finds the users
  that have it, a query for a profile or a license finds the entries of the catalogue.
\<close>

definition accountDoc :: "string \<Rightarrow> userFields \<Rightarrow> gomap" where
  "accountDoc u x = [''attributes'' \<mapsto> VMap [''type'' \<mapsto> VString ''User''], ''Id'' \<mapsto> VString u,
     ''UserRoleId'' \<mapsto> VString (uf_UserRoleId x), ''ProfileId'' \<mapsto> VString (uf_ProfileId x)]"

definition profileRow :: "SalesforceProfile \<Rightarrow> gomap" where
  "profileRow p = [''Id'' \<mapsto> VString (pf_ID p), ''Name'' \<mapsto> VString (pf_Name p), ''UserLicenseId'' \<mapsto> VString (pf_UserLicenseId p)]"

definition licenseRow :: "SalesforceUserLicense \<Rightarrow> gomap" where
  "licenseRow l = [''Id'' \<mapsto> VString (ul_ID l), ''Name'' \<mapsto> VString (ul_Name l)]"

definition found :: "string list \<Rightarrow> (string \<Rightarrow> bool) \<Rightarrow> catalog \<Rightarrow> directory \<Rightarrow> string \<Rightarrow> gomap list" where
  "found ids standard cat d url =
     (let asks = (\<lambda>q. url = queryURL demoClient q)
      in map (\<lambda>u. [''Id'' \<mapsto> VString u]) (filter (\<lambda>u. standard u \<and> (asks (holderText ''UserRoleId'' (uf_UserRoleId (d u)))
            \<or> asks (holderText ''ProfileId'' (uf_ProfileId (d u))))) ids)
         @ map profileRow (filter (\<lambda>p. asks (profileText ''Id'' (pf_ID p)) \<or> asks (profileText ''Name'' (pf_Name p))) (cat_profiles cat))
         @ map licenseRow (filter (\<lambda>l. asks (licenseText (ul_ID l))) (cat_licenses cat)))"

fun patchedBy :: "reqbody \<Rightarrow> userFields \<Rightarrow> userFields" where
  "patchedBy (JsonBody vs) u = (case (vs ''UserRoleId'', vs ''ProfileId'') of
     (Some (VString r), None) \<Rightarrow> u\<lparr>uf_UserRoleId := r\<rparr> | (None, Some (VString p)) \<Rightarrow> u\<lparr>uf_ProfileId := p\<rparr> | _ \<Rightarrow> u)"
| "patchedBy _ u = u"

abbreviation userURL :: "string \<Rightarrow> string" where
  "userURL u \<equiv> makeURL demoClient (sobjectPath ''User'' u)"

definition directoryAnswer :: "string list \<Rightarrow> (string \<Rightarrow> bool) \<Rightarrow> catalog \<Rightarrow> directory server" where
  "directoryAnswer ids standard cat method url body d =
     (case find (\<lambda>u. url = userURL u) ids of
        None \<Rightarrow> (okResponse (lastPage (found ids standard cat d url)), d)
      | Some u \<Rightarrow> if method = ''GET'' then (okResponse (JsonDoc [] (VMap (accountDoc u (d u)))), d)
                  else (okResponse (RawDoc []), d(u := patchedBy body (d u))))"

text \<open>The directory behind the cache, which is fresh when it is current for all queries and for the records of the users.\<close>

abbreviation directoryEnv ::
  "(directory \<Rightarrow> string \<Rightarrow> bool) \<Rightarrow> string list \<Rightarrow> (string \<Rightarrow> bool) \<Rightarrow> catalog \<Rightarrow> (httpCache \<times> directory) env" where
  "directoryEnv alive ids standard cat \<equiv> cachedServer alive (directoryAnswer ids standard cat)"

abbreviation directoryFresh :: "string list \<Rightarrow> (string \<Rightarrow> bool) \<Rightarrow> catalog \<Rightarrow> httpCache \<times> directory \<Rightarrow> bool" where
  "directoryFresh ids standard cat \<equiv> currentIn (directoryAnswer ids standard cat) (queryURLs demoClient \<union> userURL ` set ids)"

text \<open>User ids that differ in more than the case, so that their records have different cache keys.\<close>

definition plainIds :: "string list \<Rightarrow> bool" where
  "plainIds ids \<longleftrightarrow> distinct (map (map lowerByte) ids) \<and> (\<forall>u \<in> set ids. isPlain u \<and> u \<noteq> '''')"

lemma plainIds_inj: "plainIds ids \<Longrightarrow> inj_on getKey (queryURLs demoClient \<union> userURL ` set ids)"
  by (rule record_keys [OF demo_plain]) (auto simp: plainIds_def distinct_map plain_simps)

lemma directory_get:
  assumes "plainIds ids" and "url \<in> queryURLs demoClient \<union> userURL ` set ids" and "requestable url"
    and "directoryFresh ids standard cat (c, w)" and "directoryAnswer ids standard cat ''GET'' url NoBody w = (okResponse doc, w)"
  shows "\<exists>t' c'. httpRequest (directoryEnv alive ids standard cat) demoClient t ''GET'' url NoBody (c, w) = Some (Inr doc, t', c', w)
    \<and> directoryFresh ids standard cat (c', w)"
  by (rule served_get [where ans = "directoryAnswer ids standard cat", OF assms(3,2) plainIds_inj [OF assms(1)] assms(4,5)])

text \<open>The texts of the queries are told apart, and no query is the URL of a user.\<close>

lemma directory_texts [simp]:
  "holderText ''UserRoleId'' u = holderText ''UserRoleId'' v \<longleftrightarrow> u = v" "holderText ''ProfileId'' u = holderText ''ProfileId'' v \<longleftrightarrow> u = v"
  "holderText ''UserRoleId'' u \<noteq> holderText ''ProfileId'' v" "holderText ''ProfileId'' u \<noteq> holderText ''UserRoleId'' v"
  "profileText ''Id'' u = profileText ''Id'' v \<longleftrightarrow> u = v" "profileText ''Name'' u = profileText ''Name'' v \<longleftrightarrow> u = v"
  "profileText ''Id'' u \<noteq> profileText ''Name'' v" "profileText ''Name'' u \<noteq> profileText ''Id'' v" "licenseText u = licenseText v \<longleftrightarrow> u = v"
  by (simp_all add: holderText_def profileText_def licenseText_def renderQuery_def)

lemma directory_tables [simp]:
  "holderText c u \<noteq> profileText e v" "profileText e v \<noteq> holderText c u" "holderText c u \<noteq> licenseText v"
  "licenseText v \<noteq> holderText c u" "profileText e u \<noteq> licenseText v" "licenseText v \<noteq> profileText e u"
  by (simp_all add: holderText_def profileText_def licenseText_def renderQuery_def querySelectors_def TableNamesToFieldsMapping_def table_defs)

lemma directory_no_path [simp]:
  "\<not> hasPrefix (holderText c v) ''/services/data''" "\<not> hasPrefix (profileText c v) ''/services/data''" "\<not> hasPrefix (licenseText v) ''/services/data''"
  by (simp_all add: holderText_def profileText_def licenseText_def)

lemma query_no_user:
  assumes "\<not> hasPrefix q ''/services/data''"
  shows "find (\<lambda>u. queryURL demoClient q = userURL u) ids = None"
  using assms by (simp add: find_None_iff queryURL_def makeURL_def sobjectPath_def demoClient_def)

lemma directory_query:
  assumes "\<not> hasPrefix q ''/services/data''"
  shows "directoryAnswer ids standard cat ''GET'' (queryURL demoClient q) NoBody d
    = (okResponse (lastPage (found ids standard cat d (queryURL demoClient q))), d)"
  by (simp add: directoryAnswer_def query_no_user [OF assms])

lemma found_simps [simp]:
  "found ids standard cat d (queryURL demoClient (holderText ''UserRoleId'' v))
     = map (\<lambda>u. [''Id'' \<mapsto> VString u]) (filter (\<lambda>u. standard u \<and> uf_UserRoleId (d u) = v) ids)"
  "found ids standard cat d (queryURL demoClient (holderText ''ProfileId'' v))
     = map (\<lambda>u. [''Id'' \<mapsto> VString u]) (filter (\<lambda>u. standard u \<and> uf_ProfileId (d u) = v) ids)"
  "found ids standard cat d (queryURL demoClient (profileText ''Id'' v)) = map profileRow (filter (\<lambda>p. pf_ID p = v) (cat_profiles cat))"
  "found ids standard cat d (queryURL demoClient (profileText ''Name'' v)) = map profileRow (filter (\<lambda>p. pf_Name p = v) (cat_profiles cat))"
  "found ids standard cat d (queryURL demoClient (licenseText v)) = map licenseRow (filter (\<lambda>l. ul_ID l = v) (cat_licenses cat))"
  by (simp_all add: found_def queryURL_inj eq_commute)

lemma rows_read [simp]:
  "rowProfile (setClient (profileRow p)) = p" "rowUserLicense (setClient (licenseRow l)) = l"
  "sobjID (setClient [''Id'' \<mapsto> VString u]) = u"
  by (simp_all add: rowProfile_def rowUserLicense_def profileRow_def licenseRow_def setClient_def sobjID_def StringField_def mapIndex_def
      sobject_key_defs)

lemma find_rows: "(\<And>x. row (f x) = x) \<Longrightarrow> (case map f (filter P xs) of [] \<Rightarrow> None | y # _ \<Rightarrow> Some (row y)) = find P xs"
  by (induction xs) simp_all

lemma directoryEnv_looks:
  assumes "plainIds ids" and "\<not> hasPrefix q ''/services/data''"
    and "\<And>d. found ids standard cat d (queryURL demoClient q) = map f (filter P xs)" and "\<And>x. row (setClient (f x)) = x"
  shows "looksUp (directoryEnv alive ids standard cat) demoClient (directoryFresh ids standard cat) snd q row (find P xs)"
  unfolding looksUp_def
proof (intro allI impI)
  fix t and cw :: "httpCache \<times> directory"
  obtain c w where cw: "cw = (c, w)" by (cases cw)
  let ?env = "directoryEnv alive ids standard cat" and ?doc = "lastPage (map f (filter P xs))"
  assume "directoryFresh ids standard cat cw"
  moreover have "directoryAnswer ids standard cat ''GET'' (queryURL demoClient q) NoBody w = (okResponse ?doc, w)"
    by (simp add: directory_query [OF assms(2)] assms(3))
  moreover have "queryURL demoClient q \<in> queryURLs demoClient \<union> userURL ` set ids" using queryURLs_I [OF assms(2)] by blast
  ultimately obtain t' c' where http: "httpRequest ?env demoClient t ''GET'' (queryURL demoClient q) NoBody (c, w) = Some (Inr ?doc, t', c', w)"
    "directoryFresh ids standard cat (c', w)"
    using directory_get [OF assms(1) _ requestable_queryURL [OF demo_plain assms(2)]] unfolding cw by blast
  have "(case map setClient (map f (filter P xs)) of [] \<Rightarrow> None | y # _ \<Rightarrow> Some (row y)) = find P xs"
    using find_rows [of row "setClient \<circ> f" P xs] assms(4) by simp
  with http show "\<exists>doc recs t' w'. httpRequest ?env demoClient t ''GET'' (queryURL demoClient q) NoBody cw = Some (Inr doc, t', w')
      \<and> decodeQueryResult doc = Some (Inr \<lparr>qr_Done = True, qr_NextRecordsURL = '''', qr_Records = recs\<rparr>)
      \<and> (case recs of [] \<Rightarrow> None | x # _ \<Rightarrow> Some (row x)) = find P xs \<and> snd w' = snd cw \<and> directoryFresh ids standard cat w'"
    unfolding cw by (intro exI conjI) (assumption, rule decode_lastPage, assumption, simp, assumption)
qed

lemma directoryEnv_catalog:
  assumes "plainIds ids"
  shows "catalog_read (directoryEnv alive ids standard cat) demoClient cat (directoryFresh ids standard cat) snd"
  unfolding catalog_read_def profileIn_def profileNamed_def licenseIn_def
  by (intro allI conjI directoryEnv_looks [where f = profileRow, OF assms] directoryEnv_looks [where f = licenseRow, OF assms]) simp_all

lemma directoryEnv_lists:
  assumes "plainIds ids"
  shows "directory_lists (directoryEnv alive ids standard cat) demoClient ids standard (directoryFresh ids standard cat) snd"
  unfolding directory_lists_def
proof (intro allI ballI impI)
  fix cw :: "httpCache \<times> directory" and v c
  assume "c \<in> {''UserRoleId'', ''ProfileId''}"
  let ?us = "filter (\<lambda>u. standard u \<and> columnOf c (snd cw u) = v) ids" and ?env = "directoryEnv alive ids standard cat"
  let ?recs = "map (\<lambda>u. [''Id'' \<mapsto> VString u]) ?us" and ?P = "\<lambda>w'. directoryFresh ids standard cat w' \<and> snd w' = snd cw"
  have ans: "directoryAnswer ids standard cat ''GET'' (queryURL demoClient (holderText c v)) NoBody w = (okResponse (lastPage ?recs), w)"
    if "w = snd cw" for w
    using \<open>c \<in> _\<close> by (auto simp: directory_query that)
  have "queryURL demoClient (holderText c v) \<in> queryURLs demoClient \<union> userURL ` set ids" using queryURLs_I [OF directory_no_path(1)] by blast
  from cached_answers [where ans = "directoryAnswer ids standard cat" and Q = "\<lambda>w. w = snd cw",
      OF requestable_queryURL [OF demo_plain directory_no_path(1)] this plainIds_inj [OF assms] ans decode_lastPage]
  have served: "serves ?P ?env demoClient (holderText c v) (map setClient ?recs) []" by simp
  have "map sobjID (allRecords (map setClient ?recs) []) = ?us" by (simp add: allRecords_def comp_def)
  with served show "\<exists>recs rest. serves ?P ?env demoClient (holderText c v) recs rest
      \<and> mset (map sobjID (allRecords recs rest)) = mset ?us" by (intro exI conjI) (assumption, rule arg_cong)
qed

lemma directoryEnv_cell:
  assumes "plainIds ids" and "u \<in> set ids"
  shows "user_cell (directoryEnv alive ids standard cat) demoClient u (directoryFresh ids standard cat) snd (\<lambda>d. d u) (\<lambda>x d. d(u := x))"
  unfolding user_cell_def
proof (intro conjI allI impI)
  let ?env = "directoryEnv alive ids standard cat"
  have u: "isPlain u" "u \<noteq> ''''" using assms by (auto simp: plainIds_def)
  have req: "requestable (userURL u)" by (rule requestable_record [OF demo_plain _ u(1)]) (simp add: plain_simps)
  have "find (\<lambda>v. userURL u = userURL v) ids = find (\<lambda>v. u = v) ids"
    by (intro find_cong) (auto simp: makeURL_def sobjectPath_def)
  also have "\<dots> = Some u" using assms(2) by (induction ids) auto
  finally have which: "find (\<lambda>v. userURL u = userURL v) ids = Some u" .
  fix t and cw :: "httpCache \<times> directory" and f v
  obtain c w where cw: "cw = (c, w)" by (cases cw)
  let ?doc = "JsonDoc [] (VMap (accountDoc u (w u)))"
  have user: "userRecord u (accountDoc u (w u))" "fieldsOf (accountDoc u (w u)) = w u"
    using u(2) by (auto simp: accountDoc_def userRecord_def fieldsOf_def StringField_def mapIndex_def)
  show "\<exists>x m t' w'. httpRequest ?env demoClient t ''GET'' (userURL u) NoBody cw = Some (Inr (JsonDoc x (VMap m)), t', w')
      \<and> userRecord u m \<and> fieldsOf m = snd cw u \<and> snd w' = snd cw" if "directoryFresh ids standard cat cw"
  proof -
    have "directoryAnswer ids standard cat ''GET'' (userURL u) NoBody w = (okResponse ?doc, w)" using which by (simp add: directoryAnswer_def)
    with directory_get [OF assms(1) _ req, of standard cat c w ?doc alive t] that assms(2) obtain t' c' where
      "httpRequest ?env demoClient t ''GET'' (userURL u) NoBody (c, w) = Some (Inr ?doc, t', c', w)" by (auto simp: cw)
    with user show ?thesis unfolding cw by (intro exI conjI) (assumption, assumption, simp, simp)
  qed
  assume "f \<in> {''UserRoleId'', ''ProfileId''}"
  then have "directoryAnswer ids standard cat ''PATCH'' (userURL u) (JsonBody [f \<mapsto> VString v]) w = (okResponse (RawDoc []), w(u := patched f v (w u)))"
    using which by (auto simp: directoryAnswer_def patched_def)
  from served_write [where ans = "directoryAnswer ids standard cat", OF req _ this, of alive demoClient t c]
  show "\<exists>doc t' w'. httpRequest ?env demoClient t ''PATCH'' (userURL u) (JsonBody [f \<mapsto> VString v]) cw = Some (Inr doc, t', w')
      \<and> snd w' = (snd cw)(u := patched f v (snd cw u))" unfolding cw by auto
qed simp

lemma directoryEnv_directory:
  assumes "plainIds ids"
  shows "user_directory (directoryEnv alive ids standard cat) demoClient ids standard cat (directoryFresh ids standard cat) snd"
proof -
  have "clears (directoryEnv alive ids standard cat) (directoryFresh ids standard cat) snd"
    unfolding clears_def split_paired_All by (simp add: cleared_current)
  moreover have "distinct ids" using assms by (simp add: plainIds_def distinct_map)
  ultimately show ?thesis
    unfolding user_directory_def
    using demo_logged directoryEnv_catalog [OF assms] directoryEnv_lists [OF assms] directoryEnv_cell [OF assms] by (intro conjI ballI)
qed

section \<open>Properties\<close>


text \<open>Two standard users and another one, a profile and the least privileged one of its license.\<close>

definition demoCatalog :: catalog where
  "demoCatalog = \<lparr>cat_profiles = [\<lparr>pf_ID = ''00e1'', pf_Name = ''Admin'', pf_UserLicenseId = ''1001''\<rparr>,
       \<lparr>pf_ID = ''00e0'', pf_Name = ''Minimum Access'', pf_UserLicenseId = ''1001''\<rparr>],
     cat_licenses = [\<lparr>ul_ID = ''1001'', ul_Name = ''Salesforce''\<rparr>]\<rparr>"

definition demoChanges :: "(string \<times> directoryChange) list" where
  "demoChanges = [(''005a'', Assign (GrantUserRole ''r1'')), (''005b'', Assign (GrantUserRole ''r1'')), (''005a'', Assign (RevokeUserRole ''r2'')),
     (''005b'', Assign (GrantUserRole ''r2'')), (''005b'', RevokeProfile ''00e1''), (''005n'', Assign (GrantUserRole ''r1''))]"

lemma demoChanges_ok:
  "\<forall>(u, c) \<in> set demoChanges. u \<in> set [''005a'', ''005b'', ''005n'']
     \<and> (\<forall>p. c = RevokeProfile p \<longrightarrow> revocable demoCatalog (newProfileBuilder [''Salesforce'' \<mapsto> ''Minimum Access'']) p)"
  by (simp add: demoChanges_def revocable_def leastName_def profileIn_def licenseIn_def profileNamed_def demoCatalog_def newProfileBuilder_def)

lemma demoChanges_run:
  "runSpec (directoryStep demoCatalog (newProfileBuilder [''Salesforce'' \<mapsto> ''Minimum Access''])) demoChanges
      (\<lambda>_. \<lparr>uf_UserRoleId = '''', uf_ProfileId = ''00e9''\<rparr>)
    = ([Done, Done, Failed, Done, Done, Done],
       (\<lambda>_. \<lparr>uf_UserRoleId = '''', uf_ProfileId = ''00e9''\<rparr>)(''005a'' := \<lparr>uf_UserRoleId = ''r1'', uf_ProfileId = ''00e9''\<rparr>,
         ''005b'' := \<lparr>uf_UserRoleId = ''r2'', uf_ProfileId = ''00e0''\<rparr>, ''005n'' := \<lparr>uf_UserRoleId = ''r1'', uf_ProfileId = ''00e9''\<rparr>))"
  by (simp add: demoChanges_def leastProfile_def leastName_def profileIn_def licenseIn_def profileNamed_def demoCatalog_def
      newProfileBuilder_def fun_eq_iff)

abbreviation demoDirectory :: "(httpCache \<times> directory) env" where
  "demoDirectory \<equiv> directoryEnv (\<lambda>_ _. True) [''005a'', ''005b'', ''005n''] (\<lambda>u. u \<noteq> ''005n'') demoCatalog"


end
