(* ===== verification/Territory_Table.thy ===== *)
theory Territory_Table
  imports Grant_Visibility
begin

text \<open>
  The associations of all users with a territory: a table with at most one record for a user, which holds the role that the
  user has in the territory, if any. Grants and revocations of membership and of roles write it, the sync reads it in pages.
\<close>

section \<open>What the connector relies on\<close>

text \<open>A user is associated by a record with an id and a role; the empty role is none.\<close>

type_synonym associations = "string \<Rightarrow> (string \<times> string) option"

definition assocRow :: "sobject \<Rightarrow> string \<times> string \<times> string" where
  "assocRow rec = (StringField rec ''UserId'', sobjID rec, StringField rec ''RoleInTerritory2'')"

definition assocRows :: "associations \<Rightarrow> string \<Rightarrow> (string \<times> string \<times> string) list" where
  "assocRows a u = (case a u of None \<Rightarrow> [] | Some x \<Rightarrow> [(u, x)])"

fun assocBody :: "string \<Rightarrow> string \<Rightarrow> string option \<Rightarrow> gomap" where
  "assocBody u tid None = assocKeys u tid"
| "assocBody u tid (Some r) = (assocKeys u tid)(''RoleInTerritory2'' \<mapsto> VString r)"

definition associationListText :: "string \<Rightarrow> string" where
  "associationListText tid = renderQuery (querySelectors TableNameUserTerritory2Assoc []) TableNameUserTerritory2Assoc
     [CEq ''Territory2Id'' tid] SalesforcePK"

abbreviation assocURL :: "sfclient \<Rightarrow> string \<Rightarrow> string" where
  "assocURL cl i \<equiv> makeURL cl (sobjectPath TableNameUserTerritory2Assoc i)"

text \<open>
  With a current cache the association of a user is found, and the query for all associations is served in pages as long as
  something (\<open>P\<close>) holds that holds now: that the data does not change. Writes do not care about the cache.
\<close>

definition assoc_reads :: "'w env \<Rightarrow> sfclient \<Rightarrow> string \<Rightarrow> ('w \<Rightarrow> bool) \<Rightarrow> ('w \<Rightarrow> associations) \<Rightarrow> bool" where
  "assoc_reads env cl tid fresh st \<longleftrightarrow>
     (\<forall>t w u. fresh w \<longrightarrow>
        (\<exists>doc recs t' w'. httpRequest env cl t ''GET'' (queryURL cl (associationText u tid)) NoBody w = Some (Inr doc, t', w')
           \<and> decodeQueryResult doc = Some (Inr \<lparr>qr_Done = True, qr_NextRecordsURL = '''', qr_Records = recs\<rparr>)
           \<and> map assocRow recs = assocRows (st w) u \<and> st w' = st w))"

definition assoc_creates :: "'w env \<Rightarrow> sfclient \<Rightarrow> string \<Rightarrow> ('w \<Rightarrow> associations) \<Rightarrow> bool" where
  "assoc_creates env cl tid st \<longleftrightarrow>
     (\<forall>t w u ro. st w u = None \<longrightarrow>
        (\<exists>doc t' w' i. httpRequest env cl t ''POST'' (assocURL cl '''') (JsonBody (assocBody u tid ro)) w = Some (Inr doc, t', w')
           \<and> decodeCreated doc = Inr i \<and> st w' = (st w)(u \<mapsto> (i, case ro of None \<Rightarrow> '''' | Some r \<Rightarrow> r))))"

definition assoc_updates :: "'w env \<Rightarrow> sfclient \<Rightarrow> ('w \<Rightarrow> associations) \<Rightarrow> bool" where
  "assoc_updates env cl st \<longleftrightarrow>
     (\<forall>t w u i c r. st w u = Some (i, c) \<longrightarrow>
        (\<exists>doc t' w'. httpRequest env cl t ''PATCH'' (assocURL cl i) (JsonBody [''RoleInTerritory2'' \<mapsto> VString r]) w = Some (Inr doc, t', w')
           \<and> st w' = (st w)(u \<mapsto> (i, r))))"

definition assoc_deletes :: "'w env \<Rightarrow> sfclient \<Rightarrow> ('w \<Rightarrow> associations) \<Rightarrow> bool" where
  "assoc_deletes env cl st \<longleftrightarrow>
     (\<forall>t w u i c. st w u = Some (i, c) \<longrightarrow>
        (\<exists>doc t' w'. httpRequest env cl t ''DELETE'' (assocURL cl i) NoBody w = Some (Inr doc, t', w') \<and> st w' = (st w)(u := None)))"

definition assoc_lists :: "'w env \<Rightarrow> sfclient \<Rightarrow> string \<Rightarrow> ('w \<Rightarrow> bool) \<Rightarrow> ('w \<Rightarrow> associations) \<Rightarrow> bool" where
  "assoc_lists env cl tid fresh st \<longleftrightarrow>
     (\<forall>w. fresh w \<longrightarrow>
        (\<exists>P recs rest. P w \<and> serves P env cl (associationListText tid) recs rest
          \<and> distinct (map (fst \<circ> assocRow) (allRecords recs rest))
          \<and> set (map assocRow (allRecords recs rest)) = {(u, x). st w u = Some x}))"

definition territory_table :: "'w env \<Rightarrow> sfclient \<Rightarrow> string \<Rightarrow> ('w \<Rightarrow> bool) \<Rightarrow> ('w \<Rightarrow> associations) \<Rightarrow> bool" where
  "territory_table env cl tid fresh st \<longleftrightarrow>
     isLoggedIn cl \<and> (\<forall>w u i c. st w u = Some (i, c) \<longrightarrow> i \<noteq> '''') \<and> clears env fresh st \<and> assoc_reads env cl tid fresh st
     \<and> assoc_creates env cl tid st \<and> assoc_updates env cl st \<and> assoc_deletes env cl st \<and> assoc_lists env cl tid fresh st"

section \<open>Client operations on the table\<close>

lemma assoc_find:
  assumes "territory_table env cl tid fresh st" and "session s cl t" and "fresh (sys_w s)"
  shows "\<exists>rl r t' w'. getSObject env (territoryAssociationQuery u tid) s = Some ((rl, r), after s t' w') \<and> st w' = st (sys_w s)
    \<and> (case st (sys_w s) u of
         None \<Rightarrow> r = Inl ErrObjectNotFound
       | Some (i, c) \<Rightarrow> \<exists>rec. r = Inr rec \<and> sobjID rec = i \<and> StringField rec ''RoleInTerritory2'' = c)"
proof -
  have "assoc_reads env cl tid fresh st" using assms(1) by (simp add: territory_table_def)
  with assms(3) obtain doc recs t' w' where
    http: "httpRequest env cl t ''GET'' (queryURL cl (associationText u tid)) NoBody (sys_w s) = Some (Inr doc, t', w')"
      "decodeQueryResult doc = Some (Inr \<lparr>qr_Done = True, qr_NextRecordsURL = '''', qr_Records = recs\<rparr>)"
      "map assocRow recs = assocRows (st (sys_w s)) u" "st w' = st (sys_w s)"
    unfolding assoc_reads_def by blast
  have "clientQuery env (associationText u tid) cl t (sys_w s)
      = Some (Inr \<lparr>qr_Done = True, qr_NextRecordsURL = '''', qr_Records = recs\<rparr>, t', w')"
    using assms(1) http(1,2) by (simp add: clientQuery_def territory_table_def)
  from getSObject_session [OF assms(2) membership_texts(1) this] http(3,4) show ?thesis
    by (auto simp: assocRows_def assocRow_def split: option.splits)
qed

lemma assoc_create:
  assumes "territory_table env cl tid fresh st" and "session s cl t" and "st (sys_w s) u = None"
  shows "\<exists>rl t' w' i. CreateObject env TableNameUserTerritory2Assoc (assocBody u tid ro) s = Some ((rl, Inr ()), after s t' w')
    \<and> st w' = (st (sys_w s))(u \<mapsto> (i, case ro of None \<Rightarrow> '''' | Some r \<Rightarrow> r))"
proof -
  from assms(1,3) obtain doc t' w' i where http: "httpRequest env cl t ''POST'' (assocURL cl '''') (JsonBody (assocBody u tid ro)) (sys_w s)
      = Some (Inr doc, t', w')" "decodeCreated doc = Inr i" "st w' = (st (sys_w s))(u \<mapsto> (i, case ro of None \<Rightarrow> '''' | Some r \<Rightarrow> r))"
    unfolding territory_table_def assoc_creates_def by metis
  have "plainValues (assocBody u tid ro)" using assoc_plain by (cases ro) simp_all
  from CreateObject_session [OF assms(2) this _ http(1)] http(2,3) show ?thesis by (auto simp: table_defs)
qed

lemma assoc_update:
  assumes "territory_table env cl tid fresh st" and "session s cl t" and "st (sys_w s) u = Some (i, c)"
  shows "\<exists>rl t' w'. UpdateObject env TableNameUserTerritory2Assoc i [''RoleInTerritory2'' \<mapsto> VString r] s = Some ((rl, Inr ()), after s t' w')
    \<and> st w' = (st (sys_w s))(u \<mapsto> (i, r))"
proof -
  from assms(1,3) obtain doc t' w' where http: "httpRequest env cl t ''PATCH'' (assocURL cl i) (JsonBody [''RoleInTerritory2'' \<mapsto> VString r]) (sys_w s)
      = Some (Inr doc, t', w')" "st w' = (st (sys_w s))(u \<mapsto> (i, r))"
    unfolding territory_table_def assoc_updates_def by metis
  have plain: "plainValues [''RoleInTerritory2'' \<mapsto> VString r]" by simp
  have "i \<noteq> ''''" using assms(1,3) unfolding territory_table_def by metis
  with UpdateObject_session [OF assms(2) plain _ _ http(1)] http(2) show ?thesis by (auto simp: table_defs)
qed

lemma assoc_delete:
  assumes "territory_table env cl tid fresh st" and "session s cl t" and "st (sys_w s) u = Some (i, c)"
  shows "\<exists>rl t' w'. DeleteObject env TableNameUserTerritory2Assoc i s = Some ((rl, Inr ()), after s t' w') \<and> st w' = (st (sys_w s))(u := None)"
proof -
  from assms(1,3) obtain doc t' w' where http: "httpRequest env cl t ''DELETE'' (assocURL cl i) NoBody (sys_w s) = Some (Inr doc, t', w')"
    "st w' = (st (sys_w s))(u := None)"
    unfolding territory_table_def assoc_deletes_def by metis
  have "i \<noteq> ''''" using assms(1,3) unfolding territory_table_def by metis
  with DeleteObject_session [OF assms(2) _ _ http(1)] http(2) show ?thesis by (auto simp: table_defs)
qed

section \<open>Requests\<close>

text \<open>The machine: the membership of every user. No request fails; one that changes nothing says so.\<close>

definition rolesIn :: "associations \<Rightarrow> string \<Rightarrow> membership" where
  "rolesIn a u = map_option snd (a u)"

fun territoryStep :: "string \<times> access \<Rightarrow> (string \<Rightarrow> membership) \<Rightarrow> outcome \<times> (string \<Rightarrow> membership)" where
  "territoryStep (u, a) m = (if access_step a (m u) = m u then Already else Done, m(u := access_step a (m u)))"

fun territoryRequest :: "'w env \<Rightarrow> Resource \<Rightarrow> string \<times> access \<Rightarrow> (changed, 'w) op" where
  "territoryRequest env res (u, a) = territoryAccess env u res a"

lemma rolesIn_upd [simp]: "rolesIn (a(u := x)) = (rolesIn a)(u := map_option snd x)"
  by (simp add: rolesIn_def fun_eq_iff)

lemma already_outcomes [simp]:
  "outcomeOf ([AnnGrantAlreadyRevoked], None) = Already" "outcomeOf ([AnnGrantAlreadyExists], None) = Already"
  by (simp_all add: outcomeOf_def marked_def)

text \<open>A request ends as the machine does when it changes the membership of its user to what the machine says, marked or not.\<close>

lemma territory_performsI:
  assumes "territoryAccess env u res a s = Some ((annos, None), after s t' w')" and "session s cl t"
    and "rolesIn (st w') = (rolesIn (st (sys_w s)))(u := access_step a (rolesIn (st (sys_w s)) u))"
    and "outcomeOf (annos, None) = (if access_step a (rolesIn (st (sys_w s)) u) = rolesIn (st (sys_w s)) u then Already else Done)"
  shows "performs (territoryRequest env res (u, a)) (territoryStep (u, a)) (\<lambda>w. rolesIn (st w)) cl s"
proof (rule performsI [where oper = "territoryRequest env res (u, a)" and spec = "territoryStep (u, a)" and ab = "\<lambda>w. rolesIn (st w)",
      OF _ assms(2)])
  show "territoryRequest env res (u, a) s = Some ((annos, None), after s t' w')" using assms(1) by simp
  show "territoryStep (u, a) (rolesIn (st (sys_w s))) = (outcomeOf (annos, None), rolesIn (st w'))"
    unfolding territoryStep.simps assms(3,4) by (rule refl)
qed

lemmas territory_unfold = territory_request_defs territoryGrant_def territoryRevoke_def revokedUnless_def

text \<open>A user who is not associated.\<close>

lemma territory_performs_none:
  assumes table: "territory_table env cl tid fresh st" and sess: "session s cl t" and fresh: "fresh (sys_w s)" and res: "territoryRes tid res" and none: "st (sys_w s) u = None"
  shows "performs (territoryRequest env res (u, a)) (territoryStep (u, a)) (\<lambda>w. rolesIn (st w)) cl s"
proof -
  obtain rl t1 w1 where f: "getSObject env (territoryAssociationQuery u tid) s = Some ((rl, Inl ErrObjectNotFound), after s t1 w1)"
    "st w1 = st (sys_w s)"
    using assoc_find [OF table sess fresh, of u] none by auto
  have free: "st (sys_w (after s t1 w1)) u = None" using f(2) none by simp
  note create = assoc_create [OF table session_after [OF sess] free]
  note I = territory_performsI [OF _ sess, where st = st]
  show ?thesis
  proof (cases a)
    case GrantMember
    obtain rl2 t2 w2 i where c: "CreateObject env TableNameUserTerritory2Assoc (assocKeys u tid) (after s t1 w1) = Some ((rl2, Inr ()), after s t2 w2)"
      "st w2 = (st (sys_w s))(u \<mapsto> (i, ''''))"
      using create [of None] f(2) by auto
    have "territoryAccess env u res a s = Some ((WithRateLimitAnnotations [rl2], None), after s t2 w2)"
      using f res createAssociation_created [OF c(1)] territoryRes_parse [OF res]
      by (simp add: GrantMember territory_unfold AddUserToTerritory_def assocKeys_def)
    from I [OF this] c(2) none show ?thesis by (simp add: GrantMember rolesIn_def [of _ u])
  next
    case (GrantRole r)
    obtain rl2 t2 w2 i where c: "CreateObject env TableNameUserTerritory2Assoc ((assocKeys u tid)(''RoleInTerritory2'' \<mapsto> VString r)) (after s t1 w1)
        = Some ((rl2, Inr ()), after s t2 w2)" "st w2 = (st (sys_w s))(u \<mapsto> (i, r))"
      using create [of "Some r"] f(2) by auto
    have "territoryAccess env u res a s = Some ((WithRateLimitAnnotations [rl2], None), after s t2 w2)"
      using f res createAssociation_created [OF c(1)] territoryRes_parse [OF res]
      by (simp add: GrantRole territory_unfold AddUserToTerritoryWithRole_def assocKeys_def)
    from I [OF this] c(2) none show ?thesis by (simp add: GrantRole rolesIn_def [of _ u])
  next
    case RevokeMember
    have "territoryAccess env u res a s = Some (([AnnGrantAlreadyRevoked], None), after s t1 w1)"
      using f res territoryRes_parse [OF res] by (simp add: RevokeMember territory_unfold RemoveUserFromTerritory_def findAndDelete_def)
    from I [OF this] f(2) none show ?thesis by (simp add: RevokeMember rolesIn_def fun_eq_iff)
  next
    case (RevokeRole r)
    have "territoryAccess env u res a s = Some (([AnnGrantAlreadyRevoked], None), after s t1 w1)"
      using f res territoryRes_parse [OF res] by (simp add: RevokeRole territory_unfold ClearUserTerritoryRole_def)
    from I [OF this] f(2) none show ?thesis by (simp add: RevokeRole rolesIn_def fun_eq_iff)
  qed
qed

text \<open>A user who is associated, with a role or without.\<close>

lemma territory_performs_some:
  assumes table: "territory_table env cl tid fresh st" and sess: "session s cl t" and fresh: "fresh (sys_w s)" and res: "territoryRes tid res" and some: "st (sys_w s) u = Some (i, c)"
  shows "performs (territoryRequest env res (u, a)) (territoryStep (u, a)) (\<lambda>w. rolesIn (st w)) cl s"
proof -
  obtain rl rec t1 w1 where f: "getSObject env (territoryAssociationQuery u tid) s = Some ((rl, Inr rec), after s t1 w1)"
    "st w1 = st (sys_w s)" "sobjID rec = i" "StringField rec ''RoleInTerritory2'' = c"
    using assoc_find [OF table sess fresh, of u] some by auto
  have held: "st (sys_w (after s t1 w1)) u = Some (i, c)" using f(2) some by simp
  have role: "rolesIn (st (sys_w s)) u = Some c" using some by (simp add: rolesIn_def)
  note update = assoc_update [OF table session_after [OF sess] held]
  note I = territory_performsI [OF _ sess, where st = st]
  have same: "(rolesIn (st (sys_w s)))(u := Some c) = rolesIn (st w1)" using role f(2) by auto
  show ?thesis
  proof (cases a)
    case GrantMember
    have "territoryAccess env u res a s = Some (([AnnGrantAlreadyExists], None), after s t1 w1)"
      using f res territoryRes_parse [OF res] by (simp add: GrantMember territory_unfold)
    from I [OF this] same show ?thesis by (simp add: GrantMember role)
  next
    case (GrantRole r)
    show ?thesis
    proof (cases "c = r")
      case True
      have "territoryAccess env u res a s = Some (([AnnGrantAlreadyExists], None), after s t1 w1)"
        using f res territoryRes_parse [OF res] by (simp add: GrantRole True territory_unfold)
      from I [OF this] same show ?thesis by (simp add: GrantRole True role)
    next
      case False
      obtain rl2 t2 w2 where c: "UpdateObject env TableNameUserTerritory2Assoc i [''RoleInTerritory2'' \<mapsto> VString r] (after s t1 w1)
          = Some ((rl2, Inr ()), after s t2 w2)" "st w2 = (st (sys_w s))(u \<mapsto> (i, r))"
        using update [of r] f(2) by auto
      have "territoryAccess env u res a s = Some ((WithRateLimitAnnotations [rl2], None), after s t2 w2)"
        using f res c(1) False territoryRes_parse [OF res] by (simp add: GrantRole territory_unfold SetUserTerritoryRole_def)
      from I [OF this] c(2) False show ?thesis by (simp add: GrantRole role)
    qed
  next
    case RevokeMember
    obtain rl2 t2 w2 where c: "DeleteObject env TableNameUserTerritory2Assoc i (after s t1 w1) = Some ((rl2, Inr ()), after s t2 w2)"
      "st w2 = (st (sys_w s))(u := None)"
      using assoc_delete [OF table session_after [OF sess] held] f(2) by auto
    have "territoryAccess env u res a s = Some ((WithRateLimitAnnotations [rl2], None), after s t2 w2)"
      using f res c(1) territoryRes_parse [OF res] by (simp add: RevokeMember territory_unfold RemoveUserFromTerritory_def findAndDelete_def)
    from I [OF this] c(2) show ?thesis by (simp add: RevokeMember role)
  next
    case (RevokeRole r)
    show ?thesis
    proof (cases "c = r \<and> r \<noteq> ''''")
      case True
      obtain rl2 t2 w2 where c: "UpdateObject env TableNameUserTerritory2Assoc i [''RoleInTerritory2'' \<mapsto> VString ''''] (after s t1 w1)
          = Some ((rl2, Inr ()), after s t2 w2)" "st w2 = (st (sys_w s))(u \<mapsto> (i, ''''))"
        using update [of "''''"] f(2) by auto
      have "territoryAccess env u res a s = Some ((WithRateLimitAnnotations [rl2], None), after s t2 w2)"
        using f res c(1) True territoryRes_parse [OF res] by (simp add: RevokeRole territory_unfold ClearUserTerritoryRole_def)
      from I [OF this] c(2) True show ?thesis by (auto simp: RevokeRole role)
    next
      case False
      have acc: "territoryAccess env u res a s = Some (([AnnGrantAlreadyRevoked], None), after s t1 w1)"
        using f res False territoryRes_parse [OF res] by (auto simp: RevokeRole territory_unfold ClearUserTerritoryRole_def)
      have "access_step a (Some c) = Some c" using False by (auto simp: RevokeRole)
      with I [OF acc] same show ?thesis by (simp add: role)
    qed
  qed
qed

lemma territory_performs:
  assumes "territory_table env cl tid fresh st" and "session s cl t" and "fresh (sys_w s)" and "territoryRes tid res"
  shows "performs (territoryRequest env res q) (territoryStep q) (\<lambda>w. rolesIn (st w)) cl s"
proof -
  obtain u a where q: "q = (u, a)" by (cases q)
  show ?thesis
  proof (cases "st (sys_w s) u")
    case None
    show ?thesis unfolding q by (rule territory_performs_none [where fresh = fresh, OF assms None])
  next
    case (Some x)
    then obtain i c where "st (sys_w s) u = Some (i, c)" by (cases x) simp
    then show ?thesis unfolding q by (rule territory_performs_some [where fresh = fresh, OF assms])
  qed
qed

section \<open>The sync of a territory\<close>

text \<open>A grant by principal and entitlement, and those of one association.\<close>

definition grantKey :: "Grant \<Rightarrow> ResourceId \<times> string" where
  "grantKey g = (r_Id (gr_Principal g), en_Id (gr_Entitlement g))"

fun rowKeys :: "Resource \<Rightarrow> string \<times> string \<times> string \<Rightarrow> (ResourceId \<times> string) list" where
  "rowKeys res (u, i, r) = (userId u, NewEntitlementID (Some res) territoryMemberPermission)
     # (if r \<noteq> '''' then [(userId u, NewEntitlementID (Some res) (roleSlug r))] else [])"

lemma memberGrants_keys: "map grantKey (memberGrants res (rowTerritoryMember rec)) = rowKeys res (assocRow rec)"
  by (simp add: memberGrants_def rowTerritoryMember_def assocRow_def grantKey_def)

lemma NewEntitlementID_inj [simp]: "NewEntitlementID (Some res) p = NewEntitlementID (Some res) q \<longleftrightarrow> p = q"
  by (simp add: NewEntitlementID_def)

lemma rowKeys_distinct: "distinct (map fst rows) \<Longrightarrow> distinct (concat (map (rowKeys res) rows))"
proof (induction rows)
  case (Cons row rows)
  have "fst k \<in> (userId \<circ> fst) ` set rows" if "k \<in> set (concat (map (rowKeys res) rows))" for k
    using that by (force split: if_splits)
  then have "k \<notin> set (concat (map (rowKeys res) rows))" if "k \<in> set (rowKeys res row)" for k
    using that Cons.prems by (cases row) (force simp: userId_def split: if_splits)
  moreover have "distinct (rowKeys res row)" by (cases row) (auto simp: slug_cases(1) [symmetric])
  ultimately show ?case using Cons by auto
qed simp

text \<open>What the sync of a territory has to report for a membership of every user.\<close>

definition territoryKeys :: "Resource \<Rightarrow> (string \<Rightarrow> membership) \<Rightarrow> (ResourceId \<times> string) set" where
  "territoryKeys res m =
     {(userId u, NewEntitlementID (Some res) territoryMemberPermission) | u. m u \<noteq> None}
     \<union> {(userId u, NewEntitlementID (Some res) (roleSlug r)) | u r. m u = Some r \<and> r \<noteq> ''''}"

lemma rowKeys_set: "set rows = {(u, x). a u = Some x} \<Longrightarrow> set (concat (map (rowKeys res) rows)) = territoryKeys res (rolesIn a)"
  by (fastforce simp: territoryKeys_def rolesIn_def)

lemma collect_memberGrants:
  "collect (territoryMemberYield res) recs = Some (map (\<lambda>rec. memberGrants res (rowTerritoryMember rec)) recs)"
proof -
  have "territoryMemberYield res = (\<lambda>rec. Some (memberGrants res (rowTerritoryMember rec)))"
    by (simp add: territoryMemberYield_def yields_def fun_eq_iff)
  then show ?thesis by (simp add: collect_total)
qed

lemma associationListText: "getQueryString (WhereEq (NewQuery TableNameUserTerritory2Assoc []) ''Territory2Id'' tid) '''' n = Some (associationListText tid)"
  using getQueryString_known [of TableNameUserTerritory2Assoc "[CEq ''Territory2Id'' tid]" n]
  by (simp add: associationListText_def knownTables_def plain_char_def max_int64_def)

lemma sync_territory:
  assumes "territory_table env cl (ri_Resource (r_Id res)) fresh st" and "session s cl t" and "fresh (sys_w s)"
  shows "\<exists>gs s'. chain (\<lambda>_. True) (\<lambda>tok. syncerGrants env Territories res tok n) '''' s gs s'
    \<and> distinct (map grantKey gs) \<and> set (map grantKey gs) = territoryKeys res (rolesIn (st (sys_w s)))"
proof -
  have "assoc_lists env cl (ri_Resource (r_Id res)) fresh st" using assms(1) by (simp add: territory_table_def)
  with assms(3) obtain P recs rest where served: "P (sys_w s)" "serves P env cl (associationListText (ri_Resource (r_Id res))) recs rest"
    "distinct (map (fst \<circ> assocRow) (allRecords recs rest))" "set (map assocRow (allRecords recs rest)) = {(u, x). st (sys_w s) u = Some x}"
    unfolding assoc_lists_def by blast
  let ?gss = "map (\<lambda>rec. memberGrants res (rowTerritoryMember rec)) (allRecords recs rest)"
  let ?rows = "map assocRow (allRecords recs rest)"
  have "list_all2 (phaseServed P env cl) (grantPhases Territories res n) [(recs, rest, ?gss)]"
    using served(2) by (simp add: associationListText collect_memberGrants)
  from grants_end [OF _ assms(2) served(1) this] assms(1)
  have "\<exists>s'. chain (\<lambda>_. True) (\<lambda>tok. syncerGrants env Territories res tok n) '''' s (concat ?gss) s'"
    by (auto simp: territory_table_def)
  moreover have keys: "map grantKey (concat ?gss) = concat (map (rowKeys res) ?rows)"
    by (simp add: map_concat comp_def memberGrants_keys)
  moreover have "distinct (concat (map (rowKeys res) ?rows))" using served(3) by (intro rowKeys_distinct) simp
  moreover have "set (concat (map (rowKeys res) ?rows)) = territoryKeys res (rolesIn (st (sys_w s)))" by (rule rowKeys_set [OF served(4)])
  ultimately show ?thesis by metis
qed

section \<open>A concrete table\<close>

text \<open>
  A server whose world is the list of the users with their roles, the last entry of a user first; the id of the record
  of a user is as in the tables of members. Other queries find nothing.
\<close>

type_synonym roleList = "(string \<times> string) list"

definition assocTable :: "roleList \<Rightarrow> associations" where
  "assocTable w u = map_option (\<lambda>r. (memberId u, r)) (map_of w u)"

definition assocDoc :: "roleList \<Rightarrow> string \<Rightarrow> gomap" where
  "assocDoc w u = [''Id'' \<mapsto> VString (memberId u), ''UserId'' \<mapsto> VString u, ''RoleInTerritory2'' \<mapsto> VString (the (map_of w u))]"

definition stringAt :: "gomap \<Rightarrow> string \<Rightarrow> string" where
  "stringAt vs f = (case vs f of Some (VString x) \<Rightarrow> x | _ \<Rightarrow> '''')"

definition assocAnswer :: "sfclient \<Rightarrow> string \<Rightarrow> roleList server" where
  "assocAnswer cl tid method url body w =
     (let vs = (case body of JsonBody vs \<Rightarrow> vs | _ \<Rightarrow> Map.empty); users = remdups (map fst w) in
      if method = ''GET''
      then (okResponse (lastPage (map (assocDoc w)
              (filter (\<lambda>u. url = queryURL cl (associationListText tid) \<or> url = queryURL cl (associationText u tid)) users))), w)
      else if method = ''POST''
      then (okResponse (createdDoc (memberId (stringAt vs ''UserId''))), (stringAt vs ''UserId'', stringAt vs ''RoleInTerritory2'') # w)
      else if method = ''PATCH''
      then (okResponse (RawDoc []),
            map (\<lambda>u. (u, stringAt vs ''RoleInTerritory2'')) (filter (\<lambda>u. url = assocURL cl (memberId u)) users) @ w)
      else (okResponse (RawDoc []), filter (\<lambda>x. url \<noteq> assocURL cl (memberId (fst x))) w))"

abbreviation assocEnv :: "(roleList \<Rightarrow> string \<Rightarrow> bool) \<Rightarrow> sfclient \<Rightarrow> string \<Rightarrow> (httpCache \<times> roleList) env" where
  "assocEnv alive cl tid \<equiv> cachedServer alive (assocAnswer cl tid)"

abbreviation assocFresh :: "sfclient \<Rightarrow> string \<Rightarrow> httpCache \<times> roleList \<Rightarrow> bool" where
  "assocFresh cl tid \<equiv> currentIn (assocAnswer cl tid) (queryURLs cl)"

abbreviation assocState :: "httpCache \<times> roleList \<Rightarrow> associations" where
  "assocState cw \<equiv> assocTable (snd cw)"

lemma association_urls [simp]:
  "queryURL cl (associationText u tid) = queryURL cl (associationText v tid) \<longleftrightarrow> u = v"
  "queryURL cl (associationText u tid) \<noteq> queryURL cl (associationListText tid)"
  "queryURL cl (associationListText tid) \<noteq> queryURL cl (associationText u tid)"
  "assocURL cl (memberId u) = assocURL cl (memberId v) \<longleftrightarrow> u = v"
proof -
  have no_path: "\<not> hasPrefix (associationListText tid) ''/services/data''" by (simp add: associationListText_def)
  have texts: "associationText u tid = associationText v tid \<longleftrightarrow> u = v" "associationText u tid \<noteq> associationListText tid"
    by (simp_all add: associationText_def associationListText_def renderQuery_def)
  show "queryURL cl (associationText u tid) = queryURL cl (associationText v tid) \<longleftrightarrow> u = v"
    using queryURL_inj [OF membership_no_path(1) membership_no_path(1)] texts(1) by metis
  show "queryURL cl (associationText u tid) \<noteq> queryURL cl (associationListText tid)"
    using queryURL_inj [OF membership_no_path(1) no_path] texts(2) by metis
  then show "queryURL cl (associationListText tid) \<noteq> queryURL cl (associationText u tid)" by metis
  show "assocURL cl (memberId u) = assocURL cl (memberId v) \<longleftrightarrow> u = v" by (simp add: makeURL_def sobjectPath_def)
qed

lemma association_requestable:
  assumes "plainInstance cl h"
  shows "requestable (queryURL cl (associationText u tid))" "requestable (queryURL cl (associationListText tid))"
    "requestable (assocURL cl '''')" "requestable (assocURL cl (memberId u))"
proof -
  show "requestable (queryURL cl (associationText u tid))" "requestable (queryURL cl (associationListText tid))" "requestable (assocURL cl '''')"
    using assms by (simp_all add: associationListText_def)
  have "isPlain (sobjectPath TableNameUserTerritory2Assoc ''m'')" by (simp add: plain_simps)
  from requestable_makeURL [OF assms this, of u] show "requestable (assocURL cl (memberId u))" by (simp add: sobjectPath_def memberId_def)
qed

lemma assocRow_doc [simp]: "assocRow (setClient (assocDoc w u)) = (u, memberId u, the (map_of w u))"
  by (simp add: assocRow_def assocDoc_def sobjID_def StringField_def mapIndex_def setClient_def sobject_key_defs)

lemma filter_one: "filter (\<lambda>v. u = v) (remdups xs) = (if u \<in> set xs then [u] else [])"
  by (induction xs) auto

lemma assocTable_rows: "u \<in> set (map fst w) \<Longrightarrow> assocTable w u = Some (memberId u, the (map_of w u))"
  by (auto simp: assocTable_def map_of_eq_None_iff weak_map_of_SomeI dest!: weak_map_of_SomeI)

lemma assocTable_absent: "u \<notin> set (map fst w) \<Longrightarrow> assocTable w u = None"
  by (simp add: assocTable_def map_of_eq_None_iff)

lemma map_of_filter_key: "map_of (filter (\<lambda>x. u \<noteq> fst x) w) = (map_of w)(u := None)"
  by (induction w) (auto simp: fun_eq_iff)

lemma associationListText_no_path [simp]: "\<not> hasPrefix (associationListText tid) ''/services/data''"
  by (simp add: associationListText_def)

lemma assocAnswer_read:
  "assocAnswer cl tid ''GET'' (queryURL cl (associationText u tid)) NoBody w
     = (okResponse (lastPage (map (assocDoc w) (filter (\<lambda>v. u = v) (remdups (map fst w))))), w)"
  by (simp add: assocAnswer_def)

lemma assocRows_read: "map assocRow (map setClient (map (assocDoc w) (filter (\<lambda>v. u = v) (remdups (map fst w))))) = assocRows (assocTable w) u"
  unfolding filter_one by (cases "u \<in> set (map fst w)") (simp_all add: assocRows_def assocTable_rows assocTable_absent)

lemma assocEnv_reads:
  assumes "plainInstance cl h"
  shows "assoc_reads (assocEnv alive cl tid) cl tid (assocFresh cl tid) assocState"
  unfolding assoc_reads_def
proof (intro allI impI)
  fix t and cw :: "httpCache \<times> roleList" and u :: string
  obtain c w where cw: "cw = (c, w)" by (cases cw)
  let ?ms = "map (assocDoc w) (filter (\<lambda>v. u = v) (remdups (map fst w)))" and ?q = "associationText u tid"
  assume "assocFresh cl tid cw"
  with served_get [where ans = "assocAnswer cl tid" and c = c, OF association_requestable(1) [OF assms, of u tid]
      queryURLs_I [OF membership_no_path(1)] queryURLs_inj [OF assms] _ assocAnswer_read]
  obtain t' c' where "httpRequest (assocEnv alive cl tid) cl t ''GET'' (queryURL cl ?q) NoBody (c, w) = Some (Inr (lastPage ?ms), t', c', w)"
    unfolding cw by blast
  then show "\<exists>doc recs t' w'. httpRequest (assocEnv alive cl tid) cl t ''GET'' (queryURL cl ?q) NoBody cw = Some (Inr doc, t', w')
      \<and> decodeQueryResult doc = Some (Inr \<lparr>qr_Done = True, qr_NextRecordsURL = '''', qr_Records = recs\<rparr>)
      \<and> map assocRow recs = assocRows (assocState cw) u \<and> assocState w' = assocState cw"
    unfolding cw snd_conv by (intro exI conjI) (assumption, rule decode_lastPage, rule assocRows_read, simp)
qed

text \<open>Writes: what the server answers, through the cache.\<close>

lemma assoc_write:
  assumes "requestable url" and "m \<noteq> ''GET''" and "assocAnswer cl tid m url b w = (okResponse doc, w')"
  shows "\<exists>t'. httpRequest (assocEnv alive cl tid) cl t m url b (c, w) = Some (Inr doc, t', c, w')"
  by (rule served_write [where ans = "assocAnswer cl tid", OF assms])

lemma assocEnv_creates:
  assumes "plainInstance cl h"
  shows "assoc_creates (assocEnv alive cl tid) cl tid assocState"
  unfolding assoc_creates_def
proof (intro allI impI)
  fix t and cw :: "httpCache \<times> roleList" and u and ro :: "string option"
  obtain c w where cw: "cw = (c, w)" by (cases cw)
  let ?r = "case ro of None \<Rightarrow> '''' | Some r \<Rightarrow> r" and ?doc = "createdDoc (memberId u)"
  have "stringAt (assocBody u tid ro) ''UserId'' = u" "stringAt (assocBody u tid ro) ''RoleInTerritory2'' = ?r"
    by (cases ro; simp add: stringAt_def assocKeys_def)+
  then have "assocAnswer cl tid ''POST'' (assocURL cl '''') (JsonBody (assocBody u tid ro)) w = (okResponse ?doc, (u, ?r) # w)"
    by (simp add: assocAnswer_def)
  from assoc_write [OF association_requestable(3) [OF assms] _ this, of alive t c]
  obtain t' where "httpRequest (assocEnv alive cl tid) cl t ''POST'' (assocURL cl '''') (JsonBody (assocBody u tid ro)) cw = Some (Inr ?doc, t', c, (u, ?r) # w)"
    unfolding cw by auto
  moreover have "assocTable ((u, ?r) # w) = (assocTable w)(u \<mapsto> (memberId u, ?r))" by (simp add: assocTable_def fun_eq_iff)
  ultimately show "\<exists>doc t' w' i. httpRequest (assocEnv alive cl tid) cl t ''POST'' (assocURL cl '''') (JsonBody (assocBody u tid ro)) cw = Some (Inr doc, t', w')
      \<and> decodeCreated doc = Inr i \<and> assocState w' = (assocState cw)(u \<mapsto> (i, ?r))"
    unfolding cw snd_conv by (intro exI conjI) (assumption, rule decode_created, simp, simp)
qed

lemma assocEnv_changes:
  assumes "plainInstance cl h"
  shows "assoc_updates (assocEnv alive cl tid) cl assocState" "assoc_deletes (assocEnv alive cl tid) cl assocState"
proof -
  have known: "i = memberId u \<and> u \<in> set (map fst w)" if "assocTable w u = Some (i, c)" for w u i c
    using that by (auto simp: assocTable_def dest: map_of_SomeD intro: rev_image_eqI)
  show "assoc_updates (assocEnv alive cl tid) cl assocState"
    unfolding assoc_updates_def
  proof (intro allI impI)
    fix t and cw :: "httpCache \<times> roleList" and u i c' r
    obtain c w where cw: "cw = (c, w)" by (cases cw)
    assume "assocState cw u = Some (i, c')"
    then have u: "i = memberId u \<and> u \<in> set (map fst w)" using known [of w u i c'] by (simp add: cw)
    then have "assocAnswer cl tid ''PATCH'' (assocURL cl i) (JsonBody [''RoleInTerritory2'' \<mapsto> VString r]) w = (okResponse (RawDoc []), (u, r) # w)"
      by (simp add: assocAnswer_def stringAt_def filter_one)
    from assoc_write [OF association_requestable(4) [OF assms, of u, folded u [THEN conjunct1]] _ this, of alive t c]
    obtain t' where "httpRequest (assocEnv alive cl tid) cl t ''PATCH'' (assocURL cl i) (JsonBody [''RoleInTerritory2'' \<mapsto> VString r]) cw
        = Some (Inr (RawDoc []), t', c, (u, r) # w)" unfolding cw by auto
    moreover have "assocTable ((u, r) # w) = (assocTable w)(u \<mapsto> (i, r))" using u by (simp add: assocTable_def fun_eq_iff)
    ultimately show "\<exists>doc t' w'. httpRequest (assocEnv alive cl tid) cl t ''PATCH'' (assocURL cl i) (JsonBody [''RoleInTerritory2'' \<mapsto> VString r]) cw
        = Some (Inr doc, t', w') \<and> assocState w' = (assocState cw)(u \<mapsto> (i, r))"
      unfolding cw snd_conv by (intro exI conjI) (assumption, simp)
  qed
  show "assoc_deletes (assocEnv alive cl tid) cl assocState"
    unfolding assoc_deletes_def
  proof (intro allI impI)
    fix t and cw :: "httpCache \<times> roleList" and u i c'
    obtain c w where cw: "cw = (c, w)" by (cases cw)
    assume "assocState cw u = Some (i, c')"
    then have u: "i = memberId u \<and> u \<in> set (map fst w)" using known [of w u i c'] by (simp add: cw)
    then have "assocAnswer cl tid ''DELETE'' (assocURL cl i) NoBody w = (okResponse (RawDoc []), filter (\<lambda>x. u \<noteq> fst x) w)"
      by (simp add: assocAnswer_def)
    from assoc_write [OF association_requestable(4) [OF assms, of u, folded u [THEN conjunct1]] _ this, of alive t c]
    obtain t' where "httpRequest (assocEnv alive cl tid) cl t ''DELETE'' (assocURL cl i) NoBody cw = Some (Inr (RawDoc []), t', c, filter (\<lambda>x. u \<noteq> fst x) w)"
      unfolding cw by auto
    moreover have "assocTable (filter (\<lambda>x. u \<noteq> fst x) w) = (assocTable w)(u := None)"
      by (simp add: assocTable_def map_of_filter_key fun_eq_iff)
    ultimately show "\<exists>doc t' w'. httpRequest (assocEnv alive cl tid) cl t ''DELETE'' (assocURL cl i) NoBody cw = Some (Inr doc, t', w')
        \<and> assocState w' = (assocState cw)(u := None)"
      unfolding cw snd_conv by (intro exI conjI) (assumption, simp)
  qed
qed

lemma assocEnv_lists:
  assumes "plainInstance cl h"
  shows "assoc_lists (assocEnv alive cl tid) cl tid (assocFresh cl tid) assocState"
  unfolding assoc_lists_def
proof (intro allI impI)
  fix cw :: "httpCache \<times> roleList"
  assume fresh: "assocFresh cl tid cw"
  let ?w = "snd cw"
  let ?us = "remdups (map fst ?w)"
  let ?ms = "map (assocDoc ?w) ?us" and ?P = "\<lambda>w'. assocFresh cl tid w' \<and> snd w' = snd cw"
  have "assocAnswer cl tid ''GET'' (queryURL cl (associationListText tid)) NoBody w = (okResponse (lastPage ?ms), w)" if "w = ?w" for w
    by (simp add: that assocAnswer_def)
  from cached_answers [where ans = "assocAnswer cl tid" and Q = "\<lambda>w. w = ?w", OF association_requestable(2) [OF assms]
      queryURLs_I [OF associationListText_no_path] queryURLs_inj [OF assms] this decode_lastPage]
  have served: "serves ?P (assocEnv alive cl tid) cl (associationListText tid) (map setClient ?ms) []" by simp
  have rows: "map assocRow (allRecords (map setClient ?ms) []) = map (\<lambda>u. (u, memberId u, the (map_of ?w u))) ?us"
    by (simp add: allRecords_def comp_def)
  moreover have "distinct (map (fst \<circ> assocRow) (allRecords (map setClient ?ms) []))"
    using rows by (metis (no_types, lifting) distinct_remdups fst_conv map_idI map_map comp_apply)
  moreover have "set (map (\<lambda>u. (u, memberId u, the (map_of ?w u))) ?us) = {(u, x). assocTable ?w u = Some x}"
  proof (intro set_eqI, clarify)
    fix u x
    have "(u, x) \<in> set (map (\<lambda>u. (u, memberId u, the (map_of ?w u))) ?us) \<longleftrightarrow> u \<in> set (map fst ?w) \<and> x = (memberId u, the (map_of ?w u))"
      unfolding set_map [of _ ?us] set_remdups by blast
    also have "\<dots> \<longleftrightarrow> assocTable ?w u = Some x"
      using assocTable_rows [of u ?w] assocTable_absent [of u ?w] by (metis option.inject option.distinct(1))
    finally show "(u, x) \<in> set (map (\<lambda>u. (u, memberId u, the (map_of ?w u))) ?us) \<longleftrightarrow> (u, x) \<in> {(u, x). assocTable ?w u = Some x}" by simp
  qed
  ultimately show "\<exists>P recs rest. P cw \<and> serves P (assocEnv alive cl tid) cl (associationListText tid) recs rest
      \<and> distinct (map (fst \<circ> assocRow) (allRecords recs rest)) \<and> set (map assocRow (allRecords recs rest)) = {(u, x). assocState cw u = Some x}"
    using served fresh by (intro exI [of _ ?P] exI [of _ "map setClient ?ms"] exI [of _ "[]"]) simp
qed

lemma assocEnv_table:
  assumes "isLoggedIn cl" and "plainInstance cl h"
  shows "territory_table (assocEnv alive cl tid) cl tid (assocFresh cl tid) assocState"
proof -
  have "\<forall>(cw :: httpCache \<times> roleList) u i c. assocState cw u = Some (i, c) \<longrightarrow> i \<noteq> ''''" by (auto simp: assocTable_def)
  moreover have "clears (assocEnv alive cl tid) (assocFresh cl tid) assocState" by (rule cached_clears)
  ultimately show ?thesis
    unfolding territory_table_def
    using assms(1) assocEnv_reads [OF assms(2)] assocEnv_creates [OF assms(2)] assocEnv_changes [OF assms(2)] assocEnv_lists [OF assms(2)]
    by (intro conjI)
qed

section \<open>Without clearing the cache\<close>

text \<open>The key of the query for the association of a user, and what is kept under it when there was none.\<close>

abbreviation assocKey :: "sfclient \<Rightarrow> string \<Rightarrow> string \<Rightarrow> string" where
  "assocKey cl tid u \<equiv> getKey (queryURL cl (associationText u tid))"

lemma lookup_absent:
  assumes "isLoggedIn cl" and "plainInstance cl h" and "session s cl t" and "sys_w s = (c, w)"
    and "goCacheGet c (assocKey cl tid u) = Some (okResponse (lastPage []))
      \<or> goCacheGet c (assocKey cl tid u) = None \<and> u \<notin> set (map fst w)"
  shows "\<exists>rl t' c'. getSObject (assocEnv (\<lambda>_ _. True) cl tid) (territoryAssociationQuery u tid) s
      = Some ((rl, Inl ErrObjectNotFound), after s t' (c', w)) \<and> goCacheGet c' (assocKey cl tid u) = Some (okResponse (lastPage []))"
proof -
  let ?env = "assocEnv (\<lambda>_ _. True) cl tid" and ?url = "queryURL cl (associationText u tid)"
  let ?c = "goCacheSet (assocKey cl tid u) (okResponse (lastPage [])) c"
  note req = association_requestable(1) [OF assms(2), of u tid]
  have "\<exists>t'. httpRequest ?env cl t ''GET'' ?url NoBody (c, w) = Some (Inr (lastPage []), t', ?c, w)"
    using assms(5)
  proof
    assume "goCacheGet c (assocKey cl tid u) = Some (okResponse (lastPage []))"
    with served_hit [OF req, of "\<lambda>_ _. True" w c "lastPage []"] show ?thesis by (simp add: goCacheGet_def)
  next
    assume free: "goCacheGet c (assocKey cl tid u) = None \<and> u \<notin> set (map fst w)"
    then have "assocAnswer cl tid ''GET'' ?url NoBody w = (okResponse (lastPage []), w)" unfolding assocAnswer_read filter_one by simp
    with served_miss [OF req, of "\<lambda>_ _. True" w c "assocAnswer cl tid" "lastPage []" w] free show ?thesis by (simp add: goCacheGet_def)
  qed
  then obtain t' where "httpRequest ?env cl t ''GET'' ?url NoBody (c, w) = Some (Inr (lastPage []), t', ?c, w)" ..
  then have "clientQuery ?env (associationText u tid) cl t (sys_w s)
      = Some (Inr \<lparr>qr_Done = True, qr_NextRecordsURL = '''', qr_Records = map setClient []\<rparr>, t', ?c, w)"
    using assms(1,4) decode_lastPage [of "[]"] by (simp add: clientQuery_def)
  from getSObject_session [OF assms(3) membership_texts(1) this] show ?thesis by (auto simp: goCacheGet_def goCacheSet_def)
qed

text \<open>The first grant to a user who is not associated creates the association; the cache keeps the empty answer.\<close>

lemma grant_absent:
  assumes "isLoggedIn cl" and "plainInstance cl h" and "session s cl t" and "sys_w s = (c, w)" and "territoryRes tid res"
    and "goCacheGet c (assocKey cl tid u) = None" and "u \<notin> set (map fst w)" and "a = GrantMember \<and> r = '''' \<or> a = GrantRole r"
  shows "\<exists>rl t' c'. territoryAccess (assocEnv (\<lambda>_ _. True) cl tid) u res a s
      = Some ((WithRateLimitAnnotations [rl], None), after s t' (c', (u, r) # w))
    \<and> goCacheGet c' (assocKey cl tid u) = Some (okResponse (lastPage []))"
proof -
  let ?env = "assocEnv (\<lambda>_ _. True) cl tid" and ?doc = "createdDoc (memberId u)"
  from assms(6,7) lookup_absent [OF assms(1-4)] obtain rl t1 c' where
    f: "getSObject ?env (territoryAssociationQuery u tid) s = Some ((rl, Inl ErrObjectNotFound), after s t1 (c', w))"
      "goCacheGet c' (assocKey cl tid u) = Some (okResponse (lastPage []))" by blast
  define ro where "ro = (if a = GrantMember then None else Some r)"
  have "stringAt (assocBody u tid ro) ''UserId'' = u" "stringAt (assocBody u tid ro) ''RoleInTerritory2'' = r"
    using assms(8) by (auto simp: ro_def stringAt_def assocKeys_def)
  then have "assocAnswer cl tid ''POST'' (assocURL cl '''') (JsonBody (assocBody u tid ro)) w = (okResponse ?doc, (u, r) # w)"
    by (simp add: assocAnswer_def)
  from assoc_write [OF association_requestable(3) [OF assms(2)] _ this, of "\<lambda>_ _. True" t1 c'] obtain t2 where
    "httpRequest ?env cl t1 ''POST'' (assocURL cl '''') (JsonBody (assocBody u tid ro)) (sys_w (after s t1 (c', w))) = Some (Inr ?doc, t2, c', (u, r) # w)"
    by auto
  moreover have "plainValues (assocBody u tid ro)" using assoc_plain by (cases ro) simp_all
  ultimately have create: "CreateObject ?env TableNameUserTerritory2Assoc (assocBody u tid ro) (after s t1 (c', w))
      = Some ((tr_rateLimit t2, Inr ()), after s t2 (c', (u, r) # w))"
    using CreateObject_session [OF session_after [OF assms(3)], of "assocBody u tid ro" TableNameUserTerritory2Assoc ?env] by (auto simp: table_defs)
  note facts = f(1) territoryRes_parse [OF assms(5)] createAssociation_created [OF create]
  have "territoryAccess ?env u res a s = Some ((WithRateLimitAnnotations [tr_rateLimit t2], None), after s t2 (c', (u, r) # w))"
    using assms(8)
  proof
    assume "a = GrantMember \<and> r = ''''"
    with facts assms(5) show ?thesis by (simp add: ro_def territory_unfold AddUserToTerritory_def assocKeys_def)
  next
    assume "a = GrantRole r"
    with facts assms(5) show ?thesis by (simp add: ro_def territory_unfold AddUserToTerritoryWithRole_def assocKeys_def)
  qed
  with f(2) show ?thesis by blast
qed

text \<open>A revocation that reads that answer.\<close>

lemma revoke_stale:
  assumes "isLoggedIn cl" and "plainInstance cl h" and "session s cl t" and "sys_w s = (c, w)" and "territoryRes tid res"
    and "goCacheGet c (assocKey cl tid u) = Some (okResponse (lastPage []))" and "b = RevokeMember \<or> (\<exists>r. b = RevokeRole r)"
  shows "\<exists>t' c'. territoryAccess (assocEnv (\<lambda>_ _. True) cl tid) u res b s = Some (([AnnGrantAlreadyRevoked], None), after s t' (c', w))"
proof -
  let ?env = "assocEnv (\<lambda>_ _. True) cl tid"
  from assms(6) lookup_absent [OF assms(1-4)] obtain rl t1 c' where
    f: "getSObject ?env (territoryAssociationQuery u tid) s = Some ((rl, Inl ErrObjectNotFound), after s t1 (c', w))" by blast
  from assms(7) have "territoryAccess ?env u res b s = Some (([AnnGrantAlreadyRevoked], None), after s t1 (c', w))"
    using f assms(5) territoryRes_parse [OF assms(5)]
    by (elim disjE exE) (simp_all add: territory_unfold RemoveUserFromTerritory_def findAndDelete_def ClearUserTerritoryRole_def)
  then show ?thesis by blast
qed

section \<open>Properties\<close>

text \<open>
  C3. Territories, for all users together, when the response cache is cleared before each request and before the sync: after any
  sequence of requests to grant or revoke membership or a role in a territory to any users, every request has succeeded, what each
  user has is what the abstract membership machine says (a role makes a member, a member has one role at a time, and only the role
  that is held is revoked), the requests that had nothing to change, and no others, say so, and a full sync of the grants of
  the territory ends and reports exactly the membership of each member and the role of each member who has one, each once.
\<close>

theorem synced_territory_is_granted:
  fixes st :: "'w \<Rightarrow> associations"
  assumes "territory_table env cl tid fresh st" and "territoryRes tid res" and "session s cl t"
  shows "\<exists>rs s1 gs s2. runAccess (\<lambda>q. cleared env (territoryRequest env res q)) reqs s = Some (rs, s1)
    \<and> (map outcomeOf rs, rolesIn (st (sys_w s1))) = runSpec territoryStep reqs (rolesIn (st (sys_w s)))
    \<and> chain (\<lambda>_. True) (\<lambda>tok. syncerGrants env Territories res tok n) '''' (afterClear env s1) gs s2
    \<and> distinct (map grantKey gs)
    \<and> set (map grantKey gs) = territoryKeys res (snd (runSpec territoryStep reqs (rolesIn (st (sys_w s)))))"
proof -
  have clears: "clears env fresh st" using assms(1) by (simp add: territory_table_def)
  let ?oper = "\<lambda>q. cleared env (territoryRequest env res q)"
  have "performs (?oper q) (territoryStep q) (\<lambda>w. rolesIn (st w)) cl s'" if "session s' cl t'" for q s' t'
    by (rule performs_cleared [OF clears that]) (rule territory_performs [OF assms(1) _ _ assms(2)])
  then have "\<exists>rs s1 t1. runAccess ?oper reqs s = Some (rs, s1) \<and> session s1 cl t1
      \<and> (map outcomeOf rs, rolesIn (st (sys_w s1))) = runSpec territoryStep reqs (rolesIn (st (sys_w s)))"
    by (rule run_performs [where oper = ?oper and spec = territoryStep and ab = "\<lambda>w. rolesIn (st w)" and A = UNIV, OF _ subset_UNIV assms(3)])
  then obtain rs s1 t1 where run: "runAccess ?oper reqs s = Some (rs, s1)" "session s1 cl t1"
    "(map outcomeOf rs, rolesIn (st (sys_w s1))) = runSpec territoryStep reqs (rolesIn (st (sys_w s)))" by blast
  then have final: "snd (runSpec territoryStep reqs (rolesIn (st (sys_w s)))) = rolesIn (st (sys_w s1))" by (metis snd_conv)
  have start: "session (afterClear env s1) cl t1" "fresh (sys_w (afterClear env s1))" "st (sys_w (afterClear env s1)) = st (sys_w s1)"
    using run(2) afterClear_fresh [OF clears, of s1] by simp_all
  have "ri_Resource (r_Id res) = tid" using assms(2) by (simp add: territoryRes_def)
  with sync_territory [where fresh = fresh and st = st and n = n, OF _ start(1,2)] assms(1) run(1,3) start(3) show ?thesis
    unfolding final by (metis (no_types, lifting))
qed

abbreviation demoAssoc :: "(httpCache \<times> roleList) env" where
  "demoAssoc \<equiv> assocEnv (\<lambda>_ _. True) demoClient ''0MI1''"

theorem synced_territory_is_granted_witness:
  "\<exists>rs s1 gs s2. runAccess (\<lambda>q. cleared demoAssoc (territoryRequest demoAssoc (bareResource \<lparr>ri_ResourceType = ''territory'', ri_Resource = ''0MI1''\<rparr>) q))
      [(''005a'', GrantRole ''Owner''), (''005b'', GrantMember), (''005a'', GrantRole ''Owner''), (''005b'', RevokeRole ''Owner''), (''005c'', RevokeMember)]
      \<lparr>sys_c = sys_c demoSys, sys_w = (Map.empty, [(''005c'', ''Owner'')])\<rparr> = Some (rs, s1)
    \<and> map outcomeOf rs = [Done, Done, Already, Already, Done]
    \<and> chain (\<lambda>_. True) (\<lambda>tok. syncerGrants demoAssoc Territories
        (bareResource \<lparr>ri_ResourceType = ''territory'', ri_Resource = ''0MI1''\<rparr>) tok 100) '''' (afterClear demoAssoc s1) gs s2
    \<and> set (map grantKey gs) = {(userId ''005a'', ''territory:0MI1:member''), (userId ''005a'', ''territory:0MI1:role:Owner''),
        (userId ''005b'', ''territory:0MI1:member'')}"
proof -
  let ?res = "bareResource \<lparr>ri_ResourceType = ''territory'', ri_Resource = ''0MI1''\<rparr>"
  let ?s = "\<lparr>sys_c = sys_c demoSys, sys_w = (Map.empty, [(''005c'', ''Owner'')])\<rparr>"
  let ?reqs = "[(''005a'', GrantRole ''Owner''), (''005b'', GrantMember), (''005a'', GrantRole ''Owner''), (''005b'', RevokeRole ''Owner''), (''005c'', RevokeMember)]"
  have res: "territoryRes ''0MI1'' ?res" by (simp add: territoryRes_def bareResource_def resourceTypeTerritory_def)
  have "session ?s demoClient demoTransport" using demo_session(1) by (simp add: session_def)
  note all = synced_territory_is_granted [where reqs = ?reqs and n = 100, OF assocEnv_table [where alive = "\<lambda>_ _. True", OF demo_logged demo_plain] res this]
  have run: "runSpec territoryStep ?reqs (rolesIn (assocState (sys_w ?s)))
      = ([Done, Done, Already, Already, Done], [''005a'' \<mapsto> ''Owner'', ''005b'' \<mapsto> ''''])"
    by (simp add: rolesIn_def assocTable_def fun_eq_iff)
  have keys: "territoryKeys ?res [''005a'' \<mapsto> ''Owner'', ''005b'' \<mapsto> '''']
      = {(userId ''005a'', ''territory:0MI1:member''), (userId ''005a'', ''territory:0MI1:role:Owner''), (userId ''005b'', ''territory:0MI1:member'')}"
  proof -
    let ?a = "[''005a'' \<mapsto> (''x'', ''Owner''), ''005b'' \<mapsto> (''x'', '''')]"
    have "set [(''005a'', ''x'', ''Owner''), (''005b'', ''x'', '''')] = {(u, x). ?a u = Some x}" by (auto split: if_splits)
    from rowKeys_set [OF this, of ?res] have eq: "territoryKeys ?res (rolesIn ?a)
      = set (concat (map (rowKeys ?res) [(''005a'', ''x'', ''Owner''), (''005b'', ''x'', '''')]))" by (rule sym)
    have "rolesIn ?a = [''005a'' \<mapsto> ''Owner'', ''005b'' \<mapsto> '''']" by (simp add: rolesIn_def fun_eq_iff)
    from eq [unfolded this] show ?thesis
      by (simp add: NewEntitlementID_def bareResource_def roleSlug_def territoryMemberPermission_def territoryRolePermissionPrefix_def)
  qed
  from all obtain rs s1 gs s2 where
    out: "runAccess (\<lambda>q. cleared demoAssoc (territoryRequest demoAssoc ?res q)) ?reqs ?s = Some (rs, s1)"
      "(map outcomeOf rs, rolesIn (assocState (sys_w s1))) = runSpec territoryStep ?reqs (rolesIn (assocState (sys_w ?s)))"
      "chain (\<lambda>_. True) (\<lambda>tok. syncerGrants demoAssoc Territories ?res tok 100) '''' (afterClear demoAssoc s1) gs s2"
      "distinct (map grantKey gs)"
      "set (map grantKey gs) = territoryKeys ?res (snd (runSpec territoryStep ?reqs (rolesIn (assocState (sys_w ?s)))))"
    by (elim exE conjE) (rule that)
  from out(2) have "map outcomeOf rs = [Done, Done, Already, Already, Done]" unfolding run by (simp only: prod.inject)
  with out(1,3) out(5) [unfolded run snd_conv keys] show ?thesis by (intro exI conjI)
qed

text \<open>
  C37. Why the cache has to be cleared: with the default response cache of the SDK, as long as its entries are alive, a revocation that
  follows the first grant to a user in a territory is reported as already revoked although nothing is revoked. The grant looks for
  an association, and the empty answer stays in the cache, which the creation of the association does not invalidate; the
  revocation, of the membership or of any role, then reads that answer and succeeds with \<open>GrantAlreadyRevoked\<close>, and the user keeps
  the association and the role just granted.
\<close>

theorem revocation_reads_stale_answer:
  assumes "isLoggedIn cl" and "plainInstance cl h" and "territoryRes tid res" and "session s cl t" and "sys_w s = (c, w)"
    and "goCacheGet c (getKey (queryURL cl (associationText u tid))) = None" and "assocTable w u = None"
    and "a = GrantMember \<or> (\<exists>r. a = GrantRole r)" and "b = RevokeMember \<or> (\<exists>r. b = RevokeRole r)"
  shows "\<exists>rs s1. runAccess (territoryRequest (cachedServer (\<lambda>_ _. True) (assocAnswer cl tid)) res) [(u, a), (u, b)] s = Some (rs, s1)
    \<and> map outcomeOf rs = [Done, Already]
    \<and> rolesIn (assocTable (snd (sys_w s1))) = (rolesIn (assocTable w))(u := access_step a None)"
proof -
  define r where "r = (case a of GrantRole r \<Rightarrow> r | _ \<Rightarrow> '''')"
  have a: "a = GrantMember \<and> r = '''' \<or> a = GrantRole r" using assms(8) by (auto simp: r_def)
  have "u \<notin> set (map fst w)" using assms(7) by (simp add: assocTable_def map_of_eq_None_iff)
  from grant_absent [OF assms(1,2,4,5,3,6) this a] obtain rl t1 c1 where
    g: "territoryAccess (assocEnv (\<lambda>_ _. True) cl tid) u res a s = Some ((WithRateLimitAnnotations [rl], None), after s t1 (c1, (u, r) # w))"
      "goCacheGet c1 (assocKey cl tid u) = Some (okResponse (lastPage []))" by blast
  have w1: "sys_w (after s t1 (c1, (u, r) # w)) = (c1, (u, r) # w)" by simp
  from revoke_stale [OF assms(1,2) session_after [OF assms(4)] w1 assms(3) g(2) assms(9)] obtain t2 c2 where
    v: "territoryAccess (assocEnv (\<lambda>_ _. True) cl tid) u res b (after s t1 (c1, (u, r) # w))
      = Some (([AnnGrantAlreadyRevoked], None), after (after s t1 (c1, (u, r) # w)) t2 (c2, (u, r) # w))" by blast
  have "rolesIn (assocTable ((u, r) # w)) = (rolesIn (assocTable w))(u := Some r)" by (simp add: rolesIn_def assocTable_def fun_eq_iff)
  moreover have "access_step a None = Some r" using a by auto
  ultimately show ?thesis
    using g(1) v by (intro exI [of _ "[(WithRateLimitAnnotations [rl], None), ([AnnGrantAlreadyRevoked], None)]"]
        exI [of _ "after s t2 (c2, (u, r) # w)"]) simp
qed

theorem revocation_reads_stale_answer_witness:
  "\<exists>rs s1. runAccess (territoryRequest demoAssoc (bareResource \<lparr>ri_ResourceType = ''territory'', ri_Resource = ''0MI1''\<rparr>))
      [(''005a'', GrantRole ''Owner''), (''005a'', RevokeRole ''Owner'')] \<lparr>sys_c = sys_c demoSys, sys_w = (Map.empty, [])\<rparr> = Some (rs, s1)
    \<and> map outcomeOf rs = [Done, Already] \<and> rolesIn (assocTable (snd (sys_w s1))) = [''005a'' \<mapsto> ''Owner'']"
proof -
  let ?s = "\<lparr>sys_c = sys_c demoSys, sys_w = (Map.empty :: httpCache, [] :: roleList)\<rparr>"
  have res: "territoryRes ''0MI1'' (bareResource \<lparr>ri_ResourceType = ''territory'', ri_Resource = ''0MI1''\<rparr>)"
    by (simp add: territoryRes_def bareResource_def resourceTypeTerritory_def)
  have sess: "session ?s demoClient demoTransport" using demo_session(1) by (simp add: session_def)
  have empty: "rolesIn (assocTable []) = Map.empty" by (simp add: rolesIn_def assocTable_def fun_eq_iff)
  have world: "sys_w ?s = (Map.empty, [])" "goCacheGet Map.empty (assocKey demoClient ''0MI1'' ''005a'') = None" "assocTable [] ''005a'' = None"
    by (simp_all add: goCacheGet_def assocTable_def)
  from revocation_reads_stale_answer [OF demo_logged demo_plain res sess world, of "GrantRole ''Owner''" "RevokeRole ''Owner''"] empty
  show ?thesis by simp
qed

end
