(* ===== verification/Account_Store.thy ===== *)
theory Account_Store
  imports Conn_Users Http_Cache
begin

text \<open>
  What the creation of an account relies on in Salesforce: the user with an e-mail address is found once it
  exists and the response cache is current, a POST creates it, a PATCH of its active state activates it, its password can be
  reset and its login record read. From this follows what \<open>CreateAccount\<close> achieves.
\<close>

section \<open>The store of accounts\<close>

record account =
  ac_Id :: string
  ac_Active :: bool

text \<open>The account with the e-mail address, how often one was created and whose password was reset.\<close>

record directory =
  dir_account :: "account option"
  dir_created :: nat
  dir_resets :: "string list"

definition emailText :: "string \<Rightarrow> string" where
  "emailText email = renderQuery (querySelectors TableNameUsers []) TableNameUsers [CEq ''Email'' email] SalesforcePK"

definition loginText :: "string \<Rightarrow> string" where
  "loginText i = renderQuery (querySelectors TableNameUserLogin []) TableNameUserLogin [CEq ''UserId'' i] SalesforcePK"

lemma account_texts:
  "getQueryString (WhereEq (NewQuery TableNameUsers []) ''Email'' email) '''' n = Some (emailText email)"
  "getQueryString (WhereEq (NewQuery TableNameUserLogin []) ''UserId'' i) '''' n = Some (loginText i)"
  using getQueryString_known [of TableNameUsers "[CEq ''Email'' email]" n] getQueryString_known [of TableNameUserLogin "[CEq ''UserId'' i]" n]
  by (simp_all add: emailText_def loginText_def knownTables_def plain_char_def max_int64_def)

text \<open>A record of the user: it is read as a user with the id and the active state, in valid text.\<close>

definition describes :: "sobject \<Rightarrow> account \<Rightarrow> SalesforceUser \<Rightarrow> bool" where
  "describes rec a u \<longleftrightarrow> rowUserByEmail rec = Inr (Some u) \<and> su_ID u = ac_Id a \<and> su_IsActive u = ac_Active a
     \<and> (\<forall>v \<in> {su_FirstName u @ '' '' @ su_LastName u, su_Username u, su_Email u, su_UserType u, su_ID u}. validUtf8 v)"

text \<open>
  \<open>fresh\<close> says that the response cache is current. Reads are right when it is, and keep it so; creating and activating the user may
  make it stale; the reset of a password changes nothing that is read; clearing the caches makes it current.
\<close>

definition accounts_found :: "'w env \<Rightarrow> sfclient \<Rightarrow> string \<Rightarrow> ('w \<Rightarrow> bool) \<Rightarrow> ('w \<Rightarrow> directory) \<Rightarrow> bool" where
  "accounts_found env cl email fresh st \<longleftrightarrow>
     (\<forall>t w. fresh w \<longrightarrow>
        (\<exists>doc recs t' w'. httpRequest env cl t ''GET'' (queryURL cl (emailText email)) NoBody w = Some (Inr doc, t', w')
           \<and> decodeQueryResult doc = Some (Inr \<lparr>qr_Done = True, qr_NextRecordsURL = '''', qr_Records = recs\<rparr>) \<and> st w' = st w \<and> fresh w'
           \<and> (case dir_account (st w) of None \<Rightarrow> recs = [] | Some a \<Rightarrow> (\<exists>rec u. recs = [rec] \<and> describes rec a u))))"

definition accounts_created :: "'w env \<Rightarrow> sfclient \<Rightarrow> string \<Rightarrow> ('w \<Rightarrow> directory) \<Rightarrow> bool" where
  "accounts_created env cl email st \<longleftrightarrow>
     (\<forall>t w vs. dir_account (st w) = None \<longrightarrow> vs ''Email'' = Some (VString email) \<longrightarrow>
        (\<exists>doc i act t' w'. httpRequest env cl t ''POST'' (makeURL cl (sobjectPath ''User'' '''')) (JsonBody vs) w = Some (Inr doc, t', w')
           \<and> decodeCreated doc = Inr i
           \<and> st w' = (st w)\<lparr>dir_account := Some \<lparr>ac_Id = i, ac_Active = act\<rparr>, dir_created := Suc (dir_created (st w))\<rparr>))"

text \<open>On the account that exists: the read and the PATCH of its activation, the reset, the login record.\<close>

definition accounts_kept :: "'w env \<Rightarrow> sfclient \<Rightarrow> ('w \<Rightarrow> bool) \<Rightarrow> ('w \<Rightarrow> directory) \<Rightarrow> bool" where
  "accounts_kept env cl fresh st \<longleftrightarrow>
     (\<forall>t w a. dir_account (st w) = Some a \<longrightarrow>
        (fresh w \<longrightarrow> (\<exists>x m t' w'. httpRequest env cl t ''GET'' (makeURL cl (sobjectPath ''User'' (ac_Id a))) NoBody w
            = Some (Inr (JsonDoc x (VMap m)), t', w') \<and> userRecord (ac_Id a) m \<and> st w' = st w))
        \<and> (\<exists>doc t' w'. httpRequest env cl t ''PATCH'' (makeURL cl (sobjectPath ''User'' (ac_Id a)))
              (JsonBody [''IsActive'' \<mapsto> VString ''true'']) w = Some (Inr doc, t', w')
            \<and> st w' = (st w)\<lparr>dir_account := Some (a\<lparr>ac_Active := True\<rparr>)\<rparr>)
        \<and> (\<exists>doc t' w'. httpRequest env cl t ''DELETE'' (cl_instanceURL cl @ ''/'' @ resetPasswordPath (ac_Id a)) NoBody w
            = Some (Inr doc, t', w') \<and> st w' = (st w)\<lparr>dir_resets := dir_resets (st w) @ [ac_Id a]\<rparr> \<and> (fresh w \<longrightarrow> fresh w'))
        \<and> (fresh w \<longrightarrow> (\<exists>doc res t' w'. httpRequest env cl t ''GET'' (queryURL cl (loginText (ac_Id a))) NoBody w = Some (Inr doc, t', w')
            \<and> decodeQueryResult doc = Some (Inr res) \<and> (\<forall>rec \<in> set (qr_Records res). \<exists>lg. rowUserLogin rec = Inr lg) \<and> st w' = st w)))"

definition account_store :: "'w env \<Rightarrow> sfclient \<Rightarrow> string \<Rightarrow> ('w \<Rightarrow> bool) \<Rightarrow> ('w \<Rightarrow> directory) \<Rightarrow> bool" where
  "account_store env cl email fresh st \<longleftrightarrow>
     isLoggedIn cl \<and> accounts_found env cl email fresh st \<and> accounts_created env cl email st \<and> accounts_kept env cl fresh st
     \<and> (\<forall>w. \<exists>w'. e_clearCaches env w = (None, w') \<and> st w' = st w \<and> fresh w')"

section \<open>The steps\<close>

lemma find_account:
  assumes "account_store env cl email fresh st" and "session s cl t" and "fresh (sys_w s)"
  shows "\<exists>r t' w'. GetUserByEmail env email s = Some (r, after s t' w') \<and> st w' = st (sys_w s) \<and> fresh w'
    \<and> (case dir_account (st (sys_w s)) of None \<Rightarrow> r = Inl (userNotFound email) | Some a \<Rightarrow> (\<exists>rec u. r = Inr u \<and> describes rec a u))"
proof -
  have "accounts_found env cl email fresh st" using assms(1) by (simp add: account_store_def)
  with assms(3) obtain doc recs t' w' where
    http: "httpRequest env cl t ''GET'' (queryURL cl (emailText email)) NoBody (sys_w s) = Some (Inr doc, t', w')"
      "decodeQueryResult doc = Some (Inr \<lparr>qr_Done = True, qr_NextRecordsURL = '''', qr_Records = recs\<rparr>)" "st w' = st (sys_w s)" "fresh w'"
      "case dir_account (st (sys_w s)) of None \<Rightarrow> recs = [] | Some a \<Rightarrow> (\<exists>rec u. recs = [rec] \<and> describes rec a u)"
    unfolding accounts_found_def by blast
  then have "clientQuery env (emailText email) cl t (sys_w s)
      = Some (Inr \<lparr>qr_Done = True, qr_NextRecordsURL = '''', qr_Records = recs\<rparr>, t', w')"
    using assms(1) by (simp add: clientQuery_def account_store_def)
  from query_session [OF assms(2) account_texts(1) this]
  have "query env (WhereEq (NewQuery TableNameUsers []) ''Email'' email) '''' 1 s = Some ((tr_rateLimit t', Inr (recs, '''')), after s t' w')"
    by (simp add: mapReply_def pageOf_def)
  with http(3-5) show ?thesis
    by (cases "dir_account (st (sys_w s))") (fastforce simp: GetUserByEmail_def describes_def)+
qed

lemma activate_account:
  assumes "account_store env cl email fresh st" and "session s cl t" and "dir_account (st (sys_w s)) = Some a" and "fresh (sys_w s)"
  shows "\<exists>rl t' w'. SetUserActiveState env (ac_Id a) True s = Some ((rl, Inr ()), after s t' w')
    \<and> st w' = (st (sys_w s))\<lparr>dir_account := Some (a\<lparr>ac_Active := True\<rparr>)\<rparr>"
proof -
  have kept: "accounts_kept env cl fresh st" using assms(1) by (simp add: account_store_def)
  from kept assms(3,4) obtain x m t1 w1 where
    get: "httpRequest env cl t ''GET'' (makeURL cl (sobjectPath ''User'' (ac_Id a))) NoBody (sys_w s) = Some (Inr (JsonDoc x (VMap m)), t1, w1)"
      "userRecord (ac_Id a) m" "st w1 = st (sys_w s)"
    unfolding accounts_kept_def by blast
  have "dir_account (st w1) = Some a" using assms(3) get(3) by simp
  with kept obtain doc t2 w2 where
    patch: "httpRequest env cl t1 ''PATCH'' (makeURL cl (sobjectPath ''User'' (ac_Id a))) (JsonBody [''IsActive'' \<mapsto> VString ''true'']) w1
      = Some (Inr doc, t2, w2)" "st w2 = (st w1)\<lparr>dir_account := Some (a\<lparr>ac_Active := True\<rparr>)\<rparr>"
    unfolding accounts_kept_def by blast
  from setValue_session [OF assms(2) get(2) sendable_fields(3) get(1) patch(1)]
  have "SetUserActiveState env (ac_Id a) True s = Some ((tr_rateLimit t2, Inr ()), after s t2 w2)"
    by (simp add: SetUserActiveState_def setOneValue_eq formatBool_def)
  with patch(2) get(3) show ?thesis by auto
qed

text \<open>What has to be the case after the first part: an account that existed is active, a missing one was created, once.\<close>

definition ensured :: "directory \<Rightarrow> directory \<Rightarrow> bool" where
  "ensured d d' \<longleftrightarrow> dir_resets d' = dir_resets d
     \<and> (case dir_account d of
          None \<Rightarrow> dir_account d' \<noteq> None \<and> dir_created d' = Suc (dir_created d)
        | Some a \<Rightarrow> dir_account d' = Some (a\<lparr>ac_Active := True\<rparr>) \<and> dir_created d' = dir_created d)"

lemma create_account_user:
  assumes "account_store env cl (ucr_Email rq) fresh st" and "session s cl t" and "dir_account (st (sys_w s)) = None"
    and "e_parseAddress env (ucr_Email rq) = None" and "e_loadLocation env (ucr_TimeZoneSid rq) = None"
    and "plainValues (ucr_ExtraFields rq)"
  shows "\<exists>t' w'. CreateUser env rq s = Some (None, after s t' w') \<and> ensured (st (sys_w s)) (st w')"
proof -
  have "userData rq ''Email'' = Some (VString (ucr_Email rq))" by (simp add: userData_def userCore_def Let_def)
  with assms(1,3) obtain doc i act t' w' where
    post: "httpRequest env cl t ''POST'' (makeURL cl (sobjectPath ''User'' '''')) (JsonBody (userData rq)) (sys_w s) = Some (Inr doc, t', w')"
      "decodeCreated doc = Inr i"
      "st w' = (st (sys_w s))\<lparr>dir_account := Some \<lparr>ac_Id = i, ac_Active = act\<rparr>, dir_created := Suc (dir_created (st (sys_w s)))\<rparr>"
    unfolding account_store_def accounts_created_def by blast
  from CreateObject_session [OF assms(2) userData_plain [OF assms(6)], of TableNameUsers env "Inr doc" t' w'] post(1,2) assms(4,5)
  have "CreateUser env rq s = Some (None, after s t' w')" by (simp add: CreateUser_def TableNameUsers_def)
  with post(3) assms(3) show ?thesis by (auto simp: ensured_def)
qed

lemma UserExist_account:
  assumes "account_store env cl email fresh st" and "session s cl t" and "fresh (sys_w s)"
  shows "\<exists>t' w'. UserExist env email s = Some (Inr (dir_account (st (sys_w s)) \<noteq> None), after s t' w') \<and> st w' = st (sys_w s) \<and> fresh w'"
  using find_account [OF assms]
  by (cases "dir_account (st (sys_w s))") (auto simp: UserExist_def userNotFound_def statusCode_def)

lemma ensure_account:
  assumes "account_store env cl (ucr_Email rq) fresh st" and "session s cl t"
    and "e_parseAddress env (ucr_Email rq) = None" and "e_loadLocation env (ucr_TimeZoneSid rq) = None"
    and "plainValues (ucr_ExtraFields rq)" and "fresh (sys_w s)"
  shows "\<exists>t' w'. ensureUser env rq s = Some (([], None), after s t' w') \<and> ensured (st (sys_w s)) (st w')"
proof -
  obtain t1 w1 where ex: "UserExist env (ucr_Email rq) s = Some (Inr (dir_account (st (sys_w s)) \<noteq> None), after s t1 w1)"
    and w1: "st w1 = st (sys_w s)" "fresh w1"
    using UserExist_account [OF assms(1,2,6)] by blast
  note sess1 = session_after [OF assms(2), of t1 w1]
  have fresh1: "fresh (sys_w (after s t1 w1))" using w1(2) by simp
  show ?thesis
  proof (cases "dir_account (st (sys_w s))")
    case None
    then have "dir_account (st (sys_w (after s t1 w1))) = None" by (simp add: w1)
    from create_account_user [OF assms(1) sess1 this assms(3-5)] ex None w1 show ?thesis by (auto simp: ensureUser_def)
  next
    case (Some a)
    with find_account [OF assms(1) sess1 fresh1] w1 obtain rec u t2 w2 where
      u: "GetUserByEmail env (ucr_Email rq) (after s t1 w1) = Some (Inr u, after s t2 w2)" "st w2 = st (sys_w s)" "describes rec a u" "fresh w2"
      by auto
    show ?thesis
    proof (cases "ac_Active a")
      case True
      then have "a\<lparr>ac_Active := True\<rparr> = a" by simp
      with ex u Some True show ?thesis by (auto simp: ensureUser_def describes_def ensured_def)
    next
      case False
      have "dir_account (st (sys_w (after s t2 w2))) = Some a" by (simp add: u(2) Some)
      from activate_account [OF assms(1) session_after [OF assms(2)] this] u(4) obtain rl t3 w3 where
        "SetUserActiveState env (ac_Id a) True (after s t2 w2) = Some ((rl, Inr ()), after s t3 w3)"
        "st w3 = (st w2)\<lparr>dir_account := Some (a\<lparr>ac_Active := True\<rparr>)\<rparr>" by auto
      with ex u Some False show ?thesis by (auto simp: ensureUser_def describes_def ensured_def)
    qed
  qed
qed

lemma userResource_described:
  assumes "describes rec a u"
  shows "\<exists>res. userResource u login useUsername = Inr res \<and> r_Id res = userId (ac_Id a)"
proof -
  let ?email = "if useUsername then su_Username u else su_Email u"
  let ?fields = "[(''full_name'', su_FirstName u @ '' '' @ su_LastName u), (''username'', su_Username u),
      (''account_type'', su_UserType u), (''email'', ?email), (''id'', su_ID u)]"
  have "validUtf8 ?email" using assms by (auto simp: describes_def)
  then obtain pf where "newStruct ?fields = Inr pf"
    using assms by (auto simp: newStruct_def describes_def validUtf8_def cont_def)
  then show ?thesis using assms
    by (simp add: userResource_def describes_def NewResource_def userId_def bindSum_def Let_def del: append.simps if_split)
qed

text \<open>The second part: find the account, reset its password, read its login record and describe it.\<close>

lemma reset_account:
  assumes "account_store env cl email fresh st" and "session s cl t" and "dir_account (st (sys_w s)) = Some a"
  shows "\<exists>t' w'. SendResetPasswordEmail env (ac_Id a) s = Some (None, after s t' w')
    \<and> st w' = (st (sys_w s))\<lparr>dir_resets := dir_resets (st (sys_w s)) @ [ac_Id a]\<rparr> \<and> (fresh (sys_w s) \<longrightarrow> fresh w')"
proof -
  from assms(1,3) obtain doc t' w' where
    "httpRequest env cl t ''DELETE'' (cl_instanceURL cl @ ''/'' @ resetPasswordPath (ac_Id a)) NoBody (sys_w s) = Some (Inr doc, t', w')"
    and w': "st w' = (st (sys_w s))\<lparr>dir_resets := dir_resets (st (sys_w s)) @ [ac_Id a]\<rparr>" "fresh (sys_w s) \<longrightarrow> fresh w'"
    unfolding account_store_def accounts_kept_def by blast
  with assms(1) have "ApexREST env ''DELETE'' (resetPasswordPath (ac_Id a)) cl t (sys_w s) = Some (Inr doc, t', w')"
    by (simp add: ApexREST_def account_store_def)
  from onClient_session [OF assms(2), of "ApexREST env ''DELETE'' (resetPasswordPath (ac_Id a))", OF this] w'
  show ?thesis by (simp add: SendResetPasswordEmail_def)
qed

lemma login_account:
  assumes "account_store env cl email fresh st" and "session s cl t" and "dir_account (st (sys_w s)) = Some a" and "fresh (sys_w s)"
  shows "\<exists>rl login t' w'. GetUserLogin env (ac_Id a) s = Some ((rl, Inr login), after s t' w') \<and> st w' = st (sys_w s)"
proof -
  from assms(1,3,4) obtain doc res t' w' where
    http: "httpRequest env cl t ''GET'' (queryURL cl (loginText (ac_Id a))) NoBody (sys_w s) = Some (Inr doc, t', w')"
      "decodeQueryResult doc = Some (Inr res)" "\<forall>rec \<in> set (qr_Records res). \<exists>lg. rowUserLogin rec = Inr lg" "st w' = st (sys_w s)"
    unfolding account_store_def accounts_kept_def by blast
  then have "clientQuery env (loginText (ac_Id a)) cl t (sys_w s) = Some (Inr res, t', w')"
    using assms(1) by (simp add: clientQuery_def account_store_def)
  from query_session [OF assms(2) account_texts(2) this, of 1] http(3,4) show ?thesis
    by (cases "qr_Records res") (auto simp: GetUserLogin_def mapReply_def pageOf_def)
qed

lemma welcome_account:
  assumes "account_store env cl email fresh st" and "session s cl t" and "dir_account (st (sys_w s)) = Some a"
  shows "\<exists>res t' w'. welcomeUser env useUsername email s = Some (Inr res, after s t' w') \<and> r_Id res = userId (ac_Id a)
    \<and> st w' = (st (sys_w s))\<lparr>dir_resets := dir_resets (st (sys_w s)) @ [ac_Id a]\<rparr>"
proof -
  obtain w0 where w0: "e_clearCaches env (sys_w s) = (None, w0)" "st w0 = st (sys_w s)" "fresh w0"
    using assms(1) unfolding account_store_def by blast
  have s0: "s\<lparr>sys_w := w0\<rparr> = after s t w0" using assms(2) by (simp add: session_def after_def)
  note sess = session_after [OF assms(2)]
  from find_account [OF assms(1) sess [of t w0]] assms(3) w0(2,3) obtain rec u t1 w1 where
    u: "GetUserByEmail env email (after s t w0) = Some (Inr u, after s t1 w1)" "st w1 = st (sys_w s)" "describes rec a u" "fresh w1" by auto
  have retry: "GetUserByEmailWithRetry env email s = Some (Inr u, after s t1 w1)"
    using w0(1) u(1) by (simp add: GetUserByEmailWithRetry_def maxRetries_def eval_nat_numeral s0)
  have a1: "dir_account (st (sys_w (after s t1 w1))) = Some a" by (simp add: u(2) assms(3))
  from reset_account [OF assms(1) sess a1] obtain t2 w2 where
    reset: "SendResetPasswordEmail env (ac_Id a) (after s t1 w1) = Some (None, after s t2 w2)"
      "st w2 = (st (sys_w s))\<lparr>dir_resets := dir_resets (st (sys_w s)) @ [ac_Id a]\<rparr>" "fresh w2" by (auto simp: u(2,4))
  have a2: "dir_account (st (sys_w (after s t2 w2))) = Some a" by (simp add: reset(2) assms(3))
  from login_account [OF assms(1) sess a2] reset(3) obtain rl login t3 w3 where
    login: "GetUserLogin env (ac_Id a) (after s t2 w2) = Some ((rl, Inr login), after s t3 w3)" "st w3 = st w2" by auto
  from userResource_described [OF u(3), of login useUsername] obtain res where
    "userResource u login useUsername = Inr res" "r_Id res = userId (ac_Id a)" by blast
  with retry reset login u(3) show ?thesis by (auto simp: welcomeUser_def describes_def)
qed

section \<open>Properties\<close>

text \<open>
  C5. Creating an account ends with one account, whether or not it existed: with acceptable parameters, an e-mail address and a
  time zone that pass the checks, extra fields without the names that simpleforce treats specially (\<open>plainValues\<close>), and a response
  cache that is current to begin with, \<open>CreateAccount\<close> succeeds, the resource it returns is the user with that e-mail address, an
  account that existed is afterwards active and none was created, a missing one was created exactly once, and exactly one
  password reset was sent, to that user. The user that was just created or activated is found although the writes leave the cache stale,
  because it is cleared before the user is looked for.
\<close>

theorem create_account_ensures_user:
  assumes "account_store env cl (ucr_Email rq) fresh st" and "session s cl t" and "fresh (sys_w s)"
    and "getUserCreateRequestParams profile = Inr rq" and "plainValues (ucr_ExtraFields rq)"
    and "e_parseAddress env (ucr_Email rq) = None" and "e_loadLocation env (ucr_TimeZoneSid rq) = None"
  shows "\<exists>res a s'. CreateAccount env b profile s = Some ((Inr res, []), s')
    \<and> dir_account (st (sys_w s')) = Some a \<and> r_Id res = userId (ac_Id a)
    \<and> dir_resets (st (sys_w s')) = dir_resets (st (sys_w s)) @ [ac_Id a]
    \<and> (case dir_account (st (sys_w s)) of
         None \<Rightarrow> dir_created (st (sys_w s')) = Suc (dir_created (st (sys_w s)))
       | Some a0 \<Rightarrow> a = a0\<lparr>ac_Active := True\<rparr> \<and> dir_created (st (sys_w s')) = dir_created (st (sys_w s)))"
proof -
  from ensure_account [OF assms(1,2,6,7,5,3)] obtain t1 w1 where
    ens: "ensureUser env rq s = Some (([], None), after s t1 w1)" "ensured (st (sys_w s)) (st w1)" by blast
  then obtain a where a: "dir_account (st (sys_w (after s t1 w1))) = Some a"
    by (cases "dir_account (st (sys_w s))") (auto simp: ensured_def)
  from welcome_account [OF assms(1) session_after [OF assms(2)] a, of "ub_shouldUseUsernameForEmail b"] obtain res t2 w2 where
    wel: "welcomeUser env (ub_shouldUseUsernameForEmail b) (ucr_Email rq) (after s t1 w1) = Some (Inr res, after s t2 w2)"
      "r_Id res = userId (ac_Id a)" "st w2 = (st w1)\<lparr>dir_resets := dir_resets (st w1) @ [ac_Id a]\<rparr>" by auto
  have "CreateAccount env b profile s = Some ((Inr res, []), after s t2 w2)"
    using assms(4) ens(1) wel(1) by (simp add: CreateAccount_def)
  with ens(2) wel(2,3) a show ?thesis
    by (cases "dir_account (st (sys_w s))") (auto simp: ensured_def)
qed

text \<open>
  A concrete Salesforce with at most one user, known by its active state; every GET is answered with a document that is
  both the record and the page with that record.
\<close>

type_synonym one_account = "bool option \<times> nat \<times> string list"

definition directoryOf :: "one_account \<Rightarrow> directory" where
  "directoryOf w = (case w of (act, n, rs) \<Rightarrow>
     \<lparr>dir_account = map_option (\<lambda>b. \<lparr>ac_Id = ''005n'', ac_Active = b\<rparr>) act, dir_created = n, dir_resets = rs\<rparr>)"

definition accountRecord :: "bool \<Rightarrow> gomap" where
  "accountRecord act = [''Id'' \<mapsto> VString ''005n'', ''IsActive'' \<mapsto> VBool act, ''UserType'' \<mapsto> VString ''Standard'',
     ''IsFrozen'' \<mapsto> VBool False, ''IsPasswordLocked'' \<mapsto> VBool False]"

definition accountDoc :: "bool option \<Rightarrow> gomap" where
  "accountDoc act = [''attributes'' \<mapsto> VMap [''type'' \<mapsto> VString ''User''], ''Id'' \<mapsto> VString ''005n'', ''done'' \<mapsto> VBool True,
     ''records'' \<mapsto> VList (case act of None \<Rightarrow> [] | Some b \<Rightarrow> [VMap (accountRecord b)])]"

definition accountAnswer :: "one_account server" where
  "accountAnswer method url body w = (case w of (act, n, rs) \<Rightarrow>
     if method = ''GET'' then (okResponse (JsonDoc [] (VMap (accountDoc act))), w)
     else if method = ''POST''
     then (okResponse (JsonDoc [] (VMap [''id'' \<mapsto> VString ''005n'', ''success'' \<mapsto> VBool True])), (Some True, Suc n, rs))
     else if method = ''PATCH'' then (okResponse (RawDoc []), (Some True, n, rs))
     else (okResponse (RawDoc []), (act, n, rs @ [''005n''])))"

text \<open>This server behind the cache, which is fresh when it is current for all queries and for the record of the user.\<close>

abbreviation accountEnv :: "(httpCache \<times> one_account) env" where
  "accountEnv \<equiv> cachedServer (\<lambda>_ _. True) accountAnswer"

abbreviation accountURLs :: "sfclient \<Rightarrow> string set" where
  "accountURLs cl \<equiv> queryURLs cl \<union> (\<lambda>i. makeURL cl (sobjectPath ''User'' i)) ` {''005n''}"

abbreviation accountFresh :: "sfclient \<Rightarrow> httpCache \<times> one_account \<Rightarrow> bool" where
  "accountFresh cl \<equiv> currentIn accountAnswer (accountURLs cl)"

abbreviation accountState :: "httpCache \<times> one_account \<Rightarrow> directory" where
  "accountState cw \<equiv> directoryOf (snd cw)"

lemma account_keys: "plainInstance cl h \<Longrightarrow> inj_on getKey (accountURLs cl)"
  by (rule record_keys) (simp_all add: plain_simps)

lemma accountEnv_get:
  assumes "plainInstance cl h" and "url \<in> accountURLs cl" and "requestable url" and "accountFresh cl (c, act, n, rs)"
  shows "\<exists>t' c'. httpRequest accountEnv cl t ''GET'' url NoBody (c, act, n, rs) = Some (Inr (JsonDoc [] (VMap (accountDoc act))), t', c', act, n, rs)
    \<and> accountFresh cl (c', act, n, rs)"
  by (rule served_get [where ans = accountAnswer, OF assms(3,2) account_keys [OF assms(1)] assms(4)]) (simp add: accountAnswer_def)

lemma accountEnv_write:
  assumes "requestable url"
  shows "\<exists>t'. httpRequest accountEnv cl t ''POST'' url b (c, act, n, rs)
       = Some (Inr (JsonDoc [] (VMap [''id'' \<mapsto> VString ''005n'', ''success'' \<mapsto> VBool True])), t', c, Some True, Suc n, rs)"
    "\<exists>t'. httpRequest accountEnv cl t ''PATCH'' url b (c, act, n, rs) = Some (Inr (RawDoc []), t', c, Some True, n, rs)"
    "\<exists>t'. httpRequest accountEnv cl t ''DELETE'' url b (c, act, n, rs) = Some (Inr (RawDoc []), t', c, act, n, rs @ [''005n''])"
  by (rule served_write [where ans = accountAnswer, OF assms], simp, simp add: accountAnswer_def)+

text \<open>A reset changes no answer to a GET.\<close>

lemma accountFresh_reset: "accountFresh cl (c, act, n, rs) \<Longrightarrow> accountFresh cl (c, act, n, rs')"
  by (simp add: currentIn_def accountAnswer_def)

lemma accountDoc_page:
  "decodeQueryResult (JsonDoc [] (VMap (accountDoc act)))
     = Some (Inr \<lparr>qr_Done = True, qr_NextRecordsURL = '''',
         qr_Records = (case act of None \<Rightarrow> [] | Some b \<Rightarrow> [setClient (accountRecord b)])\<rparr>)"
  by (simp add: decodeQueryResult_def accountDoc_def mapIndex_def jsonRecords_def split: option.splits)

lemma accountRecord_rows:
  "\<exists>u. describes (setClient (accountRecord act)) \<lparr>ac_Id = ''005n'', ac_Active = act\<rparr> u"
  "\<exists>lg. rowUserLogin (setClient (accountRecord act)) = Inr lg"
  by (simp_all add: describes_def rowUserByEmail_def accountRecord_def getIsActive_def setClient_def mapIndex_def
      shouldSkipSyncingUserType_def sobject_key_defs parseSalesforceDatetime_def StringField_def userTypesToSkip_def sobjID_def
      getBoolField_def rowUserLogin_def validUtf8_def cont_def bindSum_def)

lemma account_urls:
  assumes "plainInstance cl h"
  shows "requestable (queryURL cl (emailText email))" "requestable (queryURL cl (loginText i))"
    "requestable (makeURL cl (sobjectPath ''User'' ''''))" "requestable (makeURL cl (sobjectPath ''User'' ''005n''))"
    "requestable (cl_instanceURL cl @ ''/'' @ resetPasswordPath ''005n'')"
proof -
  have [simp]: "isPlain ''005n''" by (simp add: plain_simps)
  show "requestable (queryURL cl (emailText email))" "requestable (queryURL cl (loginText i))"
    "requestable (makeURL cl (sobjectPath ''User'' ''''))" "requestable (makeURL cl (sobjectPath ''User'' ''005n''))"
    using assms by (simp_all add: emailText_def loginText_def)
  show "requestable (cl_instanceURL cl @ ''/'' @ resetPasswordPath ''005n'')"
    by (rule requestable_rest [OF assms]) (simp add: resetPasswordPath_def plain_simps)
qed

lemma account_query_no_path [simp]:
  "\<not> hasPrefix (emailText email) ''/services/data''" "\<not> hasPrefix (loginText i) ''/services/data''"
  by (simp_all add: emailText_def loginText_def)

lemma account_members:
  "queryURL cl (emailText email) \<in> accountURLs cl" "queryURL cl (loginText i) \<in> accountURLs cl"
  "makeURL cl (sobjectPath ''User'' ''005n'') \<in> accountURLs cl"
  using queryURLs_I [OF account_query_no_path(1), of cl] queryURLs_I [OF account_query_no_path(2), of cl] by blast+

lemma accountEnv_found:
  assumes "plainInstance cl h"
  shows "accounts_found accountEnv cl email (accountFresh cl) accountState"
  unfolding accounts_found_def
proof (intro allI impI)
  fix t and cw :: "httpCache \<times> one_account"
  obtain c act n rs where cw: "cw = (c, act, n, rs)" by (rule prod_cases4)
  assume "accountFresh cl cw"
  with accountEnv_get [OF assms account_members(1) account_urls(1) [OF assms]] obtain t' c' where
    "httpRequest accountEnv cl t ''GET'' (queryURL cl (emailText email)) NoBody cw = Some (Inr (JsonDoc [] (VMap (accountDoc act))), t', c', act, n, rs)"
    "accountFresh cl (c', act, n, rs)" unfolding cw by blast
  then show "\<exists>doc recs t' w'. httpRequest accountEnv cl t ''GET'' (queryURL cl (emailText email)) NoBody cw = Some (Inr doc, t', w')
      \<and> decodeQueryResult doc = Some (Inr \<lparr>qr_Done = True, qr_NextRecordsURL = '''', qr_Records = recs\<rparr>) \<and> accountState w' = accountState cw
      \<and> accountFresh cl w'
      \<and> (case dir_account (accountState cw) of None \<Rightarrow> recs = [] | Some a \<Rightarrow> (\<exists>rec u. recs = [rec] \<and> describes rec a u))"
    using accountDoc_page [of act] accountRecord_rows(1) by (cases act) (auto simp: cw directoryOf_def)
qed

lemma accountEnv_created:
  assumes "plainInstance cl h"
  shows "accounts_created accountEnv cl email accountState"
  unfolding accounts_created_def
proof (intro allI impI)
  fix t and cw :: "httpCache \<times> one_account" and vs
  obtain c act n rs where cw: "cw = (c, act, n, rs)" by (rule prod_cases4)
  have "decodeCreated (JsonDoc [] (VMap [''id'' \<mapsto> VString ''005n'', ''success'' \<mapsto> VBool True])) = Inr ''005n''"
    by (simp add: decodeCreated_def mapIndex_def)
  moreover have "accountState (c, Some True, Suc n, rs) = (accountState cw)\<lparr>dir_account := Some \<lparr>ac_Id = ''005n'', ac_Active = True\<rparr>,
      dir_created := Suc (dir_created (accountState cw))\<rparr>" by (simp add: cw directoryOf_def)
  ultimately show "\<exists>doc i act t' w'. httpRequest accountEnv cl t ''POST'' (makeURL cl (sobjectPath ''User'' '''')) (JsonBody vs) cw
      = Some (Inr doc, t', w') \<and> decodeCreated doc = Inr i
      \<and> accountState w' = (accountState cw)\<lparr>dir_account := Some \<lparr>ac_Id = i, ac_Active = act\<rparr>,
          dir_created := Suc (dir_created (accountState cw))\<rparr>"
    using accountEnv_write(1) [OF account_urls(3) [OF assms], of cl t "JsonBody vs" c act n rs] cw by metis
qed

lemma accountDoc_user: "userRecord ''005n'' (accountDoc act)"
  by (auto simp: userRecord_def accountDoc_def mapIndex_def)

lemma accountEnv_kept:
  assumes "plainInstance cl h"
  shows "accounts_kept accountEnv cl (accountFresh cl) accountState"
  unfolding accounts_kept_def
proof (intro allI impI, goal_cases)
  case (1 t cw a)
  obtain c act n rs where cw: "cw = (c, act, n, rs)" by (rule prod_cases4)
  with 1 obtain b where b: "act = Some b" "a = \<lparr>ac_Id = ''005n'', ac_Active = b\<rparr>" by (auto simp: directoryOf_def)
  have page: "\<forall>rec \<in> set (case act of None \<Rightarrow> [] | Some b \<Rightarrow> [setClient (accountRecord b)]). \<exists>lg. rowUserLogin rec = Inr lg"
    using accountRecord_rows(2) by (simp add: b(1))
  have user: "\<exists>x m t' w'. httpRequest accountEnv cl t ''GET'' (makeURL cl (sobjectPath ''User'' (ac_Id a))) NoBody cw
      = Some (Inr (JsonDoc x (VMap m)), t', w') \<and> userRecord (ac_Id a) m \<and> accountState w' = accountState cw" if "accountFresh cl cw"
    using accountEnv_get [OF assms account_members(3) account_urls(4) [OF assms], of c act n rs t] that accountDoc_user [of act]
    by (auto simp: cw b)
  have login: "\<exists>doc res t' w'. httpRequest accountEnv cl t ''GET'' (queryURL cl (loginText (ac_Id a))) NoBody cw = Some (Inr doc, t', w')
      \<and> decodeQueryResult doc = Some (Inr res) \<and> (\<forall>rec \<in> set (qr_Records res). \<exists>lg. rowUserLogin rec = Inr lg) \<and> accountState w' = accountState cw"
    if "accountFresh cl cw"
    using accountEnv_get [OF assms account_members(2) account_urls(2) [OF assms, of "ac_Id a"], of c act n rs t] that accountDoc_page [of act] page
    unfolding cw by fastforce
  show ?case
    using user login accountEnv_write(2) [OF account_urls(4) [OF assms], of cl t "JsonBody [''IsActive'' \<mapsto> VString ''true'']" c act n rs]
      accountEnv_write(3) [OF account_urls(5) [OF assms], of cl t NoBody c act n rs] accountFresh_reset [of cl c act n rs]
    by (auto simp: cw b directoryOf_def)
qed

lemma accountEnv_store: "isLoggedIn cl \<Longrightarrow> plainInstance cl h \<Longrightarrow> account_store accountEnv cl email (accountFresh cl) accountState"
  unfolding account_store_def using accountEnv_found accountEnv_created accountEnv_kept
  by (auto simp: cleared_current)

definition demoProfile :: pbstruct where
  "demoProfile = [(''email'', PbString ''a@b.c''), (''alias'', PbString ''ab''), (''first_name'', PbString ''A''),
     (''last_name'', PbString ''B''), (''profileId'', PbString ''00e1''), (''timezone'', PbString ''UTC'')]"

theorem create_account_ensures_user_witness:
  "\<exists>res s'. CreateAccount accountEnv (newUserBuilder False False False) (Some demoProfile)
       \<lparr>sys_c = sys_c demoSys, sys_w = (Map.empty, Some False, 0, [])\<rparr> = Some ((Inr res, []), s')
     \<and> r_Id res = userId ''005n'' \<and> snd (sys_w s') = (Some True, 0, [''005n''])"
proof -
  let ?s = "\<lparr>sys_c = sys_c demoSys, sys_w = (Map.empty :: httpCache, Some False, 0 :: nat, [] :: string list)\<rparr>"
  let ?rq = "\<lparr>ucr_Email = ''a@b.c'', ucr_Alias = ''ab'', ucr_LastName = ''B'', ucr_FirstName = ''A'', ucr_ProfileId = ''00e1'',
    ucr_TimeZoneSid = ''UTC'', ucr_ContactID = '''', ucr_ExtraFields = Map.empty\<rparr>"
  have rq: "getUserCreateRequestParams (Some demoProfile) = Inr ?rq"
    by (simp add: getUserCreateRequestParams_def demoProfile_def required_def GetProfileStringValue_def isSchemaField_def
        accountCreationSchema_def bindSum_def)
  have sess: "session ?s demoClient demoTransport" using demo_session(1) by (simp add: session_def)
  have "isLoggedIn demoClient" by (simp add: isLoggedIn_def demoClient_def)
  note store = accountEnv_store [OF this demo_plain, of "ucr_Email ?rq"]
  have ok: "e_parseAddress accountEnv x = None" "e_loadLocation accountEnv y = None" for x y by (simp_all add: cached_def serverEnv_def)
  have plain: "plainValues (ucr_ExtraFields ?rq)" by simp
  have fresh: "accountFresh demoClient (sys_w ?s)" by (simp add: currentIn_def goCacheGet_def)
  from create_account_ensures_user [OF store sess fresh rq plain ok(1) ok(2), of "newUserBuilder False False False"]
  show ?thesis by (fastforce simp: directoryOf_def split: prod.splits)
qed

end
