(* ===== verification/Spec2Isabelle.thy ===== *)
theory Spec2Isabelle
  imports User_Directory Territory_Table Account_Store
begin

text \<open>
  A verification development for baton-salesforce, the ConductorOne connector to Salesforce.

  \<^bold>\<open>The program.\<close> The connector (\<^verbatim>\<open>src/pkg/connector\<close>) is a library that the Baton SDK drives: it lists users,
  groups, roles, profiles, permission sets, permission set groups, territories, agents and connected
  applications with their entitlements and grants, grants and revokes those, creates and deactivates
  accounts. Each resource type has a builder, all of them share one Salesforce client
  (\<^verbatim>\<open>src/pkg/connector/client\<close>), which builds SOQL queries with go-sqlbuilder and sends them and REST
  requests through simpleforce and an HTTP transport that injects tokens and records rate limits.
  \<^verbatim>\<open>src/pkg/config\<close> declares the configuration from which \<open>New\<close> builds a connector.

  \<^bold>\<open>How it is modelled.\<close> An operation of the client or of a builder is a function from a system state,
  the client object (\<open>SalesforceClient\<close>, with the session and the transport once it is initialised) and
  the world, to a result and the new state; the outer option is a panic (a nil dereference, a failed type
  assertion, an index out of range). Go errors are values of \<open>goerror\<close> with wrapping and joining, so
  \<^verbatim>\<open>errors.Is\<close> and \<^verbatim>\<open>errors.As\<close> are computed. The world is any type: the record \<open>env\<close> gives what happens
  outside the program, namely the network round trip, a supplied token source, the response cache, the
  construction of HTTP clients, waiting, bracketed IP literals in URLs, and the checks of e-mail addresses and time zones. Theorems hold for every \<open>env\<close> unless they
  name one. Strings are byte strings. Logging is left out everywhere.

  \<^bold>\<open>Theories and sources.\<close>
  \<^item> \<open>Go_Base\<close>, \<open>Go_Time\<close>, \<open>Go_Url\<close>: the Go library functions the sources use (\<^verbatim>\<open>strings\<close>, \<^verbatim>\<open>errors\<close>, the
    time layout of \<^verbatim>\<open>client/util.go\<close>, \<^verbatim>\<open>net/url\<close>); \<open>go_simps\<close> and \<open>go_defs\<close> collect their rewrite rules. The URLs
    that \<^verbatim>\<open>http.NewRequest\<close> accepts are those that \<open>urlParse\<close> parses; \<open>requestable\<close> collects a sufficient form.
  \<^item> \<open>Sql_Builder\<close>, \<open>Soql_Query\<close>: the paths of go-sqlbuilder that \<^verbatim>\<open>client/query.go\<close> takes, and that file. Shown:
    the builder produces a reference rendering of table, columns and conditions, and a value, whatever
    bytes it contains, is one string literal of the query text that reads back as that value.
  \<^item> \<open>Sf_Http\<close>, \<open>Sf_SObject\<close>: the transport of \<^verbatim>\<open>client/ratelimit.go\<close>, the part of \<^verbatim>\<open>uhttp\<close> behind it, simpleforce's
    requests, records and errors. Shown: the token that a write carries and how its answer is reported, the order in which the
    two numbers of a rate limit are read, rejections carry both error codes, and every query of a client whose instance is a host name gets a URL that
    parses to that host, the query endpoint and the query text (\<open>plainInstance\<close>).
  \<^item> \<open>Http_Cache\<close>: the response cache of \<^verbatim>\<open>uhttp\<close> in its default configuration (\<^verbatim>\<open>client.go\<close>, \<^verbatim>\<open>gocache.go\<close>), with the keys of the
    connector's GETs, its laws (\<open>response_cache\<close>), and environments with this cache in front of a server
    (\<open>cachedServer\<close>). A write invalidates nothing, so what is read is known to be current only after \<^verbatim>\<open>ClearCaches\<close>.
  \<^item> \<open>Sf_Client\<close>, \<open>Sf_Models\<close>, \<open>Sf_Reads\<close>, \<open>Sf_Writes\<close>: \<^verbatim>\<open>client/salesforce.go\<close>, \<^verbatim>\<open>client/request.go\<close>, \<^verbatim>\<open>client/models.go\<close>
    and \<^verbatim>\<open>client/user.go\<close>. Shown: the client invariant over reachable states, idempotent initialisation,
    writes of exactly one field, the users a listing keeps, bounds on the number of requests, the fields
    of a created user.
  \<^item> \<open>Sf_Traffic\<close>: an instrumented environment and the contract \<open>metered\<close>, the number of writes an
    operation may send, interpreted for every operation of the client and of the builders.
  \<^item> \<open>Baton_Sdk\<close>, \<open>Conn_Base\<close>: the resources, entitlements, grants and annotations of the SDK with the identifiers
    it derives, \<^verbatim>\<open>resource_types.go\<close>, the shape of a listing, the contract \<open>user_only\<close> of a \<open>Grant\<close> that accepts
    users, and chains of pages. \<open>Page_Server\<close>: Salesforce as the server of a query result in pages (\<open>serves\<close>) and
    the contract \<open>listing\<close> of a listing that is read page by page, with the theorem that its chain of pages ends;
    every builder interprets it for its listings of resources and grants.
  \<^item> \<open>Conn_Users\<close> (\<^verbatim>\<open>users.go\<close>, \<^verbatim>\<open>actions.go\<close>), \<open>Conn_Groups\<close> (\<^verbatim>\<open>groups.go\<close>, \<^verbatim>\<open>roles.go\<close>), \<open>Conn_Permissions\<close>
    (\<^verbatim>\<open>permissions.go\<close>, \<^verbatim>\<open>permission_set_group.go\<close>), \<open>Conn_Profiles\<close> (\<^verbatim>\<open>profiles.go\<close>), \<open>Conn_Territories\<close>
    (\<^verbatim>\<open>territories.go\<close>), \<open>Conn_Apps\<close> (\<^verbatim>\<open>agents.go\<close>, \<^verbatim>\<open>connected_applications.go\<close>): the builders, one definition per
    method, each ending in an error, a result or a panic as the source does. Shown: what a listed user
    says about the record, what the parameters of an account are, that both phases of the grants of a
    permission set are walked through to the end, that a profile revocation moves the user to the
    mapped profile, and where it panics.
  \<^item> \<open>Conn_Refinement\<close>: what the SDK asks for one change of access, the texts and bodies of the requests that are made for it, and
    an abstract membership machine.
  \<^item> \<open>Conn_Outcomes\<close>: what it means that a sequence of requests performs an abstract machine (\<open>performs\<close>): how each request
    ends (done, nothing to do, failed) and what it changes; and what clearing the cache does (\<open>clears\<close>: afterwards what
    is read is current, \<open>fresh\<close>, and the data is as before). The role and the profile are fields of the user (\<open>user_cell\<close>).
  \<^item> \<open>Account_Store\<close>: what account creation relies on (\<open>account_store\<close>), and that \<open>CreateAccount\<close> ends with one user
    with the e-mail address, activated or created once, and one password reset, although its writes leave the cache stale.
  \<^item> \<open>Conn_Config\<close> (\<^verbatim>\<open>config.go\<close>, \<^verbatim>\<open>conf.gen.go\<close>, \<^verbatim>\<open>helper.go\<close>), \<open>Conn_Auth\<close> (\<^verbatim>\<open>client/auth.go\<close>, \<open>fallBackToHTTPS\<close>, the
    caching token source of \<^verbatim>\<open>golang.org/x/oauth2\<close>), \<open>Connector\<close> (\<^verbatim>\<open>connector.go\<close>): configuration, authentication and
    construction. Shown: for each method which tokens or credentials the client gets, one token exchange.
  \<^item> \<open>Full_Sync\<close>: for every syncer of the connector, the first request of its listings and what a record
    contributes; full syncs of resources and of grants end with everything that Salesforce serves, while a
    predicate on the world (that the data does not change) holds.
  \<^item> \<open>Member_Tables\<close>, \<open>Grant_Visibility\<close>: Salesforce as the table of the members of a group, a permission set or a
    permission set group (\<open>member_table\<close>, the tables of the three syncers described by \<open>kindOf\<close>), written by grants and
    revocations of any users and read in pages by the sync; a duplicate record is rejected or, as by the test server of the
    repository, accepted without effect (\<open>lenient\<close>). Shown: what was granted and not revoked is what the next
    sync reports. \<open>tableEnv\<close> is a concrete server behind the cache for each of the three.
  \<^item> \<open>User_Directory\<close>: Salesforce as the directory of all users with their roles and profiles (\<open>user_directory\<close>), patched
    by grants and revocations and asked for the holders of a role or profile by the sync. Shown: who has a role or
    profile after any sequence of requests is what the next sync reports. \<open>directoryEnv\<close> is a concrete server behind the
    cache.
  \<^item> \<open>Territory_Table\<close>: Salesforce as the associations of all users with a territory and their roles in it
    (\<open>territory_table\<close>). Shown: memberships and roles after any sequence of requests are those of the membership machine
    of \<open>Conn_Refinement\<close> for every user, and the grants that the next sync reports. \<open>assocEnv\<close> is a concrete server behind the
    cache, on which is also shown what happens when the cache is not cleared: a revocation reads the stale answer of the grant
    before it and revokes nothing.

  The theorems of these three about sequences of requests suppose that the cache is cleared before each request and
  before the sync (\<open>cleared\<close>, \<open>afterClear\<close>), as the tests of the repository do between their steps; the code itself clears it only in
  \<^verbatim>\<open>GetUserByEmailWithRetry\<close>. They leave open what becomes of the cache between two requests.
  \<^item> This theory: the properties of the whole connector over all builders.

  \<^bold>\<open>Loops and bounds.\<close> Loops over records and pages are structural recursions. Numbers are
  checked against the 64-bit range of Go's \<^verbatim>\<open>int\<close> where the source scans or counts them.
  The retry of the search by e-mail recurs on the number of attempts left, three, as in the source. No
  definition uses fuel: every function is total. A sync that follows page tokens is the relation
  \<open>chain\<close>, because Salesforce decides when the pages end; that it ends is proved (\<open>Full_Sync\<close>) for results that
  are served in finitely many pages.

  \<^bold>\<open>Not modelled.\<close> The SDK around the connector (its servers, sync engine and action registry, a parameter of
  \<open>GlobalActions\<close>); the network, TLS, other configurations of the response cache (a database, none) than as
  an environment, the expiry of its entries (any predicate), JSON and XML tokenising (answers arrive as
  documents); the signature and HTTP exchange of a token (parameter \<open>x_exchange\<close>); describe, download,
  tooling and upsert calls of simpleforce, which the connector does not make; the copies of status and
  profile that the SDK keeps on resources beside the traits; concurrency between calls (the mutex
  of the token source); the \<^verbatim>\<open>main\<close> functions and the
  test server.
\<close>

section \<open>Traffic\<close>

text \<open>
  C9. Syncing never changes Salesforce: in any environment and from any state (the login included), a page
  of resources, a page of grants, the static entitlements of territories and the validation of the
  credentials send only GET requests, apart from the SOAP call of the login.
\<close>

theorem sync_never_writes:
  assumes "syncerList (tracedEnv env) b tok n s = Some (rs, s') \<or> syncerGrants (tracedEnv env) b res tok n s = Some (gs, s')
    \<or> territoryStaticEntitlements (tracedEnv env) s = Some (es, s') \<or> Validate (tracedEnv env) s = Some (v, s')"
  shows "\<exists>rqs. snd (sys_w s') = snd (sys_w s) @ rqs \<and> (\<forall>rq \<in> set rqs. \<not> isWrite rq)"
proof -
  have "grew 0 (sys_w s) (sys_w s')"
    using assms by (auto dest: m_syncerList.op_grew m_syncerGrants.op_grew m_territoryStatic.op_grew m_validate.op_grew)
  then show ?thesis by (auto simp: grew_def filter_empty_conv)
qed

text \<open>A concrete traced system, and one request in it.\<close>

definition tracedSys :: "(request list \<times> request list) sys" where
  "tracedSys = \<lparr>sys_c = sys_c demoSys, sys_w = ([], [])\<rparr>"

lemma traced_session: "session tracedSys demoClient demoTransport" "sys_w tracedSys = ([], [])"
  using demo_session(1) by (simp_all add: session_def tracedSys_def)

lemma traced_http:
  "requestable u \<Longrightarrow> httpRequest (tracedEnv (logEnv (\<lambda>_. okResponse doc))) demoClient demoTransport m u b w
     = Some (Inr doc, demoTransport, fst w @ [bearerRequest ''sid'' m u b], snd w @ [bearerRequest ''sid'' m u b])"
  by (simp add: httpRequest_def tracedEnv_def uhttpDo_def sendDo_def RoundTrip_def authorize_def finishDo_def lifted_def
      demoTransport_def demoClient_def bearerRequest_def Let_def)

theorem sync_never_writes_witness:
  "\<exists>v s'. Validate (tracedEnv (logEnv (\<lambda>_. okResponse (RawDoc [])))) tracedSys = Some (v, s')
     \<and> length (snd (sys_w s')) = 1 \<and> (\<forall>rq \<in> set (snd (sys_w s')). \<not> isWrite rq)"
proof -
  let ?env = "tracedEnv (logEnv (\<lambda>_. okResponse (RawDoc [])))"
  let ?rq = "bearerRequest ''sid'' ''GET'' (cl_instanceURL demoClient @ ''/'' @ LimitsPath) NoBody"
  have "ApexREST ?env ''GET'' LimitsPath demoClient demoTransport (sys_w tracedSys)
      = Some (Inr (RawDoc []), demoTransport, [?rq], [?rq])"
    using demo_logged requestable_rest [OF demo_plain, of LimitsPath]
    by (simp add: ApexREST_def traced_http traced_session LimitsPath_def plain_simps)
  from onClient_session [OF traced_session(1), of "ApexREST ?env ''GET'' LimitsPath", OF this]
  have v: "Validate ?env tracedSys = Some ((WithRateLimitAnnotations [tr_rateLimit demoTransport], None),
      after tracedSys demoTransport ([?rq], [?rq]))"
    by (simp add: Validate_def reportChange_def Ping_def Initialize_session [OF traced_session(1)])
  from sync_never_writes [OF disjI2 [OF disjI2 [OF disjI2 [OF v]]]] v show ?thesis
    by (simp add: traced_session)
qed

definition writesOf :: "'w \<times> request list \<Rightarrow> nat" where
  "writesOf w = length (filter isWrite (snd w))"

lemma grew_writes: "grew n w w' \<Longrightarrow> writesOf w' \<le> writesOf w + n"
  by (auto simp: grew_def writesOf_def)

text \<open>
  C8. Provisioning writes once: granting, revoking, deactivating a user and the status action send at
  most one write each, and creating an account at most two (the account or its activation, and the
  password reset).
\<close>

theorem provisioning_writes_once:
  "(syncerGrant (tracedEnv env) b = Some grant \<longrightarrow> grant p e s = Some (r1, s') \<longrightarrow> writesOf (sys_w s') \<le> writesOf (sys_w s) + 1)
   \<and> (syncerRevoke (tracedEnv env) b = Some revoke \<longrightarrow> revoke g s = Some (r2, s') \<longrightarrow> writesOf (sys_w s') \<le> writesOf (sys_w s) + 1)
   \<and> (userDelete (tracedEnv env) i s = Some (r2, s') \<longrightarrow> writesOf (sys_w s') \<le> writesOf (sys_w s) + 1)
   \<and> (updateUserStatus (tracedEnv env) args s = Some (r3, s') \<longrightarrow> writesOf (sys_w s') \<le> writesOf (sys_w s) + 1)
   \<and> (CreateAccount (tracedEnv env) ub profile s = Some (r4, s') \<longrightarrow> writesOf (sys_w s') \<le> writesOf (sys_w s) + 2)"
proof (intro conjI impI)
  assume "syncerGrant (tracedEnv env) b = Some grant" "grant p e s = Some (r1, s')"
  then have "grew 1 (sys_w s) (sys_w s')"
    by (cases b) (auto dest: m_psgGrant.op_grew m_territoryGrant.op_grew
        intro: withoutGrants_grew m_groupGrant.op_grew [simplified] m_permissionGrant.op_grew [simplified]
          m_profileGrant.op_grew [simplified] m_roleGrant.op_grew [simplified])
  then show "writesOf (sys_w s') \<le> writesOf (sys_w s) + 1" by (rule grew_writes)
next
  assume "syncerRevoke (tracedEnv env) b = Some revoke" "revoke g s = Some (r2, s')"
  then have "grew 1 (sys_w s) (sys_w s')"
    by (cases b) (auto dest: m_groupRevoke.op_grew m_permissionRevoke.op_grew m_profileRevoke.op_grew
        m_roleRevoke.op_grew m_psgRevoke.op_grew m_territoryRevoke.op_grew)
  then show "writesOf (sys_w s') \<le> writesOf (sys_w s) + 1" by (rule grew_writes)
next
  assume "CreateAccount (tracedEnv env) ub profile s = Some (r4, s')"
  then have "grew (1 + 1) (sys_w s) (sys_w s')"
    by (auto simp: CreateAccount_def dest!: m_ensure.op_grew intro: grew_mono m_welcome.after_writes [simplified]
        split: sum.split_asm option.split_asm prod.split_asm Option.bind_split_asm)
  then show "writesOf (sys_w s') \<le> writesOf (sys_w s) + 2" using grew_writes by fastforce
qed (auto dest!: m_userDelete.op_grew m_updateUserStatus.op_grew grew_writes)

theorem provisioning_writes_once_witness:
  "\<exists>gr r s'. syncerGrant (tracedEnv (logEnv (\<lambda>_. okResponse (JsonDoc [] (VMap [''id'' \<mapsto> VString ''x'', ''success'' \<mapsto> VBool True])))))
        Groups = Some gr
     \<and> gr (bareResource (userId ''005u'')) (gr_Entitlement (NewGrant (bareResource \<lparr>ri_ResourceType = ''group'', ri_Resource = ''00G1''\<rparr>)
         groupMemberEntitlementName (userId ''005u'') [])) tracedSys = Some (r, s')
     \<and> snd (snd r) = None \<and> writesOf (sys_w s') \<le> 1"
proof -
  let ?doc = "JsonDoc [] (VMap [''id'' \<mapsto> VString ''x'', ''success'' \<mapsto> VBool True])"
  let ?env = "tracedEnv (logEnv (\<lambda>_. okResponse ?doc))"
  let ?res = "bareResource \<lparr>ri_ResourceType = ''group'', ri_Resource = ''00G1''\<rparr>"
  let ?ent = "gr_Entitlement (NewGrant ?res groupMemberEntitlementName (userId ''005u'') [])"
  obtain gr where gr: "syncerGrant ?env Groups = Some gr" "gr = (\<lambda>p e. withoutGrants (groupGrant ?env p e))" by simp
  have "decodeCreated ?doc = Inr ''x''" by (simp add: decodeCreated_def mapIndex_def)
  with CreateObject_session [OF traced_session(1) key_plain(1) [of "''005u''" "''00G1''"] _ traced_http [OF requestable_record [OF demo_plain plain_tables(1) isPlain_Nil]], of ?doc]
  obtain w' where "CreateObject ?env TableNameGroupMemberships (groupKeys ''005u'' ''00G1'') tracedSys
      = Some ((tr_rateLimit demoTransport, Inr ()), after tracedSys demoTransport w')"
    by (auto simp: TableNameGroupMemberships_def traced_session)
  then have g: "gr (bareResource (userId ''005u'')) ?ent tracedSys
      = Some (([], WithRateLimitAnnotations [tr_rateLimit demoTransport], None), after tracedSys demoTransport w')"
    by (simp add: gr(2) withoutGrants_def groupGrant_def AddUserToGroup_def reportChange_def groupKeys_def userId_def bareResource_def)
  have "writesOf (sys_w tracedSys) = 0" by (simp add: writesOf_def traced_session)
  with provisioning_writes_once [THEN conjunct1, rule_format, OF gr(1) g] gr(1) g show ?thesis by fastforce
qed

section \<open>Principals and types\<close>

lemma withoutGrants_user_only:
  assumes "user_only oper (\<lambda>r. changeFailed r)"
  shows "user_only (\<lambda>p e. withoutGrants (oper p e)) (\<lambda>r. grantFailed r)"
proof
  fix p :: Resource and e s assume "\<not> isUser (r_Id p)"
  from user_only.rejects [OF assms this, of e s] obtain r where "changeFailed r" "oper p e s = Some (r, s)" by blast
  then show "\<exists>r. grantFailed r \<and> withoutGrants (oper p e) s = Some (r, s)"
    by (cases r) (simp add: withoutGrants_def)
qed

lemma syncer_user_only:
  assumes "syncerGrant env b = Some grant"
  shows "user_only grant (\<lambda>r. grantFailed r)"
  using assms withoutGrants_user_only [OF group_users.user_only_axioms] withoutGrants_user_only [OF role_users.user_only_axioms]
    withoutGrants_user_only [OF permission_users.user_only_axioms] withoutGrants_user_only [OF profile_users.user_only_axioms]
    psg_users.user_only_axioms territory_users.user_only_axioms
  by (cases b) auto

text \<open>
  C14. Only users can be granted anything: for every syncer that can grant, in any run of grant requests
  those whose principal is not a user change nothing (the run ends in the state in which it would end
  without them), and a run of only such requests fails every one of them.
\<close>

theorem only_users_are_granted:
  assumes "syncerGrant env b = Some grant"
  shows "map_option snd (runGrants grant reqs s)
      = map_option snd (runGrants grant (filter (\<lambda>q. isUser (r_Id (fst q))) reqs) s)
    \<and> ((\<forall>q \<in> set reqs. \<not> isUser (r_Id (fst q))) \<longrightarrow>
        (\<exists>rs. runGrants grant reqs s = Some (rs, s) \<and> length rs = length reqs \<and> (\<forall>r \<in> set rs. grantFailed r)))"
  using user_only.run_users [OF syncer_user_only [OF assms]] user_only.all_rejected [OF syncer_user_only [OF assms]]
  by blast

theorem only_users_are_granted_witness:
  "\<exists>gr rs. syncerGrant (logEnv (\<lambda>_. okResponse (RawDoc []))) Roles = Some gr
     \<and> runGrants gr [(bareResource \<lparr>ri_ResourceType = ''group'', ri_Resource = ''00G1''\<rparr>,
          gr_Entitlement (NewGrant (bareResource \<lparr>ri_ResourceType = ''role'', ri_Resource = ''00E1''\<rparr>) ''assigned'' (userId ''u'') []))]
        demoSys = Some (rs, demoSys)
     \<and> (\<forall>r \<in> set rs. grantFailed r)"
proof -
  obtain gr where gr: "syncerGrant (logEnv (\<lambda>_. okResponse (RawDoc []))) Roles = Some gr" by simp
  show ?thesis
    using only_users_are_granted [OF gr, of "[(bareResource \<lparr>ri_ResourceType = ''group'', ri_Resource = ''00G1''\<rparr>,
          gr_Entitlement (NewGrant (bareResource \<lparr>ri_ResourceType = ''role'', ri_Resource = ''00E1''\<rparr>) ''assigned'' (userId ''u'') []))]"
        demoSys] gr
    by (auto simp: isUser_def bareResource_def resourceTypeUser_def)
qed

text \<open>What holds of every output of every item holds of a page; a failed page is empty.\<close>

lemma listed_types:
  assumes "syncPage wrF wrI fetch item s = Some ((xs, res, err), s')"
    and "\<And>x ys y. item x = Inr ys \<Longrightarrow> y \<in> set ys \<Longrightarrow> P y"
  shows "(\<forall>x \<in> set xs. P x) \<and> (err \<noteq> None \<longrightarrow> xs = [] \<and> sy_NextPageToken res = '''')"
proof -
  have "\<forall>ys \<in> set yss. \<forall>y \<in> set ys. P y"
    if "mapE (\<lambda>x. case item x of Inl e \<Rightarrow> Inl e | Inr ys \<Rightarrow> Inr (Some ys)) as = Inr yss" for as yss
    using that
  proof (induction as arbitrary: yss)
    case (Cons a as)
    then show ?case using assms(2) [of a] by (auto simp: bindSum_def split: sum.splits)
  qed simp
  with assms(1) show ?thesis
    by (fastforce simp: syncPage_def Let_def failedList_def split: Option.bind_split_asm prod.split_asm sum.split_asm)
qed

lemma userResource_type: "userResource u lg b = Inr x \<Longrightarrow> ri_ResourceType (r_Id x) = rt_Id resourceTypeUser"
  by (auto simp: userResource_def NewResource_def bindSum_def Let_def split: sum.split_asm)

lemma mapE_all:
  assumes "mapE f as = Inr ys" and "\<And>a y. f a = Inr (Some y) \<Longrightarrow> P y"
  shows "\<forall>y \<in> set ys. P y"
  using assms(1)
proof (induction as arbitrary: ys)
  case (Cons a as)
  then show ?case using assms(2) [of a] by (auto simp: bindSum_def split: sum.splits option.splits)
qed simp

lemma userList_types:
  assumes "userList env b tok n s = Some ((xs, res, err), s')"
  shows "(\<forall>x \<in> set xs. ri_ResourceType (r_Id x) = rt_Id resourceTypeUser) \<and> (err \<noteq> None \<longrightarrow> xs = [] \<and> sy_NextPageToken res = '''')"
proof -
  have "\<forall>y \<in> set ys. ri_ResourceType (r_Id y) = rt_Id resourceTypeUser"
    if "mapE (\<lambda>u. case userResource u (logins (su_ID u)) (ub_shouldUseUsernameForEmail b) of
        Inl e \<Rightarrow> Inl e | Inr res \<Rightarrow> Inr (Some res)) users = Inr ys" for users ys logins
    by (rule mapE_all [OF that]) (auto dest: userResource_type split: sum.split_asm)
  with assms show ?thesis
    by (fastforce simp: userList_def Let_def failedList_def split: Option.bind_split_asm prod.split_asm sum.split_asm)
qed

lemma resource_types [simp]:
  "ri_ResourceType (r_Id (groupResource gp)) = rt_Id resourceTypeGroup"
  "ri_ResourceType (r_Id (permissionResource pm)) = rt_Id resourceTypePermissionSet"
  "ri_ResourceType (r_Id (profileResource pf)) = rt_Id resourceTypeProfile"
  "ri_ResourceType (r_Id (roleResource ro)) = rt_Id resourceTypeRole"
  "ri_ResourceType (r_Id (permissionSetGroupResource pg)) = rt_Id resourceTypePermissionSetGroup"
  "ri_ResourceType (r_Id (territoryResource te)) = rt_Id resourceTypeTerritory"
  "ri_ResourceType (r_Id (connectedApplicationResource ap)) = rt_Id resourceTypeConnectedApplication"
  by (simp_all add: groupResource_def permissionResource_def profileResource_def roleResource_def permissionSetGroupResource_def
      territoryResource_def connectedApplicationResource_def NewResource_def Let_def)

lemma agentResource_type: "agentResource a = Inr x \<Longrightarrow> ri_ResourceType (r_Id x) = rt_Id resourceTypeAgent"
  by (auto simp: agentResource_def NewResource_def bindSum_def Let_def split: sum.split_asm)

lemma one_types:
  assumes "syncPage wrF wrI fetch (\<lambda>g. one (f g)) s = Some ((xs, res, err), s')"
    and "\<And>g. ri_ResourceType (r_Id (f g)) = rt_Id T"
  shows "(\<forall>x \<in> set xs. ri_ResourceType (r_Id x) = rt_Id T) \<and> (err \<noteq> None \<longrightarrow> xs = [] \<and> sy_NextPageToken res = '''')"
  by (rule listed_types [OF assms(1)]) (use assms(2) in auto)

lemmas page_types = one_types [OF _ resource_types(1)] one_types [OF _ resource_types(2)] one_types [OF _ resource_types(3)]
  one_types [OF _ resource_types(4)] one_types [OF _ resource_types(5)] one_types [OF _ resource_types(6)]
  one_types [OF _ resource_types(7)]

lemmas list_defs = groupList_def permissionList_def profileList_def roleList_def psgList_def territoryList_def agentList_def
  appList_def

text \<open>
  C19. Listings are well typed: every resource a syncer lists carries the resource type that the syncer
  declares, a failed page carries no resource and no token, and no two syncers of a connector declare
  the same type.
\<close>

theorem listings_are_typed:
  assumes "syncerList env b tok n s = Some ((xs, res, err), s')"
  shows "(\<forall>x \<in> set xs. ri_ResourceType (r_Id x) = rt_Id (syncerType b))
    \<and> (err \<noteq> None \<longrightarrow> xs = [] \<and> sy_NextPageToken res = '''')
    \<and> distinct (map (rt_Id \<circ> syncerType) (ResourceSyncers d))"
proof -
  have "distinct (map (rt_Id \<circ> syncerType) (ResourceSyncers d))"
    by (simp add: ResourceSyncers_def builder_defs resource_type_defs)
  moreover have "(\<forall>x \<in> set xs. ri_ResourceType (r_Id x) = rt_Id (syncerType b))
      \<and> (err \<noteq> None \<longrightarrow> xs = [] \<and> sy_NextPageToken res = '''')"
  proof (cases b)
    case (Users ub)
    with assms userList_types show ?thesis by simp
  next
    case Agents
    then show ?thesis
      by (intro listed_types [OF assms [unfolded Agents syncerList.simps agentList_def]])
        (auto dest: agentResource_type split: sum.split_asm)
  qed (use assms in \<open>simp_all add: list_defs, auto dest!: page_types\<close>)
  ultimately show ?thesis by simp
qed

theorem listings_are_typed_witness:
  "\<exists>xs res s'. syncerList (logEnv (\<lambda>_. okResponse (lastPage [[''Id'' \<mapsto> VString ''00E1'', ''Name'' \<mapsto> VString ''CEO'']]))) Roles '''' 100 demoSys
      = Some ((xs, res, None), s')
    \<and> map r_Id xs = [\<lparr>ri_ResourceType = ''role'', ri_Resource = ''00E1''\<rparr>]
    \<and> (\<forall>x \<in> set xs. ri_ResourceType (r_Id x) = rt_Id (syncerType Roles))"
proof -
  let ?m = "[''Id'' \<mapsto> VString ''00E1'', ''Name'' \<mapsto> VString ''CEO'']"
  let ?env = "logEnv (\<lambda>_. okResponse (lastPage [?m]))"
  obtain qs where q: "getQueryString (NewQuery TableNameRoles []) '''' 100 = Some qs"
    using getQueryString_known [of TableNameRoles "[]" 100] by (auto simp: knownTables_def max_int64_def)
  have row: "rowRole (setClient ?m) = \<lparr>sr_ID = ''00E1'', sr_Name = ''CEO''\<rparr>"
    by (simp add: rowRole_def sobjID_def StringField_def mapIndex_def setClient_def sobject_key_defs)
  from demo_list [OF q, of "[?m]" rowRole "[]"] obtain w' where
    "syncerList ?env Roles '''' 100 demoSys = Some (([roleResource \<lparr>sr_ID = ''00E1'', sr_Name = ''CEO''\<rparr>],
       \<lparr>sy_NextPageToken = '''', sy_Annotations = WithRateLimitAnnotations [None]\<rparr>, None), after demoSys demoTransport w')"
    by (auto simp: roleList_def GetUserRoles_def demoSys_after syncPage_total [of _ "\<lambda>a. [roleResource a]"] row)
  from listings_are_typed [OF this] this show ?thesis
    by (fastforce simp: roleResource_def NewResource_def resourceTypeRole_def)
qed

definition covered :: "syncer \<Rightarrow> Resource \<Rightarrow> Grant \<Rightarrow> bool" where
  "covered b res g \<longleftrightarrow>
     en_Resource (gr_Entitlement g) = Some res
     \<and> (\<exists>ent \<in> set (fst (syncerEntitlements b res)). en_Id (gr_Entitlement g) = en_Id ent
        \<and> (ri_ResourceType (r_Id (gr_Principal g)) \<in> set (en_GrantableTo ent)
           \<or> b = Groups \<and> ri_ResourceType (r_Id (gr_Principal g)) = rt_Id resourceTypeGroup))"

lemma covered_page:
  assumes "syncPage wrF wrI fetch (\<lambda>x. one (f x)) s = Some ((gs, r, err), s')" and "\<And>x. covered b res (f x)"
  shows "\<forall>g \<in> set gs. covered b res g"
  by (rule listed_types [where P = "covered b res", OF assms(1), THEN conjunct1]) (use assms(2) in auto)

lemmas entitlement_defs = groupEntitlements_def permissionEntitlements_def profileEntitlements_def roleEntitlements_def
  psgEntitlements_def NewAssignmentEntitlement_def

lemma permissionGrants_covered:
  assumes "permissionGrants env res n tok s = Some ((gs, r, err), s')"
  shows "\<forall>g \<in> set gs. covered Permissions res g"
proof -
  have "covered Permissions res (assignmentGrant res a)" "covered Permissions res (componentGrant res c)" for a c
    by (simp_all add: covered_def entitlement_defs assignmentGrant_def componentGrant_def userId_def Let_def)
  with assms show ?thesis
    by (auto simp: permissionGrants_def Let_def failedList_def
        split: if_split_asm Option.bind_split_asm prod.split_asm sum.split_asm)
qed

text \<open>
  Territories have no entitlements of their own but the static ones of the type, from each of which the SDK makes the entitlement of
  a resource with the slug (\<^verbatim>\<open>syncStaticEntitlementsForResourceType\<close> in \<^verbatim>\<open>sync/syncer.go\<close>).
\<close>

definition staticallyCovered :: "Entitlement list \<Rightarrow> Resource \<Rightarrow> Grant \<Rightarrow> bool" where
  "staticallyCovered ents res g \<longleftrightarrow>
     en_Resource (gr_Entitlement g) = Some res
     \<and> (\<exists>ent \<in> set ents. en_Id (gr_Entitlement g) = NewEntitlementID (Some res) (en_Slug ent)
        \<and> ri_ResourceType (r_Id (gr_Principal g)) \<in> set (en_GrantableTo ent))"

text \<open>A role of an association that is not among the static entitlements.\<close>

definition unlistedRole :: "Entitlement list \<Rightarrow> Resource \<Rightarrow> Grant \<Rightarrow> bool" where
  "unlistedRole ents res g \<longleftrightarrow>
     en_Resource (gr_Entitlement g) = Some res \<and> isUser (r_Id (gr_Principal g))
     \<and> (\<exists>role. role \<noteq> '''' \<and> roleSlug role \<notin> en_Slug ` set ents
        \<and> en_Id (gr_Entitlement g) = NewEntitlementID (Some res) (roleSlug role))"

lemma static_entitlements:
  assumes "territoryStaticEntitlements env s = Some ((ents, r, None), s')"
  shows "\<exists>ent \<in> set ents. en_Slug ent = territoryMemberPermission"
    and "ent \<in> set ents \<Longrightarrow> en_GrantableTo ent = [rt_Id resourceTypeUser]"
proof -
  have "(\<exists>ent \<in> set ents. en_Slug ent = territoryMemberPermission)
    \<and> (\<forall>ent \<in> set ents. en_GrantableTo ent = [rt_Id resourceTypeUser])"
    using assms by (auto simp: territoryStaticEntitlements_def NewAssignmentEntitlement_def Let_def failedList_def
        split: Option.bind_split_asm prod.split_asm sum.split_asm)
  then show "\<exists>ent \<in> set ents. en_Slug ent = territoryMemberPermission"
    and "ent \<in> set ents \<Longrightarrow> en_GrantableTo ent = [rt_Id resourceTypeUser]" by blast+
qed

lemma memberGrants_covered:
  assumes "territoryStaticEntitlements env s = Some ((ents, r, None), s')" and "g \<in> set (memberGrants res mb)"
  shows "staticallyCovered ents res g \<or> unlistedRole ents res g"
proof -
  let ?role = "ta_RoleInTerritory2 mb"
  note static = static_entitlements [OF assms(1)]
  have g: "en_Resource (gr_Entitlement g) = Some res" "ri_ResourceType (r_Id (gr_Principal g)) = rt_Id resourceTypeUser"
    "en_Id (gr_Entitlement g) = NewEntitlementID (Some res) territoryMemberPermission
      \<or> ?role \<noteq> '''' \<and> en_Id (gr_Entitlement g) = NewEntitlementID (Some res) (roleSlug ?role)"
    using assms(2) by (auto simp: memberGrants_def userId_def split: if_split_asm)
  show ?thesis
  proof (cases "\<exists>ent \<in> set ents. en_Id (gr_Entitlement g) = NewEntitlementID (Some res) (en_Slug ent)")
    case True
    with static(2) g(1,2) show ?thesis by (auto simp: staticallyCovered_def)
  next
    case False
    with static(1) g(3) have "?role \<noteq> ''''" "roleSlug ?role \<notin> en_Slug ` set ents"
      "en_Id (gr_Entitlement g) = NewEntitlementID (Some res) (roleSlug ?role)" by auto
    with g(1,2) show ?thesis by (auto simp: unlistedRole_def isUser_def)
  qed
qed

text \<open>
  C18. The grants a sync reports are grants of entitlements it also reports: every grant of a syncer other than that of territories is about the
  resource it was listed for, its entitlement identifier is that of an entitlement the same syncer lists
  for the resource, and its principal is of a type to which that entitlement is grantable. Group
  memberships are the exception to the last: the members of a group may be groups. For a territory, whose syncer lists no entitlement,
  the same holds with the static entitlements of the territory type, whenever these are read, in place of the listed ones, except
  for one kind of grant: the grant to a user of a role that the static entitlements do not name, because the picklist of
  Salesforce does not.
\<close>

theorem grants_match_entitlements:
  assumes "syncerGrants env b res tok n s = Some ((gs, r, err), s')"
  shows "if b = Territories
    then \<forall>s0 ents r0 s1. territoryStaticEntitlements env s0 = Some ((ents, r0, None), s1)
      \<longrightarrow> (\<forall>g \<in> set gs. staticallyCovered ents res g \<or> unlistedRole ents res g)
    else \<forall>g \<in> set gs. covered b res g"
proof (cases b)
  case Permissions
  with assms permissionGrants_covered show ?thesis by simp
next
  case Territories
  have "\<forall>g \<in> set gs. staticallyCovered ents res g \<or> unlistedRole ents res g"
    if "territoryStaticEntitlements env s0 = Some ((ents, r0, None), s1)" for s0 ents r0 s1
    by (rule listed_types [OF assms [unfolded Territories syncerGrants.simps territoryGrants_def], THEN conjunct1])
      (auto dest: memberGrants_covered [OF that])
  with Territories show ?thesis by simp
qed (use assms in \<open>simp_all add: pureListing_def userGrants_def agentGrants_def appGrants_def
      groupGrants_def profileGrants_def roleGrants_def psgGrants_def\<close>,
    (erule covered_page, simp add: covered_def entitlement_defs userId_def)+)

theorem grants_match_entitlements_witness:
  "\<exists>gs r s'. syncerGrants (logEnv (\<lambda>_. okResponse (lastPage [demoAssignment]))) Permissions
      (bareResource \<lparr>ri_ResourceType = ''permission'', ri_Resource = ''0PS1''\<rparr>) '''' 100 demoSys = Some ((gs, r, None), s')
    \<and> length gs = 1
    \<and> (\<forall>g \<in> set gs. covered Permissions (bareResource \<lparr>ri_ResourceType = ''permission'', ri_Resource = ''0PS1''\<rparr>) g)"
proof -
  let ?res = "bareResource \<lparr>ri_ResourceType = ''permission'', ri_Resource = ''0PS1''\<rparr>"
  let ?env = "logEnv (\<lambda>_. okResponse (lastPage [demoAssignment]))"
  obtain qs where q: "getQueryString (WhereEq (NewQuery TableNamePermissionAssignments []) ''PermissionSetId'' ''0PS1'') '''' 100 = Some qs"
    using one_condition_text [of TableNamePermissionAssignments "''PermissionSetId''"] by (auto simp: knownTables_def plain_char_def)
  from demo_list [OF q, of "[demoAssignment]" rowPermissionSetAssignment "[]"] obtain w' where
    "syncerGrants ?env Permissions ?res '''' 100 demoSys
       = Some (([assignmentGrant ?res (rowPermissionSetAssignment (setClient demoAssignment))],
           \<lparr>sy_NextPageToken = permPsgPageTokenPrefix, sy_Annotations = WithRateLimitAnnotations [None]\<rparr>, None),
           after demoSys demoTransport w')"
    by (auto simp: permissionGrants_def GetPermissionSetAssignments_def demoSys_after hasPrefix_def permPsgPageTokenPrefix_def)
  from grants_match_entitlements [OF this] this show ?thesis by fastforce
qed

text \<open>
  C25. The grants of a permission set to its groups expand correctly: the entitlement that a component
  grant names for expansion, written out by hand in \<^verbatim>\<open>permissions.go\<close>, is exactly the identifier of the
  member entitlement that the permission set group syncer lists for that group, and its principal is
  that group.
\<close>

theorem expansion_names_member_entitlement:
  assumes "r_Id (grp :: Resource) = \<lparr>ri_ResourceType = rt_Id resourceTypePermissionSetGroup, ri_Resource = pc_PermissionSetGroupID c\<rparr>"
  shows "gr_Annotations (componentGrant res c) = [AnnGrantExpandable (map en_Id (fst (syncerEntitlements PermissionSetGroups grp)))]
    \<and> r_Id (gr_Principal (componentGrant res c)) = r_Id grp"
  using assms by (simp add: componentGrant_def Let_def psgEntitlements_def NewAssignmentEntitlement_def NewEntitlementID_def)

theorem expansion_names_member_entitlement_witness:
  "gr_Annotations (componentGrant (bareResource \<lparr>ri_ResourceType = ''permission'', ri_Resource = ''0PS1''\<rparr>)
      \<lparr>pc_ID = ''1'', pc_IsDeleted = False, pc_PermissionSetGroupID = ''0PG1'', pc_PermissionSetID = ''0PS1''\<rparr>)
    = [AnnGrantExpandable [''permission_set_group:0PG1:member'']]"
  using expansion_names_member_entitlement [of "bareResource \<lparr>ri_ResourceType = ''permission_set_group'', ri_Resource = ''0PG1''\<rparr>"
      "\<lparr>pc_ID = ''1'', pc_IsDeleted = False, pc_PermissionSetGroupID = ''0PG1'', pc_PermissionSetID = ''0PS1''\<rparr>"]
  by (simp add: resourceTypePermissionSetGroup_def psgEntitlements_def NewAssignmentEntitlement_def NewEntitlementID_def
      bareResource_def permissionSetGroupMemberEntitlementName_def)

end
